(* ===== verification/Prelude.thy ===== *)
theory Prelude
  imports Main "HOL-Library.Word" "HOL-Library.Char_ord"
begin

text \<open>
  The vocabulary every component of the firmware model shares: the C integer types of the
  ESP32 (32-bit \<open>long\<close> and \<open>time_t\<close>), results that may be a memory error, checked array
  reads and writes, and the locales that state what a printer owes to its parser and what an
  operation owes to an invariant.
\<close>

unbundle bit_operations_syntax

named_theorems mem_simps \<open>evaluation of checked reads and writes\<close>
named_theorems text_simps \<open>lengths and characters of printed text\<close>

section \<open>C integers\<close>

type_synonym u8 = "8 word"
type_synonym u16 = "16 word"
type_synonym u32 = "32 word"
type_synonym u64 = "64 word"

abbreviation (input) two32 :: nat where
  "two32 \<equiv> 4294967296"

text \<open>\<open>long\<close>, \<open>int\<close> and \<open>time_t\<close> have 32 bits on this target; these are their values.\<close>

definition fits_long :: "int \<Rightarrow> bool" where
  "fits_long x \<longleftrightarrow> - 2147483648 \<le> x \<and> x < 2147483648"

definition to_long :: "int \<Rightarrow> int" where
  "to_long x = sint (word_of_int x :: 32 word)"

lemma to_long_signed_take_bit: "to_long x = signed_take_bit 31 x"
  by (simp add: to_long_def sint_sbintrunc')

lemma to_long_id: "fits_long x \<Longrightarrow> to_long x = x"
  by (simp add: to_long_signed_take_bit fits_long_def signed_take_bit_int_eq_self_iff)

lemma to_long_bounds: "- 2147483648 \<le> to_long x" "to_long x < 2147483648"
  using signed_take_bit_int_greater_eq_minus_exp [of 31 x]
    signed_take_bit_int_less_exp [of 31 x]
  by (simp_all add: to_long_signed_take_bit)

lemma fits_to_long [simp, intro]: "fits_long (to_long x)"
  by (simp add: fits_long_def to_long_bounds)

lemma unat_of_nat_u32: "n < two32 \<Longrightarrow> unat (of_nat n :: u32) = n"
  by (simp add: unsigned_of_nat take_bit_nat_eq_self)

section \<open>Results that may be a memory error\<close>

datatype mem_error = Read_Out_Of_Bounds | Write_Out_Of_Bounds

type_synonym 'a checked = "mem_error + 'a"

fun and_then :: "'e + 'a \<Rightarrow> ('a \<Rightarrow> 'e + 'b) \<Rightarrow> 'e + 'b" where
  "and_then (Inl e) k = Inl e"
| "and_then (Inr x) k = k x"

lemma and_then_InrE [elim!]:
  assumes "and_then m k = Inr y"
  obtains x where "m = Inr x" "k x = Inr y"
  using assms by (cases m) auto

lemma and_then_Inr [simp]: "and_then m Inr = m"
  by (cases m) auto

lemma and_then_assoc: "and_then (and_then m k) h = and_then m (\<lambda>x. and_then (k x) h)"
  by (cases m) auto

text \<open>An array read is \<open>xs[i]\<close>; outside the array it is a fault, not a value.\<close>

definition read_at :: "'a list \<Rightarrow> nat \<Rightarrow> 'a checked" where
  "read_at xs i = (if i < length xs then Inr (xs ! i) else Inl Read_Out_Of_Bounds)"

lemma read_at_in [mem_simps]: "i < length xs \<Longrightarrow> read_at xs i = Inr (xs ! i)"
  by (simp add: read_at_def)

lemma read_at_out [mem_simps]: "length xs \<le> i \<Longrightarrow> read_at xs i = Inl Read_Out_Of_Bounds"
  by (simp add: read_at_def)

text \<open>Writing the next cell \<open>out[j++]\<close> of a buffer of \<open>cap\<close> cells that is filled in order.\<close>

definition push_at :: "nat \<Rightarrow> 'a list \<Rightarrow> 'a \<Rightarrow> 'a list checked" where
  "push_at cap out x = (if length out < cap then Inr (out @ [x]) else Inl Write_Out_Of_Bounds)"

lemma push_at_in [mem_simps]: "length out < cap \<Longrightarrow> push_at cap out x = Inr (out @ [x])"
  by (simp add: push_at_def)

lemma push_at_out [mem_simps]: "cap \<le> length out \<Longrightarrow> push_at cap out x = Inl Write_Out_Of_Bounds"
  by (simp add: push_at_def)

text \<open>Updating a cell of a buffer in place.\<close>

definition write_at :: "'a list \<Rightarrow> nat \<Rightarrow> 'a \<Rightarrow> 'a list checked" where
  "write_at xs i x = (if i < length xs then Inr (xs[i := x]) else Inl Write_Out_Of_Bounds)"

lemma write_at_in [mem_simps]: "i < length xs \<Longrightarrow> write_at xs i x = Inr (xs[i := x])"
  by (simp add: write_at_def)

lemma write_at_out [mem_simps]: "length xs \<le> i \<Longrightarrow> write_at xs i x = Inl Write_Out_Of_Bounds"
  by (simp add: write_at_def)

section \<open>Interfaces\<close>

text \<open>
  A printer and its parser. The parser reads one value off the front of a text; it must give
  back what was printed whenever the text that follows cannot be mistaken for more of it.
\<close>

locale print_parse =
  fixes pr :: "'a \<Rightarrow> string"
    and ps :: "string \<Rightarrow> ('a \<times> string) option"
    and ok :: "'a \<Rightarrow> bool"
    and stop :: "string \<Rightarrow> bool"
  assumes parse_print: "ok x \<Longrightarrow> stop r \<Longrightarrow> ps (pr x @ r) = Some (x, r)"
begin

lemma print_inj_append:
  assumes "ok x" "ok y" "stop r" "stop r'" "pr x @ r = pr y @ r'"
  shows "x = y \<and> r = r'"
proof -
  have "ps (pr x @ r) = Some (x, r)" using assms(1,3) by (rule parse_print)
  moreover have "ps (pr y @ r') = Some (y, r')" using assms(2,4) by (rule parse_print)
  ultimately show ?thesis unfolding assms(5) by simp
qed

lemma print_inj:
  assumes "ok x" "ok y" "stop []" "pr x = pr y"
  shows "x = y"
proof -
  have "pr x @ [] = pr y @ []" using assms(4) by simp
  with assms(1,2,3,3) have "x = y \<and> [] = ([] :: string)" by (rule print_inj_append)
  then show ?thesis by simp
qed

end

text \<open>
  Operations that share an invariant: if every operation of a family keeps it, so does every
  sequence of them, and it holds in every state they reach from a good one.
\<close>

locale operation_invariant =
  fixes op :: "'o \<Rightarrow> 's \<Rightarrow> 's"
    and inv :: "'s \<Rightarrow> bool"
  assumes op_inv: "inv s \<Longrightarrow> inv (op x s)"
begin

lemma run_inv: "inv s \<Longrightarrow> inv (fold op xs s)"
  by (induction xs arbitrary: s) (auto intro: op_inv)

end

section \<open>Masks and shifts of natural numbers\<close>

lemma and_low_bits_nat [simp]:
  "(x::nat) AND 3 = x mod 4" "(x::nat) AND 15 = x mod 16"
  "(x::nat) AND 63 = x mod 64" "(x::nat) AND 255 = x mod 256"
  using take_bit_eq_mask [of 2 x] take_bit_eq_mask [of 4 x]
    take_bit_eq_mask [of 6 x] take_bit_eq_mask [of 8 x]
  by (simp_all add: take_bit_eq_mod mask_eq_exp_minus_1)

lemma shift_left_nat [simp]:
  "push_bit 2 (x::nat) = x * 4" "push_bit 4 (x::nat) = x * 16" "push_bit 6 (x::nat) = x * 64"
  by (simp_all add: push_bit_eq_mult)

lemma shift_right_nat [simp]:
  "drop_bit 2 (x::nat) = x div 4" "drop_bit 4 (x::nat) = x div 16"
  "drop_bit 6 (x::nat) = x div 64"
  by (simp_all add: drop_bit_eq_div)

section \<open>Lists\<close>

lemma small_lengths: "Suc (Suc (Suc 0)) = 3" "Suc (Suc (Suc (Suc 0))) = 4"
  by simp_all

lemma nth_Cons_pos: "0 < i \<Longrightarrow> (x # xs) ! i = xs ! (i - 1)"
  by (cases i) auto

lemma take_Suc_snoc: "i < length xs \<Longrightarrow> take (Suc i) xs = take i xs @ [xs ! i]"
  by (rule take_Suc_conv_app_nth)

end
