(* ===== verification/Machine.thy ===== *)
theory Machine
  imports Prelude
begin

text \<open>
  The state of the firmware and the statements of its C functions. \<open>machine\<close> holds every global
  variable of \<^verbatim>\<open>main/*.c\<close> that the functions read or write, the heap blocks that are live and
  the list of calls made so far to code outside the repository (ESP-IDF, FreeRTOS, lwIP, mbedTLS,
  esp-mqtt, esp-modbus). That code is the parameter \<open>env\<close>: for any state and call it fixes the
  value the call returns, with no assumption on it. A statement maps a state to a \<open>flow\<close>: it falls
  through, returns from its function, or faults (an assertion, \<open>ESP_ERROR_CHECK\<close>, a restart or
  an access the C language leaves undefined). Log output is not modelled.
\<close>

section \<open>Data shared with the libraries\<close>

datatype mqtt_serv_state_t =
  MQTT_SERV_ERROR | MQTT_SERV_DISCONNECTED | MQTT_SERV_CONNECTED | MQTT_SERV_SUBCRIBED

instantiation mqtt_serv_state_t :: linorder
begin

fun enum_of :: "mqtt_serv_state_t \<Rightarrow> nat" where
  "enum_of MQTT_SERV_ERROR = 0"
| "enum_of MQTT_SERV_DISCONNECTED = 1"
| "enum_of MQTT_SERV_CONNECTED = 2"
| "enum_of MQTT_SERV_SUBCRIBED = 3"

definition less_eq_mqtt_serv_state_t :: "mqtt_serv_state_t \<Rightarrow> mqtt_serv_state_t \<Rightarrow> bool" where
  "less_eq_mqtt_serv_state_t a b \<longleftrightarrow> enum_of a \<le> enum_of b"

definition less_mqtt_serv_state_t :: "mqtt_serv_state_t \<Rightarrow> mqtt_serv_state_t \<Rightarrow> bool" where
  "less_mqtt_serv_state_t a b \<longleftrightarrow> enum_of a < enum_of b"

instance
proof
  fix a b :: mqtt_serv_state_t
  show "a \<le> b \<Longrightarrow> b \<le> a \<Longrightarrow> a = b"
    by (cases a; cases b) (simp_all add: less_eq_mqtt_serv_state_t_def)
qed (auto simp: less_eq_mqtt_serv_state_t_def less_mqtt_serv_state_t_def)

end

text \<open>The fields of \<open>esp_mqtt_client_config_t\<close> that the code sets; \<open>None\<close> is a NULL pointer.\<close>

record mqtt_config =
  uri :: "string option"
  event_handle :: "string option"
  task_stack :: int
  client_id :: "string option"
  cert_pem :: "string option"
  username :: "string option"
  password :: "string option"

record gpio_config_t =
  intr_type :: u8
  gpio_mode :: string
  pin_bit_mask :: u64
  pull_down_en :: u8
  pull_up_en :: u8

record mb_communication_info =
  mb_mode :: string
  mb_port :: int
  mb_baudrate :: int
  mb_parity :: string

record wifi_sta_config =
  ssid :: string
  wifi_password :: string
  scan_method :: string
  sort_method :: string
  threshold_rssi :: int
  threshold_authmode :: string

text \<open>The addresses of the event handlers of \<^verbatim>\<open>main/WifiConnect.c\<close>.\<close>

datatype handler =
  Ref_on_wifi_disconnect | Ref_on_got_ip | Ref_on_wifi_connect | Ref_on_got_ipv6
| Ref_on_eth_event

section \<open>Calls to code outside the repository\<close>

text \<open>One type of calls per library, so that each call keeps its name and its arguments.\<close>

datatype libc_call =
  Malloc int | Free int | Time | Gettimeofday | Settimeofday int | Rand

datatype rtos_call =
  VTaskDelay int | VTaskDelete | XTaskCreatePinnedToCore string int int int
| XSemaphoreCreateCounting int int | XSemaphoreGive int | XSemaphoreTake int
| VSemaphoreDelete int

datatype sys_call =
  Esp_restart | Esp_register_shutdown_handler string | Esp_unregister_shutdown_handler string
| Esp_task_wdt_reset | Esp_efuse_mac_get_default
| Nvs_flash_init | Nvs_open string | Nvs_set_u8 int string u8 | Nvs_commit int | Nvs_close int
| Gpio_config gpio_config_t

datatype sntp_call =
  Sntp_setoperatingmode string | Sntp_set_time_sync_notification_cb string
| Sntp_setservername int string | Sntp_init | Sntp_stop

datatype tls_call =
  Pk_init | Pk_parse_key | Md_sha256 "u8 list" | Pk_sign "u8 list" | Pk_free
| Esp_tls_get_and_clear_last_error | Mbedtls_strerror int

datatype mqtt_call =
  Esp_mqtt_client_init mqtt_config | Esp_mqtt_client_start int
| Esp_mqtt_client_subscribe int string int
| Esp_mqtt_client_publish int string string int int int

datatype mb_call =
  Mbc_master_init string | Mbc_master_setup mb_communication_info | Mbc_master_start
| Mbc_master_set_descriptor int | Mbc_master_get_cid_info u16
| Mbc_master_get_parameter u16 string | Mbc_master_destroy
| Uart_set_pin int int int int int | Uart_set_mode int string

datatype wifi_call =
  Esp_wifi_init | Esp_wifi_set_default_wifi_sta_handlers | Esp_wifi_set_storage string
| Esp_wifi_set_mode string | Esp_wifi_set_config wifi_sta_config | Esp_wifi_start
| Esp_wifi_connect | Esp_wifi_stop | Esp_wifi_deinit
| Esp_wifi_clear_default_wifi_driver_and_handlers int

datatype netif_call =
  Esp_netif_init | Esp_event_loop_create_default
| Esp_event_handler_register string string handler int
| Esp_event_handler_unregister string string handler
| Esp_netif_create_wifi string int | Esp_netif_new string int | Esp_netif_attach int int
| Esp_netif_destroy int | Esp_netif_create_ip6_linklocal int
| Esp_netif_get_nr_of_ifs | Esp_netif_next int | Esp_netif_get_desc int
| Esp_netif_get_ip_info int | Esp_netif_get_all_ip6 int | Esp_netif_ip6_get_addr_type "u32 list"

text \<open>The Ethernet driver is a chain of constructor calls; they are kept by name and handles.\<close>

datatype eth_call = Eth string "int list"

datatype call =
  Libc libc_call | Rtos rtos_call | Sys sys_call | Sntp sntp_call | Tls tls_call
| Mqtt mqtt_call | Mb mb_call | Wifi wifi_call | Netif netif_call | EthDrv eth_call

section \<open>The state\<close>

record machine =
  calls :: "call list"
  live :: "int list"
  buffers :: "int \<Rightarrow> string option"
  wifi_connect :: bool
  s_active_interfaces :: int
  s_semph_get_ip_addrs :: int
  s_example_esp_netif :: int
  s_ip_addr :: u32
  s_ipv6_addr :: "u32 list"
  s_eth_handle :: int
  s_eth_glue :: int
  s_mac :: int
  s_phy :: int
  mqtt_service_state :: mqtt_serv_state_t
  mqttc :: int
  mqttcfg :: mqtt_config
  jwt :: int
  expire_t :: int
  oBuf :: int
  array_modbus :: "u16 list"
  payload_char :: string
  tmp_macstr :: string
  fw_ver_str :: "string option"
  time_sync_flag :: u8

text \<open>
  What the libraries answer: the value a call returns, what it stores through an output
  parameter, and the strings and byte arrays it hands over. All may depend on the whole state,
  the history of calls included.
\<close>

record env =
  int_reply :: "machine \<Rightarrow> call \<Rightarrow> int"
  out_reply :: "machine \<Rightarrow> call \<Rightarrow> int"
  str_reply :: "machine \<Rightarrow> call \<Rightarrow> string"
  bytes_reply :: "machine \<Rightarrow> call \<Rightarrow> u8 list"

text \<open>The globals before \<open>app_main\<close> runs: C zeroes everything that has no initialiser.\<close>

definition no_config :: mqtt_config where
  "no_config = \<lparr>uri = None, event_handle = None, task_stack = 0, client_id = None,
     cert_pem = None, username = None, password = None\<rparr>"

definition init_machine :: machine where
  "init_machine =
     \<lparr>calls = [], live = [], buffers = (\<lambda>_. None), wifi_connect = False,
      s_active_interfaces = 0, s_semph_get_ip_addrs = 0, s_example_esp_netif = 0,
      s_ip_addr = 0, s_ipv6_addr = [0, 0, 0, 0], s_eth_handle = 0, s_eth_glue = 0, s_mac = 0, s_phy = 0,
      mqtt_service_state = MQTT_SERV_ERROR, mqttc = 0, mqttcfg = no_config, jwt = 0,
      expire_t = 0, oBuf = 0, array_modbus = replicate 128 0, payload_char = [],
      tmp_macstr = [], fw_ver_str = None, time_sync_flag = 0\<rparr>"

text \<open>An environment in which every call succeeds and hands over nothing, for examples.\<close>

definition quiet :: env where
  "quiet = \<lparr>int_reply = (\<lambda>_ _. 0), out_reply = (\<lambda>_ _. 0), str_reply = (\<lambda>_ _. []),
     bytes_reply = (\<lambda>_ _. [])\<rparr>"

section \<open>Statements\<close>

datatype fault =
    Error_Check int | Assert_Failed | Null_Deref | Out_Of_Bounds | Overflow | Bad_Free
  | Division_By_Zero | Uninitialised | Missing_Return | Restarted | Out_Of_Fuel | Blocked

datatype 'r flow = Next machine | Return 'r machine | Fault fault machine

type_synonym 'r stmt = "machine \<Rightarrow> 'r flow"

fun end_state :: "'r flow \<Rightarrow> machine" where
  "end_state (Next s) = s"
| "end_state (Return r s) = s"
| "end_state (Fault f s) = s"

fun faulty :: "'r flow \<Rightarrow> bool" where
  "faulty (Fault f s) = True"
| "faulty _ = False"

fun block :: "'r stmt list \<Rightarrow> 'r stmt" where
  "block [] s = Next s"
| "block (c # cs) s =
     (case c s of Next s' \<Rightarrow> block cs s' | Return r s' \<Rightarrow> Return r s' | Fault f s' \<Rightarrow> Fault f s')"

definition skip :: "'r stmt" where "skip s = Next s"
definition ret :: "'r \<Rightarrow> 'r stmt" where "ret r s = Return r s"
definition fail :: "fault \<Rightarrow> 'r stmt" where "fail f s = Fault f s"
definition upd :: "(machine \<Rightarrow> machine) \<Rightarrow> 'r stmt" where "upd f s = Next (f s)"
definition using_state :: "(machine \<Rightarrow> 'r stmt) \<Rightarrow> 'r stmt" where "using_state k s = k s s"

definition if_else :: "bool \<Rightarrow> 'r stmt \<Rightarrow> 'r stmt \<Rightarrow> 'r stmt" where
  "if_else b c d = (if b then c else d)"

definition only_if :: "bool \<Rightarrow> 'r stmt \<Rightarrow> 'r stmt" where
  "only_if b c = (if b then c else skip)"

definition c_assert :: "bool \<Rightarrow> 'r stmt" where
  "c_assert b = (if b then skip else fail Assert_Failed)"

definition logged :: "call \<Rightarrow> machine \<Rightarrow> machine" where
  "logged c s = s\<lparr>calls := calls s @ [c]\<rparr>"

definition ext :: "env \<Rightarrow> call \<Rightarrow> (int \<Rightarrow> 'r stmt) \<Rightarrow> 'r stmt" where
  "ext E c k s = k (int_reply E s c) (logged c s)"

definition ext_out :: "env \<Rightarrow> call \<Rightarrow> (int \<Rightarrow> int \<Rightarrow> 'r stmt) \<Rightarrow> 'r stmt" where
  "ext_out E c k s = k (int_reply E s c) (out_reply E s c) (logged c s)"

definition ext_str :: "env \<Rightarrow> call \<Rightarrow> (string \<Rightarrow> 'r stmt) \<Rightarrow> 'r stmt" where
  "ext_str E c k s = k (str_reply E s c) (logged c s)"

text \<open>A call whose result is a string that the caller reads at once: NULL has none.\<close>

definition ext_text :: "env \<Rightarrow> call \<Rightarrow> (string \<Rightarrow> 'r stmt) \<Rightarrow> 'r stmt" where
  "ext_text E c k s =
     (if int_reply E s c = 0 then Fault Null_Deref (logged c s)
      else k (str_reply E s c) (logged c s))"

definition ext_bytes :: "env \<Rightarrow> call \<Rightarrow> (int \<Rightarrow> u8 list \<Rightarrow> 'r stmt) \<Rightarrow> 'r stmt" where
  "ext_bytes E c k s = k (int_reply E s c) (bytes_reply E s c) (logged c s)"

definition do_ext :: "env \<Rightarrow> call \<Rightarrow> 'r stmt" where
  "do_ext E c = ext E c (\<lambda>_. skip)"

text \<open>\<open>ESP_ERROR_CHECK\<close> aborts unless its argument is \<open>ESP_OK\<close>.\<close>

definition error_check :: "int \<Rightarrow> 'r stmt" where
  "error_check err = (if err = 0 then skip else fail (Error_Check err))"

definition checked :: "env \<Rightarrow> call \<Rightarrow> 'r stmt" where
  "checked E c = ext E c error_check"

text \<open>Calling a function of the program, for its value or for its effect.\<close>

definition call_fn :: "'a stmt \<Rightarrow> ('a \<Rightarrow> 'r stmt) \<Rightarrow> 'r stmt" where
  "call_fn f k s =
     (case f s of Return r s' \<Rightarrow> k r s' | Next s' \<Rightarrow> Fault Missing_Return s'
      | Fault e s' \<Rightarrow> Fault e s')"

definition call_void :: "'a stmt \<Rightarrow> 'r stmt" where
  "call_void f s =
     (case f s of Return r s' \<Rightarrow> Next s' | Next s' \<Rightarrow> Next s' | Fault e s' \<Rightarrow> Fault e s')"

text \<open>A loop that need not end runs on fuel: \<open>n\<close> rounds at most.\<close>

fun while_fuel :: "nat \<Rightarrow> (machine \<Rightarrow> bool) \<Rightarrow> 'r stmt \<Rightarrow> 'r stmt" where
  "while_fuel 0 b c s = (if b s then Fault Out_Of_Fuel s else Next s)"
| "while_fuel (Suc n) b c s =
     (if b s then
        (case c s of Next s' \<Rightarrow> while_fuel n b c s' | Return r s' \<Rightarrow> Return r s'
         | Fault f s' \<Rightarrow> Fault f s')
      else Next s)"

section \<open>Heap blocks\<close>

definition malloc :: "env \<Rightarrow> int \<Rightarrow> (int \<Rightarrow> 'r stmt) \<Rightarrow> 'r stmt" where
  "malloc E n k =
     ext E (Libc (Malloc n)) (\<lambda>p. block
       [upd (\<lambda>s. if p = 0 then s else s\<lparr>live := p # live s, buffers := (buffers s)(p := None)\<rparr>),
        k p])"

definition free :: "int \<Rightarrow> 'r stmt" where
  "free p =
     using_state (\<lambda>s.
       if p = 0 then skip
       else if p \<in> set (live s) then
         upd (\<lambda>s. logged (Libc (Free p)) (s\<lparr>live := remove1 p (live s), buffers := (buffers s)(p := None)\<rparr>))
       else fail Bad_Free)"

text \<open>The documented behaviour of the allocator: it never hands out a block that is in use.\<close>

definition fresh_blocks :: "env \<Rightarrow> bool" where
  "fresh_blocks E \<longleftrightarrow> (\<forall>s n. int_reply E s (Libc (Malloc n)) \<notin> set (live s))"

text \<open>A block that is not in use, for examples.\<close>

definition next_block :: "machine \<Rightarrow> int" where
  "next_block s = 1 + sum_list (map abs (live s))"

lemma abs_le_sum: "x \<in> set xs \<Longrightarrow> x \<le> sum_list (map abs xs)" for x :: int
proof (induction xs)
  case (Cons y ys)
  have "0 \<le> sum_list (map abs ys)" by (rule sum_list_nonneg) auto
  with Cons show ?case by auto
qed simp

lemma next_block_fresh: "next_block s \<notin> set (live s)"
  using abs_le_sum by (fastforce simp: next_block_def)

lemma next_block_pos: "0 < next_block s"
  using sum_list_nonneg [of "map abs (live s)"] by (fastforce simp: next_block_def)

text \<open>\<open>sprintf(p, ...)\<close> into a heap block.\<close>

definition store_text :: "int \<Rightarrow> string \<Rightarrow> 'r stmt" where
  "store_text p t =
     (if p = 0 then fail Null_Deref
      else upd (\<lambda>s. s\<lparr>buffers := (buffers s)(p := Some t)\<rparr>))"

text \<open>\<open>sprintf\<close> into a local or static array of \<open>cap\<close> characters: the text and its NUL must fit.\<close>

definition fits_in :: "string \<Rightarrow> nat \<Rightarrow> 'r stmt" where
  "fits_in t cap = (if length t < cap then skip else fail Out_Of_Bounds)"

section \<open>Running statements\<close>

named_theorems stmt_simps \<open>evaluation of statements\<close>

lemmas stmt_defs [stmt_simps] =
  skip_def ret_def fail_def upd_def using_state_def if_else_def only_if_def c_assert_def
  ext_def ext_out_def ext_str_def ext_text_def ext_bytes_def do_ext_def error_check_def checked_def
  call_fn_def call_void_def malloc_def free_def store_text_def fits_in_def

lemma block_append:
  "block (xs @ ys) s =
     (case block xs s of Next s' \<Rightarrow> block ys s' | Return r s' \<Rightarrow> Return r s' | Fault f s' \<Rightarrow> Fault f s')"
  by (induction xs arbitrary: s) (auto split: flow.splits)

lemma block_Next: "block cs s = Next t \<Longrightarrow> c \<in> set cs \<Longrightarrow> \<exists>u v. c u = Next v"
  by (induction cs arbitrary: s) (auto split: flow.splits)

lemma logged_simps [simp]:
  "calls (logged c s) = calls s @ [c]" "live (logged c s) = live s"
  "buffers (logged c s) = buffers s" "wifi_connect (logged c s) = wifi_connect s"
  "s_active_interfaces (logged c s) = s_active_interfaces s"
  "s_semph_get_ip_addrs (logged c s) = s_semph_get_ip_addrs s"
  "s_example_esp_netif (logged c s) = s_example_esp_netif s"
  "s_ip_addr (logged c s) = s_ip_addr s" "s_ipv6_addr (logged c s) = s_ipv6_addr s"
  "mqtt_service_state (logged c s) = mqtt_service_state s" "mqttc (logged c s) = mqttc s"
  "mqttcfg (logged c s) = mqttcfg s" "jwt (logged c s) = jwt s"
  "expire_t (logged c s) = expire_t s" "oBuf (logged c s) = oBuf s"
  "array_modbus (logged c s) = array_modbus s" "payload_char (logged c s) = payload_char s"
  "tmp_macstr (logged c s) = tmp_macstr s" "fw_ver_str (logged c s) = fw_ver_str s"
  "s_eth_handle (logged c s) = s_eth_handle s" "s_eth_glue (logged c s) = s_eth_glue s"
  "s_mac (logged c s) = s_mac s" "s_phy (logged c s) = s_phy s"
  "time_sync_flag (logged c s) = time_sync_flag s"
  by (simp_all add: logged_def)

text \<open>The block \<open>p\<close> is given back.\<close>

definition freed :: "int \<Rightarrow> machine \<Rightarrow> machine" where
  "freed p s =
     logged (Libc (Free p)) (s\<lparr>live := remove1 p (live s), buffers := (buffers s)(p := None)\<rparr>)"

lemma free_run: "p \<noteq> 0 \<Longrightarrow> p \<in> set (live s) \<Longrightarrow> free p s = Next (freed p s)"
  by (simp add: free_def using_state_def upd_def freed_def)

lemma freed_simps [simp]:
  "calls (freed p s) = calls s @ [Libc (Free p)]" "live (freed p s) = remove1 p (live s)"
  "buffers (freed p s) = (buffers s)(p := None)" "expire_t (freed p s) = expire_t s"
  "mqttc (freed p s) = mqttc s" "mqttcfg (freed p s) = mqttcfg s"
  "mqtt_service_state (freed p s) = mqtt_service_state s"
  "array_modbus (freed p s) = array_modbus s" "wifi_connect (freed p s) = wifi_connect s"
  "s_semph_get_ip_addrs (freed p s) = s_semph_get_ip_addrs s"
  "s_active_interfaces (freed p s) = s_active_interfaces s"
  "s_example_esp_netif (freed p s) = s_example_esp_netif s"
  "payload_char (freed p s) = payload_char s" "tmp_macstr (freed p s) = tmp_macstr s"
  "s_ipv6_addr (freed p s) = s_ipv6_addr s" "s_ip_addr (freed p s) = s_ip_addr s"
  by (simp_all add: freed_def)

text \<open>What a run that got through, or returned, consists of.\<close>

named_theorems flow_iffs \<open>runs that end with Next or Return, taken apart\<close>

lemma block_Cons_Next [flow_iffs]:
  "block (c # cs) s = Next t \<longleftrightarrow> (\<exists>u. c s = Next u \<and> block cs u = Next t)"
  by (simp split: flow.split)

lemma block_Cons_Return [flow_iffs]:
  "block (c # cs) s = Return r t \<longleftrightarrow>
    c s = Return r t \<or> (\<exists>u. c s = Next u \<and> block cs u = Return r t)"
  by (simp split: flow.split)

lemma block_Nil_flow [flow_iffs]:
  "block [] s = Next t \<longleftrightarrow> t = s" "block [] s = Return r t \<longleftrightarrow> False"
  by auto

lemma call_fn_flow [flow_iffs]:
  "call_fn f k s = Next t \<longleftrightarrow> (\<exists>r u. f s = Return r u \<and> k r u = Next t)"
  "call_fn f k s = Return x t \<longleftrightarrow> (\<exists>r u. f s = Return r u \<and> k r u = Return x t)"
  by (simp_all add: call_fn_def split: flow.split)

lemma call_void_flow [flow_iffs]:
  "call_void f s = Next t \<longleftrightarrow> f s = Next t \<or> (\<exists>r. f s = Return r t)"
  "call_void f s = Return x t \<longleftrightarrow> False"
  by (simp_all add: call_void_def split: flow.split)

lemma simple_flow [flow_iffs]:
  "skip s = Next t \<longleftrightarrow> t = s" "skip s = Return x t \<longleftrightarrow> False"
  "ret r s = Next t \<longleftrightarrow> False" "ret r s = Return x t \<longleftrightarrow> x = r \<and> t = s"
  "fail e s = Next t \<longleftrightarrow> False" "fail e s = Return x t \<longleftrightarrow> False"
  "upd f s = Next t \<longleftrightarrow> t = f s" "upd f s = Return x t \<longleftrightarrow> False"
  "using_state k s = g \<longleftrightarrow> k s s = g" "ext E c h s = g \<longleftrightarrow> h (int_reply E s c) (logged c s) = g"
  "do_ext E c s = Next t \<longleftrightarrow> t = logged c s" "do_ext E c s = Return x t \<longleftrightarrow> False"
  "checked E c s = Next t \<longleftrightarrow> int_reply E s c = 0 \<and> t = logged c s"
  "checked E c s = Return x t \<longleftrightarrow> False"
  "ext_str E c hs s = g \<longleftrightarrow> hs (str_reply E s c) (logged c s) = g"
  "ext_text E c hs s = Next t \<longleftrightarrow> int_reply E s c \<noteq> 0 \<and> hs (str_reply E s c) (logged c s) = Next t"
  "ext_text E c hs s = Return x t \<longleftrightarrow>
     int_reply E s c \<noteq> 0 \<and> hs (str_reply E s c) (logged c s) = Return x t"
  "ext_out E c ho s = g \<longleftrightarrow> ho (int_reply E s c) (out_reply E s c) (logged c s) = g"
  "ext_bytes E c hb s = g \<longleftrightarrow> hb (int_reply E s c) (bytes_reply E s c) (logged c s) = g"
  by (auto simp: skip_def ret_def fail_def upd_def using_state_def ext_def do_ext_def checked_def
      error_check_def ext_str_def ext_text_def ext_out_def ext_bytes_def)

lemma branch_flow [flow_iffs]:
  "only_if b c s = Next t \<longleftrightarrow> (if b then c s = Next t else t = s)"
  "only_if b c s = Return x t \<longleftrightarrow> b \<and> c s = Return x t"
  "if_else b c d s = g \<longleftrightarrow> (if b then c s = g else d s = g)"
  by (auto simp: only_if_def skip_def if_else_def)

text \<open>
  A relation between the state before and after that every statement of a block obeys is
  respected by the block, if it is reflexive and transitive.
\<close>

definition obeys :: "(machine \<Rightarrow> machine \<Rightarrow> bool) \<Rightarrow> 'r stmt \<Rightarrow> bool" where
  "obeys R c \<longleftrightarrow> (\<forall>s. R s (end_state (c s)))"

locale state_relation =
  fixes R :: "machine \<Rightarrow> machine \<Rightarrow> bool"
  assumes refl_R: "R s s" and trans_R: "R s t \<Longrightarrow> R t u \<Longrightarrow> R s u"
begin

lemma obeys_Nil: "obeys R (block [])"
  by (simp add: obeys_def refl_R)

lemma obeys_Cons:
  assumes "obeys R c" "obeys R (block cs)"
  shows "obeys R (block (c # cs))"
  unfolding obeys_def
proof
  fix s
  have "R s (end_state (c s))" "\<And>t. R t (end_state (block cs t))"
    using assms by (simp_all add: obeys_def)
  then show "R s (end_state (block (c # cs) s))"
    by (cases "c s") (auto intro: trans_R)
qed

lemma obeys_block: "(\<And>c. c \<in> set cs \<Longrightarrow> obeys R c) \<Longrightarrow> obeys R (block cs)"
  by (induction cs) (auto intro: obeys_Nil obeys_Cons)

lemma obeys_pure [simp]:
  "obeys R skip" "obeys R (ret r)" "obeys R (fail f)" "obeys R (error_check e)"
  "obeys R (c_assert b)" "obeys R (fits_in t n)"
  by (simp_all add: obeys_def stmt_simps refl_R)

lemma obeys_upd: "(\<And>s. R s (f s)) \<Longrightarrow> obeys R (upd f)"
  by (simp add: obeys_def upd_def)

lemma obeys_using_state: "(\<And>s. obeys R (k s)) \<Longrightarrow> obeys R (using_state k)"
  by (simp add: obeys_def using_state_def)

lemma obeys_if_else: "obeys R c \<Longrightarrow> obeys R d \<Longrightarrow> obeys R (if_else b c d)"
  by (simp add: if_else_def)

lemma obeys_ext:
  assumes "\<And>s. R s (logged c s)" "\<And>r. obeys R (k r)"
  shows "obeys R (ext E c k)"
  using assms trans_R by (fastforce simp: obeys_def ext_def)

lemma obeys_ext_str:
  assumes "\<And>s. R s (logged c s)" "\<And>r. obeys R (k r)"
  shows "obeys R (ext_str E c k)"
  using assms trans_R by (fastforce simp: obeys_def ext_str_def)

lemma obeys_ext_text:
  assumes "\<And>s. R s (logged c s)" "\<And>r. obeys R (k r)"
  shows "obeys R (ext_text E c k)"
  using assms trans_R by (fastforce simp: obeys_def ext_text_def)

lemma obeys_ext_out:
  assumes "\<And>s. R s (logged c s)" "\<And>r x. obeys R (k r x)"
  shows "obeys R (ext_out E c k)"
  using assms trans_R by (fastforce simp: obeys_def ext_out_def)

lemma obeys_ext_bytes:
  assumes "\<And>s. R s (logged c s)" "\<And>r x. obeys R (k r x)"
  shows "obeys R (ext_bytes E c k)"
  using assms trans_R by (fastforce simp: obeys_def ext_bytes_def)

lemma obeys_do_ext: "(\<And>s. R s (logged c s)) \<Longrightarrow> obeys R (do_ext E c)"
  by (simp add: do_ext_def obeys_ext)

lemma obeys_checked: "(\<And>s. R s (logged c s)) \<Longrightarrow> obeys R (checked E c)"
  by (simp add: checked_def obeys_ext)

lemma obeys_only_if: "obeys R c \<Longrightarrow> obeys R (only_if b c)"
  by (simp add: only_if_def)

lemma obeys_call_void: "obeys R f \<Longrightarrow> obeys R (call_void f)"
  unfolding obeys_def
proof
  fix s
  assume "\<forall>s. R s (end_state (f s))"
  then show "R s (end_state (call_void f s))"
    by (cases "f s") (auto simp: call_void_def dest: spec [of _ s])
qed

lemma obeys_call_fn:
  assumes "obeys R f" "\<And>r. obeys R (k r)"
  shows "obeys R (call_fn f k)"
proof -
  have "R s (end_state (call_fn f k s))" for s
  proof -
    have "R s (end_state (f s))" using assms(1) by (simp add: obeys_def)
    moreover have "\<And>r t. R t (end_state (k r t))" using assms(2) by (simp add: obeys_def)
    ultimately show ?thesis
      by (cases "f s") (auto simp: call_fn_def intro: trans_R)
  qed
  then show ?thesis by (simp add: obeys_def)
qed

lemma obeys_while_fuel:
  assumes "obeys R c"
  shows "obeys R (while_fuel n b c)"
proof -
  have "R s (end_state (while_fuel n b c s))" for s
  proof (induction n arbitrary: s)
    case (Suc n)
    have "R s (end_state (c s))" using assms by (simp add: obeys_def)
    with Suc show ?case by (cases "c s") (auto simp: refl_R intro: trans_R)
  qed (simp add: refl_R)
  then show ?thesis by (simp add: obeys_def)
qed

lemmas obeys_intros =
  obeys_Nil obeys_Cons obeys_upd obeys_using_state obeys_if_else obeys_only_if obeys_do_ext
  obeys_checked obeys_ext obeys_ext_str obeys_ext_text obeys_ext_out obeys_ext_bytes obeys_call_void
  obeys_call_fn obeys_while_fuel obeys_pure

end

text \<open>
  A relation that the heap and the code for tokens respect: blocks come and go, calls to the C
  library are made.
\<close>

locale heap_relation = state_relation +
  assumes R_malloc: "p \<noteq> 0 \<Longrightarrow> R s (s\<lparr>live := p # live s, buffers := b\<rparr>)"
    and R_free: "R s (s\<lparr>live := remove1 p (live s), buffers := b\<rparr>)"
    and R_store: "R s (s\<lparr>buffers := b\<rparr>)"
    and R_libc: "R s (logged (Libc l) s)"
begin

lemma obeys_malloc: "(\<And>p. obeys R (k p)) \<Longrightarrow> obeys R (malloc E n k)"
  unfolding malloc_def
  by (intro obeys_intros) (auto simp: R_libc refl_R intro: R_malloc)

lemma obeys_free: "obeys R (free p)"
proof -
  have "R s (logged (Libc (Free p)) (s\<lparr>live := remove1 p (live s), buffers := (buffers s)(p := None)\<rparr>))" for s
    by (rule trans_R [OF R_free R_libc])
  then show ?thesis
    unfolding free_def obeys_def by (simp add: using_state_def upd_def skip_def fail_def refl_R)
qed

lemma obeys_store_text: "obeys R (store_text p t)"
  unfolding store_text_def by (auto intro!: obeys_upd R_store)

lemmas heap_intros = obeys_intros obeys_malloc obeys_free obeys_store_text

end

text \<open>The history of calls only grows: calls are never taken back.\<close>

definition history_grows :: "machine \<Rightarrow> machine \<Rightarrow> bool" where
  "history_grows s t \<longleftrightarrow> (\<exists>cs. calls t = calls s @ cs)"

interpretation history: state_relation history_grows
  by unfold_locales (auto simp: history_grows_def)

text \<open>The last statement of a block is the block's result, so evaluation stops there.\<close>

lemma block_last [simp]: "block [c] s = c s"
  by (simp split: flow.split)

lemma block_more [simp]:
  "block (c # d # cs) s =
     (case c s of Next s' \<Rightarrow> block (d # cs) s' | Return r s' \<Rightarrow> Return r s' | Fault f s' \<Rightarrow> Fault f s')"
  by (rule block.simps(2))

declare block.simps(2) [simp del]

end
