(* ===== verification/WifiConnect.thy ===== *)
theory WifiConnect
  imports Machine
begin

text \<open>
  \<^verbatim>\<open>main/WifiConnect.c\<close>: bringing the network interfaces up and down and the handlers of their
  events. The options of \<^verbatim>\<open>sdkconfig\<close> that the preprocessor looks at are a record; \<open>build_sdk\<close> is
  the configuration in the repository, in which the Ethernet options are not used. An interface is a handle, 0 for NULL. Handlers run in the
  event task, so they are statements of their own, delivered between the steps of the others.
\<close>

section \<open>Configuration\<close>

datatype eth_phy = PHY_IP101 | PHY_RTL8201 | PHY_LAN87XX | PHY_DP83848

datatype spi_eth = DM9051 | W5500

datatype eth_driver = INTERNAL_ETHERNET eth_phy | SPI_ETHERNET spi_eth | OPENETH

record eth_options =
  PHY_ADDR :: int
  PHY_RST_GPIO :: int
  MDC_GPIO :: int
  MDIO_GPIO :: int
  SPI_HOST :: int
  SPI_MISO_GPIO :: int
  SPI_MOSI_GPIO :: int
  SPI_SCLK_GPIO :: int
  SPI_CLOCK_MHZ :: int
  SPI_CS_GPIO :: int
  SPI_INT_GPIO :: int

record sdk =
  CONNECT_WIFI :: bool
  CONNECT_ETHERNET :: bool
  CONNECT_IPV6 :: bool
  PREFERRED_IPV6_TYPE :: int
  WIFI_CONFIG :: wifi_sta_config
  ETH_DRIVER :: eth_driver
  ETH :: eth_options

text \<open>\<open>ESP_IP6_ADDR_IS_LINK_LOCAL\<close> is 2.\<close>

definition no_eth :: eth_options where
  "no_eth =
     \<lparr>PHY_ADDR = 0, PHY_RST_GPIO = 0, MDC_GPIO = 0, MDIO_GPIO = 0, SPI_HOST = 0,
      SPI_MISO_GPIO = 0, SPI_MOSI_GPIO = 0, SPI_SCLK_GPIO = 0, SPI_CLOCK_MHZ = 0,
      SPI_CS_GPIO = 0, SPI_INT_GPIO = 0\<rparr>"

definition build_sdk :: sdk where
  "build_sdk =
     \<lparr>CONNECT_WIFI = True, CONNECT_ETHERNET = False, CONNECT_IPV6 = True,
      PREFERRED_IPV6_TYPE = 2,
      WIFI_CONFIG = \<lparr>ssid = ''Tenda_46DEA0'', wifi_password = [],
        scan_method = ''WIFI_ALL_CHANNEL_SCAN'', sort_method = ''WIFI_CONNECT_AP_BY_SIGNAL'',
        threshold_rssi = -127, threshold_authmode = ''WIFI_AUTH_OPEN''\<rparr>,
      ETH_DRIVER = INTERNAL_ETHERNET PHY_IP101, ETH = no_eth\<rparr>"

definition EXAMPLE_DO_CONNECT :: "sdk \<Rightarrow> bool" where
  "EXAMPLE_DO_CONNECT cfg \<longleftrightarrow> CONNECT_WIFI cfg \<or> CONNECT_ETHERNET cfg"

definition NR_OF_IP_ADDRESSES_TO_WAIT_FOR :: "sdk \<Rightarrow> machine \<Rightarrow> int" where
  "NR_OF_IP_ADDRESSES_TO_WAIT_FOR cfg s =
     (if CONNECT_IPV6 cfg then s_active_interfaces s * 2 else s_active_interfaces s)"

definition MAX_IP6_ADDRS_PER_NETIF :: nat where "MAX_IP6_ADDRS_PER_NETIF = 5"

definition s_ipv6_addr_types :: "string list" where
  "s_ipv6_addr_types =
     [''ESP_IP6_ADDR_IS_UNKNOWN'', ''ESP_IP6_ADDR_IS_GLOBAL'', ''ESP_IP6_ADDR_IS_LINK_LOCAL'',
      ''ESP_IP6_ADDR_IS_SITE_LOCAL'', ''ESP_IP6_ADDR_IS_UNIQUE_LOCAL'',
      ''ESP_IP6_ADDR_IS_IPV4_MAPPED_IPV6'']"

definition CONNECT_TAG :: string where "CONNECT_TAG = ''example_connect''"

definition ERR_WIFI_NOT_INIT :: int where "ERR_WIFI_NOT_INIT = 0x3001"
definition ERR_WIFI_NOT_STARTED :: int where "ERR_WIFI_NOT_STARTED = 0x3002"
definition INVALID_STATE :: int where "INVALID_STATE = 0x103"

section \<open>Names of interfaces\<close>

text \<open>\<open>strncmp(a, b, n) == 0\<close> of strings without a NUL.\<close>

definition strncmp_eq :: "string \<Rightarrow> string \<Rightarrow> nat \<Rightarrow> bool" where
  "strncmp_eq a b n \<longleftrightarrow> take n a = take n b"

definition is_our_netif :: "env \<Rightarrow> string \<Rightarrow> int \<Rightarrow> (bool \<Rightarrow> 'r stmt) \<Rightarrow> 'r stmt" where
  "is_our_netif E prefix netif k =
     ext_text E (Netif (Esp_netif_get_desc netif)) (\<lambda>desc.
       k (strncmp_eq prefix desc (length prefix - 1)))"

text \<open>\<open>asprintf(&p, "%s: %s", TAG, desc)\<close>: a new block that holds the text.\<close>

definition asprintf :: "env \<Rightarrow> string \<Rightarrow> (int \<Rightarrow> 'r stmt) \<Rightarrow> 'r stmt" where
  "asprintf E t k =
     malloc E (int (length t) + 1) (\<lambda>p. block [only_if (p \<noteq> 0) (store_text p t), k p])"

definition netif_desc :: "string \<Rightarrow> string" where
  "netif_desc desc = CONNECT_TAG @ '': '' @ desc"

definition get_example_netif :: "int stmt" where
  "get_example_netif = using_state (\<lambda>s. ret (s_example_esp_netif s))"

text \<open>\<open>strcmp\<close> of an interface's name and the text of a block.\<close>

definition netif_named :: "env \<Rightarrow> int \<Rightarrow> int \<Rightarrow> (bool \<Rightarrow> 'r stmt) \<Rightarrow> 'r stmt" where
  "netif_named E netif p k =
     ext_text E (Netif (Esp_netif_get_desc netif)) (\<lambda>name. using_state (\<lambda>s.
       if_else (p = 0) (fail Null_Deref) (k (buffers s p = Some name))))"

fun netif_search :: "nat \<Rightarrow> env \<Rightarrow> int \<Rightarrow> int \<Rightarrow> int stmt" where
  "netif_search 0 E p netif = fail Out_Of_Fuel"
| "netif_search (Suc n) E p netif =
     ext E (Netif (Esp_netif_next netif)) (\<lambda>next.
       if_else (next = 0) (block [free p, ret 0])
         (netif_named E next p (\<lambda>eq.
           if_else eq (block [free p, ret next]) (netif_search n E p next))))"

definition get_example_netif_from_desc :: "nat \<Rightarrow> env \<Rightarrow> string \<Rightarrow> int stmt" where
  "get_example_netif_from_desc n E desc =
     asprintf E (netif_desc desc) (\<lambda>p. netif_search n E p 0)"

section \<open>Event handlers\<close>

text \<open>
  \<open>xSemaphoreGive\<close> itself is FreeRTOS: it documents that its handle must be that of a semaphore, and
  asserts (\<open>configASSERT\<close>) that it is not NULL. Like the precondition of \<open>free\<close>, this is part of
  what the call means here.
\<close>

definition give_semaphore :: "env \<Rightarrow> 'r stmt" where
  "give_semaphore E = using_state (\<lambda>s.
     if_else (s_semph_get_ip_addrs s = 0) (fail Assert_Failed)
       (do_ext E (Rtos (XSemaphoreGive (s_semph_get_ip_addrs s)))))"

definition on_got_ip :: "env \<Rightarrow> int \<Rightarrow> u32 \<Rightarrow> unit stmt" where
  "on_got_ip E esp_netif ip =
     is_our_netif E CONNECT_TAG esp_netif (\<lambda>ours.
       if_else (\<not> ours) (ret ())
         (block [upd (\<lambda>s. s\<lparr>s_ip_addr := ip\<rparr>), give_semaphore E]))"

definition on_got_ipv6 :: "env \<Rightarrow> sdk \<Rightarrow> int \<Rightarrow> u32 list \<Rightarrow> unit stmt" where
  "on_got_ipv6 E cfg esp_netif ip =
     is_our_netif E CONNECT_TAG esp_netif (\<lambda>ours.
       if_else (\<not> ours) (ret ())
         (ext E (Netif (Esp_netif_ip6_get_addr_type ip)) (\<lambda>ipv6_type. block
           [only_if (\<not> (0 \<le> ipv6_type \<and> nat ipv6_type < length s_ipv6_addr_types))
              (fail Out_Of_Bounds),
            only_if (ipv6_type = PREFERRED_IPV6_TYPE cfg)
              (block [upd (\<lambda>s. s\<lparr>s_ipv6_addr := ip\<rparr>), give_semaphore E])])))"

definition on_wifi_disconnect :: "env \<Rightarrow> unit stmt" where
  "on_wifi_disconnect E = block
     [upd (\<lambda>s. s\<lparr>wifi_connect := False\<rparr>),
      ext E (Wifi Esp_wifi_connect) (\<lambda>err.
        if_else (err = ERR_WIFI_NOT_STARTED) (ret ()) (error_check err))]"

definition on_wifi_connect :: "env \<Rightarrow> int \<Rightarrow> unit stmt" where
  "on_wifi_connect E esp_netif = block
     [upd (\<lambda>s. s\<lparr>wifi_connect := True\<rparr>),
      do_ext E (Netif (Esp_netif_create_ip6_linklocal esp_netif))]"

definition on_eth_event :: "env \<Rightarrow> int \<Rightarrow> bool \<Rightarrow> unit stmt" where
  "on_eth_event E esp_netif link_up =
     only_if link_up (checked E (Netif (Esp_netif_create_ip6_linklocal esp_netif)))"

text \<open>
  An event is delivered to its handler while another task sleeps or waits. Which events arrive
  when is the parameter \<open>sched\<close> of whatever waits. An event for which the build has no handler goes
  by; one whose handler is not registered at the time is not handed over.
\<close>

datatype wifi_event =
  STA_CONNECTED int | STA_DISCONNECTED | GOT_IP int u32 | GOT_IP6 int "u32 list"
| ETH_LINK int bool

text \<open>
  The handlers that exist in a build: those of the station only with Wi-Fi, those of the link and of
  IPv6 addresses only with IPv6, that of the Ethernet link only with Ethernet.
\<close>

fun handled :: "sdk \<Rightarrow> wifi_event \<Rightarrow> bool" where
  "handled cfg (STA_CONNECTED netif) \<longleftrightarrow> CONNECT_WIFI cfg \<and> CONNECT_IPV6 cfg"
| "handled cfg STA_DISCONNECTED \<longleftrightarrow> CONNECT_WIFI cfg"
| "handled cfg (GOT_IP netif ip) \<longleftrightarrow> True"
| "handled cfg (GOT_IP6 netif ip) \<longleftrightarrow> CONNECT_IPV6 cfg"
| "handled cfg (ETH_LINK netif up) \<longleftrightarrow> CONNECT_ETHERNET cfg \<and> CONNECT_IPV6 cfg"

fun handle_event :: "env \<Rightarrow> sdk \<Rightarrow> wifi_event \<Rightarrow> unit stmt" where
  "handle_event E cfg (STA_CONNECTED netif) =
     only_if (handled cfg (STA_CONNECTED netif)) (on_wifi_connect E netif)"
| "handle_event E cfg STA_DISCONNECTED =
     only_if (handled cfg STA_DISCONNECTED) (on_wifi_disconnect E)"
| "handle_event E cfg (GOT_IP netif ip) = on_got_ip E netif ip"
| "handle_event E cfg (GOT_IP6 netif ip) =
     only_if (handled cfg (GOT_IP6 netif ip)) (on_got_ipv6 E cfg netif ip)"
| "handle_event E cfg (ETH_LINK netif up) =
     only_if (handled cfg (ETH_LINK netif up)) (on_eth_event E netif up)"

definition deliver :: "env \<Rightarrow> sdk \<Rightarrow> wifi_event list \<Rightarrow> 'r stmt" where
  "deliver E cfg es = block (map (\<lambda>e. call_void (handle_event E cfg e)) es)"

section \<open>Starting and stopping Wi-Fi\<close>

definition block_text :: "machine \<Rightarrow> int \<Rightarrow> string" where
  "block_text s p = (case buffers s p of Some t \<Rightarrow> t | None \<Rightarrow> [])"

definition wifi_start :: "env \<Rightarrow> sdk \<Rightarrow> int stmt" where
  "wifi_start E cfg = block
     [checked E (Wifi Esp_wifi_init),
      asprintf E (netif_desc ''sta'') (\<lambda>desc. using_state (\<lambda>s.
        ext E (Netif (Esp_netif_create_wifi (block_text s desc) 128)) (\<lambda>netif. block
          [free desc,
           do_ext E (Wifi Esp_wifi_set_default_wifi_sta_handlers),
           checked E (Netif (Esp_event_handler_register ''WIFI_EVENT''
             ''WIFI_EVENT_STA_DISCONNECTED'' Ref_on_wifi_disconnect 0)),
           checked E (Netif (Esp_event_handler_register ''IP_EVENT'' ''IP_EVENT_STA_GOT_IP''
             Ref_on_got_ip 0)),
           only_if (CONNECT_IPV6 cfg) (block
             [checked E (Netif (Esp_event_handler_register ''WIFI_EVENT''
                ''WIFI_EVENT_STA_CONNECTED'' Ref_on_wifi_connect netif)),
              checked E (Netif (Esp_event_handler_register ''IP_EVENT'' ''IP_EVENT_GOT_IP6''
                Ref_on_got_ipv6 0))]),
           checked E (Wifi (Esp_wifi_set_storage ''WIFI_STORAGE_RAM'')),
           checked E (Wifi (Esp_wifi_set_mode ''WIFI_MODE_STA'')),
           checked E (Wifi (Esp_wifi_set_config (WIFI_CONFIG cfg))),
           checked E (Wifi Esp_wifi_start),
           do_ext E (Wifi Esp_wifi_connect),
           ret netif])))]"

definition wifi_stop :: "nat \<Rightarrow> env \<Rightarrow> sdk \<Rightarrow> unit stmt" where
  "wifi_stop n E cfg =
     call_fn (get_example_netif_from_desc n E ''sta'') (\<lambda>wifi_netif. block
       [checked E (Netif (Esp_event_handler_unregister ''WIFI_EVENT''
          ''WIFI_EVENT_STA_DISCONNECTED'' Ref_on_wifi_disconnect)),
        checked E (Netif (Esp_event_handler_unregister ''IP_EVENT'' ''IP_EVENT_STA_GOT_IP''
          Ref_on_got_ip)),
        only_if (CONNECT_IPV6 cfg) (block
          [checked E (Netif (Esp_event_handler_unregister ''IP_EVENT'' ''IP_EVENT_GOT_IP6''
             Ref_on_got_ipv6)),
           checked E (Netif (Esp_event_handler_unregister ''WIFI_EVENT''
             ''WIFI_EVENT_STA_CONNECTED'' Ref_on_wifi_connect))]),
        ext E (Wifi Esp_wifi_stop) (\<lambda>err.
          if_else (err = ERR_WIFI_NOT_INIT) (ret ()) (error_check err)),
        checked E (Wifi Esp_wifi_deinit),
        checked E (Wifi (Esp_wifi_clear_default_wifi_driver_and_handlers wifi_netif)),
        do_ext E (Netif (Esp_netif_destroy wifi_netif)),
        upd (\<lambda>s. s\<lparr>s_example_esp_netif := 0\<rparr>)])"

section \<open>Starting and stopping Ethernet\<close>

text \<open>The driver objects of the configured chip: the calls that make the MAC and the PHY.\<close>

fun phy_new :: "eth_phy \<Rightarrow> string" where
  "phy_new PHY_IP101 = ''esp_eth_phy_new_ip101''"
| "phy_new PHY_RTL8201 = ''esp_eth_phy_new_rtl8201''"
| "phy_new PHY_LAN87XX = ''esp_eth_phy_new_lan87xx''"
| "phy_new PHY_DP83848 = ''esp_eth_phy_new_dp83848''"

fun spi_bits :: "spi_eth \<Rightarrow> int list" where
  "spi_bits DM9051 = [1, 7]"
| "spi_bits W5500 = [16, 8]"

fun spi_name :: "spi_eth \<Rightarrow> string" where
  "spi_name DM9051 = ''dm9051''"
| "spi_name W5500 = ''w5500''"

definition eth_new :: "env \<Rightarrow> string \<Rightarrow> int list \<Rightarrow> (int \<Rightarrow> 'r stmt) \<Rightarrow> 'r stmt" where
  "eth_new E name args k = ext E (EthDrv (Eth name args)) k"

definition set_mac_phy :: "env \<Rightarrow> string \<Rightarrow> int list \<Rightarrow> string \<Rightarrow> int list \<Rightarrow> 'r stmt" where
  "set_mac_phy E mac margs phy pargs = block
     [eth_new E mac margs (\<lambda>m. upd (\<lambda>s. s\<lparr>s_mac := m\<rparr>)),
      eth_new E phy pargs (\<lambda>p. upd (\<lambda>s. s\<lparr>s_phy := p\<rparr>))]"

text \<open>The PHY's address and reset pin, and the settings of the bus and of the device on it.\<close>

definition phy_config :: "eth_options \<Rightarrow> int list" where
  "phy_config e = [PHY_ADDR e, PHY_RST_GPIO e]"

definition buscfg :: "eth_options \<Rightarrow> int list" where
  "buscfg e = [SPI_HOST e, SPI_MISO_GPIO e, SPI_MOSI_GPIO e, SPI_SCLK_GPIO e, -1, -1]"

definition devcfg :: "spi_eth \<Rightarrow> eth_options \<Rightarrow> int list" where
  "devcfg chip e =
     SPI_HOST e # spi_bits chip @ [0, SPI_CLOCK_MHZ e * 1000 * 1000, SPI_CS_GPIO e, 20]"

definition eth_make_driver :: "env \<Rightarrow> sdk \<Rightarrow> 'r stmt" where
  "eth_make_driver E cfg =
     (case ETH_DRIVER cfg of
        INTERNAL_ETHERNET phy \<Rightarrow>
          set_mac_phy E ''esp_eth_mac_new_esp32'' [MDC_GPIO (ETH cfg), MDIO_GPIO (ETH cfg)]
            (phy_new phy) (phy_config (ETH cfg))
      | SPI_ETHERNET chip \<Rightarrow> block
          [do_ext E (EthDrv (Eth ''gpio_install_isr_service'' [0])),
           checked E (EthDrv (Eth ''spi_bus_initialize'' (buscfg (ETH cfg)))),
           ext_out E (EthDrv (Eth ''spi_bus_add_device'' (devcfg chip (ETH cfg))))
             (\<lambda>err spi_handle. block
               [error_check err,
                set_mac_phy E (''esp_eth_mac_new_'' @ spi_name chip)
                  [spi_handle, SPI_INT_GPIO (ETH cfg)]
                  (''esp_eth_phy_new_'' @ spi_name chip) (phy_config (ETH cfg))])]
      | OPENETH \<Rightarrow>
          set_mac_phy E ''esp_eth_mac_new_openeth'' []
            ''esp_eth_phy_new_dp83848'' (phy_config (ETH cfg) @ [100]))"

fun is_internal :: "eth_driver \<Rightarrow> bool" where
  "is_internal (INTERNAL_ETHERNET phy) = True"
| "is_internal _ = False"

definition eth_start :: "env \<Rightarrow> sdk \<Rightarrow> int stmt" where
  "eth_start E cfg =
     asprintf E (netif_desc ''eth'') (\<lambda>desc. using_state (\<lambda>s.
       ext E (Netif (Esp_netif_new (block_text s desc) 64)) (\<lambda>netif. block
         [c_assert (netif \<noteq> 0),
          free desc,
          eth_make_driver E cfg,
          using_state (\<lambda>s. ext_out E (EthDrv (Eth ''esp_eth_driver_install'' [s_mac s, s_phy s]))
            (\<lambda>err h. block [error_check err, upd (\<lambda>s. s\<lparr>s_eth_handle := h\<rparr>)])),
          only_if (\<not> is_internal (ETH_DRIVER cfg))
            (using_state (\<lambda>s. checked E (EthDrv (Eth ''esp_eth_ioctl''
              [s_eth_handle s, 0x02, 0x00, 0x00, 0x12, 0x34, 0x56])))),
          using_state (\<lambda>s. eth_new E ''esp_eth_new_netif_glue'' [s_eth_handle s] (\<lambda>g.
            upd (\<lambda>s. s\<lparr>s_eth_glue := g\<rparr>))),
          using_state (\<lambda>s. do_ext E (Netif (Esp_netif_attach netif (s_eth_glue s)))),
          checked E (Netif (Esp_event_handler_register ''IP_EVENT'' ''IP_EVENT_ETH_GOT_IP''
            Ref_on_got_ip 0)),
          only_if (CONNECT_IPV6 cfg) (block
            [checked E (Netif (Esp_event_handler_register ''ETH_EVENT'' ''ETHERNET_EVENT_CONNECTED''
               Ref_on_eth_event netif)),
             checked E (Netif (Esp_event_handler_register ''IP_EVENT'' ''IP_EVENT_GOT_IP6''
               Ref_on_got_ipv6 0))]),
          using_state (\<lambda>s. do_ext E (EthDrv (Eth ''esp_eth_start'' [s_eth_handle s]))),
          ret netif])))"

definition eth_stop :: "nat \<Rightarrow> env \<Rightarrow> sdk \<Rightarrow> unit stmt" where
  "eth_stop n E cfg =
     call_fn (get_example_netif_from_desc n E ''eth'') (\<lambda>eth_netif. block
       [checked E (Netif (Esp_event_handler_unregister ''IP_EVENT'' ''IP_EVENT_ETH_GOT_IP''
          Ref_on_got_ip)),
        only_if (CONNECT_IPV6 cfg) (block
          [checked E (Netif (Esp_event_handler_unregister ''IP_EVENT'' ''IP_EVENT_GOT_IP6''
             Ref_on_got_ipv6)),
           checked E (Netif (Esp_event_handler_unregister ''ETH_EVENT'' ''ETHERNET_EVENT_CONNECTED''
             Ref_on_eth_event))]),
        using_state (\<lambda>s. checked E (EthDrv (Eth ''esp_eth_stop'' [s_eth_handle s]))),
        using_state (\<lambda>s. checked E (EthDrv (Eth ''esp_eth_del_netif_glue'' [s_eth_glue s]))),
        using_state (\<lambda>s. checked E (EthDrv (Eth ''esp_eth_driver_uninstall'' [s_eth_handle s]))),
        using_state (\<lambda>s. if_else (s_phy s = 0) (fail Null_Deref)
          (checked E (EthDrv (Eth ''s_phy->del'' [s_phy s])))),
        using_state (\<lambda>s. if_else (s_mac s = 0) (fail Null_Deref)
          (checked E (EthDrv (Eth ''s_mac->del'' [s_mac s])))),
        do_ext E (Netif (Esp_netif_destroy eth_netif)),
        upd (\<lambda>s. s\<lparr>s_example_esp_netif := 0\<rparr>)])"

section \<open>Connecting and disconnecting\<close>

text \<open>\<open>during\<close> is what other tasks do between starting the interfaces and creating the semaphore.\<close>

definition start_during :: "env \<Rightarrow> sdk \<Rightarrow> unit stmt \<Rightarrow> unit stmt" where
  "start_during E cfg during = block
     [only_if (CONNECT_WIFI cfg) (block
        [call_fn (wifi_start E cfg) (\<lambda>netif. upd (\<lambda>s. s\<lparr>s_example_esp_netif := netif\<rparr>)),
         upd (\<lambda>s. s\<lparr>s_active_interfaces := s_active_interfaces s + 1\<rparr>)]),
      only_if (CONNECT_ETHERNET cfg) (block
        [call_fn (eth_start E cfg) (\<lambda>netif. upd (\<lambda>s. s\<lparr>s_example_esp_netif := netif\<rparr>)),
         upd (\<lambda>s. s\<lparr>s_active_interfaces := s_active_interfaces s + 1\<rparr>)]),
      only_if (CONNECT_WIFI cfg \<and> CONNECT_ETHERNET cfg)
        (upd (\<lambda>s. s\<lparr>s_example_esp_netif := 0\<rparr>)),
      during,
      only_if (EXAMPLE_DO_CONNECT cfg) (using_state (\<lambda>s.
        ext E (Rtos (XSemaphoreCreateCounting (NR_OF_IP_ADDRESSES_TO_WAIT_FOR cfg s) 0)) (\<lambda>h.
          upd (\<lambda>s. s\<lparr>s_semph_get_ip_addrs := h\<rparr>))))]"

definition start :: "env \<Rightarrow> sdk \<Rightarrow> unit stmt" where
  "start E cfg = start_during E cfg skip"

lemma start_eq:
  "start E cfg = block
     [only_if (CONNECT_WIFI cfg) (block
        [call_fn (wifi_start E cfg) (\<lambda>netif. upd (\<lambda>s. s\<lparr>s_example_esp_netif := netif\<rparr>)),
         upd (\<lambda>s. s\<lparr>s_active_interfaces := s_active_interfaces s + 1\<rparr>)]),
      only_if (CONNECT_ETHERNET cfg) (block
        [call_fn (eth_start E cfg) (\<lambda>netif. upd (\<lambda>s. s\<lparr>s_example_esp_netif := netif\<rparr>)),
         upd (\<lambda>s. s\<lparr>s_active_interfaces := s_active_interfaces s + 1\<rparr>)]),
      only_if (CONNECT_WIFI cfg \<and> CONNECT_ETHERNET cfg)
        (upd (\<lambda>s. s\<lparr>s_example_esp_netif := 0\<rparr>)),
      only_if (EXAMPLE_DO_CONNECT cfg) (using_state (\<lambda>s.
        ext E (Rtos (XSemaphoreCreateCounting (NR_OF_IP_ADDRESSES_TO_WAIT_FOR cfg s) 0)) (\<lambda>h.
          upd (\<lambda>s. s\<lparr>s_semph_get_ip_addrs := h\<rparr>))))]"
proof -
  have "block [a, b, c, skip, d] = block [a, b, c, d]" for a b c d :: "unit stmt"
    by (rule ext) (simp add: skip_def split: flow.split)
  then show ?thesis by (simp only: start_def start_during_def)
qed

definition stop :: "nat \<Rightarrow> env \<Rightarrow> sdk \<Rightarrow> unit stmt" where
  "stop n E cfg = block
     [only_if (CONNECT_WIFI cfg) (block
        [call_void (wifi_stop n E cfg),
         upd (\<lambda>s. s\<lparr>s_active_interfaces := s_active_interfaces s - 1\<rparr>)]),
      only_if (CONNECT_ETHERNET cfg) (block
        [call_void (eth_stop n E cfg),
         upd (\<lambda>s. s\<lparr>s_active_interfaces := s_active_interfaces s - 1\<rparr>)])]"

text \<open>
  The count of the counting semaphore, read off the calls made (the newest first): it starts at
  0, a give raises it up to the maximum it was created with, a take lowers it. The counting is what
  FreeRTOS documents; it is written out, and not left to \<open>env\<close>, because it decides when the task
  that waits goes on, which is part of how the tasks are interleaved here.
\<close>

fun sem_max :: "call list \<Rightarrow> nat" where
  "sem_max (Rtos (XSemaphoreCreateCounting m _) # _) = nat m"
| "sem_max (_ # cs) = sem_max cs"
| "sem_max [] = 0"

fun tokens :: "call list \<Rightarrow> nat" where
  "tokens (Rtos (XSemaphoreCreateCounting _ i) # _) = nat i"
| "tokens (Rtos (XSemaphoreGive _) # cs) = min (sem_max cs) (Suc (tokens cs))"
| "tokens (Rtos (XSemaphoreTake _) # cs) = tokens cs - 1"
| "tokens (_ # cs) = tokens cs"
| "tokens [] = 0"

text \<open>
  Taking the semaphore with \<open>portMAX_DELAY\<close>: the task waits while events are delivered, and goes
  on if there is a token then; otherwise it stays blocked.
\<close>

definition take_semaphore ::
    "env \<Rightarrow> sdk \<Rightarrow> (machine \<Rightarrow> wifi_event list) \<Rightarrow> 'r stmt" where
  "take_semaphore E cfg sched = block
     [using_state (\<lambda>s. if_else (s_semph_get_ip_addrs s = 0) (fail Assert_Failed) skip),
      using_state (\<lambda>s. deliver E cfg (sched s)),
      using_state (\<lambda>s. if_else (tokens (rev (calls s)) = 0) (fail Blocked)
        (do_ext E (Rtos (XSemaphoreTake (s_semph_get_ip_addrs s)))))]"

text \<open>Waiting for the addresses: \<open>left\<close> is the number still to be taken.\<close>

fun take_all :: "nat \<Rightarrow> env \<Rightarrow> sdk \<Rightarrow> (machine \<Rightarrow> wifi_event list) \<Rightarrow> 'r stmt" where
  "take_all 0 E cfg sched = skip"
| "take_all (Suc left) E cfg sched =
     block [take_semaphore E cfg sched, take_all left E cfg sched]"

text \<open>The addresses an interface hands over, 20 bytes each with the zone.\<close>

definition ip6_at :: "u8 list \<Rightarrow> nat \<Rightarrow> u32 list" where
  "ip6_at bytes j = map (\<lambda>k.
     (let b = (\<lambda>i. ucast (bytes ! (20 * j + 4 * k + i)) :: u32) in
      b 0 OR push_bit 8 (b 1) OR push_bit 16 (b 2) OR push_bit 24 (b 3))) [0..<4]"

fun print_ip6s :: "nat \<Rightarrow> env \<Rightarrow> u8 list \<Rightarrow> nat \<Rightarrow> 'r stmt" where
  "print_ip6s 0 E bytes j = skip"
| "print_ip6s (Suc left) E bytes j =
     (if length bytes < 20 * (j + 1) \<or> MAX_IP6_ADDRS_PER_NETIF \<le> j then fail Out_Of_Bounds
      else ext E (Netif (Esp_netif_ip6_get_addr_type (ip6_at bytes j))) (\<lambda>ipv6_type. block
        [only_if (\<not> (0 \<le> ipv6_type \<and> nat ipv6_type < length s_ipv6_addr_types))
           (fail Out_Of_Bounds),
         print_ip6s left E bytes (j + 1)]))"

definition print_own :: "env \<Rightarrow> sdk \<Rightarrow> int \<Rightarrow> 'r stmt" where
  "print_own E cfg netif = block
     [checked E (Netif (Esp_netif_get_ip_info netif)),
      only_if (CONNECT_IPV6 cfg)
        (ext_bytes E (Netif (Esp_netif_get_all_ip6 netif)) (\<lambda>ip6_addrs bytes. block
           [only_if (20 * MAX_IP6_ADDRS_PER_NETIF < length bytes) (fail Out_Of_Bounds),
            print_ip6s (nat ip6_addrs) E bytes 0]))]"

fun print_netifs :: "nat \<Rightarrow> env \<Rightarrow> sdk \<Rightarrow> int \<Rightarrow> int \<Rightarrow> 'r stmt" where
  "print_netifs 0 E cfg i netif =
     ext E (Netif Esp_netif_get_nr_of_ifs) (\<lambda>nr. if_else (i < nr) (fail Out_Of_Fuel) skip)"
| "print_netifs (Suc n) E cfg i netif =
     ext E (Netif Esp_netif_get_nr_of_ifs) (\<lambda>nr. if_else (i < nr)
       (ext E (Netif (Esp_netif_next netif)) (\<lambda>netif. is_our_netif E CONNECT_TAG netif (\<lambda>ours. block
          [only_if ours (print_own E cfg netif),
           print_netifs n E cfg (i + 1) netif])))
       skip)"

definition fisi_example_connect ::
    "nat \<Rightarrow> env \<Rightarrow> sdk \<Rightarrow> (machine \<Rightarrow> wifi_event list) \<Rightarrow> int stmt" where
  "fisi_example_connect n E cfg sched = block
     [using_state (\<lambda>s. only_if (EXAMPLE_DO_CONNECT cfg \<and> s_semph_get_ip_addrs s \<noteq> 0)
        (ret INVALID_STATE)),
      call_void (start E cfg),
      checked E (Sys (Esp_register_shutdown_handler ''stop'')),
      using_state (\<lambda>s. take_all (nat (NR_OF_IP_ADDRESSES_TO_WAIT_FOR cfg s)) E cfg sched),
      print_netifs n E cfg 0 0,
      ret 0]"

text \<open>\<open>during\<close> is what other tasks do between giving up the semaphore and stopping the interfaces.\<close>

definition example_disconnect_during :: "nat \<Rightarrow> env \<Rightarrow> sdk \<Rightarrow> int stmt \<Rightarrow> int stmt" where
  "example_disconnect_during n E cfg during = block
     [using_state (\<lambda>s. only_if (s_semph_get_ip_addrs s = 0) (ret INVALID_STATE)),
      using_state (\<lambda>s. do_ext E (Rtos (VSemaphoreDelete (s_semph_get_ip_addrs s)))),
      upd (\<lambda>s. s\<lparr>s_semph_get_ip_addrs := 0\<rparr>),
      during,
      call_void (stop n E cfg),
      checked E (Sys (Esp_unregister_shutdown_handler ''stop'')),
      ret 0]"

definition example_disconnect :: "nat \<Rightarrow> env \<Rightarrow> sdk \<Rightarrow> int stmt" where
  "example_disconnect n E cfg = example_disconnect_during n E cfg skip"

end
