(* ===== verification/WifiEvents.thy ===== *)
theory WifiEvents
  imports WifiConnect
begin

text \<open>
  The event handlers of \<^verbatim>\<open>main/WifiConnect.c\<close> against an abstract view of the network, and the
  wait for the addresses that they end. The semaphore's count is read off the log, so what it
  promises is a statement about the handlers that have run.
\<close>

section \<open>The network as the handlers see it\<close>

record net =
  link_up :: bool
  ip4 :: u32
  ip6 :: "u32 list"
  accepted :: nat

definition is_give :: "call \<Rightarrow> bool" where
  "is_give c \<longleftrightarrow> (case c of Rtos (XSemaphoreGive _) \<Rightarrow> True | _ \<Rightarrow> False)"

definition gives :: "machine \<Rightarrow> nat" where
  "gives s = length (filter is_give (calls s))"

definition net_of :: "machine \<Rightarrow> net" where
  "net_of s = \<lparr>link_up = wifi_connect s, ip4 = s_ip_addr s, ip6 = s_ipv6_addr s, accepted = gives s\<rparr>"

text \<open>
  The abstract view: addresses count only on interfaces whose name starts with the module's
  prefix, IPv6 addresses only if they are of the preferred type. A build without IPv6 has no
  handler for the station's link, so it never learns that it is up.
\<close>

definition our_name :: "string \<Rightarrow> bool" where
  "our_name d \<longleftrightarrow> take 14 d = ''example_connec''"

fun net_event :: "sdk \<Rightarrow> (int \<Rightarrow> string) \<Rightarrow> (u32 list \<Rightarrow> int) \<Rightarrow> wifi_event \<Rightarrow> net \<Rightarrow> net" where
  "net_event cfg name ty (STA_CONNECTED n) w =
     (if CONNECT_WIFI cfg \<and> CONNECT_IPV6 cfg then w\<lparr>link_up := True\<rparr> else w)"
| "net_event cfg name ty STA_DISCONNECTED w = (if CONNECT_WIFI cfg then w\<lparr>link_up := False\<rparr> else w)"
| "net_event cfg name ty (GOT_IP n a) w =
     (if our_name (name n) then w\<lparr>ip4 := a, accepted := accepted w + 1\<rparr> else w)"
| "net_event cfg name ty (GOT_IP6 n a) w =
     (if CONNECT_IPV6 cfg \<and> our_name (name n) \<and> ty a = PREFERRED_IPV6_TYPE cfg
      then w\<lparr>ip6 := a, accepted := accepted w + 1\<rparr> else w)"
| "net_event cfg name ty (ETH_LINK n up) w = w"

text \<open>
  The documented behaviour of the network stack: every interface has a name, names and address
  types are fixed, a type is one of the six that exist, reconnecting succeeds unless Wi-Fi is stopped.
\<close>

definition net_env :: "env \<Rightarrow> (int \<Rightarrow> string) \<Rightarrow> (u32 list \<Rightarrow> int) \<Rightarrow> bool" where
  "net_env E name ty \<longleftrightarrow> (\<forall>s.
     (\<forall>n. int_reply E s (Netif (Esp_netif_get_desc n)) \<noteq> 0 \<and>
       str_reply E s (Netif (Esp_netif_get_desc n)) = name n) \<and>
     (\<forall>a. int_reply E s (Netif (Esp_netif_ip6_get_addr_type a)) = ty a \<and> 0 \<le> ty a \<and> ty a < 6) \<and>
     (int_reply E s (Wifi Esp_wifi_connect) = 0 \<or>
      int_reply E s (Wifi Esp_wifi_connect) = ERR_WIFI_NOT_STARTED) \<and>
     (\<forall>n. int_reply E s (Netif (Esp_netif_create_ip6_linklocal n)) = 0))"

lemma strncmp_our_name: "strncmp_eq CONNECT_TAG d (length CONNECT_TAG - Suc 0) \<longleftrightarrow> our_name d"
proof -
  have n: "length CONNECT_TAG - Suc 0 = 14" by (simp add: CONNECT_TAG_def)
  have "take 14 CONNECT_TAG = ''example_connec''" by (simp add: CONNECT_TAG_def)
  then show ?thesis unfolding strncmp_eq_def our_name_def n by metis
qed

lemma net_of_logged [simp]:
  "net_of (logged c s) = (if is_give c then (net_of s)\<lparr>accepted := gives s + 1\<rparr> else net_of s)"
  by (simp add: net_of_def gives_def logged_def)

lemma is_give_simps [simp]:
  "is_give (Rtos (XSemaphoreGive h))" "\<not> is_give (Netif n)" "\<not> is_give (Wifi w)"
  "\<not> is_give (Rtos (XSemaphoreTake h))" "\<not> is_give (Rtos (XSemaphoreCreateCounting a b))"
  "\<not> is_give (Sys y)" "\<not> is_give (Libc l)"
  by (simp_all add: is_give_def)

lemma handle_event_run:
  assumes env: "net_env E name ty" and sem: "s_semph_get_ip_addrs s \<noteq> 0"
  shows "\<exists>t. call_void (handle_event E cfg e) s = (Next t :: 'r flow) \<and>
    net_of t = net_event cfg name ty e (net_of s) \<and>
    s_semph_get_ip_addrs t = s_semph_get_ip_addrs s \<and> s_active_interfaces t = s_active_interfaces s"
proof (cases e)
  case (STA_CONNECTED n)
  then show ?thesis by (simp add: call_void_def on_wifi_connect_def stmt_simps net_of_def gives_def)
next
  case STA_DISCONNECTED
  have "int_reply E u (Wifi Esp_wifi_connect) = 0 \<or>
      int_reply E u (Wifi Esp_wifi_connect) = ERR_WIFI_NOT_STARTED" for u
    using env by (simp add: net_env_def)
  with STA_DISCONNECTED show ?thesis
    by (auto simp: call_void_def on_wifi_disconnect_def stmt_simps net_of_def gives_def)
next
  case (GOT_IP n a)
  have "int_reply E s (Netif (Esp_netif_get_desc n)) \<noteq> 0"
    "str_reply E s (Netif (Esp_netif_get_desc n)) = name n" using env by (simp_all add: net_env_def)
  with GOT_IP sem show ?thesis
    by (simp add: call_void_def on_got_ip_def is_our_netif_def stmt_simps strncmp_our_name
        give_semaphore_def net_of_def gives_def)
next
  case (GOT_IP6 n a)
  have "int_reply E s (Netif (Esp_netif_get_desc n)) \<noteq> 0"
    "str_reply E s (Netif (Esp_netif_get_desc n)) = name n"
    "int_reply E u (Netif (Esp_netif_ip6_get_addr_type a)) = ty a" "0 \<le> ty a" "ty a < 6" for u
    using env by (simp_all add: net_env_def)
  with GOT_IP6 sem show ?thesis
    by (simp add: call_void_def on_got_ipv6_def is_our_netif_def stmt_simps strncmp_our_name
        give_semaphore_def net_of_def gives_def s_ipv6_addr_types_def nat_less_iff)
next
  case (ETH_LINK n up)
  have "int_reply E s (Netif (Esp_netif_create_ip6_linklocal n)) = 0" using env by (simp add: net_env_def)
  with ETH_LINK show ?thesis by (simp add: call_void_def on_eth_event_def stmt_simps net_of_def gives_def)
qed

lemma deliver_run:
  assumes env: "net_env E name ty"
  shows "s_semph_get_ip_addrs s \<noteq> 0 \<Longrightarrow>
    \<exists>t. deliver E cfg es s = (Next t :: 'r flow) \<and>
    net_of t = fold (net_event cfg name ty) es (net_of s) \<and>
    s_semph_get_ip_addrs t = s_semph_get_ip_addrs s \<and> s_active_interfaces t = s_active_interfaces s"
proof (induction es arbitrary: s)
  case Nil
  then show ?case by (simp add: deliver_def)
next
  case (Cons e es)
  obtain u where u: "call_void (handle_event E cfg e) s = (Next u :: 'r flow)"
    "net_of u = net_event cfg name ty e (net_of s)"
    "s_semph_get_ip_addrs u = s_semph_get_ip_addrs s" "s_active_interfaces u = s_active_interfaces s"
    using handle_event_run [OF env Cons.prems, where ?'r = 'r] by blast
  moreover have "deliver E cfg (e # es) s = (deliver E cfg es u :: 'r flow)"
    using u(1) by (simp add: deliver_def block.simps(2))
  ultimately show ?case using Cons.IH [of u] Cons.prems by auto
qed

section \<open>Relations that handlers respect\<close>

text \<open>
  Handlers call the network stack, give the semaphore, and record link and addresses. The wait
  for the addresses delivers them and takes the semaphore; printing only asks the network stack.
  None of them registers handlers.
\<close>

definition event_call :: "call \<Rightarrow> bool" where
  "event_call c \<longleftrightarrow> (case c of Netif (Esp_event_handler_register b i h a) \<Rightarrow> False
     | Netif (Esp_event_handler_unregister b i h) \<Rightarrow> False | Netif n \<Rightarrow> True | Wifi w \<Rightarrow> True
     | Rtos (XSemaphoreGive h) \<Rightarrow> True | _ \<Rightarrow> False)"

lemma event_call_simps [simp]:
  "event_call (Netif Esp_netif_get_nr_of_ifs)" "event_call (Netif (Esp_netif_next j))"
  "event_call (Netif (Esp_netif_get_desc j))" "event_call (Netif (Esp_netif_get_ip_info j))"
  "event_call (Netif (Esp_netif_get_all_ip6 j))" "event_call (Netif (Esp_netif_ip6_get_addr_type a))"
  "event_call (Netif (Esp_netif_create_ip6_linklocal j))"
  "event_call (Wifi w)" "event_call (Rtos (XSemaphoreGive h))"
  "\<not> event_call (Rtos (XSemaphoreTake h))" "\<not> event_call (Rtos (XSemaphoreCreateCounting m i))"
  by (simp_all add: event_call_def)

locale event_relation = state_relation +
  assumes R_event: "event_call c \<Longrightarrow> R s (logged c s)"
    and R_link: "R s (s\<lparr>wifi_connect := b\<rparr>)"
    and R_ip: "R s (s\<lparr>s_ip_addr := a\<rparr>)"
    and R_ip6: "R s (s\<lparr>s_ipv6_addr := a6\<rparr>)"
begin

lemma obeys_is_our_netif: "(\<And>b. obeys R (k b)) \<Longrightarrow> obeys R (is_our_netif E pre i k)"
  unfolding is_our_netif_def by (intro obeys_intros R_event) simp_all

lemma obeys_give_semaphore: "obeys R (give_semaphore E)"
  unfolding give_semaphore_def by (intro obeys_intros R_event) simp

lemma obeys_handle_event: "obeys R (handle_event E cfg e)"
  by (cases e; simp add: on_wifi_connect_def on_wifi_disconnect_def on_got_ip_def on_got_ipv6_def
      on_eth_event_def; intro obeys_intros obeys_is_our_netif obeys_give_semaphore R_event R_link
      R_ip R_ip6; simp)

lemma obeys_deliver: "obeys R (deliver E cfg es)"
  unfolding deliver_def by (rule obeys_block) (auto intro!: obeys_call_void obeys_handle_event)

lemma obeys_take_semaphore:
  "(\<And>s h. R s (logged (Rtos (XSemaphoreTake h)) s)) \<Longrightarrow> obeys R (take_semaphore E cfg sched)"
  unfolding take_semaphore_def by (intro obeys_intros obeys_deliver) simp

lemma obeys_take_all:
  "(\<And>s h. R s (logged (Rtos (XSemaphoreTake h)) s)) \<Longrightarrow> obeys R (take_all left E cfg sched)"
  by (induction left)
    (auto simp del: block_more intro!: obeys_intros obeys_take_semaphore)

lemma obeys_print_ip6s: "obeys R (print_ip6s left E bytes j)"
  by (induction left arbitrary: j) (auto intro!: obeys_intros R_event)

lemma obeys_print_own: "obeys R (print_own E cfg netif)"
  unfolding print_own_def by (intro obeys_intros obeys_print_ip6s R_event) simp_all

lemma obeys_print_netifs: "obeys R (print_netifs n E cfg i netif)"
  by (induction n arbitrary: i netif)
    (auto simp del: block_more intro!: obeys_intros obeys_is_our_netif obeys_print_own R_event)

end

section \<open>Refinement\<close>

text \<open>
  Once the semaphore exists, the handlers refine the abstract view of the network: whatever
  events arrive in whatever order, none of them faults, and link state, addresses and the number
  of gives are those of the abstract run.
\<close>

theorem deliver_refines_net:
  assumes "net_env E name ty" "s_semph_get_ip_addrs s \<noteq> 0"
  shows "\<exists>t. (deliver E cfg es s :: unit flow) = Next t \<and>
    net_of t = fold (net_event cfg name ty) es (net_of s)"
  using deliver_run [OF assms, where ?'r = unit] by blast

definition own_netif :: env where
  "own_netif = quiet\<lparr>str_reply := \<lambda>_ _. ''example_connect: sta'', int_reply := (\<lambda>s c. case c of
     Netif (Esp_netif_ip6_get_addr_type a) \<Rightarrow> 2 | Netif (Esp_netif_get_desc i) \<Rightarrow> 1
   | Rtos (XSemaphoreCreateCounting _ _) \<Rightarrow> 42
   | Libc (Malloc n) \<Rightarrow> next_block s | Netif (Esp_netif_create_wifi _ _) \<Rightarrow> 5
   | _ \<Rightarrow> 0)\<rparr>"

lemma own_netif_env: "net_env own_netif (\<lambda>_. ''example_connect: sta'') (\<lambda>_. 2)"
  by (simp add: net_env_def own_netif_def)

lemma build_sdk_parts: "CONNECT_WIFI build_sdk" "CONNECT_IPV6 build_sdk"
  by (simp_all add: build_sdk_def)

theorem deliver_refines_net_witness:
  "\<exists>t. (deliver own_netif build_sdk [STA_CONNECTED 5, GOT_IP 5 0x0100a8c0, STA_DISCONNECTED]
      (init_machine\<lparr>s_semph_get_ip_addrs := 42\<rparr>) :: unit flow) = Next t \<and>
    net_of t = \<lparr>link_up = False, ip4 = 0x0100a8c0, ip6 = [0, 0, 0, 0], accepted = 1\<rparr>"
  using deliver_refines_net [OF own_netif_env, of "init_machine\<lparr>s_semph_get_ip_addrs := 42\<rparr>"
      build_sdk "[STA_CONNECTED 5, GOT_IP 5 0x0100a8c0, STA_DISCONNECTED]"]
  by (simp add: build_sdk_parts net_of_def gives_def init_machine_def our_name_def)

end
