(* ===== verification/Base64url.thy ===== *)
theory Base64url
  imports Prelude
begin

text \<open>
  \<^verbatim>\<open>main/base64url.c\<close>: the encoder that the token generator uses and the decoder beside it,
  index by index as the C loops are written, against a reference encoder that works on groups
  of three bytes.
\<close>

section \<open>Tables\<close>

definition base64en :: string where
  "base64en =
     ''ABCDEFGH'' @ ''IJKLMNOP'' @ ''QRSTUVWX'' @ ''YZabcdef'' @
     ''ghijklmn'' @ ''opqrstuv'' @ ''wxyz0123'' @ ''456789-_''"

definition BASE64DE_FIRST :: nat where "BASE64DE_FIRST = 43"
definition BASE64DE_LAST :: nat where "BASE64DE_LAST = 122"

definition base64de :: "int list" where
  "base64de =
     [62, -1, -1, -1, 63, 52, 53, 54,
      55, 56, 57, 58, 59, 60, 61, -1,
      -1, -1, -1, -1, -1, -1, 0, 1,
      2, 3, 4, 5, 6, 7, 8, 9,
      10, 11, 12, 13, 14, 15, 16, 17,
      18, 19, 20, 21, 22, 23, 24, 25,
      -1, -1, -1, -1, -1, -1, 26, 27,
      28, 29, 30, 31, 32, 33, 34, 35,
      36, 37, 38, 39, 40, 41, 42, 43,
      44, 45, 46, 47, 48, 49, 50, 51]"

text \<open>The macros compute in the type of their operand, \<open>unsigned int\<close> for both functions.\<close>

definition BASE64_ENCODE_OUT_SIZE :: "u32 \<Rightarrow> u32" where
  "BASE64_ENCODE_OUT_SIZE s = (s + 2) div 3 * 4"

definition BASE64_DECODE_OUT_SIZE :: "u32 \<Rightarrow> u32" where
  "BASE64_DECODE_OUT_SIZE s = s div 4 * 3"

datatype base64_status = BASE64_OK | BASE64_INVALID

section \<open>The encoder\<close>

text \<open>
  \<open>out\<close> is the part of the output buffer written so far, so \<open>j\<close> is its length; \<open>cap\<close> is the
  size of the buffer the caller passes. (No array of the 32-bit target is so large that the
  \<open>unsigned int\<close> that counts them in the code could wrap.) Bytes are promoted to \<open>int\<close>, so the shifts and masks
  are those of natural numbers.
\<close>

definition en_char :: "nat \<Rightarrow> char checked" where
  "en_char k = read_at base64en k"

definition emit :: "nat \<Rightarrow> string \<Rightarrow> nat \<Rightarrow> string checked" where
  "emit cap out k = and_then (en_char k) (push_at cap out)"

definition enc_step :: "u8 list \<Rightarrow> nat \<Rightarrow> nat \<Rightarrow> string \<Rightarrow> string checked" where
  "enc_step inp cap i out =
     (if i mod 3 = 0 then
        and_then (read_at inp i) (\<lambda>x.
          emit cap out (drop_bit 2 (unat x) AND 0x3F))
      else if i mod 3 = 1 then
        and_then (read_at inp (i - 1)) (\<lambda>p. and_then (read_at inp i) (\<lambda>x.
          emit cap out (push_bit 4 (unat p AND 0x3) + (drop_bit 4 (unat x) AND 0xF))))
      else
        and_then (read_at inp (i - 1)) (\<lambda>p. and_then (read_at inp i) (\<lambda>x.
          and_then (emit cap out (push_bit 2 (unat p AND 0xF) + (drop_bit 6 (unat x) AND 0x3)))
            (\<lambda>out'. emit cap out' (unat x AND 0x3F)))))"

function enc_loop :: "u8 list \<Rightarrow> nat \<Rightarrow> nat \<Rightarrow> nat \<Rightarrow> string \<Rightarrow> string checked" where
  "enc_loop inp inlen cap i out =
     (if i < inlen
      then and_then (enc_step inp cap i out) (enc_loop inp inlen cap (Suc i))
      else Inr out)"
  by pat_completeness auto
termination
  by (relation "measure (\<lambda>(inp, inlen, cap, i, out). inlen - i)") auto

declare enc_loop.simps [simp del]

text \<open>
  After the loop \<open>i\<close> equals \<open>inlen\<close>; \<open>i -= 1\<close> is unsigned, so an empty input makes it the
  largest 32-bit number and the code reads far outside the input.
\<close>

definition enc_tail :: "u8 list \<Rightarrow> nat \<Rightarrow> nat \<Rightarrow> string \<Rightarrow> string checked" where
  "enc_tail inp cap i out =
     (if i mod 3 = 0 then
        and_then (read_at inp i) (\<lambda>x. emit cap out (push_bit 4 (unat x AND 0x3)))
      else if i mod 3 = 1 then
        and_then (read_at inp i) (\<lambda>x. emit cap out (push_bit 2 (unat x AND 0xF)))
      else Inr out)"

definition base64url_encode :: "u8 list \<Rightarrow> u32 \<Rightarrow> nat \<Rightarrow> (base64_status \<times> string) checked" where
  "base64url_encode inp inlen cap =
     and_then (enc_loop inp (unat inlen) cap 0 []) (\<lambda>out.
     and_then (enc_tail inp cap (unat (inlen - 1)) out) (\<lambda>out.
     and_then (push_at cap out (CHR 0x00)) (\<lambda>out. Inr (BASE64_OK, out))))"

section \<open>The reference encoder\<close>

text \<open>
  Three bytes are one 24-bit number, printed as its four base-64 digits; a last group of one or
  two bytes is completed with zero bits and only the digits it touches are printed.
\<close>

abbreviation sextet :: "nat \<Rightarrow> char" where
  "sextet k \<equiv> base64en ! k"

fun b64 :: "nat list \<Rightarrow> string" where
  "b64 (a # b # c # r) =
     (let v = a * 65536 + b * 256 + c in
      [sextet (v div 262144), sextet (v div 4096 mod 64), sextet (v div 64 mod 64),
       sextet (v mod 64)] @ b64 r)"
| "b64 [a, b] =
     (let v = a * 65536 + b * 256 in
      [sextet (v div 262144), sextet (v div 4096 mod 64), sextet (v div 64 mod 64)])"
| "b64 [a] =
     (let v = a * 65536 in [sextet (v div 262144), sextet (v div 4096 mod 64)])"
| "b64 [] = []"

definition enc_len :: "nat \<Rightarrow> nat" where
  "enc_len n = (4 * n + 2) div 3"

lemma enc_len_3: "enc_len (Suc (Suc (Suc n))) = enc_len n + 4"
  by (simp add: enc_len_def)

lemma enc_len_small [simp]: "enc_len 0 = 0" "enc_len (Suc 0) = 2" "enc_len (Suc (Suc 0)) = 3"
  by (simp_all add: enc_len_def)

lemma length_b64 [text_simps]: "length (b64 xs) = enc_len (length xs)"
  by (induction xs rule: b64.induct) (simp_all add: enc_len_3 Let_def)

lemma length_base64en [simp]: "length base64en = 64"
  by (simp add: base64en_def)

lemma emit_in [mem_simps]:
  "k < 64 \<Longrightarrow> length out < cap \<Longrightarrow> emit cap out k = Inr (out @ [sextet k])"
  by (simp add: emit_def en_char_def mem_simps)

lemma emit_out [mem_simps]:
  "k < 64 \<Longrightarrow> cap \<le> length out \<Longrightarrow> emit cap out k = Inl Write_Out_Of_Bounds"
  by (simp add: emit_def en_char_def mem_simps)

section \<open>The encoder prints what the reference encoder prints\<close>

lemma byte_bound [simp]: "unat (x :: u8) < 256"
  by (rule order_less_le_trans [OF unsigned_less]) simp

lemma drop_eq_nth:
  "drop i xs = y # ys \<Longrightarrow> i < length xs \<and> xs ! i = y \<and> drop (Suc i) xs = ys"
  by (metis Cons_nth_drop_Suc drop_all leI list.distinct(1) list.inject)

lemma low_digit: "(x * m + q) div m = x" "(x * m + q) mod m = q" if "q < m" for x m q :: nat
  using that by simp_all

lemma sextet_0: "(a * 65536 + r) div 262144 = a div 4" if "r < 65536" for a r :: nat
  using div_mult2_eq [of "a * 65536 + r" 65536 4] low_digit(1) [OF that, of a] by simp

lemma sextet_1: "(a * 65536 + b * 256 + r) div 4096 mod 64 = a mod 4 * 16 + b div 16"
  if "r < 256" "b < 256" for a b r :: nat
proof -
  have "(a * 65536 + b * 256 + r) div 4096 = ((a * 256 + b) * 256 + r) div 256 div 16"
    using div_mult2_eq [of "a * 65536 + b * 256 + r" 256 16] by (simp add: algebra_simps)
  also have "\<dots> = a * 16 + b div 16"
    using div_mult_self1 [of 16 b "a * 16"] by (simp only: low_digit(1) [OF that(1)])
  also have "\<dots> mod 64 = a mod 4 * 16 + b div 16"
    using that mod_mult2_eq [of "a * 16 + b div 16" 16 4] low_digit [of "b div 16" 16 a] by simp
  finally show ?thesis .
qed

lemma sextet_2: "(a * 65536 + b * 256 + c) div 64 mod 64 = b mod 16 * 4 + c div 64"
  if "c < 256" for a b c :: nat
proof -
  have "(a * 65536 + b * 256 + c) div 64 = (a * 256 + b) * 4 + c div 64"
    using div_mult_self1 [of 64 c "(a * 256 + b) * 4"] by simp
  also have "\<dots> mod 64 = (a * 256 + b) mod 16 * 4 + c div 64"
    using that mod_mult2_eq [of "(a * 256 + b) * 4 + c div 64" 4 16]
      low_digit [of "c div 64" 4 "a * 256 + b"] by simp
  also have "(a * 256 + b) mod 16 = b mod 16"
    using mod_mult_self1 [of b "a * 16" 16] by (simp add: algebra_simps)
  finally show ?thesis .
qed

lemma sextet_3: "(a * 65536 + b * 256 + c) mod 64 = c mod 64" for a b c :: nat
  using mod_mult_self1 [of c "a * 1024 + b * 4" 64] by (simp add: algebra_simps)
lemma b64_3:
  assumes "a < 256" "b < 256" "c < 256"
  shows "b64 (a # b # c # r) =
    [sextet (a div 4), sextet (a mod 4 * 16 + b div 16), sextet (b mod 16 * 4 + c div 64),
     sextet (c mod 64)] @ b64 r"
proof -
  have "b * 256 + c < 65536" using assms by simp
  then have "(a * 65536 + b * 256 + c) div 262144 = a div 4"
    using sextet_0 [of "b * 256 + c" a] assms by (simp add: add.assoc)
  with assms show ?thesis by (simp add: Let_def sextet_1 sextet_2 sextet_3)
qed

lemma b64_2:
  assumes "a < 256" "b < 256"
  shows "b64 [a, b] =
    [sextet (a div 4), sextet (a mod 4 * 16 + b div 16), sextet (b mod 16 * 4)]"
  using assms sextet_0 [of "b * 256" a] sextet_1 [of 0 b a] sextet_2 [of 0 a b]
  by (simp add: Let_def)

lemma b64_1:
  assumes "a < 256"
  shows "b64 [a] = [sextet (a div 4), sextet (a mod 4 * 16)]"
  using assms sextet_0 [of 0 a] sextet_1 [of 0 0 a] by (simp add: Let_def)

declare b64.simps [simp del]

lemmas b64_digits = b64_3 b64_2 b64_1 b64.simps(4)

lemma enc_loop_done: "enc_loop inp n cap n out = Inr out"
  by (subst enc_loop.simps) simp

lemma enc_loop_go:
  "i < n \<Longrightarrow> enc_loop inp n cap i out = and_then (enc_step inp cap i out) (enc_loop inp n cap (Suc i))"
  by (subst enc_loop.simps) simp

abbreviation enc_all :: "u8 list \<Rightarrow> nat \<Rightarrow> nat \<Rightarrow> string \<Rightarrow> string checked" where
  "enc_all inp cap i out \<equiv>
     and_then (enc_loop inp (length inp) cap i out) (enc_tail inp cap (length inp - 1))"

lemma mod3_next: "i mod 3 = 0 \<Longrightarrow> Suc i mod 3 = 1 \<and> Suc (Suc i) mod 3 = 2 \<and> Suc (Suc (Suc i)) mod 3 = 0"
  for i :: nat by presburger

lemma low_sum64 [simp]: "(a::nat) mod 4 * 16 + b div 16 < 64" if "b < 256"
proof -
  have "a mod 4 < 4" "b div 16 < 16" using that by auto
  then show ?thesis by linarith
qed
lemma low_sum64' [simp]: "(a::nat) mod 16 * 4 + b div 64 < 64" if "b < 256"
proof -
  have "a mod 16 < 16" "b div 64 < 4" using that by auto
  then show ?thesis by linarith
qed
lemma low64 [simp]: "(a::nat) mod 16 * 4 < 64" "(a::nat) mod 4 * 16 < 64"
proof -
  have "a mod 16 < 16" "a mod 4 < 4" by auto
  then show "a mod 16 * 4 < 64" "a mod 4 * 16 < 64" by linarith+
qed


lemma enc_step_0:
  assumes "i mod 3 = 0" "i < length inp" "length out < cap"
  shows "enc_step inp cap i out = Inr (out @ [sextet (unat (inp ! i) div 4)])"
  using assms by (simp add: enc_step_def mem_simps less_mult_imp_div_less)

lemma enc_step_1:
  assumes "i mod 3 = 1" "i < length inp" "length out < cap"
  shows "enc_step inp cap i out =
    Inr (out @ [sextet (unat (inp ! (i - 1)) mod 4 * 16 + unat (inp ! i) div 16)])"
  using assms low_sum64 [of "unat (inp ! i)" "unat (inp ! (i - 1))"]
  by (simp add: enc_step_def mem_simps less_mult_imp_div_less)

lemma enc_step_2:
  assumes "i mod 3 = 2" "i < length inp" "Suc (length out) < cap"
  shows "enc_step inp cap i out =
    Inr (out @ [sextet (unat (inp ! (i - 1)) mod 16 * 4 + unat (inp ! i) div 64),
                sextet (unat (inp ! i) mod 64)])"
  using assms low_sum64' [of "unat (inp ! i)" "unat (inp ! (i - 1))"]
  by (simp add: enc_step_def mem_simps less_mult_imp_div_less)

lemmas enc_step_ok = enc_step_0 enc_step_1 enc_step_2

lemma enc_loop_3:
  assumes "i mod 3 = 0" "drop i inp = x # y # z # ws" "length out + 4 \<le> cap"
  shows "enc_loop inp (length inp) cap i out =
    enc_loop inp (length inp) cap (i + 3) (out @
      [sextet (unat x div 4), sextet (unat x mod 4 * 16 + unat y div 16),
       sextet (unat y mod 16 * 4 + unat z div 64), sextet (unat z mod 64)])"
proof -
  have x: "i < length inp" "inp ! i = x" and d1: "drop (Suc i) inp = y # z # ws"
    using drop_eq_nth [OF assms(2)] by auto
  have y: "Suc i < length inp" "inp ! Suc i = y" and d2: "drop (Suc (Suc i)) inp = z # ws"
    using drop_eq_nth [OF d1] by auto
  have z: "Suc (Suc i) < length inp" "inp ! Suc (Suc i) = z"
    using drop_eq_nth [OF d2] by auto
  note m = mod3_next [OF assms(1)]
  let ?o1 = "out @ [sextet (unat x div 4)]"
  let ?o2 = "?o1 @ [sextet (unat x mod 4 * 16 + unat y div 16)]"
  have 1: "enc_step inp cap i out = Inr ?o1"
    using enc_step_0 [OF assms(1) x(1), of out cap] assms(3) x(2) by simp
  have 2: "enc_step inp cap (Suc i) ?o1 = Inr ?o2"
    using enc_step_1 [OF _ y(1), of ?o1 cap] m assms(3) x(2) y(2) by simp
  have 3: "enc_step inp cap (Suc (Suc i)) ?o2 =
      Inr (?o2 @ [sextet (unat y mod 16 * 4 + unat z div 64), sextet (unat z mod 64)])"
    using enc_step_2 [OF _ z(1), of ?o2 cap] m assms(3) y(2) z(2) by simp
  have "i + 3 = Suc (Suc (Suc i))" by simp
  then show ?thesis
    by (simp only: enc_loop_go [OF x(1)] enc_loop_go [OF y(1)] enc_loop_go [OF z(1)] 1 2 3
        and_then.simps) simp
qed

lemma enc_tail_full: "(length inp) mod 3 = 0 \<Longrightarrow> inp \<noteq> [] \<Longrightarrow> enc_tail inp cap (length inp - 1) out = Inr out"
proof -
  assume "length inp mod 3 = 0" "inp \<noteq> []"
  then have "(length inp - 1) mod 3 = 2" by (cases inp) (simp, simp, presburger)
  then show ?thesis by (simp add: enc_tail_def)
qed

lemma enc_all_1:
  assumes "i mod 3 = 0" "drop i inp = [x]" "length out + 2 \<le> cap"
  shows "enc_all inp cap i out =
    Inr (out @ [sextet (unat x div 4), sextet (unat x mod 4 * 16)])"
proof -
  have x: "i < length inp" "inp ! i = x" and d: "drop (Suc i) inp = []"
    using drop_eq_nth [OF assms(2)] by auto
  from d x(1) have n: "length inp = Suc i" by simp
  show ?thesis
    using assms(1,3) x n by (simp add: enc_loop_go enc_loop_done enc_step_ok enc_tail_def mem_simps)
qed

lemma enc_all_2:
  assumes "i mod 3 = 0" "drop i inp = [x, y]" "length out + 3 \<le> cap"
  shows "enc_all inp cap i out =
    Inr (out @ [sextet (unat x div 4), sextet (unat x mod 4 * 16 + unat y div 16),
      sextet (unat y mod 16 * 4)])"
proof -
  have x: "i < length inp" "inp ! i = x" and d: "drop (Suc i) inp = [y]"
    using drop_eq_nth [OF assms(2)] by auto
  have y: "Suc i < length inp" "inp ! Suc i = y" and d2: "drop (Suc (Suc i)) inp = []"
    using drop_eq_nth [OF d] by auto
  from d2 y(1) have n: "length inp = Suc (Suc i)" by simp
  show ?thesis
    using assms(1,3) mod3_next [OF assms(1)] x y n
    by (simp add: enc_loop_go enc_loop_done enc_step_ok enc_tail_def mem_simps)
qed

lemma enc_all_eq:
  assumes "i mod 3 = 0" "i \<le> length inp" "inp \<noteq> []"
    and "length out + enc_len (length inp - i) \<le> cap"
  shows "enc_all inp cap i out = Inr (out @ b64 (map unat (drop i inp)))"
  using assms
proof (induction "map unat (drop i inp)" arbitrary: i out rule: b64.induct)
  case (1 a b c r)
  then obtain x y z ws where d: "drop i inp = x # y # z # ws"
      and abc: "a = unat x" "b = unat y" "c = unat z" "r = map unat ws"
    by (auto simp: Cons_eq_map_conv)
  have "length (drop i inp) = length inp - i" by simp
  with d have len: "length inp - i = Suc (Suc (Suc (length inp - (i + 3))))"
    "i + 3 \<le> length inp" by simp_all
  have ws: "drop (i + 3) inp = ws"
    using d by (metis add.commute drop_drop drop_Suc_Cons drop0 numeral_3_eq_3)
  show ?case
    using 1 d abc len ws enc_loop_3 [OF "1.prems"(1) d]
    by (simp add: enc_len_3 b64_digits mod_add_self2)
next
  case (2 a b)
  then obtain x y where d: "drop i inp = [x, y]" by (auto simp: Cons_eq_map_conv)
  then have "length inp - i = 2" by (metis length_drop length_Cons list.size(3) numeral_2_eq_2)
  then show ?case
    using enc_all_2 [OF "2.prems"(1) d, of out cap] "2.prems"(4) d
    by (simp add: b64_digits numeral_2_eq_2)
next
  case (3 a)
  then obtain x where d: "drop i inp = [x]" by (auto simp: Cons_eq_map_conv)
  then have "length inp - i = 1" by (metis length_drop length_Cons list.size(3) One_nat_def)
  then show ?case
    using enc_all_1 [OF "3.prems"(1) d, of out cap] "3.prems"(4) d
    by (simp add: b64_digits)
next
  case 4
  then have "i = length inp" by simp
  with 4 enc_tail_full [of inp cap out] show ?case
    by (simp add: enc_loop_done b64_digits)
qed

section \<open>A buffer that is too small\<close>

definition fits_or_fault :: "nat \<Rightarrow> 'a list \<Rightarrow> 'a list checked" where
  "fits_or_fault cap out = (if length out \<le> cap then Inr out else Inl Write_Out_Of_Bounds)"

lemma push_at_cap:
  "push_at big out x = Inr o' \<Longrightarrow> cap \<le> big \<Longrightarrow>
    push_at cap out x = fits_or_fault cap o' \<and> length out \<le> length o'"
  by (auto simp: push_at_def fits_or_fault_def split: if_splits)

lemma emit_cap:
  "emit big out k = Inr o' \<Longrightarrow> cap \<le> big \<Longrightarrow>
    emit cap out k = fits_or_fault cap o' \<and> length out \<le> length o'"
  by (auto simp: emit_def dest: push_at_cap)

lemma emit_cap_over:
  "and_then (fits_or_fault cap out) (\<lambda>out. emit cap out k) = fits_or_fault cap o'"
  if "emit big out k = Inr o'" "cap \<le> big"
  using emit_cap [OF that] by (auto simp: fits_or_fault_def)

lemma enc_step_cap:
  assumes "enc_step inp big i out = Inr o'" "cap \<le> big"
  shows "enc_step inp cap i out = fits_or_fault cap o' \<and> length out \<le> length o'"
proof -
  consider "i mod 3 = 0" | "i mod 3 = 1" | "i mod 3 = 2" by linarith
  then show ?thesis
  proof cases
    case 3
    with assms(1) obtain p x o1 where px: "read_at inp (i - 1) = Inr p" "read_at inp i = Inr x"
      and o1: "emit big out (push_bit 2 (unat p AND 0xF) + (drop_bit 6 (unat x) AND 0x3)) = Inr o1"
      and o2: "emit big o1 (unat x AND 0x3F) = Inr o'"
      by (auto simp: enc_step_def)
    show ?thesis
      using 3 px emit_cap [OF o1 assms(2)] emit_cap [OF o2 assms(2)] emit_cap_over [OF o2 assms(2)]
      by (auto simp: enc_step_def)
  qed (use assms in \<open>auto simp: enc_step_def dest!: emit_cap\<close>)
qed

lemma enc_loop_grows: "enc_loop inp n big i out = Inr o' \<Longrightarrow> length out \<le> length o'"
proof (induction inp n big i out rule: enc_loop.induct)
  case (1 inp n big i out)
  show ?case
  proof (cases "i < n")
    case True
    with "1.prems" obtain o1 where "enc_step inp big i out = Inr o1"
      and "enc_loop inp n big (Suc i) o1 = Inr o'" by (auto simp: enc_loop_go)
    then show ?thesis
      using "1.IH" [OF True] enc_step_cap [of inp big i out o1 big] by fastforce
  next
    case False
    with "1.prems" show ?thesis by (simp add: enc_loop.simps [of inp n big i])
  qed
qed

lemma enc_loop_cap:
  assumes "enc_loop inp n big i out = Inr o'" "cap \<le> big" "length out \<le> cap"
  shows "enc_loop inp n cap i out = fits_or_fault cap o'"
  using assms
proof (induction inp n cap i out rule: enc_loop.induct)
  case (1 inp n cap i out)
  show ?case
  proof (cases "i < n")
    case True
    with "1.prems"(1) obtain o1 where o1: "enc_step inp big i out = Inr o1"
      and lp: "enc_loop inp n big (Suc i) o1 = Inr o'" by (auto simp: enc_loop_go)
    have st: "enc_step inp cap i out = fits_or_fault cap o1"
      using enc_step_cap [OF o1 "1.prems"(2)] by simp
    show ?thesis
      using "1.IH" [OF \<open>i < n\<close> lp "1.prems"(2)] st \<open>i < n\<close> enc_loop_grows [OF lp]
      by (cases "length o1 \<le> cap") (auto simp: enc_loop_go fits_or_fault_def)
  next
    case False
    with "1.prems" show ?thesis by (auto simp: fits_or_fault_def enc_loop.simps [of inp n _ i])
  qed
qed

lemma enc_tail_cap:
  assumes "enc_tail inp big i out = Inr o'" "cap \<le> big" "length out \<le> cap"
  shows "enc_tail inp cap i out = fits_or_fault cap o' \<and> length out \<le> length o'"
  using assms by (auto simp: enc_tail_def fits_or_fault_def split: if_splits dest!: emit_cap)

lemma base64url_encode_cap:
  assumes ok: "base64url_encode inp n big = Inr (st, o')" and le: "cap \<le> big"
  shows "base64url_encode inp n cap =
    (if length o' \<le> cap then Inr (st, o') else Inl Write_Out_Of_Bounds)"
proof -
  from ok obtain o1 o2 where o1: "enc_loop inp (unat n) big 0 [] = Inr o1"
    and o2: "enc_tail inp big (unat (n - 1)) o1 = Inr o2"
    and o3: "push_at big o2 (CHR 0x00) = Inr o'" and st: "st = BASE64_OK"
    by (auto simp: base64url_encode_def)
  have 1: "enc_loop inp (unat n) cap 0 [] = fits_or_fault cap o1"
    using enc_loop_cap [OF o1 le] by simp
  have 3: "push_at cap o2 (CHR 0x00) = fits_or_fault cap o'" "length o2 \<le> length o'"
    using push_at_cap [OF o3 le] by auto
  show ?thesis
  proof (cases "length o1 \<le> cap")
    case True
    then show ?thesis
      using 1 3 st enc_tail_cap [OF o2 le True]
      by (auto simp: base64url_encode_def fits_or_fault_def)
  next
    case False
    then have "length o1 \<le> length o2"
      using o2 by (auto simp: enc_tail_def split: if_splits dest!: emit_cap [where cap = 0])
    with 1 3 False show ?thesis
      by (auto simp: base64url_encode_def fits_or_fault_def)
  qed
qed

lemma base64url_encode_big:
  assumes "inp \<noteq> []" "length inp < two32" and cap: "enc_len (length inp) + 1 \<le> cap"
  shows "base64url_encode inp (of_nat (length inp)) cap =
    Inr (BASE64_OK, b64 (map unat inp) @ [CHR 0x00])"
proof -
  let ?n = "of_nat (length inp) :: u32"
  have n: "unat ?n = length inp"
    using assms(2) by (simp add: unat_of_nat_u32)
  have n1: "unat (?n - 1) = length inp - 1"
  proof -
    from assms(1) have "?n = of_nat (length inp - 1) + 1" by (cases inp) simp_all
    moreover have "unat (of_nat (length inp - 1) :: u32) = length inp - 1"
      using assms(2) by (simp add: unat_of_nat_u32)
    ultimately show ?thesis by simp
  qed
  have "enc_all inp cap 0 [] = Inr (b64 (map unat inp))"
    using enc_all_eq [of 0 inp "[]" cap] assms by simp
  then show ?thesis
    using cap by (auto simp: base64url_encode_def n n1 length_b64 mem_simps)
qed

lemma base64url_encode_small:
  assumes "inp \<noteq> []" "length inp < two32" and cap: "cap < enc_len (length inp) + 1"
  shows "base64url_encode inp (of_nat (length inp)) cap = Inl Write_Out_Of_Bounds"
  using base64url_encode_cap [OF base64url_encode_big [OF assms(1,2) order_refl], of cap] cap
  by (simp add: length_b64)

text \<open>
  C10: On every non-empty input the index-by-index encoder writes exactly the reference encoding
  followed by a NUL, if the output buffer has \<open>enc_len n + 1\<close> cells, and writes out of bounds if
  it has fewer; it never reads outside the input.
\<close>

theorem base64url_encode_correct:
  assumes "inp \<noteq> []" "length inp < two32"
  shows "base64url_encode inp (of_nat (length inp)) cap =
    (if enc_len (length inp) + 1 \<le> cap
     then Inr (BASE64_OK, b64 (map unat inp) @ [CHR 0x00])
     else Inl Write_Out_Of_Bounds)"
  using base64url_encode_big [OF assms] base64url_encode_small [OF assms] by simp

theorem base64url_encode_correct_witness:
  "base64url_encode [0x68, 0x69] 2 4 = Inr (BASE64_OK, ''aGk'' @ [CHR 0x00])"
  using base64url_encode_correct [of "[0x68, 0x69]" 4]
  by (simp add: b64_2 base64en_def)

section \<open>The decoder\<close>

text \<open>
  \<open>out\<close> is the whole output buffer with whatever it held before; \<open>j\<close> is the index of the cell
  being filled. Comparisons of \<open>in[i]\<close> with the table's range come out the same for signed and
  unsigned \<open>char\<close>: a byte from 128 up is below \<open>'+'\<close> or above \<open>'z'\<close>. The lookahead indices
  \<open>inlen - 3\<close> and \<open>inlen - 2\<close> are unsigned and wrap.
\<close>

definition de_value :: "char \<Rightarrow> int option" where
  "de_value ch =
     (let k = of_char ch :: nat in
      if k < BASE64DE_FIRST \<or> k > BASE64DE_LAST then None
      else let c = base64de ! (k - BASE64DE_FIRST) in if c = -1 then None else Some c)"

definition add_at :: "u8 list \<Rightarrow> nat \<Rightarrow> nat \<Rightarrow> u8 list checked" where
  "add_at out j v = and_then (read_at out j) (\<lambda>x. write_at out j (x + of_nat v))"

definition no_pad_at :: "string \<Rightarrow> u32 \<Rightarrow> bool checked" where
  "no_pad_at inp k = and_then (read_at inp (unat k)) (\<lambda>ch. Inr (ch \<noteq> CHR ''=''))"

definition dec_step :: "string \<Rightarrow> u32 \<Rightarrow> nat \<Rightarrow> nat \<Rightarrow> nat \<Rightarrow> u8 list \<Rightarrow> (nat \<times> u8 list) checked" where
  "dec_step inp inlen i c j out =
     (if i mod 4 = 0 then
        and_then (write_at out j (of_nat (push_bit 2 c AND 0xFF))) (\<lambda>out. Inr (j, out))
      else if i mod 4 = 1 then
        and_then (add_at out j (drop_bit 4 c AND 0x3)) (\<lambda>out.
        and_then (if i < unat (inlen - 3) then Inr True else no_pad_at inp (inlen - 2)) (\<lambda>more.
        and_then (if more then write_at out (Suc j) (of_nat (push_bit 4 (c AND 0xF))) else Inr out)
          (\<lambda>out. Inr (Suc j, out))))
      else if i mod 4 = 2 then
        and_then (add_at out j (drop_bit 2 c AND 0xF)) (\<lambda>out.
        and_then (if i < unat (inlen - 2) then Inr True else no_pad_at inp (inlen - 1)) (\<lambda>more.
        and_then (if more then write_at out (Suc j) (of_nat (push_bit 6 (c AND 0x3))) else Inr out)
          (\<lambda>out. Inr (Suc j, out))))
      else
        and_then (add_at out j c) (\<lambda>out. Inr (Suc j, out)))"

function dec_loop ::
  "string \<Rightarrow> u32 \<Rightarrow> nat \<Rightarrow> nat \<Rightarrow> u8 list \<Rightarrow> (base64_status \<times> u8 list) checked" where
  "dec_loop inp inlen i j out =
     (if i < unat inlen then
        and_then (read_at inp i) (\<lambda>ch.
          if ch = CHR ''='' then Inr (BASE64_OK, out)
          else case de_value ch of
            None \<Rightarrow> Inr (BASE64_INVALID, out)
          | Some c \<Rightarrow>
              and_then (dec_step inp inlen i (nat c) j out) (\<lambda>(j, out).
                dec_loop inp inlen (Suc i) j out))
      else Inr (BASE64_OK, out))"
  by pat_completeness auto
termination
  by (relation "measure (\<lambda>(inp, inlen, i, j, out). unat inlen - i)") auto

declare dec_loop.simps [simp del]

definition base64url_decode :: "string \<Rightarrow> u32 \<Rightarrow> u8 list \<Rightarrow> (base64_status \<times> u8 list) checked" where
  "base64url_decode inp inlen out = dec_loop inp inlen 0 0 out"

text \<open>Which status the decoder reports: it stops at the first padding character or the first
  character that is not in its table.\<close>

fun dec_status :: "string \<Rightarrow> base64_status" where
  "dec_status [] = BASE64_OK"
| "dec_status (ch # r) =
     (if ch = CHR ''='' then BASE64_OK
      else if de_value ch = None then BASE64_INVALID else dec_status r)"

lemma dec_loop_done: "unat n \<le> i \<Longrightarrow> dec_loop inp n i j out = Inr (BASE64_OK, out)"
  by (subst dec_loop.simps) simp

lemma dec_loop_pad:
  "i < unat n \<Longrightarrow> i < length inp \<Longrightarrow> inp ! i = CHR ''='' \<Longrightarrow>
    dec_loop inp n i j out = Inr (BASE64_OK, out)"
  by (subst dec_loop.simps) (simp add: mem_simps)

lemma dec_loop_bad:
  "i < unat n \<Longrightarrow> i < length inp \<Longrightarrow> inp ! i \<noteq> CHR ''='' \<Longrightarrow> de_value (inp ! i) = None \<Longrightarrow>
    dec_loop inp n i j out = Inr (BASE64_INVALID, out)"
  by (subst dec_loop.simps) (simp add: mem_simps)

lemma dec_loop_good:
  "i < unat n \<Longrightarrow> i < length inp \<Longrightarrow> inp ! i \<noteq> CHR ''='' \<Longrightarrow> de_value (inp ! i) = Some c \<Longrightarrow>
    dec_loop inp n i j out =
      and_then (dec_step inp n i (nat c) j out) (\<lambda>(j, out). dec_loop inp n (Suc i) j out)"
  by (subst dec_loop.simps) (simp add: mem_simps)

lemma unat_minus: "unat (n - k) = unat n - unat k" if "unat k \<le> unat n" for n k :: u32
  using that by (simp add: unat_sub word_le_nat_alt)

lemma no_pad_at_total:
  assumes "0 < unat k" "unat k \<le> unat n" "unat n = length inp"
  shows "\<exists>b. no_pad_at inp (n - k) = Inr b"
  using assms by (simp add: no_pad_at_def unat_minus mem_simps)

lemma div4_next:
  "i mod 4 = 0 \<Longrightarrow> 3 * Suc i div 4 = 3 * i div 4"
  "i mod 4 \<noteq> 0 \<Longrightarrow> 3 * Suc i div 4 = Suc (3 * i div 4)" for i :: nat
  by presburger+

lemmas div4_simps = div4_next div4_next [simplified]

lemma add_at_in:
  "j < length out \<Longrightarrow> add_at out j v = Inr (out[j := out ! j + of_nat v])"
  by (simp add: add_at_def mem_simps)

lemma dec_step_total:
  assumes n: "unat n = length inp" and i: "i < length inp"
    and out: "3 * length inp div 4 < length out"
  shows "\<exists>out'. dec_step inp n i c (3 * i div 4) out = Inr (3 * Suc i div 4, out') \<and>
    length out' = length out"
proof -
  have j: "3 * i div 4 < length out"
    using i out by (meson div_le_mono le_less_trans less_imp_le mult_le_mono2)
  have jS: "3 * Suc i div 4 < length out"
    using i out by (meson div_le_mono le_less_trans Suc_leI mult_le_mono2)
  consider "i mod 4 = 0" | "i mod 4 = 1" | "i mod 4 = 2" | "i mod 4 = 3" by linarith
  then show ?thesis
  proof cases
    case 1
    with j show ?thesis by (simp add: dec_step_def mem_simps div4_simps)
  next
    case 2
    then have i1: "1 \<le> i" by (cases i) auto
    with i n obtain b where b: "no_pad_at inp (n - 2) = Inr b"
      using no_pad_at_total [of 2 n inp] by auto
    have "3 * Suc i div 4 = Suc (3 * i div 4)" using 2 by (simp only: div4_next(2))
    then show ?thesis
      using 2 j jS b by (cases b) (simp_all add: dec_step_def mem_simps add_at_in del: mult_Suc_right)
  next
    case 3
    then have i1: "2 \<le> i" by (cases i; cases "i - 1") auto
    with i n obtain b where b: "no_pad_at inp (n - 1) = Inr b"
      using no_pad_at_total [of 1 n inp] by auto
    have "3 * Suc i div 4 = Suc (3 * i div 4)" using 3 by (simp only: div4_next(2))
    then show ?thesis
      using 3 j jS b by (cases b) (simp_all add: dec_step_def mem_simps add_at_in del: mult_Suc_right)
  next
    case 4
    with j show ?thesis by (simp add: dec_step_def mem_simps div4_simps add_at_in)
  qed
qed

lemma dec_loop_status:
  assumes n: "unat n = length inp" and "i \<le> length inp"
    and out: "3 * length inp div 4 < length out"
  shows "\<exists>out'. dec_loop inp n i (3 * i div 4) out = Inr (dec_status (drop i inp), out') \<and>
    length out' = length out"
  using assms(2,3)
proof (induction "drop i inp" arbitrary: i out)
  case Nil
  then show ?case by (simp add: dec_loop_done n)
next
  case (Cons ch r)
  then have i: "i < length inp" "inp ! i = ch" "drop (Suc i) inp = r"
    using drop_eq_nth [of i inp ch r] by auto
  have un: "i < unat n" using i n by simp
  consider "ch = CHR ''=''" | "ch \<noteq> CHR ''=''" "de_value ch = None"
    | c where "ch \<noteq> CHR ''=''" "de_value ch = Some c" by fastforce
  then show ?case
  proof cases
    case 1
    then show ?thesis using Cons.hyps(2) i un by (simp add: dec_loop_pad flip: Cons.hyps(2))
  next
    case 2
    then show ?thesis using Cons.hyps(2) i un by (simp add: dec_loop_bad flip: Cons.hyps(2))
  next
    case 3
    obtain o1 where o1: "dec_step inp n i (nat c) (3 * i div 4) out = Inr (3 * Suc i div 4, o1)"
      and l1: "length o1 = length out" using dec_step_total [OF n i(1) Cons.prems(2)] by blast
    have "\<exists>out'. dec_loop inp n (Suc i) (3 * Suc i div 4) o1 = Inr (dec_status r, out') \<and>
        length out' = length o1"
      using Cons.hyps(1) [of "Suc i" o1] i Cons.prems(2) l1 by simp
    then show ?thesis
      using 3 i un o1 l1 by (simp add: dec_loop_good flip: Cons.hyps(2))
  qed
qed

text \<open>
  C31: Given a buffer of more than three quarters of the text's length, the decoder never
  reads or writes outside its arrays, keeps the buffer's size and reports exactly the status of
  the first character that stops it: padding ends it with success, a character outside its table
  with an error.
\<close>

theorem base64url_decode_status:
  assumes "length inp < two32" "3 * length inp div 4 < length out"
  shows "\<exists>out'. base64url_decode inp (of_nat (length inp)) out = Inr (dec_status inp, out') \<and>
    length out' = length out"
  using dec_loop_status [of "of_nat (length inp)" inp 0 out] assms
  by (simp add: base64url_decode_def unat_of_nat_u32)

theorem base64url_decode_status_witness:
  "\<exists>out'. base64url_decode ''aG-k'' 4 [0, 0, 0, 0] = Inr (BASE64_INVALID, out') \<and>
    length out' = length [0, 0, 0, 0 :: u8]"
  using base64url_decode_status [of "''aG-k''" "[0, 0, 0, 0]"]
  by (simp add: de_value_def BASE64DE_FIRST_def BASE64DE_LAST_def base64de_def)

section \<open>Decoding what the encoder printed\<close>

lemma de_value_table:
  "map de_value base64en = map (Some \<circ> int) [0..<62] @ [None, None]"
  by (simp add: base64en_def de_value_def BASE64DE_FIRST_def BASE64DE_LAST_def base64de_def
      upt_conv_Cons)

lemma base64en_chars: "CHR ''='' \<notin> set base64en" "distinct base64en"
  "drop 62 base64en = ''-_''"
  by (simp_all add: base64en_def)

lemma de_value_sextet: "de_value (sextet k) = (if k < 62 then Some (int k) else None)"
  if "k < 64"
proof -
  have "de_value (sextet k) = (map de_value base64en) ! k" using that by simp
  then show ?thesis
    unfolding de_value_table using that by (auto simp: nth_append nth_Cons')
qed

lemma sextet_not_pad: "k < 64 \<Longrightarrow> sextet k \<noteq> CHR ''=''"
  by (metis base64en_chars(1) length_base64en nth_mem)

lemma url_table:
  "map (\<lambda>ch. ch = CHR ''-'' \<or> ch = CHR ''_'') base64en = replicate 62 False @ [True, True]"
  by (simp add: base64en_def eval_nat_numeral)

lemma sextet_url: "sextet k = CHR ''-'' \<or> sextet k = CHR ''_'' \<longleftrightarrow> 62 \<le> k" if "k < 64"
proof -
  have "(sextet k = CHR ''-'' \<or> sextet k = CHR ''_'') =
      map (\<lambda>ch. ch = CHR ''-'' \<or> ch = CHR ''_'') base64en ! k"
    using that by simp
  then show ?thesis
    unfolding url_table using that by (auto simp: nth_append nth_Cons')
qed

lemma low_sextets [simp]:
  "(a::nat) < 256 \<Longrightarrow> a div 4 < 64" "(a::nat) mod 64 < 64"
  by auto

lemma sextet_mem [simp, intro]: "k < 64 \<Longrightarrow> sextet k \<in> set base64en"
  by (simp add: nth_mem)

lemma b64_chars: "\<forall>x \<in> set xs. x < 256 \<Longrightarrow> set (b64 xs) \<subseteq> set base64en"
  by (induction xs rule: b64.induct) (simp_all add: b64_digits)

lemma dec_status_alphabet:
  "set t \<subseteq> set base64en \<Longrightarrow>
    dec_status t = (if CHR ''-'' \<in> set t \<or> CHR ''_'' \<in> set t then BASE64_INVALID else BASE64_OK)"
proof (induction t)
  case (Cons ch t)
  then obtain k where "k < 64" "ch = sextet k" by (auto simp: in_set_conv_nth)
  with Cons de_value_sextet [of k] sextet_not_pad [of k] sextet_url [of k] show ?case
    by (auto split: if_splits)
qed simp

lemma three_quarters: "0 < n \<Longrightarrow> 3 * n div 4 < n" for n :: nat
  by presburger

text \<open>
  The decoder accepts what the encoder prints exactly when the text holds neither
  \<open>'-'\<close> nor \<open>'_'\<close>: its table is that of standard base 64, where those two digits are \<open>'+'\<close>
  and \<open>'/'\<close>, so it rejects the very characters that make the encoding URL-safe.
\<close>

lemma base64url_decode_of_encode_status:
  fixes inp :: "u8 list"
  assumes "inp \<noteq> []" "length inp < 1073741824"
    and t: "t = b64 (map unat inp)" and out: "length t \<le> length out"
  shows "map_sum id fst (base64url_decode t (of_nat (length t)) out) =
    Inr (if CHR ''-'' \<in> set t \<or> CHR ''_'' \<in> set t then BASE64_INVALID else BASE64_OK)"
proof -
  have "\<forall>x \<in> set (map unat inp). x < 256" by auto
  then have al: "set t \<subseteq> set base64en" using b64_chars t by blast
  have len: "length t = enc_len (length inp)" using t by (simp add: length_b64)
  then have "length t < two32" "0 < length t" using assms(1,2)
    by (simp_all add: enc_len_def div_greater_zero_iff, cases inp, simp_all)
  then have "3 * length t div 4 < length out" using out three_quarters by fastforce
  from base64url_decode_status [OF \<open>length t < two32\<close> this] dec_status_alphabet [OF al]
  show ?thesis by auto
qed

text \<open>One character at each of the four positions of a group.\<close>

lemma no_pad_true:
  "0 < unat k \<Longrightarrow> unat k \<le> length t \<Longrightarrow> unat n = length t \<Longrightarrow> CHR ''='' \<notin> set t \<Longrightarrow>
    no_pad_at t (n - k) = Inr True"
  by (auto simp: no_pad_at_def unat_minus mem_simps in_set_conv_nth)

lemma dec_plain:
  assumes "unat n = length t" "i < length t" "t ! i = sextet c" "c < 62"
  shows "dec_loop t n i j out =
    and_then (dec_step t n i c j out) (\<lambda>(j, out). dec_loop t n (Suc i) j out)"
  using assms de_value_sextet [of c] sextet_not_pad [of c] by (simp add: dec_loop_good)

lemma dec_at_0:
  "i mod 4 = 0 \<Longrightarrow> c < 62 \<Longrightarrow>
    dec_step t n i c (length pre) (pre @ x # buf) = Inr (length pre, pre @ of_nat (c * 4) # buf)"
  by (simp add: dec_step_def mem_simps)

lemma dec_at_1:
  "i mod 4 = 1 \<Longrightarrow> c < 62 \<Longrightarrow> i < length t \<Longrightarrow> unat n = length t \<Longrightarrow> CHR ''='' \<notin> set t \<Longrightarrow>
    dec_step t n i c (length pre) (pre @ x # y # buf) =
      Inr (Suc (length pre), pre @ (x + of_nat (c div 16)) # of_nat (c mod 16 * 16) # buf)"
  using no_pad_true [of 2 t n]
  by (cases "i < unat (n - 3)")
    (auto simp: dec_step_def mem_simps add_at_in nth_append list_update_append)

lemma dec_at_2:
  "i mod 4 = 2 \<Longrightarrow> c < 62 \<Longrightarrow> i < length t \<Longrightarrow> unat n = length t \<Longrightarrow> CHR ''='' \<notin> set t \<Longrightarrow>
    dec_step t n i c (length pre) (pre @ x # y # buf) =
      Inr (Suc (length pre), pre @ (x + of_nat (c div 4)) # of_nat (c mod 4 * 64) # buf)"
  using no_pad_true [of 1 t n]
  by (cases "i < unat (n - 2)")
    (auto simp: dec_step_def mem_simps add_at_in nth_append list_update_append)

lemma dec_at_3:
  "i mod 4 = 3 \<Longrightarrow> dec_step t n i c (length pre) (pre @ x # buf) =
      Inr (Suc (length pre), pre @ (x + of_nat c) # buf)"
  by (simp add: dec_step_def mem_simps add_at_in nth_append list_update_append)

lemma dec_group:
  assumes n: "unat n = length t" and np: "CHR ''='' \<notin> set t" and i: "i mod 4 = 0"
    and d: "drop i t = sextet c0 # sextet c1 # r" and c: "c0 < 62" "c1 < 62"
  shows dec_group_2: "dec_loop t n i (length pre) (pre @ x # y # buf) =
      dec_loop t n (i + 2) (Suc (length pre))
        (pre @ (of_nat (c0 * 4 + c1 div 16)) # of_nat (c1 mod 16 * 16) # buf)"
proof -
  have i0: "i < length t" "t ! i = sextet c0" and d1: "drop (Suc i) t = sextet c1 # r"
    using drop_eq_nth [OF d] by auto
  have i1: "Suc i < length t" "t ! Suc i = sextet c1" and d2: "drop (Suc (Suc i)) t = r"
    using drop_eq_nth [OF d1] by auto
  have m: "Suc i mod 4 = 1" using i by presburger
  show ?thesis
    by (simp only: dec_plain [OF n i0 c(1)] dec_at_0 [OF i c(1)] and_then.simps prod.case
        dec_plain [OF n i1 c(2)] dec_at_1 [OF m c(2) i1(1) n np]) simp
qed

lemma dec_group_1:
  assumes n: "unat n = length t" and np: "CHR ''='' \<notin> set t" and i: "i mod 4 = 2"
    and d: "drop i t = sextet c # r" and c: "c < 62"
  shows "dec_loop t n i (length pre) (pre @ x # y # buf) =
      dec_loop t n (Suc i) (Suc (length pre))
        (pre @ (x + of_nat (c div 4)) # of_nat (c mod 4 * 64) # buf)"
proof -
  have i0: "i < length t" "t ! i = sextet c" using drop_eq_nth [OF d] by auto
  show ?thesis
    by (simp only: dec_plain [OF n i0 c(1)] dec_at_2 [OF i c i0(1) n np] and_then.simps prod.case)
qed

lemma dec_group_0:
  assumes n: "unat n = length t" and i: "i mod 4 = 3"
    and d: "drop i t = sextet c # r" and c: "c < 62"
  shows "dec_loop t n i (length pre) (pre @ x # buf) =
      dec_loop t n (Suc i) (Suc (length pre)) (pre @ (x + of_nat c) # buf)"
proof -
  have i0: "i < length t" "t ! i = sextet c" using drop_eq_nth [OF d] by auto
  show ?thesis
    by (simp only: dec_plain [OF n i0 c(1)] dec_at_3 [OF i] and_then.simps prod.case)
qed

lemma byte_parts:
  "b < 256 \<Longrightarrow> (a div 4) * 4 + (a mod 4 * 16 + b div 16) div 16 = a"
  "b < 256 \<Longrightarrow> (a mod 4 * 16 + b div 16) mod 16 * 16 = b div 16 * 16"
  "c < 256 \<Longrightarrow> b div 16 * 16 + (b mod 16 * 4 + c div 64) div 4 = b"
  "c < 256 \<Longrightarrow> (b mod 16 * 4 + c div 64) mod 4 * 64 = c div 64 * 64"
  "c div 64 * 64 + c mod 64 = c" for a b c :: nat
  using low_digit [of "b div 16" 16 "a mod 4"] low_digit [of "c div 64" 4 "b mod 16"]
  by (auto simp: less_mult_imp_div_less)

lemma word_byte_parts:
  "b < 256 \<Longrightarrow> (of_nat (a div 4 * 4 + (a mod 4 * 16 + b div 16) div 16) :: u8) = of_nat a"
  "b < 256 \<Longrightarrow> (of_nat (a div 4 * 4 + a mod 4 * 16 div 16) :: u8) = of_nat a"
  "c < 256 \<Longrightarrow> (of_nat (b div 16 * 16) + of_nat ((b mod 16 * 4 + c div 64) div 4) :: u8) = of_nat b"
  "(of_nat (b div 16 * 16) + of_nat (b mod 16 * 4 div 4) :: u8) = of_nat b"
  "(of_nat (b div 16 * 16) + of_nat (b mod 16) :: u8) = of_nat b"
  "(of_nat (c div 64 * 64) + of_nat (c mod 64) :: u8) = of_nat c" for a b c :: nat
  using byte_parts(1) [of b a] byte_parts(1) [of 0 a] byte_parts(3) [of c b]
    byte_parts(3) [of 0 b] byte_parts(5) [of c] div_mult_mod_eq [of b 16]
  by (simp_all only: flip: of_nat_add, simp_all)

definition dec_pad :: "nat \<Rightarrow> u8 list \<Rightarrow> u8 list" where
  "dec_pad k buf = (if k mod 3 = 0 then buf else 0 # tl buf)"

lemma dec_pad_3 [simp]: "dec_pad (Suc (Suc (Suc k))) buf = dec_pad k buf"
  using mod_add_self2 [of k 3] by (simp add: dec_pad_def)

lemma sextet_plain: "k < 64 \<Longrightarrow> sextet k \<noteq> CHR ''-'' \<Longrightarrow> sextet k \<noteq> CHR ''_'' \<Longrightarrow> k < 62"
  using sextet_url [of k] by (meson leI)

lemma sextet_plain_in:
  "sextet k \<in> set t \<Longrightarrow> k < 64 \<Longrightarrow> CHR ''-'' \<notin> set t \<Longrightarrow> CHR ''_'' \<notin> set t \<Longrightarrow> k < 62"
  by (metis sextet_plain)

lemma dec_loop_b64:
  assumes "unat n = length t" "CHR ''='' \<notin> set t"
    and "CHR ''-'' \<notin> set t" "CHR ''_'' \<notin> set t"
    and "drop i t = b64 xs" "i mod 4 = 0" "\<forall>x \<in> set xs. x < 256"
    and "length xs + of_bool (length xs mod 3 \<noteq> 0) \<le> length buf"
  shows "dec_loop t n i (length pre) (pre @ buf) =
    Inr (BASE64_OK, pre @ map of_nat xs @ dec_pad (length xs) (drop (length xs) buf))"
  using assms(5-)
proof (induction xs arbitrary: i pre buf rule: b64.induct)
  case (1 a b c r)
  then have lt: "a < 256" "b < 256" "c < 256" by auto
  obtain x y z buf' where buf: "buf = x # y # z # buf'"
    using "1.prems"(4) by (auto simp: Suc_le_length_iff)
  note d = "1.prems"(1) [unfolded b64_3 [OF lt] append.simps]
  have d2: "drop (i + 2) t = sextet (b mod 16 * 4 + c div 64) # sextet (c mod 64) # b64 r"
    using arg_cong [OF d, of "drop 2"] by (simp add: add.commute)
  have d3: "drop (Suc (i + 2)) t = sextet (c mod 64) # b64 r"
    using drop_eq_nth [OF d2] by simp
  have i4: "i + 4 = Suc (Suc (i + 2))" by simp
  have d4: "drop (i + 4) t = b64 r"
    using drop_eq_nth [OF d3] by (simp add: i4)
  have c: "a div 4 < 62" "a mod 4 * 16 + b div 16 < 62" "b mod 16 * 4 + c div 64 < 62" "c mod 64 < 62"
    using set_drop_subset [of i t, unfolded d] lt
    by (simp_all add: sextet_plain_in [OF _ _ assms(3,4)])
  have m: "(i + 2) mod 4 = 2" "Suc (i + 2) mod 4 = 3" "(i + 4) mod 4 = 0"
    using "1.prems"(2) by presburger+
  let ?A = "of_nat a :: u8" and ?B = "of_nat b :: u8" and ?C = "of_nat c :: u8"
  have "dec_loop t n i (length pre) (pre @ buf) =
      dec_loop t n (i + 2) (length (pre @ [?A])) ((pre @ [?A]) @ of_nat (b div 16 * 16) # z # buf')"
    unfolding buf dec_group_2 [OF assms(1,2) "1.prems"(2) d c(1,2)]
    using lt by (simp add: word_byte_parts byte_parts del: of_nat_add of_nat_mult)
  also have "\<dots> = dec_loop t n (Suc (i + 2)) (length (pre @ [?A, ?B]))
      ((pre @ [?A, ?B]) @ of_nat (c div 64 * 64) # buf')"
    unfolding dec_group_1 [OF assms(1,2) m(1) d2 c(3)]
    using lt by (simp add: word_byte_parts byte_parts del: of_nat_add of_nat_mult)
  also have "\<dots> = dec_loop t n (i + 4) (length (pre @ [?A, ?B, ?C])) ((pre @ [?A, ?B, ?C]) @ buf')"
    unfolding dec_group_0 [OF assms(1) m(2) d3 c(4)]
    by (simp add: word_byte_parts i4 del: of_nat_add of_nat_mult)
  also have "\<dots> = Inr (BASE64_OK,
      (pre @ [?A, ?B, ?C]) @ map of_nat r @ dec_pad (length r) (drop (length r) buf'))"
    by (rule "1.IH" [OF refl d4 m(3)]) (use "1.prems" buf in auto)
  finally show ?case by (simp add: buf)
next
  case (2 a b)
  then have lt: "a < 256" "b < 256" by auto
  obtain x y z buf' where buf: "buf = x # y # z # buf'"
    using "2.prems"(4) by (auto simp: Suc_le_length_iff)
  note d = "2.prems"(1) [unfolded b64_2 [OF lt]]
  have d2: "drop (i + 2) t = [sextet (b mod 16 * 4)]"
    using arg_cong [OF d, of "drop 2"] by (simp add: add.commute)
  have d3: "drop (Suc (i + 2)) t = []"
    using drop_eq_nth [OF d2] by simp
  have c: "a div 4 < 62" "a mod 4 * 16 + b div 16 < 62" "b mod 16 * 4 < 62"
    using set_drop_subset [of i t, unfolded d] lt
    by (simp_all add: sextet_plain_in [OF _ _ assms(3,4)])
  have m: "(i + 2) mod 4 = 2" using "2.prems"(2) by presburger
  let ?A = "of_nat a :: u8" and ?B = "of_nat b :: u8"
  have "dec_loop t n i (length pre) (pre @ buf) =
      dec_loop t n (i + 2) (length (pre @ [?A])) ((pre @ [?A]) @ of_nat (b div 16 * 16) # z # buf')"
    unfolding buf dec_group_2 [OF assms(1,2) "2.prems"(2) d c(1,2)]
    using lt by (simp add: word_byte_parts byte_parts del: of_nat_add of_nat_mult)
  also have "\<dots> = dec_loop t n (Suc (i + 2)) (length (pre @ [?A, ?B])) ((pre @ [?A, ?B]) @ 0 # buf')"
    unfolding dec_group_1 [OF assms(1,2) m d2 c(3)]
    by (simp add: word_byte_parts del: of_nat_add of_nat_mult)
  also have "\<dots> = Inr (BASE64_OK, (pre @ [?A, ?B]) @ 0 # buf')"
    using d3 assms(1) by (simp add: dec_loop_done)
  finally show ?case by (simp add: buf dec_pad_def)
next
  case (3 a)
  then have lt: "a < 256" by auto
  obtain x y buf' where buf: "buf = x # y # buf'"
    using "3.prems"(4) by (auto simp: Suc_le_length_iff)
  note d = "3.prems"(1) [unfolded b64_1 [OF lt]]
  have d2: "drop (i + 2) t = []"
    using arg_cong [OF d, of "drop 2"] by (simp add: add.commute)
  have c: "a div 4 < 62" "a mod 4 * 16 < 62"
    using set_drop_subset [of i t, unfolded d] lt
    by (simp_all add: sextet_plain_in [OF _ _ assms(3,4)])
  have "dec_loop t n i (length pre) (pre @ buf) =
      dec_loop t n (i + 2) (Suc (length pre)) (pre @ of_nat a # 0 # buf')"
    unfolding buf dec_group_2 [OF assms(1,2) "3.prems"(2) d c]
    using word_byte_parts(2) [of 0 a] by (simp del: of_nat_add of_nat_mult)
  also have "\<dots> = Inr (BASE64_OK, pre @ of_nat a # 0 # buf')"
    using d2 assms(1) by (simp add: dec_loop_done)
  finally show ?case by (simp add: buf dec_pad_def)
next
  case 4
  then have "length t \<le> i" by (simp add: b64_digits)
  with assms(1) show ?case by (simp add: dec_loop_done dec_pad_def)
qed

text \<open>
  When the encoded text avoids those two characters, decoding it gives back the bytes
  that were encoded; where the last group is short, one zero byte is written behind them.
\<close>

lemma base64url_decode_of_encode:
  fixes inp :: "u8 list"
  assumes "length inp < 1073741824" and t: "t = b64 (map unat inp)"
    and "CHR ''-'' \<notin> set t" "CHR ''_'' \<notin> set t"
    and "length inp + of_bool (length inp mod 3 \<noteq> 0) \<le> length out"
  shows "base64url_decode t (of_nat (length t)) out =
    Inr (BASE64_OK, inp @ dec_pad (length inp) (drop (length inp) out))"
proof -
  have bytes: "\<forall>x \<in> set (map unat inp). x < 256" by auto
  then have pad: "CHR ''='' \<notin> set t" using b64_chars t base64en_chars(1) by blast
  have "length t = enc_len (length inp)" using t by (simp add: length_b64)
  then have "length t < two32" using assms(1) by (simp add: enc_len_def)
  then have n: "unat (of_nat (length t) :: u32) = length t" by (rule unat_of_nat_u32)
  have "dec_loop t (of_nat (length t)) 0 (length ([] :: u8 list)) ([] @ out) =
      Inr (BASE64_OK, [] @ map of_nat (map unat inp) @
        dec_pad (length (map unat inp)) (drop (length (map unat inp)) out))"
    by (rule dec_loop_b64 [OF n pad assms(3,4) _ _ bytes]) (use t assms(5) in auto)
  then show ?thesis by (simp add: base64url_decode_def comp_def)
qed

text \<open>The two sizing macros of the header, against what the two routines write.\<close>

lemma mod_3_groups: "3 * k mod 3 = 0" "Suc (3 * k) mod 3 = 1" "Suc (Suc (3 * k)) mod 3 = 2" for k :: nat
  by presburger+

lemma groups_3_cases:
  obtains k where "n = 3 * k" | k where "n = Suc (3 * k)" | k where "n = Suc (Suc (3 * k))"
proof -
  have "n = 3 * (n div 3) \<or> n = Suc (3 * (n div 3)) \<or> n = Suc (Suc (3 * (n div 3)))" by presburger
  then show ?thesis using that by blast
qed

lemma enc_len_groups:
  "enc_len (3 * k) = 4 * k" "enc_len (Suc (3 * k)) = 4 * k + 2"
  "enc_len (Suc (Suc (3 * k))) = 4 * k + 3"
  unfolding enc_len_def by presburger+

lemma enc_len_room: "n + of_bool (n mod 3 \<noteq> 0) \<le> enc_len n"
  by (cases n rule: groups_3_cases) (simp_all add: enc_len_groups mod_3_groups)

text \<open>
  C23: Round trip: decoding what the encoder prints gives back the bytes, with one zero byte behind
  them where the last group is short, exactly when the text holds neither \<open>'-'\<close> nor \<open>'_'\<close>. The
  decoder's table is that of standard base 64, where those two digits are \<open>'+'\<close> and \<open>'/'\<close>, so it
  rejects the very characters that make the encoding URL-safe.
\<close>

theorem base64url_roundtrip:
  fixes inp :: "u8 list"
  assumes inp: "inp \<noteq> []" "length inp < 1073741824"
    and t: "t = b64 (map unat inp)" and out: "length t \<le> length out"
  shows "if CHR ''-'' \<in> set t \<or> CHR ''_'' \<in> set t
    then map_sum id fst (base64url_decode t (of_nat (length t)) out) = Inr BASE64_INVALID
    else base64url_decode t (of_nat (length t)) out =
      Inr (BASE64_OK, inp @ dec_pad (length inp) (drop (length inp) out))"
proof -
  have "length t = enc_len (length inp)" using t by (simp add: length_b64)
  with out enc_len_room [of "length inp"] have "length inp + of_bool (length inp mod 3 \<noteq> 0) \<le> length out"
    by simp
  with base64url_decode_of_encode_status [OF inp t out] base64url_decode_of_encode [OF inp(2) t]
  show ?thesis by simp
qed

theorem base64url_roundtrip_witness:
  "base64url_decode ''aGk'' 3 [9, 9, 9, 9] = Inr (BASE64_OK, [0x68, 0x69, 0, 9]) \<and>
   map_sum id fst (base64url_decode ''-w'' 2 [0, 0]) = Inr BASE64_INVALID"
  using base64url_roundtrip [of "[0x68, 0x69]" "''aGk''" "[9, 9, 9, 9]"]
    base64url_roundtrip [of "[0xFB]" "''-w''" "[0, 0]"]
  by (simp add: b64_1 b64_2 base64en_def dec_pad_def)

lemma unat_out_size:
  assumes "n < two32"
  shows "unat (BASE64_ENCODE_OUT_SIZE (of_nat n)) = (n + 2) mod two32 div 3 * 4 mod two32"
proof -
  have "unat (of_nat n + 2 :: u32) = (n + 2) mod two32"
    using assms by (simp add: unat_word_ariths unat_of_nat_u32)
  moreover have "unat ((w + 2) div 3 * 4 :: u32) = unat (w + 2) div 3 * 4 mod two32" for w
    by (simp add: unat_word_ariths unat_div_distrib)
  ultimately show ?thesis by (simp add: BASE64_ENCODE_OUT_SIZE_def)
qed

lemma out_size_small:
  assumes "n < 3221225470"
  shows "unat (BASE64_ENCODE_OUT_SIZE (of_nat n)) = (n + 2) div 3 * 4"
proof -
  have "(n + 2) div 3 < 1073741824" using assms by (simp add: div_less_iff_less_mult)
  then show ?thesis using assms by (simp add: unat_out_size)
qed

lemma out_size_wraps:
  assumes "3221225470 \<le> n" "n < two32"
  shows "unat (BASE64_ENCODE_OUT_SIZE (of_nat n)) \<le> enc_len n"
proof -
  have "(n + 2) mod two32 div 3 * 4 mod two32 \<le> 2000000000"
  proof (cases "n + 2 < two32")
    case True
    then have "1073741824 \<le> (n + 2) div 3" "(n + 2) div 3 < 1431655766"
      using assms by (auto simp: div_less_iff_less_mult less_eq_div_iff_mult_less_eq)
    then have "(n + 2) div 3 * 4 mod two32 = (n + 2) div 3 * 4 - two32"
      by (simp add: mod_if [of _ two32])
    also have "\<dots> \<le> 2000000000" using \<open>(n + 2) div 3 < 1431655766\<close> by simp
    finally show ?thesis using True by simp
  next
    case False
    with assms have "n + 2 = two32 \<or> n + 2 = two32 + 1" by auto
    then show ?thesis by auto
  qed
  also have "\<dots> \<le> enc_len n" using assms(1) by (simp add: enc_len_def less_eq_div_iff_mult_less_eq)
  finally show ?thesis by (simp add: unat_out_size [OF assms(2)])
qed

lemma out_size_short: "(n + 2) div 3 * 4 = enc_len n + (if n mod 3 = 0 then 0 else 3 - n mod 3)"
  by (cases n rule: groups_3_cases) (simp_all add: enc_len_groups mod_3_groups)

text \<open>
  C37: A buffer of the size the header's macro computes is overrun exactly when the input is a
  whole number of groups, or so long that the macro wraps around. A whole number of groups is one
  cell too many: the macro leaves no room for the NUL the encoder adds, and one more cell is enough.
\<close>

theorem encode_out_size_misses_nul:
  assumes "inp \<noteq> []" "length inp < two32"
  shows "let n = length inp; room = unat (BASE64_ENCODE_OUT_SIZE (of_nat n)) in
    (base64url_encode inp (of_nat n) room = Inl Write_Out_Of_Bounds \<longleftrightarrow>
      n mod 3 = 0 \<or> 3221225470 \<le> n) \<and>
    (n < 3221225470 \<longrightarrow> base64url_encode inp (of_nat n) (room + 1) =
      Inr (BASE64_OK, b64 (map unat inp) @ [CHR 0x00]))"
proof -
  let ?n = "length inp" and ?room = "unat (BASE64_ENCODE_OUT_SIZE (of_nat (length inp)))"
  note big = base64url_encode_big [OF assms] and small = base64url_encode_small [OF assms]
  show ?thesis
  proof (cases "?n < 3221225470")
    case True
    then have "?room = enc_len ?n + (if ?n mod 3 = 0 then 0 else 3 - ?n mod 3)"
      unfolding out_size_short [symmetric] by (rule out_size_small)
    moreover have "?n mod 3 < 3" by simp
    ultimately have "enc_len ?n + 1 \<le> ?room + 1" "enc_len ?n + 1 \<le> ?room \<longleftrightarrow> ?n mod 3 \<noteq> 0"
      by (auto split: if_splits)
    with True show ?thesis using big [of ?room] big [of "?room + 1"] small [of ?room] by (auto simp: Let_def)
  next
    case False
    then have "?room \<le> enc_len ?n" using assms(2) by (intro out_size_wraps) simp_all
    with False small [of ?room] show ?thesis by (simp add: Let_def)
  qed
qed

theorem encode_out_size_misses_nul_witness:
  "base64url_encode [1, 2, 3] 3 (unat (BASE64_ENCODE_OUT_SIZE 3)) = Inl Write_Out_Of_Bounds \<and>
   base64url_encode [1, 2, 3] 3 5 = Inr (BASE64_OK, ''AQID'' @ [CHR 0x00])"
proof -
  have "unat (BASE64_ENCODE_OUT_SIZE 3) = 4" by (simp add: BASE64_ENCODE_OUT_SIZE_def)
  moreover have "b64 (map unat [1, 2, 3 :: u8]) = ''AQID''"
    by (simp add: b64_3 b64.simps(4) base64en_def)
  ultimately show ?thesis
    using encode_out_size_misses_nul [of "[1, 2, 3]"] by (simp add: small_lengths)
qed

text \<open>
  Encoding an empty input reads outside it: the index is decremented from zero to the
  largest unsigned number, whose remainder by three is zero, so the code asks for that byte.
\<close>

theorem base64url_encode_empty:
  "base64url_encode [] 0 cap = Inl Read_Out_Of_Bounds"
  by (simp add: base64url_encode_def enc_loop_done [of _ 0, simplified] enc_tail_def mem_simps
      unsigned_minus_1_eq_mask mask_eq_exp_minus_1)

end
