(* ===== verification/Ctext.thy ===== *)
theory Ctext
  imports Prelude
begin

text \<open>
  The text formatting of the C library that the firmware uses: \<open>%d\<close> and \<open>%ld\<close> of a 32-bit
  integer, \<open>%02d\<close>, \<open>%02x\<close> of a byte, \<open>%s\<close>, and \<open>atoi\<close>. Each printer comes with a
  reader, and the pair satisfies the \<open>print_parse\<close> interface.
\<close>

section \<open>Decimal numbers\<close>

definition digit :: "nat \<Rightarrow> char" where
  "digit d = char_of (48 + d)"

definition digit_val :: "char \<Rightarrow> nat" where
  "digit_val c = of_char c - 48"

definition is_digit :: "char \<Rightarrow> bool" where
  "is_digit c \<longleftrightarrow> 48 \<le> (of_char c :: nat) \<and> (of_char c :: nat) \<le> 57"

fun dec :: "nat \<Rightarrow> string" where
  "dec n = (if n < 10 then [digit n] else dec (n div 10) @ [digit (n mod 10)])"

declare dec.simps [simp del]

definition fmt_d :: "int \<Rightarrow> string" where
  "fmt_d i = (if i < 0 then CHR ''-'' # dec (nat (- i)) else dec (nat i))"

definition fmt_02d :: "nat \<Rightarrow> string" where
  "fmt_02d n = (if n < 10 then CHR ''0'' # dec n else dec n)"

lemma of_char_digit: "d < 10 \<Longrightarrow> (of_char (digit d) :: nat) = 48 + d"
  by (simp add: digit_def)

lemma digit_val_digit [simp]: "d < 10 \<Longrightarrow> digit_val (digit d) = d"
  by (simp add: digit_val_def of_char_digit)

lemma is_digit_digit [simp]: "d < 10 \<Longrightarrow> is_digit (digit d)"
  by (simp add: is_digit_def of_char_digit)

lemma dec_digits: "c \<in> set (dec n) \<Longrightarrow> is_digit c"
  by (induction n rule: dec.induct) (subst (asm) (2) dec.simps, auto split: if_splits)

lemma dec_nonempty [simp]: "dec n \<noteq> []"
  by (subst dec.simps) simp

lemma length_dec_le: "n < 10 ^ k \<Longrightarrow> 0 < k \<Longrightarrow> length (dec n) \<le> k"
proof (induction n arbitrary: k rule: dec.induct)
  case (1 n)
  show ?case
  proof (cases "n < 10")
    case True
    with 1 show ?thesis by (subst dec.simps) simp
  next
    case False
    then obtain j where k: "k = Suc j" "0 < j"
      using "1.prems" by (cases k; cases "k - 1") auto
    with "1.prems" have "n div 10 < 10 ^ j" by (simp add: less_mult_imp_div_less mult.commute)
    with "1.IH" [OF False this k(2)] False k show ?thesis by (subst dec.simps) simp
  qed
qed

lemma length_fmt_d:
  assumes "fits_long i"
  shows "length (fmt_d i) \<le> 11"
proof -
  have "length (dec (nat \<bar>i\<bar>)) \<le> 10"
    by (rule length_dec_le) (use assms in \<open>auto simp: fits_long_def\<close>)
  then show ?thesis by (auto simp: fmt_d_def abs_if split: if_splits)
qed

lemma length_fmt_d_u16:
  assumes "0 \<le> i" "i < 65536"
  shows "length (fmt_d i) \<le> 5"
proof -
  have "length (dec (nat i)) \<le> 5"
    by (rule length_dec_le) (use assms in auto)
  with assms show ?thesis by (simp add: fmt_d_def)
qed

subsection \<open>Reading them back\<close>

definition dec_value :: "string \<Rightarrow> nat" where
  "dec_value cs = foldl (\<lambda>n c. n * 10 + digit_val c) 0 cs"

definition read_dec :: "string \<Rightarrow> (nat \<times> string) option" where
  "read_dec cs =
     (let ds = takeWhile is_digit cs in
      if ds = [] then None else Some (dec_value ds, dropWhile is_digit cs))"

definition read_int :: "string \<Rightarrow> (int \<times> string) option" where
  "read_int cs =
     (case cs of
        [] \<Rightarrow> None
      | c # r \<Rightarrow>
          if c = CHR ''-'' then map_option (\<lambda>(n, r). (- int n, r)) (read_dec r)
          else map_option (\<lambda>(n, r). (int n, r)) (read_dec cs))"

definition no_digit :: "string \<Rightarrow> bool" where
  "no_digit r \<longleftrightarrow> (case r of [] \<Rightarrow> True | c # _ \<Rightarrow> \<not> is_digit c)"

lemma no_digit_simps [simp]: "no_digit []" "no_digit (c # r) \<longleftrightarrow> \<not> is_digit c"
  by (simp_all add: no_digit_def)

lemma dec_value_snoc: "dec_value (cs @ [c]) = dec_value cs * 10 + digit_val c"
  by (simp add: dec_value_def)

lemma dec_value_dec [simp]: "dec_value (dec n) = n"
proof (induction n rule: dec.induct)
  case (1 n)
  show ?case
  proof (cases "n < 10")
    case True
    then show ?thesis by (subst dec.simps) (simp add: dec_value_def)
  next
    case False
    with 1 show ?thesis by (subst dec.simps) (simp add: dec_value_snoc)
  qed
qed

lemma takeWhile_digits [simp]:
  "\<forall>c \<in> set ds. is_digit c \<Longrightarrow> no_digit r \<Longrightarrow> takeWhile is_digit (ds @ r) = ds"
  "\<forall>c \<in> set ds. is_digit c \<Longrightarrow> no_digit r \<Longrightarrow> dropWhile is_digit (ds @ r) = r"
  by (induction ds) (auto simp: no_digit_def split: list.splits)

lemma read_dec_dec: "no_digit r \<Longrightarrow> read_dec (dec n @ r) = Some (n, r)"
proof -
  assume r: "no_digit r"
  have "\<forall>c \<in> set (dec n). is_digit c" using dec_digits by blast
  from takeWhile_digits [OF this r] show ?thesis by (simp add: read_dec_def)
qed

interpretation dec_text: print_parse dec read_dec "\<lambda>_. True" no_digit
  by unfold_locales (simp add: read_dec_dec)

lemma minus_no_digit [simp]: "\<not> is_digit (CHR ''-'')"
  by (simp add: is_digit_def)

lemma hd_dec: "dec n = c # cs \<Longrightarrow> c \<noteq> CHR ''-''"
  using dec_digits [of c n] by auto

lemma read_int_fmt_d:
  assumes "no_digit r"
  shows "read_int (fmt_d i @ r) = Some (i, r)"
proof (cases "i < 0")
  case True
  with assms show ?thesis by (simp add: fmt_d_def read_int_def read_dec_dec)
next
  case False
  obtain c cs where d: "dec (nat i) = c # cs" by (cases "dec (nat i)") auto
  have "read_dec ((c # cs) @ r) = Some (nat i, r)"
    using read_dec_dec [OF assms, of "nat i"] d by simp
  with False hd_dec [OF d] d show ?thesis by (simp add: fmt_d_def read_int_def)
qed

interpretation int_text: print_parse fmt_d read_int "\<lambda>_. True" no_digit
  by unfold_locales (simp add: read_int_fmt_d)

subsection \<open>atoi\<close>

text \<open>\<open>atoi\<close> reads up to the first character that is not a digit; no digits give zero.\<close>

definition is_space :: "char \<Rightarrow> bool" where
  "is_space c \<longleftrightarrow> c = CHR '' '' \<or> 9 \<le> (of_char c :: nat) \<and> (of_char c :: nat) \<le> 13"

definition atoi :: "string \<Rightarrow> int" where
  "atoi cs =
     (case dropWhile is_space cs of
        [] \<Rightarrow> 0
      | c # r \<Rightarrow>
          if c = CHR ''-'' then - int (dec_value (takeWhile is_digit r))
          else if c = CHR ''+'' then int (dec_value (takeWhile is_digit r))
          else int (dec_value (takeWhile is_digit (c # r))))"

lemma digit_not_space: "is_digit c \<Longrightarrow> \<not> is_space c \<and> c \<noteq> CHR ''-'' \<and> c \<noteq> CHR ''+''"
  by (auto simp: is_digit_def is_space_def)

lemma atoi_digits:
  assumes "\<forall>c \<in> set ds. is_digit c"
  shows "atoi ds = int (dec_value ds)"
proof (cases ds)
  case Nil
  then show ?thesis by (simp add: atoi_def dec_value_def)
next
  case (Cons c r)
  with assms digit_not_space [of c] have "dropWhile is_space ds = c # r" by simp
  moreover have tw: "takeWhile is_digit r = r"
    using assms Cons takeWhile_eq_all_conv [of is_digit r] by simp
  ultimately show ?thesis
    using assms Cons digit_not_space [of c] by (simp add: atoi_def tw del: takeWhile_eq_all_conv)
qed

lemma zero_is_digit_0: "CHR ''0'' = digit 0"
proof -
  have "char_of (of_char (CHR ''0'') :: nat) = CHR ''0''" by (rule char_of_char)
  then show ?thesis by (simp add: digit_def)
qed

lemma digit_chars:
  "digit 0 = CHR ''0''" "digit (Suc 0) = CHR ''1''" "digit 1 = CHR ''1''" "digit 2 = CHR ''2''"
  "digit 3 = CHR ''3''" "digit 4 = CHR ''4''" "digit 5 = CHR ''5''" "digit 6 = CHR ''6''"
  "digit 7 = CHR ''7''" "digit 8 = CHR ''8''" "digit 9 = CHR ''9''"
  by code_simp+

lemma dec_small: "n < 10 \<Longrightarrow> dec n = [digit n]"
  by (simp add: dec.simps)

lemma length_fmt_02d: "n < 100 \<Longrightarrow> length (fmt_02d n) = 2"
  using dec_small [of "n div 10"] less_mult_imp_div_less [of n 10 10]
  by (simp add: fmt_02d_def dec_small dec.simps [of n])

lemma fmt_02d_digits: "c \<in> set (fmt_02d n) \<Longrightarrow> is_digit c"
  using dec_digits [of c n] by (auto simp: fmt_02d_def zero_is_digit_0 split: if_splits)

lemma dec_value_fmt_02d: "dec_value (fmt_02d n) = n"
proof (cases "n < 10")
  case True
  then show ?thesis by (simp add: fmt_02d_def zero_is_digit_0 dec_small dec_value_def)
next
  case False
  then show ?thesis by (simp add: fmt_02d_def)
qed

lemma atoi_fmt_02d: "atoi (fmt_02d n) = int n"
  using atoi_digits [of "fmt_02d n"] fmt_02d_digits by (simp add: dec_value_fmt_02d)

lemma atoi_dec: "atoi (dec n) = int n"
  using atoi_digits [of "dec n"] dec_digits by simp

section \<open>Hexadecimal bytes\<close>

definition hex_digits :: string where
  "hex_digits = ''0123456789abcdef''"

definition fmt_02x :: "u8 \<Rightarrow> string" where
  "fmt_02x b = [hex_digits ! (unat b div 16), hex_digits ! (unat b mod 16)]"

definition hex_val :: "char \<Rightarrow> nat" where
  "hex_val c = length (takeWhile (\<lambda>d. d \<noteq> c) hex_digits)"

definition read_02x :: "string \<Rightarrow> (u8 \<times> string) option" where
  "read_02x cs =
     (case cs of
        a # b # r \<Rightarrow>
          if a \<in> set hex_digits \<and> b \<in> set hex_digits
          then Some (of_nat (hex_val a * 16 + hex_val b), r) else None
      | _ \<Rightarrow> None)"

lemma length_hex_digits [simp]: "length hex_digits = 16"
  by (simp add: hex_digits_def)

lemma length_fmt_02x [simp]: "length (fmt_02x b) = 2"
  by (simp add: fmt_02x_def)

lemma hex_val_table: "map hex_val hex_digits = [0..<16]"
  by (simp add: hex_val_def hex_digits_def upt_conv_Cons)

lemma hex_val_nth [simp]: "k < 16 \<Longrightarrow> hex_val (hex_digits ! k) = k"
  using arg_cong [OF hex_val_table, of "\<lambda>xs. xs ! k"] by simp

lemma unat_u8_div [simp]: "unat (b :: u8) div 16 < 16"
  using unsigned_less [of b, where ?'a = nat] by (simp add: less_mult_imp_div_less)

lemma read_02x_fmt: "read_02x (fmt_02x b @ r) = Some (b, r)"
  by (simp add: read_02x_def fmt_02x_def)

interpretation hex_text: print_parse fmt_02x read_02x "\<lambda>_. True" "\<lambda>_. True"
  by unfold_locales (simp add: read_02x_fmt)

end
