(* ===== verification/Calendar.thy ===== *)
theory Calendar
  imports Ctext
begin

text \<open>
  The calendar functions of the C library the firmware calls: \<open>mktime\<close>, \<open>localtime\<close> and the
  conversions of \<open>strftime\<close> that occur in its formats. No file of the program sets a time zone,
  so local time is UTC; the name \<open>%Z\<close> prints is a parameter.
\<close>

section \<open>Days and years\<close>

record tm =
  tm_sec :: int
  tm_min :: int
  tm_hour :: int
  tm_mday :: int
  tm_mon :: int
  tm_year :: int
  tm_wday :: int

definition leap :: "int \<Rightarrow> bool" where
  "leap y \<longleftrightarrow> y mod 4 = 0 \<and> (y mod 100 \<noteq> 0 \<or> y mod 400 = 0)"

definition year_len :: "int \<Rightarrow> int" where
  "year_len y = (if leap y then 366 else 365)"

definition month_lens :: "int \<Rightarrow> int list" where
  "month_lens y = [31, if leap y then 29 else 28, 31, 30, 31, 30, 31, 31, 30, 31, 30, 31]"

text \<open>Days from 1 January 1970 to 1 January of year \<open>y\<close>.\<close>

definition days_before_year :: "int \<Rightarrow> int" where
  "days_before_year y =
     365 * (y - 1970) + (y - 1) div 4 - (y - 1) div 100 + (y - 1) div 400 - 477"

definition days_before_month :: "int \<Rightarrow> nat \<Rightarrow> int" where
  "days_before_month y m = sum_list (take m (month_lens y))"

lemma div_step:
  fixes y k :: int
  assumes "0 < k"
  shows "y div k = (y - 1) div k + (if y mod k = 0 then 1 else 0)"
proof (cases "y mod k = 0")
  case True
  then have "y - 1 = k * (y div k - 1) + (k - 1)"
    using mult_div_mod_eq [of k y] by (simp add: algebra_simps)
  then have "(y - 1) div k = y div k - 1"
    by (rule int_div_pos_eq) (use assms in auto)
  with True show ?thesis by simp
next
  case False
  then have "0 < y mod k" using assms by (simp add: order_less_le)
  moreover have "y mod k < k" using assms by simp
  moreover have eq: "y - 1 = k * (y div k) + (y mod k - 1)"
    using mult_div_mod_eq [of k y] by simp
  ultimately have "(y - 1) div k = y div k"
    by (intro int_div_pos_eq [OF eq]) simp_all
  with False show ?thesis by simp
qed

lemma century_mod:
  "y mod 400 = 0 \<Longrightarrow> y mod 100 = 0" "y mod 100 = 0 \<Longrightarrow> y mod 4 = 0" for y :: int
  using mod_mod_cancel [of 100 400 y] mod_mod_cancel [of 4 100 y] by auto

lemma days_before_year_Suc: "days_before_year (y + 1) = days_before_year y + year_len y"
proof -
  have steps: "y div 4 = (y - 1) div 4 + of_bool (y mod 4 = 0)"
    "y div 100 = (y - 1) div 100 + of_bool (y mod 100 = 0)"
    "y div 400 = (y - 1) div 400 + of_bool (y mod 400 = 0)"
    using div_step [of 4 y] div_step [of 100 y] div_step [of 400 y] by (simp_all only: of_bool_def)
  have "year_len y = 365 + (of_bool (y mod 4 = 0) - of_bool (y mod 100 = 0) + of_bool (y mod 400 = 0))"
    using century_mod [of y] by (cases "y mod 4 = 0"; cases "y mod 100 = 0")
      (simp_all only: year_len_def leap_def of_bool_def simp_thms if_True if_False, auto)
  moreover have "days_before_year (y + 1) =
      365 * (y - 1970) + 365 + y div 4 - y div 100 + y div 400 - 477"
    unfolding days_before_year_def by (simp only: add_diff_cancel_right') simp
  ultimately show ?thesis unfolding days_before_year_def using steps by linarith
qed

lemma year_len_pos: "0 < year_len y"
  by (simp add: year_len_def)

lemma days_before_year_mono_nat: "days_before_year y \<le> days_before_year (y + int n)"
proof (induction n)
  case (Suc n)
  then show ?case
    using days_before_year_Suc [of "y + int n"] year_len_pos [of "y + int n"]
    by (simp add: add.assoc add.commute [of 1])
qed simp

lemma days_before_year_mono: "y \<le> z \<Longrightarrow> days_before_year y \<le> days_before_year z"
  using days_before_year_mono_nat [of y "nat (z - y)"] by simp

lemma year_unique:
  assumes "days_before_year y \<le> d" "d < days_before_year (y + 1)"
    and "days_before_year z \<le> d" "d < days_before_year (z + 1)"
  shows "y = z"
  using assms days_before_year_mono [of "y + 1" z] days_before_year_mono [of "z + 1" y]
  by linarith

text \<open>The year that holds a day, searched from 1970 upwards or downwards.\<close>

function year_from :: "int \<Rightarrow> int \<Rightarrow> int" where
  "year_from d y =
     (if d < days_before_year y then year_from d (y - 1)
      else if days_before_year (y + 1) \<le> d then year_from d (y + 1)
      else y)"
  by pat_completeness auto
termination
proof (relation "measure (\<lambda>(d, y). nat (days_before_year y - d) + nat (d + 1 - days_before_year (y + 1)))",
    goal_cases)
  case (2 d y)
  then show ?case
    using days_before_year_Suc [of "y - 1"] year_len_pos [of "y - 1"] days_before_year_Suc [of y]
      year_len_pos [of y] by simp
next
  case (3 d y)
  then show ?case
    using days_before_year_Suc [of "y + 1"] year_len_pos [of "y + 1"] days_before_year_Suc [of y]
      year_len_pos [of y] by simp
qed simp

declare year_from.simps [simp del]

definition year_of :: "int \<Rightarrow> int" where
  "year_of d = year_from d 1970"

lemma year_from_bounds:
  "days_before_year (year_from d y) \<le> d \<and> d < days_before_year (year_from d y + 1)"
  by (induction d y rule: year_from.induct) (subst (1 2) year_from.simps, auto)

lemma year_of_eq:
  "days_before_year y \<le> d \<Longrightarrow> d < days_before_year (y + 1) \<Longrightarrow> year_of d = y"
  using year_unique year_from_bounds [of d 1970] unfolding year_of_def by blast

lemma year_of_bounds:
  "days_before_year (year_of d) \<le> d" "d < days_before_year (year_of d) + year_len (year_of d)"
  using year_from_bounds [of d 1970] unfolding year_of_def by (auto simp: days_before_year_Suc)

section \<open>Months\<close>

fun month_day :: "int list \<Rightarrow> int \<Rightarrow> nat \<times> int" where
  "month_day (l # ls) r =
     (if r < l then (0, r) else (let (m, q) = month_day ls (r - l) in (Suc m, q)))"
| "month_day [] r = (0, r)"

lemma month_day_inverse:
  "0 \<le> r \<Longrightarrow> r < sum_list ls \<Longrightarrow> month_day ls r = (m, q) \<Longrightarrow>
    m < length ls \<and> 0 \<le> q \<and> q < ls ! m \<and> sum_list (take m ls) + q = r"
  by (induction ls r arbitrary: m q rule: month_day.induct)
    (auto split: if_splits prod.splits)

lemma sum_list_take_nonneg: "\<forall>l \<in> set ls. 0 \<le> l \<Longrightarrow> 0 \<le> sum_list (take m ls)" for ls :: "int list"
  by (induction ls arbitrary: m) (auto simp: take_Cons split: nat.splits)

lemma month_day_forward:
  "m < length ls \<Longrightarrow> 0 \<le> q \<Longrightarrow> q < ls ! m \<Longrightarrow> \<forall>l \<in> set ls. 0 \<le> l \<Longrightarrow>
    month_day ls (sum_list (take m ls) + q) = (m, q)"
proof (induction ls arbitrary: m)
  case (Cons l ls)
  show ?case
  proof (cases m)
    case 0
    with Cons.prems show ?thesis by simp
  next
    case (Suc k)
    with Cons.prems sum_list_take_nonneg [of ls k] Cons.IH [of k] show ?thesis by simp
  qed
qed simp

lemma month_lens [simp]:
  "length (month_lens y) = 12" "sum_list (month_lens y) = year_len y"
  "\<forall>l \<in> set (month_lens y). 0 \<le> l"
  by (simp_all add: month_lens_def year_len_def)

section \<open>mktime and localtime\<close>

text \<open>
  \<open>mktime\<close> takes the month modulo twelve into the year and every other field as it is; a time
  outside \<open>time_t\<close> is reported as -1.
\<close>

definition tm_days :: "tm \<Rightarrow> int" where
  "tm_days t =
     (let y = 1900 + tm_year t + tm_mon t div 12 in
      days_before_year y + days_before_month y (nat (tm_mon t mod 12)) + (tm_mday t - 1))"

definition tm_seconds :: "tm \<Rightarrow> int" where
  "tm_seconds t = ((tm_days t * 24 + tm_hour t) * 60 + tm_min t) * 60 + tm_sec t"

definition mktime :: "tm \<Rightarrow> int" where
  "mktime t = (if fits_long (tm_seconds t) then tm_seconds t else -1)"

definition localtime :: "int \<Rightarrow> tm" where
  "localtime t =
     (let d = t div 86400; s = t mod 86400; y = year_of d;
          (m, q) = month_day (month_lens y) (d - days_before_year y) in
      \<lparr>tm_sec = s mod 60, tm_min = s div 60 mod 60, tm_hour = s div 3600,
       tm_mday = q + 1, tm_mon = int m, tm_year = y - 1900, tm_wday = (d + 4) mod 7\<rparr>)"

definition valid_tm :: "tm \<Rightarrow> bool" where
  "valid_tm t \<longleftrightarrow>
     0 \<le> tm_sec t \<and> tm_sec t < 60 \<and> 0 \<le> tm_min t \<and> tm_min t < 60 \<and>
     0 \<le> tm_hour t \<and> tm_hour t < 24 \<and> 0 \<le> tm_mon t \<and> tm_mon t < 12 \<and>
     1 \<le> tm_mday t \<and> tm_mday t \<le> month_lens (1900 + tm_year t) ! nat (tm_mon t)"

text \<open>The seconds of a broken-down time determine it, up to the weekday it carries.\<close>

lemma localtime_valid: "valid_tm (localtime t)"
  and tm_seconds_localtime: "tm_seconds (localtime t) = t"
  and tm_wday_localtime: "tm_wday (localtime t) = (t div 86400 + 4) mod 7"
proof -
  define d where "d = t div 86400"
  define s where "s = t mod 86400"
  define y where "y = year_of d"
  obtain m q where mq: "month_day (month_lens y) (d - days_before_year y) = (m, q)" by fastforce
  have r: "0 \<le> d - days_before_year y" "d - days_before_year y < sum_list (month_lens y)"
    using year_of_bounds [of d] by (auto simp: y_def)
  have m: "m < 12" "0 \<le> q" "q < month_lens y ! m"
    "sum_list (take m (month_lens y)) + q = d - days_before_year y"
    using month_day_inverse [OF r mq] by auto
  have eq: "localtime t =
      \<lparr>tm_sec = s mod 60, tm_min = s div 60 mod 60, tm_hour = s div 3600,
       tm_mday = q + 1, tm_mon = int m, tm_year = y - 1900, tm_wday = (d + 4) mod 7\<rparr>"
    using mq by (simp add: localtime_def Let_def d_def s_def y_def)
  have s: "0 \<le> s" "s < 86400" by (simp_all add: s_def)
  have h: "s div 3600 = s div 60 div 60" by (simp add: zdiv_zmult2_eq)
  have h24: "0 \<le> s div 60 div 60" "s div 60 div 60 < 24"
    using s mult_div_mod_eq [of 3600 s] pos_mod_bound [of 3600 s] by (simp_all flip: h)
  show "valid_tm (localtime t)"
    using m s h24 by (simp add: eq valid_tm_def h)
  have "(d * 24 + s div 60 div 60) * 60 + s div 60 mod 60 = d * 1440 + s div 60"
    by (simp add: algebra_simps)
  then have "tm_seconds (localtime t) = d * 86400 + s"
    using m by (simp add: eq tm_seconds_def tm_days_def days_before_month_def h algebra_simps)
  then show "tm_seconds (localtime t) = t" by (simp add: d_def s_def)
  show "tm_wday (localtime t) = (t div 86400 + 4) mod 7" by (simp add: eq d_def)
qed

lemma low_part:
  "0 \<le> r \<Longrightarrow> r < k \<Longrightarrow> (q * k + r) div k = q \<and> (q * k + r) mod k = r" for q r k :: int
  by simp

lemma sum_list_take_le:
  "m < length ls \<Longrightarrow> \<forall>l \<in> set ls. 0 \<le> l \<Longrightarrow> sum_list (take m ls) + ls ! m \<le> sum_list ls"
  for ls :: "int list"
proof -
  assume m: "m < length ls" and pos: "\<forall>l \<in> set ls. 0 \<le> l"
  have "ls = take m ls @ ls ! m # drop (Suc m) ls" using m by (rule id_take_nth_drop)
  then have "sum_list ls = sum_list (take m ls) + ls ! m + sum_list (drop (Suc m) ls)"
    by (metis add.assoc sum_list.Cons sum_list_append)
  moreover have "0 \<le> sum_list (drop (Suc m) ls)"
    using pos by (intro sum_list_nonneg) (auto dest: in_set_dropD)
  ultimately show ?thesis by simp
qed

lemma localtime_tm_seconds:
  assumes v: "valid_tm t"
  shows "localtime (tm_seconds t) = t\<lparr>tm_wday := (tm_days t + 4) mod 7\<rparr>"
proof -
  define m where "m = nat (tm_mon t)"
  define y where "y = 1900 + tm_year t"
  let ?L = "month_lens y"
  have m: "m < 12" "tm_mon t mod 12 = tm_mon t" "tm_mon t div 12 = 0" "int m = tm_mon t"
    using v by (auto simp: valid_tm_def m_def)
  have q: "0 \<le> tm_mday t - 1" "tm_mday t - 1 < ?L ! m"
    using v by (auto simp: valid_tm_def m_def y_def)
  have days: "tm_days t = days_before_year y + (sum_list (take m ?L) + (tm_mday t - 1))"
    by (simp add: tm_days_def days_before_month_def Let_def m(2,3) y_def m_def)
  have "sum_list (take m ?L) + ?L ! m \<le> year_len y" "0 \<le> sum_list (take m ?L)"
    using sum_list_take_le [of m ?L] sum_list_take_nonneg [of ?L m] m(1) by simp_all
  then have year: "year_of (tm_days t) = y"
    using days q by (intro year_of_eq) (simp_all add: days_before_year_Suc)
  have md: "month_day ?L (tm_days t - days_before_year y) = (m, tm_mday t - 1)"
    using month_day_forward [of m ?L "tm_mday t - 1"] m(1) q days by simp
  let ?r = "tm_hour t * 3600 + (tm_min t * 60 + tm_sec t)"
  have r: "0 \<le> ?r" "?r < 86400" and r60: "0 \<le> tm_min t * 60 + tm_sec t" "tm_min t * 60 + tm_sec t < 3600"
    using v by (auto simp: valid_tm_def)
  have secs: "tm_seconds t = tm_days t * 86400 + ?r" by (simp add: tm_seconds_def algebra_simps)
  then have dm: "tm_seconds t div 86400 = tm_days t" "tm_seconds t mod 86400 = ?r"
    using low_part [OF r, of "tm_days t"] by simp_all
  have h: "?r div 3600 = tm_hour t" using low_part [OF r60, of "tm_hour t"] by simp
  have mi: "?r div 60 mod 60 = tm_min t" "?r mod 60 = tm_sec t"
  proof -
    have s: "0 \<le> tm_sec t" "tm_sec t < 60" using v by (auto simp: valid_tm_def)
    have eq: "?r = (tm_hour t * 60 + tm_min t) * 60 + tm_sec t" by simp
    have "?r div 60 = tm_hour t * 60 + tm_min t" "?r mod 60 = tm_sec t"
      unfolding eq using low_part [OF s, of "tm_hour t * 60 + tm_min t"] by blast+
    then show "?r div 60 mod 60 = tm_min t" "?r mod 60 = tm_sec t"
      using v by (simp_all add: valid_tm_def)
  qed
  show ?thesis
    using md h mi m(4) by (simp add: localtime_def Let_def dm year y_def)
qed

lemma mktime_localtime: "fits_long t \<Longrightarrow> mktime (localtime t) = t"
  by (simp add: mktime_def tm_seconds_localtime)

text \<open>The test the clock synchronisation makes, \<open>tm_year < 2016 - 1900\<close>, in seconds.\<close>

lemma days_before_2016: "days_before_year 2016 = 16801"
  by (simp add: days_before_year_def)

lemma localtime_year: "tm_year (localtime t) = year_of (t div 86400) - 1900"
  by (simp add: localtime_def Let_def split: prod.split)

lemma year_before_2016: "tm_year (localtime t) < 116 \<longleftrightarrow> t < 1451606400"
proof -
  let ?d = "t div 86400"
  have "year_of ?d < 2016 \<longleftrightarrow> ?d < 16801"
  proof
    assume "year_of ?d < 2016"
    then show "?d < 16801"
      using year_of_bounds(2) [of ?d] days_before_year_mono [of "year_of ?d + 1" 2016]
        days_before_2016 by (simp add: days_before_year_Suc)
  next
    assume "?d < 16801"
    then show "year_of ?d < 2016"
      using year_of_bounds(1) [of ?d] days_before_year_mono [of 2016 "year_of ?d"]
        days_before_2016 by (cases "year_of ?d < 2016") auto
  qed
  moreover have "?d < 16801 \<longleftrightarrow> t < 1451606400" by linarith
  ultimately show ?thesis by (simp add: localtime_year)
qed

section \<open>strftime\<close>

definition day_names :: "string list" where
  "day_names = [''Sunday'', ''Monday'', ''Tuesday'', ''Wednesday'', ''Thursday'', ''Friday'',
     ''Saturday'']"

definition month_names :: "string list" where
  "month_names = [''January'', ''February'', ''March'', ''April'', ''May'', ''June'', ''July'',
     ''August'', ''September'', ''October'', ''November'', ''December'']"

definition two_digits :: "int \<Rightarrow> string" where
  "two_digits n = fmt_02d (nat n)"

definition time_conv :: "string \<Rightarrow> tm \<Rightarrow> char \<Rightarrow> string" where
  "time_conv zone t c =
     (if c = CHR ''H'' then two_digits (tm_hour t)
      else if c = CHR ''M'' then two_digits (tm_min t)
      else if c = CHR ''S'' then two_digits (tm_sec t)
      else if c = CHR ''d'' then two_digits (tm_mday t)
      else if c = CHR ''Y'' then fmt_d (1900 + tm_year t)
      else if c = CHR ''A'' then day_names ! nat (tm_wday t)
      else if c = CHR ''B'' then month_names ! nat (tm_mon t)
      else if c = CHR ''Z'' then zone
      else [])"

fun time_text :: "string \<Rightarrow> tm \<Rightarrow> string \<Rightarrow> string" where
  "time_text zone t (a # b # r) =
     (if a = CHR ''%'' then time_conv zone t b @ time_text zone t r
      else a # time_text zone t (b # r))"
| "time_text zone t [a] = [a]"
| "time_text zone t [] = []"

text \<open>\<open>strftime\<close> stores the text only if it fits with its NUL in \<open>cap\<close> characters.\<close>

definition strftime :: "string \<Rightarrow> nat \<Rightarrow> string \<Rightarrow> tm \<Rightarrow> string option" where
  "strftime zone cap fmt t =
     (let s = time_text zone t fmt in if length s < cap then Some s else None)"

end
