(* ===== verification/Utility.thy ===== *)
theory Utility
  imports Machine Calendar "HOL-Library.Multiset"
begin

text \<open>
  \<^verbatim>\<open>main/utility.c\<close>: the clock, the two interval checks, the conversions between time stamps
  and text, the reboot reason in flash, the names derived from the MAC address and the GPIO
  set-up. A function that stores through a pointer returns the stored value beside its result.
\<close>

section \<open>Firmware version\<close>

definition fw_v :: string where
  "fw_v = ''v'' @ ''3'' @ ''.'' @ ''3''"

definition print_chip_info :: "unit stmt" where
  "print_chip_info = upd (\<lambda>s. s\<lparr>fw_ver_str := Some fw_v\<rparr>)"

section \<open>The clock\<close>

definition set_curtimestamp :: "env \<Rightarrow> int \<Rightarrow> 'r stmt" where
  "set_curtimestamp E tmstmp = do_ext E (Libc (Settimeofday tmstmp))"

definition get_curtimestamp :: "env \<Rightarrow> int stmt" where
  "get_curtimestamp E = ext E (Libc Time) (\<lambda>t. ret (to_long t))"

text \<open>Both parts of \<open>struct timeval\<close> are signed 32-bit numbers, widened to 64 bits.\<close>

definition get_curtimestampms :: "env \<Rightarrow> u64 stmt" where
  "get_curtimestampms E =
     ext_out E (Libc Gettimeofday) (\<lambda>sec usec.
       ret (word_of_int (to_long sec) * 1000 + word_of_int (to_long usec) div 1000))"

section \<open>Interval checks\<close>

text \<open>
  \<open>chck_time_int\<close> subtracts two signed \<open>long\<close>s, which C leaves undefined when the difference
  does not fit. \<open>chck_time_int_ms\<close> computes with unsigned 64-bit numbers, into which the held
  \<open>long\<close> is sign-extended, and stores the time back into the \<open>long\<close>, which keeps its low 32 bits.
\<close>

definition chck_time_int :: "env \<Rightarrow> int \<Rightarrow> int \<Rightarrow> (int \<times> int) stmt" where
  "chck_time_int E t_hold t_int =
     call_fn (get_curtimestamp E) (\<lambda>tmp_hold_t.
       if \<not> fits_long (tmp_hold_t - t_hold) then fail Overflow
       else
         let r = (if tmp_hold_t - t_hold > t_int then 1 else 0) in
         ret (r, if r = 1 then tmp_hold_t else t_hold))"

definition chck_time_int_ms :: "env \<Rightarrow> int \<Rightarrow> int \<Rightarrow> (int \<times> int) stmt" where
  "chck_time_int_ms E t_hold t_int =
     call_fn (get_curtimestampms E) (\<lambda>tmp_hold_t.
       let r = (if tmp_hold_t - word_of_int t_hold > word_of_int t_int then 1 else 0) in
       ret (r, if r = 1 then to_long (uint tmp_hold_t) else t_hold))"

section \<open>Time stamps and text\<close>

definition val2int :: "string \<Rightarrow> nat \<Rightarrow> nat \<Rightarrow> int checked" where
  "val2int ptr k n =
     (if k + n \<le> length ptr then Inr (atoi (take n (drop k ptr)))
      else Inl Read_Out_Of_Bounds)"

definition gnsst2ts :: "string \<Rightarrow> int checked" where
  "gnsst2ts ptr =
     and_then (val2int ptr 0 4) (\<lambda>year.
     and_then (val2int ptr 4 2) (\<lambda>mon.
     and_then (val2int ptr 6 2) (\<lambda>mday.
     and_then (val2int ptr 8 2) (\<lambda>hour.
     and_then (val2int ptr 10 2) (\<lambda>min.
     and_then (val2int ptr 12 2) (\<lambda>sec.
       Inr (mktime \<lparr>tm_sec = sec, tm_min = min, tm_hour = hour, tm_mday = mday,
         tm_mon = mon - 1, tm_year = year - 1900, tm_wday = 0\<rparr>)))))))"

text \<open>The result of each is always 0; the second component is what the buffer then holds.\<close>

definition ts2time :: "string \<Rightarrow> int \<Rightarrow> int \<times> string option" where
  "ts2time zone timestamp = (0, strftime zone 80 ''%H:%M:%S %Z'' (localtime timestamp))"

definition ts2date :: "string \<Rightarrow> int \<Rightarrow> int \<times> string option" where
  "ts2date zone timestamp = (0, strftime zone 100 ''%A %d %B %Y'' (localtime timestamp))"

definition ts2datetime :: "string \<Rightarrow> int \<Rightarrow> int \<times> string option" where
  "ts2datetime zone timestamp =
     (0, strftime zone 100 ''%A %d %B %Y %H:%M:%S %Z'' (localtime timestamp))"

section \<open>Flash, MAC address, GPIO\<close>

definition save_reboot_reason :: "env \<Rightarrow> u8 \<Rightarrow> unit stmt" where
  "save_reboot_reason E reason =
     ext_out E (Sys (Nvs_open ''storage'')) (\<lambda>err my_nvs_handle.
       if_else (err \<noteq> 0) skip (block
         [do_ext E (Sys (Nvs_set_u8 my_nvs_handle ''btr'' reason)),
          do_ext E (Sys (Nvs_commit my_nvs_handle)),
          do_ext E (Sys (Nvs_close my_nvs_handle))]))"

text \<open>The six bytes of the local array are only defined once the call has stored them.\<close>

definition with_mac :: "env \<Rightarrow> (u8 list \<Rightarrow> 'r stmt) \<Rightarrow> 'r stmt" where
  "with_mac E k =
     ext_bytes E (Sys Esp_efuse_mac_get_default) (\<lambda>_ mac.
       if length mac < 6 then fail Uninitialised else k (take 6 mac))"

definition id_from_mac :: "env \<Rightarrow> int stmt" where
  "id_from_mac E = with_mac E (\<lambda>mac. ret (foldl (\<lambda>acc b. acc + uint b) 0 mac))"

definition mac_text :: "u8 list \<Rightarrow> string" where
  "mac_text mac = concat (map fmt_02x mac)"

definition get_mac_str :: "env \<Rightarrow> nat \<Rightarrow> string stmt" where
  "get_mac_str E cap =
     with_mac E (\<lambda>mac. block [fits_in (mac_text mac) cap, ret (mac_text mac)])"

definition gpio_setup :: "env \<Rightarrow> string \<Rightarrow> u32 \<Rightarrow> u8 \<Rightarrow> u8 \<Rightarrow> u8 \<Rightarrow> int stmt" where
  "gpio_setup E mode pin pup pdw intr =
     (if 64 \<le> unat pin then fail Overflow
      else ext E (Sys (Gpio_config
        \<lparr>intr_type = intr, gpio_mode = mode, pin_bit_mask = push_bit (unat pin) 1,
         pull_down_en = pdw, pull_up_en = pup\<rparr>)) ret)"

definition set_gpio_output :: "env \<Rightarrow> u32 \<Rightarrow> u8 \<Rightarrow> u8 \<Rightarrow> u8 \<Rightarrow> int stmt" where
  "set_gpio_output E pin pup pdw intr = gpio_setup E ''GPIO_MODE_OUTPUT'' pin pup pdw intr"

definition set_gpio_input :: "env \<Rightarrow> u32 \<Rightarrow> u8 \<Rightarrow> u8 \<Rightarrow> u8 \<Rightarrow> int stmt" where
  "set_gpio_input E pin pup pdw intr = gpio_setup E ''GPIO_MODE_INPUT'' pin pup pdw intr"

section \<open>Interval checks fire at least an interval apart\<close>

definition clock_at :: "env \<Rightarrow> machine \<Rightarrow> int" where
  "clock_at E s = to_long (int_reply E s (Libc Time))"

lemma get_curtimestamp_run:
  "get_curtimestamp E s = Return (clock_at E s) (logged (Libc Time) s)"
  by (simp add: get_curtimestamp_def clock_at_def stmt_simps)

lemma chck_time_int_run:
  "chck_time_int E hold t_int s =
    (if fits_long (clock_at E s - hold)
     then Return (if clock_at E s - hold > t_int then (1, clock_at E s) else (0, hold))
            (logged (Libc Time) s)
     else Fault Overflow (logged (Libc Time) s))"
  by (simp add: chck_time_int_def call_fn_def get_curtimestamp_run Let_def ret_def fail_def)

text \<open>A caller that polls \<open>n\<close> times and collects the times at which the check fired.\<close>

fun poll :: "env \<Rightarrow> int \<Rightarrow> nat \<Rightarrow> int \<Rightarrow> int list stmt" where
  "poll E t_int 0 hold s = Return [] s"
| "poll E t_int (Suc n) hold s =
     call_fn (chck_time_int E hold t_int) (\<lambda>(r, hold').
       call_fn (poll E t_int n hold') (\<lambda>ts. ret (if r = 1 then hold' # ts else ts))) s"



section \<open>The millisecond check\<close>

definition ms_at :: "env \<Rightarrow> machine \<Rightarrow> int" where
  "ms_at E s = to_long (int_reply E s (Libc Gettimeofday)) * 1000 +
     to_long (out_reply E s (Libc Gettimeofday)) div 1000"

lemma uint_word_of_int_u64: "0 \<le> x \<Longrightarrow> x < 18446744073709551616 \<Longrightarrow> uint (word_of_int x :: u64) = x"
  by (simp add: uint_word_of_int)

lemma get_curtimestampms_run:
  assumes "0 \<le> to_long (out_reply E s (Libc Gettimeofday))"
  shows "get_curtimestampms E s = Return (word_of_int (ms_at E s)) (logged (Libc Gettimeofday) s)"
proof -
  let ?u = "to_long (out_reply E s (Libc Gettimeofday))"
  have u: "0 \<le> ?u" "?u < 2147483648" using assms to_long_bounds by auto
  have "uint (word_of_int ?u div 1000 :: u64) = ?u div 1000"
    using u by (simp add: uint_div_distrib uint_word_of_int_u64)
  moreover have "uint (word_of_int (?u div 1000) :: u64) = ?u div 1000"
    using u by (intro uint_word_of_int_u64) auto
  ultimately have "(word_of_int ?u div 1000 :: u64) = word_of_int (?u div 1000)"
    by (simp only: word_uint_eq_iff)
  then show ?thesis
    by (simp add: get_curtimestampms_def ms_at_def stmt_simps)
qed

text \<open>
  C36: From the fiftieth day of 1970 on, the millisecond check fires at every call, whatever time
  is held and for every interval that is not negative: the time no longer fits the \<open>long\<close> it is
  stored in, so the difference to the held value is never small. A negative interval, in contrast,
  is taken for a huge unsigned one, and the check never fires.
\<close>

theorem chck_time_int_ms_always_fires:
  assumes sec: "4294968 \<le> to_long (int_reply E s (Libc Gettimeofday))"
    and usec: "0 \<le> to_long (out_reply E s (Libc Gettimeofday))"
      "to_long (out_reply E s (Libc Gettimeofday)) < 1000000"
    and hold: "fits_long hold" and int: "fits_long t_int"
  shows "chck_time_int_ms E hold t_int s =
    Return (if 0 \<le> t_int then (1, to_long (ms_at E s)) else (0, hold)) (logged (Libc Gettimeofday) s)"
proof -
  let ?m = "ms_at E s"
  have m: "4294968000 \<le> ?m" "?m < 2147483648000"
    using sec usec to_long_bounds [of "int_reply E s (Libc Gettimeofday)"]
    by (simp_all add: ms_at_def)
  have "uint (word_of_int (?m - hold) :: u64) = ?m - hold"
    using m hold by (intro uint_word_of_int_u64) (auto simp: fits_long_def)
  moreover have "uint (word_of_int t_int :: u64) = (if 0 \<le> t_int then t_int else t_int + 2 ^ 64)"
  proof (cases "0 \<le> t_int")
    case True
    then have "uint (word_of_int t_int :: u64) = t_int"
      using int by (intro uint_word_of_int_u64) (auto simp: fits_long_def)
    with True show ?thesis by simp
  next
    case False
    have "(word_of_int t_int :: u64) = word_of_int (t_int + 2 ^ 64)" by simp
    also have "uint \<dots> = t_int + 2 ^ 64"
      using int False by (intro uint_word_of_int_u64) (auto simp: fits_long_def)
    finally show ?thesis using False by simp
  qed
  ultimately have "(word_of_int t_int :: u64) < word_of_int ?m - word_of_int hold \<longleftrightarrow> 0 \<le> t_int"
    using m hold int by (auto simp: word_less_def fits_long_def)
  moreover have "uint (word_of_int ?m :: u64) = ?m"
    using m by (intro uint_word_of_int_u64) auto
  ultimately show ?thesis
    by (simp add: chck_time_int_ms_def call_fn_def get_curtimestampms_run [OF usec(1)] ret_def)
qed

theorem chck_time_int_ms_always_fires_witness:
  "\<exists>s'. chck_time_int_ms (quiet\<lparr>int_reply := \<lambda>_ _. 1700000000\<rparr>) 5 86400000 init_machine =
     Return (1, to_long 1700000000000) s'"
  using chck_time_int_ms_always_fires
    [of "quiet\<lparr>int_reply := \<lambda>_ _. 1700000000\<rparr>" init_machine 5 86400000]
  by (simp add: quiet_def to_long_id fits_long_def ms_at_def)

section \<open>Satellite time stamps\<close>

text \<open>The text a receiver sends for a broken-down time: \<open>YYYYMMDDhhmmss\<close>.\<close>

definition gnss_text :: "tm \<Rightarrow> string" where
  "gnss_text t = dec (nat (1900 + tm_year t)) @ two_digits (tm_mon t + 1) @ two_digits (tm_mday t) @
     two_digits (tm_hour t) @ two_digits (tm_min t) @ two_digits (tm_sec t)"

lemma length_dec_4: "1000 \<le> n \<Longrightarrow> n < 10000 \<Longrightarrow> length (dec n) = 4"
proof -
  assume n: "1000 \<le> n" "n < 10000"
  then have "n div 10 div 10 div 10 < 10" "\<not> n < 10" "\<not> n div 10 < 10" "\<not> n div 10 div 10 < 10"
    by (auto simp flip: div_mult2_eq)
  then show ?thesis
    by (simp add: dec.simps [of n] dec.simps [of "n div 10"] dec.simps [of "n div 10 div 10"] dec_small)
qed

lemma length_two_digits [simp]: "0 \<le> n \<Longrightarrow> n < 100 \<Longrightarrow> length (two_digits n) = 2"
  by (simp add: two_digits_def length_fmt_02d nat_less_iff)

lemma atoi_two_digits [simp]: "0 \<le> n \<Longrightarrow> atoi (two_digits n) = n"
  by (simp add: two_digits_def atoi_fmt_02d)

lemma month_lens_le: "m < 12 \<Longrightarrow> month_lens y ! m \<le> 31"
proof -
  have "\<forall>l \<in> set (month_lens y). l \<le> 31" by (simp add: month_lens_def)
  moreover assume "m < 12"
  ultimately show ?thesis by (metis month_lens(1) nth_mem)
qed

lemma valid_tm_ranges:
  assumes "valid_tm t"
  shows "0 \<le> tm_sec t" "tm_sec t < 100" "0 \<le> tm_min t" "tm_min t < 100"
    "0 \<le> tm_hour t" "tm_hour t < 100" "0 \<le> tm_mday t" "tm_mday t < 100"
    "0 \<le> tm_mon t" "tm_mon t < 12"
proof -
  have "nat (tm_mon t) < 12" using assms by (auto simp: valid_tm_def)
  from month_lens_le [OF this, of "1900 + tm_year t"] show "0 \<le> tm_mday t" "tm_mday t < 100"
    using assms by (auto simp: valid_tm_def)
qed (use assms in \<open>auto simp: valid_tm_def\<close>)

lemma tm_seconds_fits:
  assumes v: "valid_tm t" and y: "1902 \<le> 1900 + tm_year t" "1900 + tm_year t \<le> 2037"
  shows "fits_long (tm_seconds t)"
proof -
  define y where "y = 1900 + tm_year t"
  define m where "m = nat (tm_mon t)"
  have m: "m < 12" "tm_mon t mod 12 = tm_mon t" "tm_mon t div 12 = 0"
    using v by (auto simp: valid_tm_def m_def)
  have "sum_list (take m (month_lens y)) + month_lens y ! m \<le> year_len y"
    "0 \<le> sum_list (take m (month_lens y))"
    using sum_list_take_le [of m "month_lens y"] sum_list_take_nonneg [of "month_lens y" m] m(1)
    by simp_all
  moreover have "tm_days t = days_before_year y + (sum_list (take m (month_lens y)) + (tm_mday t - 1))"
    by (simp add: tm_days_def days_before_month_def Let_def m(2,3) y_def m_def)
  moreover have "days_before_year 1902 \<le> days_before_year y"
    "days_before_year (y + 1) \<le> days_before_year 2038"
    using y by (auto intro!: days_before_year_mono simp: y_def)
  moreover have "days_before_year 1902 = -24837" "days_before_year 2038 = 24837"
    by (simp_all add: days_before_year_def)
  ultimately have "-24837 \<le> tm_days t" "tm_days t < 24837"
    using v days_before_year_Suc [of y] by (auto simp: valid_tm_def y_def m_def)
  then show ?thesis
    using v by (auto simp: fits_long_def tm_seconds_def valid_tm_def)
qed

text \<open>
  C27: A satellite time stamp of a valid date between 1902 and 2037 is converted to the number of
  seconds that \<open>localtime\<close> turns back into that very date and time.
\<close>

theorem gnsst2ts_correct:
  assumes v: "valid_tm t" and y: "1902 \<le> 1900 + tm_year t" "1900 + tm_year t \<le> 2037"
  shows "\<exists>secs. gnsst2ts (gnss_text t @ rest) = Inr secs \<and> fits_long secs \<and>
    localtime secs = t\<lparr>tm_wday := (tm_days t + 4) mod 7\<rparr>"
proof -
  let ?t = "\<lparr>tm_sec = tm_sec t, tm_min = tm_min t, tm_hour = tm_hour t, tm_mday = tm_mday t,
    tm_mon = tm_mon t, tm_year = tm_year t, tm_wday = 0\<rparr>"
  note r = valid_tm_ranges [OF v]
  have len: "length (dec (nat (1900 + tm_year t))) = 4"
    using y by (intro length_dec_4) auto
  have "gnsst2ts (gnss_text t @ rest) = Inr (mktime ?t)"
    using r y by (simp add: gnsst2ts_def val2int_def gnss_text_def len atoi_dec)
  moreover have "tm_seconds ?t = tm_seconds t" by (simp add: tm_seconds_def tm_days_def Let_def)
  moreover note tm_seconds_fits [OF v y] localtime_tm_seconds [OF v]
  ultimately show ?thesis by (simp add: mktime_def)
qed

theorem gnsst2ts_correct_witness:
  "\<exists>secs. gnsst2ts (''20240324153007'' @ ''Z'') = Inr secs \<and> fits_long secs \<and>
    localtime secs = \<lparr>tm_sec = 7, tm_min = 30, tm_hour = 15, tm_mday = 24, tm_mon = 2,
      tm_year = 124, tm_wday = 0\<rparr>"
proof -
  let ?t = "\<lparr>tm_sec = 7, tm_min = 30, tm_hour = 15, tm_mday = 24, tm_mon = 2,
    tm_year = 124, tm_wday = 0\<rparr>"
  have "dec 2024 = ''2024''" "dec 3 = ''3''" "dec 24 = ''24''" "dec 15 = ''15''" "dec 30 = ''30''"
    "dec 7 = ''7''"
    by (simp_all add: dec.simps digit_chars)
  then have stamp: "gnss_text ?t = ''20240324153007''"
    by (simp add: gnss_text_def two_digits_def fmt_02d_def)
  have "valid_tm ?t" by code_simp
  moreover have "tm_days ?t = 19806" by code_simp
  ultimately show ?thesis using gnsst2ts_correct [of ?t "''Z''"] by (simp add: stamp)
qed

section \<open>Every time stamp has a text\<close>

lemma localtime_year_range:
  assumes "fits_long t"
  shows "1901 \<le> 1900 + tm_year (localtime t) \<and> 1900 + tm_year (localtime t) \<le> 2038"
proof -
  let ?d = "t div 86400"
  have d: "-24856 \<le> ?d" "?d < 24856" using assms by (auto simp: fits_long_def)
  have y: "days_before_year 1901 = -25202" "days_before_year 2039 = 25202"
    by (simp_all add: days_before_year_def)
  have "\<not> year_of ?d < 1901"
    using days_before_year_mono [of "year_of ?d + 1" 1901] year_of_bounds(2) [of ?d] d y
    by (auto simp: days_before_year_Suc)
  moreover have "\<not> 2039 \<le> year_of ?d"
    using days_before_year_mono [of 2039 "year_of ?d"] year_of_bounds(1) [of ?d] d y by auto
  ultimately show ?thesis by (simp add: localtime_year)
qed

lemma name_lengths:
  "n < 7 \<Longrightarrow> length (day_names ! n) \<le> 9" "m < 12 \<Longrightarrow> length (month_names ! m) \<le> 9"
proof -
  have "\<forall>s \<in> set day_names. length s \<le> 9" "\<forall>s \<in> set month_names. length s \<le> 9"
    by (simp_all add: day_names_def month_names_def)
  moreover have "length day_names = 7" "length month_names = 12"
    by (simp_all add: day_names_def month_names_def)
  ultimately show "n < 7 \<Longrightarrow> length (day_names ! n) \<le> 9" "m < 12 \<Longrightarrow> length (month_names ! m) \<le> 9"
    by (metis nth_mem)+
qed

lemma time_conv_lengths:
  assumes "fits_long t"
  defines "l \<equiv> localtime t"
  shows "length (time_conv zone l (CHR ''H'')) = 2" "length (time_conv zone l (CHR ''M'')) = 2"
    "length (time_conv zone l (CHR ''S'')) = 2" "length (time_conv zone l (CHR ''d'')) = 2"
    "length (time_conv zone l (CHR ''Y'')) = 4" "length (time_conv zone l (CHR ''A'')) \<le> 9"
    "length (time_conv zone l (CHR ''B'')) \<le> 9" "time_conv zone l (CHR ''Z'') = zone"
proof -
  note r = valid_tm_ranges [OF localtime_valid [of t], folded l_def]
  show "length (time_conv zone l (CHR ''H'')) = 2" "length (time_conv zone l (CHR ''M'')) = 2"
    "length (time_conv zone l (CHR ''S'')) = 2" "length (time_conv zone l (CHR ''d'')) = 2"
    "time_conv zone l (CHR ''Z'') = zone"
    using r by (simp_all add: time_conv_def)
  have "length (dec (nat (1900 + tm_year l))) = 4"
    using localtime_year_range [OF assms(1)] by (intro length_dec_4) (auto simp: l_def)
  then show "length (time_conv zone l (CHR ''Y'')) = 4"
    using localtime_year_range [OF assms(1)] by (simp add: time_conv_def fmt_d_def l_def)
  have "nat (tm_wday l) < 7" by (simp add: l_def tm_wday_localtime)
  then show "length (time_conv zone l (CHR ''A'')) \<le> 9" by (simp add: time_conv_def name_lengths)
  have "nat (tm_mon l) < 12" using r by simp
  then show "length (time_conv zone l (CHR ''B'')) \<le> 9" by (simp add: time_conv_def name_lengths)
qed

text \<open>
  For every 32-bit time stamp and every zone name of up to forty characters the three
  formatting functions fill the caller's buffer: the text never exceeds the size they pass.
\<close>

theorem time_texts_fit:
  assumes "fits_long ts" "length zone \<le> 40"
  shows "snd (ts2time zone ts) \<noteq> None \<and> snd (ts2date zone ts) \<noteq> None \<and>
    snd (ts2datetime zone ts) \<noteq> None"
  using time_conv_lengths [OF assms(1), of zone] assms(2)
  by (simp add: ts2time_def ts2date_def ts2datetime_def strftime_def Let_def)

theorem time_texts_fit_witness:
  "snd (ts2time ''UTC'' (-1)) \<noteq> None \<and> snd (ts2date ''UTC'' (-1)) \<noteq> None \<and>
    snd (ts2datetime ''UTC'' (-1)) \<noteq> None"
  using time_texts_fit [of "-1" "''UTC''"] by (simp add: fits_long_def)

section \<open>The device's names\<close>

lemma with_mac_Return:
  assumes "with_mac E k s = Return r s'"
  shows "6 \<le> length (bytes_reply E s (Sys Esp_efuse_mac_get_default))"
  using assms by (auto simp: with_mac_def stmt_simps split: if_splits)

lemma mac_text_inj: "length xs = length ys \<Longrightarrow> mac_text xs = mac_text ys \<Longrightarrow> xs = ys"
  by (induction xs ys rule: list_induct2)
    (auto simp: mac_text_def dest: hex_text.print_inj_append [OF TrueI TrueI TrueI TrueI]
      hex_text.print_inj [OF TrueI TrueI TrueI])

lemma length_mac_text: "length (mac_text mac) = 2 * length mac"
  by (induction mac) (simp_all add: mac_text_def)

text \<open>
  \<open>get_mac_str\<close> writes twelve characters and their NUL, so it fits every buffer of thirteen,
  and two devices get the same name only if their MAC addresses are the same.
\<close>

theorem get_mac_str_injective:
  assumes a: "get_mac_str E cap s = Return name s1" and b: "get_mac_str E' cap' t = Return name t1"
  shows "take 6 (bytes_reply E s (Sys Esp_efuse_mac_get_default)) =
      take 6 (bytes_reply E' t (Sys Esp_efuse_mac_get_default)) \<and> length name = 12 \<and> 12 < cap"
proof -
  let ?m = "bytes_reply E s (Sys Esp_efuse_mac_get_default)"
  let ?n = "bytes_reply E' t (Sys Esp_efuse_mac_get_default)"
  have l: "6 \<le> length ?m" "6 \<le> length ?n"
    using with_mac_Return [OF a [unfolded get_mac_str_def]]
      with_mac_Return [OF b [unfolded get_mac_str_def]] by simp_all
  have n: "name = mac_text (take 6 ?m)" "length (mac_text (take 6 ?m)) < cap"
    "name = mac_text (take 6 ?n)"
    using a b l by (auto simp: get_mac_str_def with_mac_def stmt_simps split: if_splits)
  with l mac_text_inj [of "take 6 ?m" "take 6 ?n"] show ?thesis by (simp add: length_mac_text)
qed

theorem get_mac_str_injective_witness:
  "length ''24dcc3b0ce00'' = 12 \<and> (12::nat) < 20"
proof -
  let ?E = "quiet\<lparr>bytes_reply := \<lambda>_ _. [0x24, 0xdc, 0xc3, 0xb0, 0xce, 0x00]\<rparr>"
  have "get_mac_str ?E 20 init_machine =
      Return ''24dcc3b0ce00'' (logged (Sys Esp_efuse_mac_get_default) init_machine)"
    by (simp add: get_mac_str_def with_mac_def stmt_simps quiet_def mac_text_def fmt_02x_def
        hex_digits_def)
  from get_mac_str_injective [OF this this] show ?thesis by simp
qed

lemma foldl_bytes: "foldl (\<lambda>acc b. acc + uint b) a (bs :: u8 list) = a + (\<Sum>b\<leftarrow>bs. uint b)"
  by (induction bs arbitrary: a) simp_all

lemma sum_bytes_bound: "0 \<le> (\<Sum>b\<leftarrow>bs. uint (b :: u8)) \<and> (\<Sum>b\<leftarrow>bs. uint b) \<le> 255 * int (length bs)"
proof (induction bs)
  case (Cons b bs)
  moreover have "0 \<le> uint b" "uint b < 256" using uint_bounded [of b] by simp_all
  ultimately show ?case by simp
qed simp

text \<open>
  \<open>id_from_mac\<close> is the sum of the address bytes, at most 1530 of 2^48 addresses, and does not
  depend on their order; devices whose address bytes are permuted share the identifier.
\<close>

theorem id_from_mac_range:
  assumes mac: "bytes_reply E s (Sys Esp_efuse_mac_get_default) = mac" "length mac = 6"
    and perm: "bytes_reply E' s (Sys Esp_efuse_mac_get_default) = mac'" "mset mac' = mset mac"
  shows "\<exists>i. id_from_mac E s = Return i (logged (Sys Esp_efuse_mac_get_default) s) \<and>
    id_from_mac E' s = Return i (logged (Sys Esp_efuse_mac_get_default) s) \<and> 0 \<le> i \<and> i \<le> 1530"
proof -
  have "length mac' = 6" using perm(2) mac(2) by (metis size_mset)
  moreover have "(\<Sum>b\<leftarrow>mac'. uint b) = (\<Sum>b\<leftarrow>mac. uint b)"
    using perm(2) by (metis mset_map sum_mset_sum_list)
  ultimately show ?thesis
    using mac perm(1) sum_bytes_bound [of mac]
    by (simp add: id_from_mac_def with_mac_def stmt_simps foldl_bytes)
qed

theorem id_from_mac_range_witness:
  "\<exists>i. id_from_mac (quiet\<lparr>bytes_reply := \<lambda>_ _. [1, 2, 3, 4, 5, 6]\<rparr>) init_machine =
      Return i (logged (Sys Esp_efuse_mac_get_default) init_machine) \<and>
    id_from_mac (quiet\<lparr>bytes_reply := \<lambda>_ _. [6, 5, 4, 3, 2, 1]\<rparr>) init_machine =
      Return i (logged (Sys Esp_efuse_mac_get_default) init_machine) \<and> 0 \<le> i \<and> i \<le> 1530"
  by (rule id_from_mac_range [of _ _ "[1, 2, 3, 4, 5, 6]" _ "[6, 5, 4, 3, 2, 1]"])
    (simp_all add: quiet_def)

text \<open>
  Configuring a pin below 64 hands the driver a mask with that pin's bit and no other, the
  caller's pull and interrupt settings, and the mode of the function; its result is the driver's.
\<close>

theorem gpio_pin_mask:
  assumes "unat pin < 64"
  shows "\<exists>cfg. set_gpio_output E pin pup pdw intr s =
      Return (int_reply E s (Sys (Gpio_config cfg))) (logged (Sys (Gpio_config cfg)) s) \<and>
    set_gpio_input E pin pup pdw intr s =
      (let c = cfg\<lparr>gpio_mode := ''GPIO_MODE_INPUT''\<rparr> in
       Return (int_reply E s (Sys (Gpio_config c))) (logged (Sys (Gpio_config c)) s)) \<and>
    gpio_mode cfg = ''GPIO_MODE_OUTPUT'' \<and> pull_up_en cfg = pup \<and> pull_down_en cfg = pdw \<and>
    intr_type cfg = intr \<and> (\<forall>k. bit (pin_bit_mask cfg) k = (k = unat pin))"
proof (intro exI conjI)
  let ?c = "\<lparr>intr_type = intr, gpio_mode = ''GPIO_MODE_OUTPUT'',
    pin_bit_mask = push_bit (unat pin) 1 :: u64, pull_down_en = pdw, pull_up_en = pup\<rparr>"
  show "\<forall>k. bit (pin_bit_mask ?c) k = (k = unat pin)"
    using assms by (auto simp: bit_push_bit_iff bit_1_iff simp del: push_bit_of_1)
qed (use assms in \<open>simp_all add: set_gpio_output_def set_gpio_input_def gpio_setup_def stmt_simps Let_def\<close>)

theorem gpio_pin_mask_witness:
  "\<exists>s'. set_gpio_output quiet 2 0 0 0 init_machine = Return 0 s'"
  using gpio_pin_mask [of 2 quiet 0 0 0 init_machine] by (auto simp: quiet_def)

text \<open>
  The reboot reason is written, committed and the handle closed, in that order, exactly when
  the storage could be opened; a handle that was not opened is neither used nor closed.
\<close>

theorem save_reboot_reason_calls:
  "\<exists>t. save_reboot_reason E reason s = Next t \<and>
    calls t = calls s @ Sys (Nvs_open ''storage'') #
      (if int_reply E s (Sys (Nvs_open ''storage'')) = 0
       then let h = out_reply E s (Sys (Nvs_open ''storage'')) in
         [Sys (Nvs_set_u8 h ''btr'' reason), Sys (Nvs_commit h), Sys (Nvs_close h)]
       else [])"
  by (simp add: save_reboot_reason_def stmt_simps Let_def)

end
