(* ===== verification/Gcpjwt.thy ===== *)
theory Gcpjwt
  imports Base64url Utility
begin

text \<open>
  \<^verbatim>\<open>main/gcpjwt.c\<close>: the signed token that logs the device in. The RSA key and the signature
  come from mbedTLS, a parameter: a signature is whatever bytes the signing call hands over.
  A NUL-terminated buffer that \<open>base64url_encode\<close> has filled is read as a C string by what
  follows.
\<close>

section \<open>The code\<close>

definition GCPIOT_BROKER_URI :: string where
  "GCPIOT_BROKER_URI = ''mqtts://europe-west1-mqtt.clearblade.com:8883''"

definition GCPIOT_PROJECT_ID :: string where
  "GCPIOT_PROJECT_ID = ''ridolfi-401111''"

definition GCPIOT_CLIENT_ID :: string where
  "GCPIOT_CLIENT_ID = ''projects/ridolfi-401111/locations/europe-west1/registries/'' @
     ''ridolfi-v1/devices/Device-24dcc3b0ce00''"

definition DATA_TOPIC :: string where
  "DATA_TOPIC = ''/devices/Device-24dcc3b0ce00/events''"

definition DATA_TOPIC_SUB :: string where
  "DATA_TOPIC_SUB = ''/devices/Device-24dcc3b0ce00/commands/#''"

definition get_expire_t :: "int stmt" where
  "get_expire_t = using_state (\<lambda>s. ret (expire_t s))"

definition bytes_of_text :: "string \<Rightarrow> u8 list" where
  "bytes_of_text cs = map of_char cs"

definition c_str :: "string \<Rightarrow> string" where
  "c_str buf = takeWhile (\<lambda>c. c \<noteq> CHR 0x00) buf"

text \<open>Encoding into a local array of \<open>cap\<close> characters, and the string it then holds.\<close>

definition encode_to :: "u8 list \<Rightarrow> nat \<Rightarrow> (string \<Rightarrow> 'r stmt) \<Rightarrow> 'r stmt" where
  "encode_to bytes cap k =
     (case base64url_encode bytes (of_nat (length bytes)) cap of
        Inl _ \<Rightarrow> fail Out_Of_Bounds
      | Inr (_, out) \<Rightarrow> k (c_str out))"

definition jwt_header :: string where
  "jwt_header = ''{\"alg\":\"RS256\",\"typ\":\"JWT\"}''"

text \<open>\<open>%d\<close> prints the unsigned times as signed integers.\<close>

definition jwt_payload :: "u32 \<Rightarrow> u32 \<Rightarrow> string" where
  "jwt_payload iat exp =
     ''{\"iat\":'' @ fmt_d (sint iat) @ '',\"exp\":'' @ fmt_d (sint exp) @
     '',\"aud\":\"'' @ GCPIOT_PROJECT_ID @ ''\"}''"

definition free_oBuf :: "'r stmt" where
  "free_oBuf = using_state (\<lambda>s. free (oBuf s))"

text \<open>
  The library's description of an error code, cut to the static array of 200 characters; the
  failing steps log it.
\<close>

definition mbedtlsError :: "env \<Rightarrow> int \<Rightarrow> string stmt" where
  "mbedtlsError E errnum =
     ext_str E (Tls (Mbedtls_strerror errnum)) (\<lambda>buffer. ret (take 199 buffer))"

definition log_error :: "env \<Rightarrow> int \<Rightarrow> int stmt" where
  "log_error E rc = call_fn (mbedtlsError E rc) (\<lambda>buffer. skip)"

lemma log_error_run [simp]: "log_error E rc s = Next (logged (Tls (Mbedtls_strerror rc)) s)"
  by (simp add: log_error_def mbedtlsError_def call_fn_def ext_str_def ret_def skip_def)

text \<open>Parsing the key, hashing, signing, and writing the token to the caller's buffer.\<close>

definition write_token :: "string \<Rightarrow> int \<Rightarrow> u32 \<Rightarrow> u8 list \<Rightarrow> int stmt" where
  "write_token headerAndPayload jwtstr len sig =
     encode_to sig 600 (\<lambda>base64Signature. block
       [only_if (length headerAndPayload + 1 + length base64Signature + 1 \<ge> unat len)
          (block [free_oBuf, ret (- 1)]),
        store_text jwtstr (headerAndPayload @ ''.'' @ base64Signature)])"

definition sign_digest :: "env \<Rightarrow> string \<Rightarrow> int \<Rightarrow> u32 \<Rightarrow> u8 list \<Rightarrow> int stmt" where
  "sign_digest E headerAndPayload jwtstr len digest =
     ext_bytes E (Tls (Pk_sign digest)) (\<lambda>rc sig. block
       [only_if (length sig > 8000) (fail Out_Of_Bounds),
        only_if (rc \<noteq> 0) (block [log_error E rc, free_oBuf, ret (- 1)]),
        write_token headerAndPayload jwtstr len sig])"

definition sign_token :: "env \<Rightarrow> string \<Rightarrow> int \<Rightarrow> u32 \<Rightarrow> int stmt" where
  "sign_token E headerAndPayload jwtstr len = block
     [do_ext E (Tls Pk_init),
      ext E (Tls Pk_parse_key) (\<lambda>rc. only_if (rc \<noteq> 0) (block [log_error E rc, ret (- 1)])),
      malloc E 8000 (\<lambda>p. block
        [upd (\<lambda>s. s\<lparr>oBuf := p\<rparr>),
         only_if (p = 0) (block [free_oBuf, ret (- 1)])]),
      ext_bytes E (Tls (Md_sha256 (bytes_of_text headerAndPayload))) (\<lambda>rc digest. block
        [only_if (rc \<noteq> 0) (block [log_error E rc, free_oBuf, ret (- 1)]),
         sign_digest E headerAndPayload jwtstr len digest]),
      do_ext E (Tls Pk_free),
      free_oBuf,
      ret 0]"

definition jwt_body :: "env \<Rightarrow> string \<Rightarrow> u32 \<Rightarrow> u32 \<Rightarrow> int \<Rightarrow> u32 \<Rightarrow> int stmt" where
  "jwt_body E base64Header iat exp jwtstr len =
     (let payload = jwt_payload iat exp in
      block
        [fits_in payload 100,
         encode_to (bytes_of_text payload) 100 (\<lambda>base64Payload.
           let headerAndPayload = base64Header @ ''.'' @ base64Payload in
           block
             [fits_in headerAndPayload 800,
              sign_token E headerAndPayload jwtstr len])])"

definition xgiotc_gen_JWT :: "env \<Rightarrow> int \<Rightarrow> u32 \<Rightarrow> u32 \<Rightarrow> int stmt" where
  "xgiotc_gen_JWT E jwtstr len exp_time_s =
     encode_to (bytes_of_text jwt_header) 100 (\<lambda>base64Header.
     call_fn (get_curtimestamp E) (\<lambda>t. block
       [upd (\<lambda>s. s\<lparr>expire_t := to_long (t + uint exp_time_s)\<rparr>),
        ext E (Libc Time) (\<lambda>now.
          let iat = word_of_int now in
          jwt_body E base64Header iat (iat + exp_time_s) jwtstr len)]))"

text \<open>Generating a token touches the heap, the work buffer's pointer and the expiry time.\<close>

locale token_relation = heap_relation +
  assumes R_tls: "R s (logged (Tls c) s)"
    and R_oBuf: "R s (s\<lparr>oBuf := p\<rparr>)"
    and R_expire: "R s (s\<lparr>expire_t := e\<rparr>)"
begin

lemma obeys_encode_to: "(\<And>t. obeys R (k t)) \<Longrightarrow> obeys R (encode_to bytes cap k)"
  unfolding encode_to_def by (auto split: sum.split)

lemma obeys_free_oBuf: "obeys R free_oBuf"
  unfolding free_oBuf_def by (intro heap_intros obeys_free)

lemma obeys_log_error: "obeys R (log_error E rc)"
  unfolding log_error_def mbedtlsError_def by (intro heap_intros R_tls)

lemma obeys_xgiotc_gen_JWT: "obeys R (xgiotc_gen_JWT E p len e)"
  unfolding xgiotc_gen_JWT_def get_curtimestamp_def jwt_body_def sign_token_def sign_digest_def
    write_token_def Let_def
  by (intro heap_intros obeys_encode_to obeys_free_oBuf obeys_log_error R_tls R_oBuf R_expire R_libc)

end

section \<open>Encoded texts\<close>

definition b64_text :: "u8 list \<Rightarrow> string" where
  "b64_text bytes = b64 (map unat bytes)"

lemma length_b64_text [simp]: "length (b64_text bytes) = enc_len (length bytes)"
  by (simp add: b64_text_def length_b64)

lemma nul_not_in_table: "CHR 0x00 \<notin> set base64en"
  by (simp add: base64en_def)

lemma c_str_encoded: "c_str (b64_text bytes @ [CHR 0x00]) = b64_text bytes"
proof -
  have "set (b64_text bytes) \<subseteq> set base64en"
    unfolding b64_text_def by (rule b64_chars) auto
  then have "\<forall>c \<in> set (b64_text bytes). c \<noteq> CHR 0x00" using nul_not_in_table by auto
  then show ?thesis by (simp add: c_str_def)
qed

lemma encode_to_run:
  assumes "bytes \<noteq> []" "length bytes < two32"
  shows "encode_to bytes cap k =
    (if enc_len (length bytes) < cap then k (b64_text bytes) else fail Out_Of_Bounds)"
  using base64url_encode_big [OF assms] base64url_encode_small [OF assms] c_str_encoded [of bytes]
  by (simp add: encode_to_def b64_text_def)

lemma length_bytes_of_text [simp]: "length (bytes_of_text cs) = length cs"
  by (simp add: bytes_of_text_def)

lemma enc_len_mono: "m \<le> n \<Longrightarrow> enc_len m \<le> enc_len n"
  by (simp add: enc_len_def div_le_mono)

lemma fits_sint: "fits_long (sint (w :: u32))"
  using sint_greater_eq [of w] sint_less [of w] by (simp add: fits_long_def)

lemma length_jwt_payload: "0 < length (jwt_payload iat exp)" "length (jwt_payload iat exp) \<le> 60"
  using length_fmt_d [OF fits_sint, of iat] length_fmt_d [OF fits_sint, of exp]
  by (simp_all add: jwt_payload_def GCPIOT_PROJECT_ID_def)

text \<open>The text that is hashed and signed.\<close>

definition signing_input :: "u32 \<Rightarrow> u32 \<Rightarrow> string" where
  "signing_input iat exp =
     b64_text (bytes_of_text jwt_header) @ ''.'' @ b64_text (bytes_of_text (jwt_payload iat exp))"

lemma length_jwt_header: "length jwt_header = 27"
  by (simp add: jwt_header_def)

lemma length_signing_input: "length (signing_input iat exp) \<le> 117"
  using enc_len_mono [OF length_jwt_payload(2), of iat exp]
  by (simp add: signing_input_def length_jwt_header enc_len_def)

text \<open>The state in which signing starts: the clock has been read twice, the expiry is kept.\<close>

definition jwt_started :: "env \<Rightarrow> u32 \<Rightarrow> machine \<Rightarrow> machine" where
  "jwt_started E exp_time_s s =
     logged (Libc Time) ((logged (Libc Time) s)
       \<lparr>expire_t := to_long (clock_at E s + uint exp_time_s)\<rparr>)"

definition jwt_iat :: "env \<Rightarrow> u32 \<Rightarrow> machine \<Rightarrow> u32" where
  "jwt_iat E exp_time_s s =
     word_of_int (int_reply E ((logged (Libc Time) s)
       \<lparr>expire_t := to_long (clock_at E s + uint exp_time_s)\<rparr>) (Libc Time))"

lemma jwt_body_run:
  "jwt_body E (b64_text (bytes_of_text jwt_header)) iat exp jwtstr len s =
    sign_token E (signing_input iat exp) jwtstr len s"
proof -
  let ?p = "jwt_payload iat exp"
  have p: "encode_to (bytes_of_text ?p) 100 k = k (b64_text (bytes_of_text ?p))"
    for k :: "string \<Rightarrow> int stmt"
  proof (subst encode_to_run)
    show "bytes_of_text ?p \<noteq> []"
      using length_jwt_payload(1) by (metis length_bytes_of_text length_greater_0_conv)
    show "length (bytes_of_text ?p) < two32"
      using order_le_less_trans [OF length_jwt_payload(2)] by simp
    have "enc_len (length ?p) \<le> enc_len 60" by (rule enc_len_mono [OF length_jwt_payload(2)])
    then have "enc_len (length ?p) < 100" by (simp add: enc_len_def)
    then show "(if enc_len (length (bytes_of_text ?p)) < 100 then k (b64_text (bytes_of_text ?p))
        else fail Out_Of_Bounds) = k (b64_text (bytes_of_text ?p))" by simp
  qed
  have "length ?p < 100" using order_le_less_trans [OF length_jwt_payload(2)] by simp
  moreover have "length (signing_input iat exp) < 800"
    using order_le_less_trans [OF length_signing_input] by simp
  ultimately show ?thesis
    using p by (simp add: jwt_body_def fits_in_def skip_def signing_input_def Let_def)
qed

lemma xgiotc_gen_JWT_run:
  "xgiotc_gen_JWT E jwtstr len exp_time_s s =
    (let iat = jwt_iat E exp_time_s s in
     sign_token E (signing_input iat (iat + exp_time_s)) jwtstr len (jwt_started E exp_time_s s))"
proof -
  have h: "encode_to (bytes_of_text jwt_header) 100 k = k (b64_text (bytes_of_text jwt_header))"
    for k :: "string \<Rightarrow> int stmt"
    by (subst encode_to_run) (simp_all add: jwt_header_def bytes_of_text_def enc_len_def)
  show ?thesis
    by (simp add: xgiotc_gen_JWT_def h call_fn_def get_curtimestamp_run upd_def ext_def Let_def
        jwt_body_run jwt_iat_def jwt_started_def)
qed

section \<open>Signing, step by step\<close>

text \<open>The states of a run: after the key, with the work buffer, after hashing, after signing.\<close>

definition key_parsed :: "machine \<Rightarrow> machine" where
  "key_parsed s = logged (Tls Pk_parse_key) (logged (Tls Pk_init) s)"

definition work_block :: "env \<Rightarrow> machine \<Rightarrow> int" where
  "work_block E s = int_reply E (key_parsed s) (Libc (Malloc 8000))"

definition with_work :: "env \<Rightarrow> machine \<Rightarrow> machine" where
  "with_work E s =
     (let p = work_block E s; t = logged (Libc (Malloc 8000)) (key_parsed s) in
      t\<lparr>live := p # live s, buffers := (buffers s)(p := None), oBuf := p\<rparr>)"

definition hash_call :: "string \<Rightarrow> call" where
  "hash_call hp = Tls (Md_sha256 (bytes_of_text hp))"

definition sign_call :: "env \<Rightarrow> string \<Rightarrow> machine \<Rightarrow> call" where
  "sign_call E hp s = Tls (Pk_sign (bytes_reply E (with_work E s) (hash_call hp)))"

definition hashed :: "env \<Rightarrow> string \<Rightarrow> machine \<Rightarrow> machine" where
  "hashed E hp s = logged (hash_call hp) (with_work E s)"

definition signed :: "env \<Rightarrow> string \<Rightarrow> machine \<Rightarrow> machine" where
  "signed E hp s = logged (sign_call E hp s) (hashed E hp s)"

definition signature :: "env \<Rightarrow> string \<Rightarrow> machine \<Rightarrow> u8 list" where
  "signature E hp s = bytes_reply E (hashed E hp s) (sign_call E hp s)"

definition err_logged :: "int \<Rightarrow> machine \<Rightarrow> machine" where
  "err_logged rc s = logged (Tls (Mbedtls_strerror rc)) s"

lemma err_logged_simps [simp]:
  "live (err_logged rc s) = live s" "oBuf (err_logged rc s) = oBuf s"
  "buffers (err_logged rc s) = buffers s"
  "calls (err_logged rc s) = calls s @ [Tls (Mbedtls_strerror rc)]"
  by (simp_all add: err_logged_def)

definition token :: "string \<Rightarrow> u8 list \<Rightarrow> string" where
  "token hp sig = hp @ ''.'' @ b64_text sig"

lemma work_states [simp]:
  "live (with_work E s) = work_block E s # live s" "oBuf (with_work E s) = work_block E s"
  "buffers (with_work E s) = (buffers s)(work_block E s := None)"
  "live (hashed E hp s) = work_block E s # live s" "oBuf (hashed E hp s) = work_block E s"
  "buffers (hashed E hp s) = (buffers s)(work_block E s := None)"
  "live (signed E hp s) = work_block E s # live s" "oBuf (signed E hp s) = work_block E s"
  "buffers (signed E hp s) = (buffers s)(work_block E s := None)"
  by (simp_all add: with_work_def hashed_def signed_def Let_def)

lemma write_token_run:
  assumes "0 < length sig" "length sig \<le> 449" "oBuf s \<noteq> 0" "oBuf s \<in> set (live s)"
  shows "write_token hp jwtstr len sig s =
    (if length (token hp sig) + 1 \<ge> unat len then Return (- 1) (freed (oBuf s) s)
     else if jwtstr = 0 then Fault Null_Deref s
     else Next (s\<lparr>buffers := (buffers s)(jwtstr := Some (token hp sig))\<rparr>))"
proof -
  have "encode_to sig 600 k = k (b64_text sig)" for k :: "string \<Rightarrow> int stmt"
  proof (subst encode_to_run)
    have "enc_len (length sig) \<le> enc_len 449" by (rule enc_len_mono [OF assms(2)])
    then show "(if enc_len (length sig) < 600 then k (b64_text sig) else fail Out_Of_Bounds) =
      k (b64_text sig)" by (simp add: enc_len_def)
  qed (use assms in auto)
  with assms(3,4) show ?thesis
    by (simp add: write_token_def only_if_def free_oBuf_def using_state_def free_run ret_def
        skip_def store_text_def upd_def fail_def token_def)
qed

lemma sign_digest_run:
  assumes "length (bytes_reply E s (Tls (Pk_sign d))) \<le> 449" "oBuf s \<noteq> 0" "oBuf s \<in> set (live s)"
  shows "sign_digest E hp jwtstr len d s =
    (if int_reply E s (Tls (Pk_sign d)) \<noteq> 0
     then Return (- 1) (freed (oBuf s) (err_logged (int_reply E s (Tls (Pk_sign d))) (logged (Tls (Pk_sign d)) s)))
     else write_token hp jwtstr len (bytes_reply E s (Tls (Pk_sign d))) (logged (Tls (Pk_sign d)) s))"
  using assms
  by (simp add: sign_digest_def ext_bytes_def only_if_def skip_def free_oBuf_def using_state_def
      free_run ret_def err_logged_def)

text \<open>
  The documented size of an RSA signature: that of the key, here at most 3592 bits; a call that
  succeeds writes one.
\<close>

definition rsa_signatures :: "env \<Rightarrow> bool" where
  "rsa_signatures E \<longleftrightarrow> (\<forall>s d. length (bytes_reply E s (Tls (Pk_sign d))) \<le> 449 \<and>
     (int_reply E s (Tls (Pk_sign d)) = 0 \<longrightarrow> 0 < length (bytes_reply E s (Tls (Pk_sign d)))))"

lemma sign_token_run:
  assumes "rsa_signatures E"
  shows "sign_token E hp jwtstr len s =
    (let p = work_block E s; parsed = int_reply E (logged (Tls Pk_init) s) (Tls Pk_parse_key);
         hash = int_reply E (with_work E s) (hash_call hp);
         sig = int_reply E (hashed E hp s) (sign_call E hp s) in
     if parsed \<noteq> 0 then Return (- 1) (err_logged parsed (key_parsed s))
     else if p = 0 then Return (- 1) ((logged (Libc (Malloc 8000)) (key_parsed s))\<lparr>oBuf := 0\<rparr>)
     else if hash \<noteq> 0 then Return (- 1) (freed p (err_logged hash (hashed E hp s)))
     else if sig \<noteq> 0 then Return (- 1) (freed p (err_logged sig (signed E hp s)))
     else if length (token hp (signature E hp s)) + 1 \<ge> unat len
       then Return (- 1) (freed p (signed E hp s))
     else if jwtstr = 0 then Fault Null_Deref (signed E hp s)
     else block [do_ext E (Tls Pk_free), free_oBuf, ret 0] ((signed E hp s)
       \<lparr>buffers := (buffers s)(p := None, jwtstr := Some (token hp (signature E hp s)))\<rparr>))"
proof -
  let ?p = "work_block E s"
  have sd: "sign_digest E hp jwtstr len (bytes_reply E (with_work E s) (hash_call hp)) (hashed E hp s) =
    (if int_reply E (hashed E hp s) (sign_call E hp s) \<noteq> 0
     then Return (- 1) (freed ?p (err_logged (int_reply E (hashed E hp s) (sign_call E hp s)) (signed E hp s)))
     else write_token hp jwtstr len (signature E hp s) (signed E hp s))" if "?p \<noteq> 0"
    using assms that
    by (subst sign_digest_run) (simp_all add: rsa_signatures_def sign_call_def signature_def signed_def)
  have wt: "write_token hp jwtstr len (signature E hp s) (signed E hp s) =
    (if length (token hp (signature E hp s)) + 1 \<ge> unat len then Return (- 1) (freed ?p (signed E hp s))
     else if jwtstr = 0 then Fault Null_Deref (signed E hp s)
     else Next ((signed E hp s)
       \<lparr>buffers := (buffers s)(?p := None, jwtstr := Some (token hp (signature E hp s)))\<rparr>))"
    if "?p \<noteq> 0" "int_reply E (hashed E hp s) (sign_call E hp s) = 0"
    using assms that
    by (subst write_token_run) (simp_all add: rsa_signatures_def signature_def sign_call_def)
  have m: "malloc E 8000 k (key_parsed s) =
    k ?p (if ?p = 0 then logged (Libc (Malloc 8000)) (key_parsed s)
          else (logged (Libc (Malloc 8000)) (key_parsed s))
            \<lparr>live := ?p # live s, buffers := (buffers s)(?p := None)\<rparr>)" for k :: "int \<Rightarrow> int stmt"
    by (simp add: malloc_def ext_def upd_def work_block_def key_parsed_def)
  have w: "(logged (Libc (Malloc 8000)) (key_parsed s))
      \<lparr>live := ?p # live s, buffers := (buffers s)(?p := None), oBuf := ?p\<rparr> = with_work E s"
    by (simp add: with_work_def Let_def)
  have f: "free_oBuf (err_logged rc (hashed E hp s)) =
      (Next (freed ?p (err_logged rc (hashed E hp s))) :: int flow)" if "?p \<noteq> 0" for rc
    using that by (simp add: free_oBuf_def using_state_def free_run)
  have f0: "free_oBuf (t\<lparr>oBuf := 0\<rparr>) = (Next (t\<lparr>oBuf := 0\<rparr>) :: int flow)" for t
    by (simp add: free_oBuf_def using_state_def free_def skip_def)
  have h: "ext_bytes E (hash_call hp) k (with_work E s) =
    k (int_reply E (with_work E s) (hash_call hp)) (bytes_reply E (with_work E s) (hash_call hp))
      (hashed E hp s)" for k :: "int \<Rightarrow> u8 list \<Rightarrow> int stmt"
    by (simp add: ext_bytes_def hashed_def)
  show ?thesis
    unfolding sign_token_def hash_call_def [symmetric]
    by (simp add: do_ext_def ext_def skip_def only_if_def ret_def key_parsed_def [symmetric] m upd_def w h
        f f0 sd wt Let_def err_logged_def [symmetric] split: flow.split)
qed

section \<open>The token\<close>

lemma work_block_fresh:
  assumes "fresh_blocks E"
  shows "work_block E s \<notin> set (live s)"
  using assms [unfolded fresh_blocks_def, rule_format, of "key_parsed s" 8000]
  by (simp add: work_block_def key_parsed_def)

lemma work_states_calls:
  "calls (key_parsed s) = calls s @ [Tls Pk_init, Tls Pk_parse_key]"
  "calls (with_work E s) = calls s @ [Tls Pk_init, Tls Pk_parse_key, Libc (Malloc 8000)]"
  "calls (hashed E hp s) =
    calls s @ [Tls Pk_init, Tls Pk_parse_key, Libc (Malloc 8000), hash_call hp]"
  "calls (signed E hp s) =
    calls s @ [Tls Pk_init, Tls Pk_parse_key, Libc (Malloc 8000), hash_call hp, sign_call E hp s]"
  "live (key_parsed s) = live s" "buffers (key_parsed s) = buffers s"
  "expire_t (signed E hp s) = expire_t s"
  by (simp_all add: key_parsed_def with_work_def hashed_def signed_def Let_def)

lemma jwt_started_simps [simp]:
  "calls (jwt_started E e s) = calls s @ [Libc Time, Libc Time]" "live (jwt_started E e s) = live s"
  "buffers (jwt_started E e s) = buffers s"
  "expire_t (jwt_started E e s) = to_long (clock_at E s + uint e)"
  by (simp_all add: jwt_started_def)

lemma sign_token_Return_0:
  assumes "rsa_signatures E" "fresh_blocks E" "j \<in> set (live s)" "sign_token E hp j len s = Return 0 s'"
  shows "buffers s' j = Some (token hp (signature E hp s)) \<and>
    length (token hp (signature E hp s)) + 1 < unat len \<and> expire_t s' = expire_t s"
proof -
  have "work_block E s \<noteq> j" using work_block_fresh [OF assms(2)] assms(3) by auto
  then show ?thesis
    using assms(4)
    by (auto simp: sign_token_run [OF assms(1)] Let_def do_ext_def ext_def skip_def ret_def
        free_oBuf_def using_state_def free_run work_states_calls split: if_splits)
qed

text \<open>
  A token for the validity \<open>e\<close> that was made from the state \<open>s\<close> on: the time read then and the expiry,
  signed with what the library returned for the digest of exactly that text.
\<close>

definition issued_token :: "env \<Rightarrow> u32 \<Rightarrow> machine \<Rightarrow> string \<Rightarrow> bool" where
  "issued_token E e s tok \<longleftrightarrow>
     (let iat = jwt_iat E e s; hp = signing_input iat (iat + e) in
      \<exists>t u. tok = hp @ ''.'' @ b64_text (bytes_reply E u (Tls (Pk_sign
        (bytes_reply E t (Tls (Md_sha256 (bytes_of_text hp))))))))"

lemma xgiotc_gen_JWT_issued:
  assumes "rsa_signatures E" "fresh_blocks E" "j \<in> set (live s)"
    and "xgiotc_gen_JWT E j len e s = Return 0 s'"
  shows "\<exists>tok. buffers s' j = Some tok \<and> issued_token E e s tok"
proof -
  let ?iat = "jwt_iat E e s"
  let ?hp = "signing_input ?iat (?iat + e)" and ?s = "jwt_started E e s"
  have "sign_token E ?hp j len ?s = Return 0 s'"
    using assms(4) by (simp add: xgiotc_gen_JWT_run Let_def)
  then have "buffers s' j = Some (token ?hp (signature E ?hp ?s))"
    using sign_token_Return_0 [OF assms(1,2)] assms(3) by simp
  then show ?thesis
    by (auto simp: issued_token_def signature_def sign_call_def hash_call_def token_def Let_def)
qed

text \<open>
  C1: When token generation reports success, the caller's block holds
  \<open>header.payload.signature\<close>, each part encoded by the reference encoder, with the time read
  from the clock as issue time and that time plus the validity as expiry; the signature is what
  the library returned for the digest of exactly the first two parts; the token and its NUL
  are shorter than the length the caller gave; and the expiry is kept in \<open>expire_t\<close>.
\<close>

theorem xgiotc_gen_JWT_token:
  assumes "rsa_signatures E" "fresh_blocks E" "jwtstr \<in> set (live s)"
    and "xgiotc_gen_JWT E jwtstr len exp_time_s s = Return 0 s'"
  shows "let iat = jwt_iat E exp_time_s s;
      hp = b64_text (bytes_of_text jwt_header) @ ''.'' @
        b64_text (bytes_of_text (jwt_payload iat (iat + exp_time_s))) in
    \<exists>t u. (let digest = bytes_reply E t (Tls (Md_sha256 (bytes_of_text hp)));
             sig = bytes_reply E u (Tls (Pk_sign digest)); jwt = hp @ ''.'' @ b64_text sig in
      buffers s' jwtstr = Some jwt \<and> length jwt + 1 < unat len \<and>
      expire_t s' = to_long (clock_at E s + uint exp_time_s))"
proof -
  let ?iat = "jwt_iat E exp_time_s s"
  let ?hp = "signing_input ?iat (?iat + exp_time_s)"
  let ?s = "jwt_started E exp_time_s s"
  have "sign_token E ?hp jwtstr len ?s = Return 0 s'"
    using assms(4) by (simp add: xgiotc_gen_JWT_run Let_def)
  from sign_token_Return_0 [OF assms(1,2) _ this] assms(3)
  have "buffers s' jwtstr = Some (token ?hp (signature E ?hp ?s)) \<and>
    length (token ?hp (signature E ?hp ?s)) + 1 < unat len \<and>
    expire_t s' = to_long (clock_at E s + uint exp_time_s)" by simp
  then show ?thesis
    unfolding Let_def
    by (intro exI [of _ "with_work E ?s"] exI [of _ "hashed E ?hp ?s"])
      (simp add: signature_def sign_call_def hash_call_def token_def signing_input_def)
qed

text \<open>An environment with a key of 256 bytes, and block 1 as the caller's.\<close>

definition rsa_256 :: env where
  "rsa_256 = quiet\<lparr>int_reply := (\<lambda>s c. case c of
       Libc (Malloc n) \<Rightarrow> next_block s | Libc Time \<Rightarrow> 1700000000 | _ \<Rightarrow> 0),
     bytes_reply := \<lambda>_ _. replicate 256 0xa5\<rparr>"

lemma rsa_256_laws: "rsa_signatures rsa_256" "fresh_blocks rsa_256"
  using next_block_fresh by (auto simp: rsa_signatures_def fresh_blocks_def rsa_256_def)

definition caller :: machine where
  "caller = init_machine\<lparr>live := [1]\<rparr>"

lemma rsa_256_token:
  "\<exists>s'. xgiotc_gen_JWT rsa_256 1 5000 86400 caller = Return 0 s'"
proof -
  let ?iat = "jwt_iat rsa_256 86400 caller"
  let ?hp = "signing_input ?iat (?iat + 86400)"
  let ?s = "jwt_started rsa_256 86400 caller"
  have w: "work_block rsa_256 t = 1 + sum_list (map abs (live t))" for t
    by (simp add: work_block_def key_parsed_def rsa_256_def next_block_def)
  have "length ?hp \<le> 117" by (rule length_signing_input)
  moreover have "length (signature rsa_256 ?hp ?s) = 256" by (simp add: signature_def rsa_256_def)
  ultimately have "length (token ?hp (signature rsa_256 ?hp ?s)) + 1 < 5000"
    by (simp add: token_def enc_len_def)
  moreover have "int_reply rsa_256 t (Tls c) = 0" for t c by (simp add: rsa_256_def)
  moreover have "live ?s = [1]" by (simp add: caller_def)
  ultimately show ?thesis
    by (simp add: xgiotc_gen_JWT_run sign_token_run [OF rsa_256_laws(1)] Let_def w hash_call_def
        sign_call_def do_ext_def ext_def skip_def ret_def free_oBuf_def using_state_def free_run)
qed

theorem xgiotc_gen_JWT_token_witness:
  "\<exists>s' jwt. xgiotc_gen_JWT rsa_256 1 5000 86400 caller = Return 0 s' \<and> buffers s' 1 = Some jwt \<and>
    expire_t s' = 1700086400"
proof -
  obtain s' where s': "xgiotc_gen_JWT rsa_256 1 5000 86400 caller = Return 0 s'"
    using rsa_256_token by blast
  have "(1::int) \<in> set (live caller)" by (simp add: caller_def)
  from xgiotc_gen_JWT_token [OF rsa_256_laws this s'] s' show ?thesis
    by (auto simp: Let_def clock_at_def rsa_256_def to_long_id fits_long_def)
qed

text \<open>What token generation may touch: the log, block contents, its buffer and the expiry.\<close>

definition token_frame :: "machine \<Rightarrow> machine \<Rightarrow> bool" where
  "token_frame s t \<longleftrightarrow> t = s\<lparr>calls := calls t, buffers := buffers t, oBuf := oBuf t, expire_t := expire_t t\<rparr>"

lemma token_frame_eqs:
  assumes "token_frame s t"
  shows "live t = live s" "jwt t = jwt s" "mqttc t = mqttc s" "mqttcfg t = mqttcfg s"
    "mqtt_service_state t = mqtt_service_state s" "array_modbus t = array_modbus s"
    "wifi_connect t = wifi_connect s"
  by (subst assms [unfolded token_frame_def], simp)+

lemma xgiotc_gen_JWT_result:
  assumes rsa: "rsa_signatures E" and fresh: "fresh_blocks E" and j: "jwtstr \<noteq> 0"
  shows "\<exists>r s' cs. xgiotc_gen_JWT E jwtstr len exp_time_s s = Return r s' \<and> (r = 0 \<or> r = - 1) \<and>
    token_frame s s' \<and> (\<forall>q. q \<in> set (live s) \<and> (r = - 1 \<or> q \<noteq> jwtstr) \<longrightarrow> buffers s' q = buffers s q) \<and>
    (r = 0 \<and> jwtstr \<in> set (live s) \<longrightarrow> buffers s' jwtstr \<noteq> None) \<and>
    calls s' = calls s @ cs \<and> (Tls Pk_free \<in> set cs \<longleftrightarrow> r = 0) \<and> (\<forall>c. Mqtt c \<notin> set cs)"
proof -
  let ?s = "jwt_started E exp_time_s s"
  let ?p = "work_block E ?s"
  have fr: "?p \<notin> set (live s)" using work_block_fresh [OF fresh, of ?s] by simp
  have st: "token_frame s ?s" by (simp add: jwt_started_def token_frame_def logged_def)
  have frames: "token_frame s (err_logged rc (key_parsed ?s))"
    "token_frame s ((logged (Libc (Malloc 8000)) (key_parsed ?s))\<lparr>oBuf := 0\<rparr>)"
    "token_frame s (freed ?p (err_logged rc (hashed E hp ?s)))" "token_frame s (freed ?p (signed E hp ?s))"
    "token_frame s (freed ?p (err_logged rc (signed E hp ?s)))"
    "token_frame s (freed ?p (logged (Tls Pk_free) ((signed E hp ?s)\<lparr>buffers := b\<rparr>)))" for hp b rc
    using st
    by (cases s; cases "?s"; simp add: token_frame_def key_parsed_def logged_def freed_def hashed_def
        err_logged_def signed_def with_work_def Let_def)+
  from frames fr j show ?thesis
    by (auto simp: xgiotc_gen_JWT_run sign_token_run [OF rsa] Let_def work_states_calls
        hash_call_def sign_call_def do_ext_def ext_def skip_def ret_def free_oBuf_def
        using_state_def free_run)
qed

text \<open>
  C11: With a key whose signatures have at most 449 bytes, an allocator that hands out unused blocks
  or none, and a block for the token: whichever of the library's calls fail, token generation
  returns 0 or -1 and gives back the block it allocates: the live blocks are the same before and
  after, and on failure every one of them keeps its contents. The parsed key, in contrast, is
  released only on success.
\<close>

theorem xgiotc_gen_JWT_memory:
  assumes rsa: "rsa_signatures E" and fresh: "fresh_blocks E" and j: "jwtstr \<noteq> 0"
  shows "\<exists>r s' cs. xgiotc_gen_JWT E jwtstr len exp_time_s s = Return r s' \<and> (r = 0 \<or> r = - 1) \<and>
    live s' = live s \<and> (\<forall>q. q \<in> set (live s) \<and> (r = - 1 \<or> q \<noteq> jwtstr) \<longrightarrow> buffers s' q = buffers s q) \<and>
    calls s' = calls s @ cs \<and> (Tls Pk_free \<in> set cs \<longleftrightarrow> r = 0)"
  using xgiotc_gen_JWT_result [OF assms, of len exp_time_s s]
  by (elim exE conjE, intro exI conjI) (auto dest: token_frame_eqs)

theorem xgiotc_gen_JWT_memory_witness:
  "\<exists>r s'. xgiotc_gen_JWT rsa_256 1 100 86400 caller = Return r s' \<and> live s' = [1]"
  using xgiotc_gen_JWT_memory [OF rsa_256_laws, of 1 100 86400 caller] by (auto simp: caller_def)

text \<open>
  C34: The array for the encoded signature has 600 characters, so a signature of 450 bytes or
  more, as a 4096-bit key makes, overruns it: generation cannot succeed with such a key.
\<close>

theorem xgiotc_gen_JWT_long_signature:
  assumes ok: "\<And>s c. int_reply E s (Tls c) = 0" "\<And>s. int_reply E s (Libc (Malloc 8000)) \<noteq> 0"
    and sig: "\<And>s d. 450 \<le> length (bytes_reply E s (Tls (Pk_sign d)))"
      "\<And>s d. length (bytes_reply E s (Tls (Pk_sign d))) \<le> 8000"
  shows "\<exists>t. xgiotc_gen_JWT E jwtstr len exp_time_s s = Fault Out_Of_Bounds t"
proof -
  have w: "write_token hp jwtstr len (bytes_reply E u (Tls (Pk_sign d))) t = Fault Out_Of_Bounds t"
    for hp u d t
  proof -
    let ?b = "bytes_reply E u (Tls (Pk_sign d))"
    have "?b \<noteq> []" "length ?b < two32"
      using sig(1) [of u d] order_le_less_trans [OF sig(2)] by auto
    moreover have "enc_len 450 \<le> enc_len (length ?b)" using sig(1) by (rule enc_len_mono)
    ultimately show ?thesis
      by (simp add: write_token_def encode_to_run fail_def enc_len_def)
  qed
  have sd: "sign_digest E hp jwtstr len d t = Fault Out_Of_Bounds (logged (Tls (Pk_sign d)) t)"
    for hp d t
    using w leD [OF sig(2)] ok(1) by (simp add: sign_digest_def ext_bytes_def only_if_def skip_def)
  show ?thesis
    using ok
    by (simp add: xgiotc_gen_JWT_run Let_def sign_token_def sd do_ext_def ext_def
        ext_bytes_def malloc_def upd_def skip_def only_if_def)
qed

theorem xgiotc_gen_JWT_long_signature_witness:
  "\<exists>t. xgiotc_gen_JWT (quiet\<lparr>int_reply := \<lambda>_ c. if c = Libc (Malloc 8000) then 7 else 0,
     bytes_reply := \<lambda>_ _. replicate 512 0\<rparr>) 1 5000 86400 caller = Fault Out_Of_Bounds t"
  by (rule xgiotc_gen_JWT_long_signature) simp_all

text \<open>
  C35: The payload states the true times as long as the expiry lies before 2038; from then on,
  that is from the last validity period before the end of the 32-bit range, the expiry is
  printed as a negative number, before the issue time.
\<close>

theorem jwt_payload_times:
  assumes "uint iat < 2147483648" "uint e < 2147483648"
  shows "jwt_payload iat (iat + e) =
    ''{\"iat\":'' @ fmt_d (uint iat) @ '',\"exp\":'' @
    fmt_d (if uint iat + uint e < 2147483648 then uint iat + uint e
           else uint iat + uint e - 4294967296) @
    '',\"aud\":\"ridolfi-401111\"}''"
proof -
  have s: "sint w = (if uint w < 2147483648 then uint w else uint w - 4294967296)" for w :: u32
  proof -
    have "signed_take_bit 31 (uint w) = signed_take_bit 31 (uint w - 4294967296)"
      by (simp add: signed_take_bit_eq_iff_take_bit_eq take_bit_eq_mod)
    moreover have "0 \<le> uint w" "uint w < 4294967296" using uint_bounded [of w] by simp_all
    moreover have "signed_take_bit 31 (uint w) = uint w" if "uint w < 2147483648"
    proof (rule signed_take_bit_int_eq_self)
      have "- (2 ^ 31) \<le> (0 :: int)" by simp
      also have "0 \<le> uint w" by simp
      finally show "- (2 ^ 31) \<le> uint w" .
    qed (use that in simp)
    ultimately show ?thesis
      by (cases "uint w < 2147483648") (simp_all add: sint_uint signed_take_bit_int_eq_self)
  qed
  moreover have "uint (iat + e) = uint iat + uint e"
    using assms by (simp add: uint_add_lem [THEN iffD1])
  ultimately show ?thesis
    using assms by (simp add: jwt_payload_def GCPIOT_PROJECT_ID_def)
qed

theorem jwt_payload_times_witness:
  "jwt_payload 2147400000 (2147400000 + 86400) =
    ''{\"iat\":'' @ fmt_d 2147400000 @ '',\"exp\":'' @ fmt_d (- 2147480896) @
    '',\"aud\":\"ridolfi-401111\"}''"
  using jwt_payload_times [of 2147400000 86400] by simp

end
