(* ===== verification/Mqtt.thy ===== *)
theory Mqtt
  imports Gcpjwt
begin

text \<open>
  \<^verbatim>\<open>main/mqtt.c\<close>: starting an MQTT client with a fresh token as its password, and the state of
  the service. The two callers of \<open>mqtt_app_start\<close> pass the addresses of the globals \<open>mqttc\<close> and
  \<open>mqttcfg\<close>, so the handle is stored in \<open>mqttc\<close> and the configuration is an argument. The
  password is a pointer to the token's block: the text the block holds when the client is made.
\<close>

section \<open>The code\<close>

definition ESP_FAIL :: int where "ESP_FAIL = -1"

definition get_mqtt_service_state :: "mqtt_serv_state_t stmt" where
  "get_mqtt_service_state = using_state (\<lambda>s. ret (mqtt_service_state s))"

definition set_mqtt_service_state :: "mqtt_serv_state_t \<Rightarrow> unit stmt" where
  "set_mqtt_service_state st = upd (\<lambda>s. s\<lparr>mqtt_service_state := st\<rparr>)"

text \<open>
  \<open>printf("%s", p)\<close>: the C library prints \<open>(null)\<close> for NULL; a block that was never written has
  no string to print.
\<close>

definition print_block :: "int \<Rightarrow> 'r stmt" where
  "print_block p = using_state (\<lambda>s.
     if_else (p = 0 \<or> buffers s p \<noteq> None) skip (fail Uninitialised))"

definition free_jwt :: "'r stmt" where
  "free_jwt = using_state (\<lambda>s. free (jwt s))"

definition giotc_config :: "mqtt_config \<Rightarrow> string option \<Rightarrow> mqtt_config" where
  "giotc_config cfg pass =
     cfg\<lparr>uri := Some GCPIOT_BROKER_URI, client_id := Some GCPIOT_CLIENT_ID,
       cert_pem := Some ''root_pem_start'', username := Some ''device'', password := pass\<rparr>"

text \<open>
  Starting the client with the configuration that was put together. Once it is started its task
  runs beside the caller: \<open>during\<close> is what other tasks do before the caller goes on.
\<close>

definition start_client :: "env \<Rightarrow> int stmt \<Rightarrow> mqtt_config \<Rightarrow> int stmt" where
  "start_client E during mqtt_cfg = block
     [using_state (\<lambda>s. print_block (jwt s)),
      ext E (Mqtt (Esp_mqtt_client_init mqtt_cfg)) (\<lambda>client. upd (\<lambda>s. s\<lparr>mqttc := client\<rparr>)),
      using_state (\<lambda>s. only_if (mqttc s = 0) (block [free_jwt, ret (- 1)])),
      using_state (\<lambda>s. ext E (Mqtt (Esp_mqtt_client_start (mqttc s))) (\<lambda>err. block
        [during,
         using_state (\<lambda>s. only_if (jwt s \<noteq> 0) free_jwt),
         ret err]))]"

definition mqtt_app_start_during :: "env \<Rightarrow> int stmt \<Rightarrow> mqtt_config \<Rightarrow> int stmt" where
  "mqtt_app_start_during E during mqtt_ext_cfg = block
     [only_if (uri mqtt_ext_cfg = None) (ret ESP_FAIL),
      malloc E 5000 (\<lambda>p. upd (\<lambda>s. s\<lparr>jwt := p\<rparr>)),
      if_else (uri mqtt_ext_cfg = Some GCPIOT_BROKER_URI)
        (block
          [using_state (\<lambda>s. call_fn (xgiotc_gen_JWT E (jwt s) 5000 (3600 * 24)) (\<lambda>r.
             only_if (r < 0) (block [free_jwt, ret ESP_FAIL]))),
           using_state (\<lambda>s. only_if (jwt s = 0) (block [free_jwt, ret ESP_FAIL])),
           using_state (\<lambda>s. start_client E during (giotc_config mqtt_ext_cfg (buffers s (jwt s))))])
        (start_client E during mqtt_ext_cfg)]"

text \<open>With nothing in between, as when the caller keeps the processor.\<close>

definition mqtt_app_start :: "env \<Rightarrow> mqtt_config \<Rightarrow> int stmt" where
  "mqtt_app_start E mqtt_ext_cfg = mqtt_app_start_during E skip mqtt_ext_cfg"

text \<open>Starting the client touches its handle as well, and nothing else.\<close>

locale client_relation = token_relation +
  assumes R_init: "R s (logged (Mqtt (Esp_mqtt_client_init c)) s)"
    and R_start: "R s (logged (Mqtt (Esp_mqtt_client_start h)) s)"
    and R_mqttc: "R s (s\<lparr>mqttc := h\<rparr>)"
    and R_jwt: "R s (s\<lparr>jwt := p\<rparr>)"
begin

lemma obeys_free_jwt: "obeys R free_jwt"
  unfolding free_jwt_def by (intro heap_intros obeys_free)

lemma obeys_start_client: "obeys R during \<Longrightarrow> obeys R (start_client E during cfg)"
  unfolding start_client_def print_block_def
  by (intro heap_intros obeys_free_jwt R_init R_start R_mqttc)

lemma obeys_mqtt_app_start_during: "obeys R during \<Longrightarrow> obeys R (mqtt_app_start_during E during cfg)"
  unfolding mqtt_app_start_during_def
  by (intro heap_intros obeys_free_jwt obeys_start_client obeys_xgiotc_gen_JWT R_jwt)

lemma obeys_mqtt_app_start: "obeys R (mqtt_app_start E cfg)"
  unfolding mqtt_app_start_def by (rule obeys_mqtt_app_start_during) simp

end

section \<open>Starting with a token\<close>

text \<open>The token's block, and the state in which the token is generated.\<close>

definition jwt_block :: "env \<Rightarrow> machine \<Rightarrow> int" where
  "jwt_block E s = int_reply E s (Libc (Malloc 5000))"

definition with_jwt :: "env \<Rightarrow> machine \<Rightarrow> machine" where
  "with_jwt E s =
     (let p = jwt_block E s; t = logged (Libc (Malloc 5000)) s in
      if p = 0 then t\<lparr>jwt := 0\<rparr>
      else t\<lparr>live := p # live s, buffers := (buffers s)(p := None), jwt := p\<rparr>)"

lemma with_jwt_simps [simp]:
  "jwt (with_jwt E s) = jwt_block E s"
  "jwt_block E s \<noteq> 0 \<Longrightarrow> live (with_jwt E s) = jwt_block E s # live s"
  "calls (with_jwt E s) = calls s @ [Libc (Malloc 5000)]"
  "mqttc (with_jwt E s) = mqttc s" "mqttcfg (with_jwt E s) = mqttcfg s"
  "mqtt_service_state (with_jwt E s) = mqtt_service_state s"
  "array_modbus (with_jwt E s) = array_modbus s" "wifi_connect (with_jwt E s) = wifi_connect s"
  by (simp_all add: with_jwt_def Let_def)

lemma malloc_jwt:
  "malloc E 5000 (\<lambda>p. upd (\<lambda>s. s\<lparr>jwt := p\<rparr>)) s = Next (with_jwt E s)"
  by (simp add: malloc_def ext_def upd_def with_jwt_def jwt_block_def Let_def)

lemma jwt_block_fresh: "fresh_blocks E \<Longrightarrow> jwt_block E s \<notin> set (live s)"
  by (simp add: fresh_blocks_def jwt_block_def)

text \<open>What a started client leaves behind.\<close>

definition init_call :: "mqtt_config \<Rightarrow> call" where
  "init_call cfg = Mqtt (Esp_mqtt_client_init cfg)"

definition made :: "env \<Rightarrow> mqtt_config \<Rightarrow> machine \<Rightarrow> machine" where
  "made E cfg s = (logged (init_call cfg) s)\<lparr>mqttc := int_reply E s (init_call cfg)\<rparr>"

lemma start_client_run:
  assumes "jwt s \<noteq> 0" "jwt s \<in> set (live s)" "buffers s (jwt s) \<noteq> None"
  shows "start_client E during cfg s =
    (let c = int_reply E s (init_call cfg); t = made E cfg s;
         start = Mqtt (Esp_mqtt_client_start c) in
     if c = 0 then Return (- 1) (freed (jwt s) t)
     else block [during, using_state (\<lambda>u. only_if (jwt u \<noteq> 0) free_jwt), ret (int_reply E t start)]
       (logged start t))"
  using assms
  by (simp add: start_client_def print_block_def using_state_def if_else_def skip_def ext_def upd_def
      made_def init_call_def only_if_def free_jwt_def free_run ret_def Let_def)

text \<open>What starting a client may touch.\<close>

definition client_frame :: "machine \<Rightarrow> machine \<Rightarrow> bool" where
  "client_frame s t \<longleftrightarrow> mqttcfg t = mqttcfg s \<and> mqtt_service_state t = mqtt_service_state s \<and>
     array_modbus t = array_modbus s \<and> wifi_connect t = wifi_connect s \<and> live t = live s \<and>
     (\<forall>q. q \<in> set (live s) \<longrightarrow> buffers t q = buffers s q)"

lemma made_simps [simp]:
  "live (made E cfg s) = live s" "buffers (made E cfg s) = buffers s" "jwt (made E cfg s) = jwt s"
  "calls (made E cfg s) = calls s @ [init_call cfg]"
  "mqttc (made E cfg s) = int_reply E s (init_call cfg)" "mqttcfg (made E cfg s) = mqttcfg s"
  "mqtt_service_state (made E cfg s) = mqtt_service_state s"
  "array_modbus (made E cfg s) = array_modbus s" "wifi_connect (made E cfg s) = wifi_connect s"
  by (simp_all add: made_def)

lemma mqtt_app_start_giotc:
  assumes "uri cfg = Some GCPIOT_BROKER_URI"
  shows "mqtt_app_start_during E during cfg s =
    (case xgiotc_gen_JWT E (jwt_block E s) 5000 86400 (with_jwt E s) of
       Return r t \<Rightarrow>
         if r < 0 then block [free_jwt, ret ESP_FAIL] t
         else if jwt t = 0 then block [free_jwt, ret ESP_FAIL] t
         else start_client E during (giotc_config cfg (buffers t (jwt t))) t
     | Next t \<Rightarrow> Fault Missing_Return t | Fault f t \<Rightarrow> Fault f t)"
  using assms
  by (simp add: mqtt_app_start_during_def only_if_def skip_def malloc_jwt if_else_def using_state_def
      call_fn_def ret_def split: flow.split)

text \<open>
  How a start ends: without a token, without a client, or with a client that was started. The
  client is made with the token of this start as its password.
\<close>

definition start_ended :: "env \<Rightarrow> mqtt_config \<Rightarrow> machine \<Rightarrow> int \<Rightarrow> machine \<Rightarrow> call list \<Rightarrow> bool" where
  "start_ended E cfg s r t cs \<longleftrightarrow>
     r = ESP_FAIL \<and> mqttc t = mqttc s \<and> (\<forall>c. init_call c \<notin> set cs) \<or>
     (\<exists>tok. issued_token E 86400 (with_jwt E s) tok \<and>
       init_call (giotc_config cfg (Some tok)) \<in> set cs) \<and>
       (r = - 1 \<and> mqttc t = 0 \<or>
        mqttc t \<noteq> 0 \<and> Mqtt (Esp_mqtt_client_start (mqttc t)) \<in> set cs \<and>
          (\<exists>u. r = int_reply E u (Mqtt (Esp_mqtt_client_start (mqttc t)))))"

lemma mqtt_app_start_outcome:
  assumes rsa: "rsa_signatures E" and fresh: "fresh_blocks E"
    and cfg: "uri cfg = Some GCPIOT_BROKER_URI" and ok: "jwt_block E s \<noteq> 0"
  shows "\<exists>r t cs. mqtt_app_start E cfg s = Return r t \<and> calls t = calls s @ cs \<and>
    client_frame s t \<and> start_ended E cfg s r t cs"
proof -
  let ?p = "jwt_block E s" and ?s = "with_jwt E s"
  have fr: "?p \<notin> set (live s)" by (rule jwt_block_fresh [OF fresh])
  obtain r u cs where run: "xgiotc_gen_JWT E ?p 5000 86400 ?s = Return r u" and r: "r = 0 \<or> r = - 1"
    and frame: "token_frame ?s u"
    and buf: "\<And>q. q \<in> set (live ?s) \<and> (r = - 1 \<or> q \<noteq> ?p) \<Longrightarrow> buffers u q = buffers ?s q"
    and tok: "r = 0 \<and> ?p \<in> set (live ?s) \<Longrightarrow> buffers u ?p \<noteq> None" and cs: "calls u = calls ?s @ cs"
    and noinit: "\<And>c. Mqtt c \<notin> set cs"
    using xgiotc_gen_JWT_result [OF rsa fresh ok, of 5000 86400 ?s] by blast
  note eqs = token_frame_eqs [OF frame]
  have q: "buffers u q = buffers s q" if "q \<in> set (live s)" for q
  proof -
    have "q \<noteq> ?p" using that fr by auto
    with buf [of q] that ok show ?thesis by (simp add: with_jwt_def Let_def)
  qed
  have fj: "free_jwt u = (Next (freed ?p u) :: int flow)"
    using eqs ok by (simp add: free_jwt_def using_state_def free_run)
  show ?thesis
  proof (cases "r = 0")
    case False
    then have "mqtt_app_start E cfg s = Return ESP_FAIL (freed ?p u)"
      using r by (simp add: mqtt_app_start_def mqtt_app_start_giotc [OF cfg] run fj ret_def)
    moreover have "client_frame s (freed ?p u)"
      using eqs ok fr q by (auto simp: client_frame_def)
    moreover have "start_ended E cfg s ESP_FAIL (freed ?p u)
        (Libc (Malloc 5000) # cs @ [Libc (Free ?p)])"
      using eqs noinit by (simp add: start_ended_def init_call_def)
    ultimately show ?thesis using cs by fastforce
  next
    case True
    have "?p \<in> set (live ?s)" using ok by simp
    from xgiotc_gen_JWT_issued [OF rsa fresh this, of 5000 86400 u] run True
    obtain tk where tk: "buffers u ?p = Some tk" "issued_token E 86400 ?s tk" by auto
    let ?cfg = "giotc_config cfg (Some tk)"
    have eq: "mqtt_app_start E cfg s = start_client E skip ?cfg u"
      using True eqs ok tk(1) by (simp add: mqtt_app_start_def mqtt_app_start_giotc [OF cfg] run)
    have run2: "start_client E skip ?cfg u =
      (let c = int_reply E u (init_call ?cfg); t = made E ?cfg u;
           start = Mqtt (Esp_mqtt_client_start c) in
       if c = 0 then Return (- 1) (freed ?p t)
       else Return (int_reply E t start) (freed ?p (logged start t)))"
      using start_client_run [of u E skip ?cfg, unfolded eqs(2) with_jwt_simps(1)] eqs ok tk(1)
      by (simp add: skip_def using_state_def only_if_def free_jwt_def free_run ret_def Let_def)
    have frames: "client_frame s (freed ?p (made E ?cfg u))"
      "client_frame s (freed ?p (logged c (made E ?cfg u)))" for c
      using eqs ok fr q by (auto simp: client_frame_def)
    show ?thesis
    proof (cases "int_reply E u (init_call ?cfg) = 0")
      case True
      with frames(1) show ?thesis
        unfolding eq run2 using cs tk(2) by (fastforce simp: start_ended_def Let_def)
    next
      case nonzero: False
      let ?st = "Mqtt (Esp_mqtt_client_start (int_reply E u (init_call ?cfg)))"
      let ?t = "freed ?p (logged ?st (made E ?cfg u))"
      have "start_ended E cfg s (int_reply E (made E ?cfg u) ?st) ?t
          (Libc (Malloc 5000) # cs @ [init_call ?cfg, ?st, Libc (Free ?p)])"
        using nonzero tk(2) unfolding start_ended_def by auto
      with nonzero frames(2) [of ?st] show ?thesis
        unfolding eq run2 using cs by (fastforce simp: Let_def)
    qed
  qed
qed

text \<open>
  C4: Given a block for the token and a key whose signatures fit, starting the client towards the broker always returns; it
  leaves the service state, the registers and all other blocks as they were and gives the
  token's block back; and it ends in one of three ways: \<open>ESP_FAIL\<close> with no client made and the
  old handle kept, -1 with a null handle, or the result of starting a client that was made with
  the broker's address, the device's name and, as its password, the token of this start:
  \<open>header.payload.signature\<close> with the time read at this start, the expiry a day later, and the
  library's signature of the digest of the first two parts.
\<close>

theorem mqtt_app_start_ends:
  assumes "rsa_signatures E" "fresh_blocks E" "uri cfg = Some GCPIOT_BROKER_URI"
    and "int_reply E s (Libc (Malloc 5000)) \<noteq> 0"
  shows "\<exists>r t cs. mqtt_app_start E cfg s = Return r t \<and> calls t = calls s @ cs \<and>
    client_frame s t \<and> start_ended E cfg s r t cs"
  using mqtt_app_start_outcome [OF assms(1-3)] assms(4) by (simp add: jwt_block_def)

definition broker_config :: mqtt_config where
  "broker_config = no_config\<lparr>uri := Some GCPIOT_BROKER_URI\<rparr>"

theorem mqtt_app_start_ends_witness:
  "\<exists>r t cs. mqtt_app_start rsa_256 broker_config init_machine = Return r t \<and>
    client_frame init_machine t \<and> start_ended rsa_256 broker_config init_machine r t cs"
proof -
  have "int_reply rsa_256 init_machine (Libc (Malloc 5000)) \<noteq> 0"
    using next_block_pos [of init_machine] by (simp add: rsa_256_def)
  from mqtt_app_start_ends [OF rsa_256_laws _ this, of broker_config] show ?thesis
    by (auto simp: broker_config_def)
qed

text \<open>A device on which no call fails: every start makes a token and a client.\<close>

definition all_well :: "env \<Rightarrow> bool" where
  "all_well E \<longleftrightarrow> (\<forall>s c. int_reply E s (Tls c) = 0) \<and> (\<forall>s. int_reply E s (Libc (Malloc 8000)) \<noteq> 0) \<and>
     (\<forall>s cfg. int_reply E s (init_call cfg) \<noteq> 0)"

lemma token_short:
  assumes "rsa_signatures E"
  shows "length (token (signing_input iat exp) (signature E hp t)) + 1 < 5000"
proof -
  have "enc_len (length (signature E hp t)) \<le> enc_len 449"
    using assms by (intro enc_len_mono) (simp add: rsa_signatures_def signature_def sign_call_def)
  then show ?thesis
    using length_signing_input [of iat exp] by (simp add: token_def enc_len_def)
qed

lemma xgiotc_gen_JWT_succeeds:
  assumes "rsa_signatures E" "all_well E" "j \<noteq> 0"
  shows "\<exists>t. xgiotc_gen_JWT E j 5000 e s = Return 0 t"
proof -
  have ok: "int_reply E s (Tls c) = 0" "int_reply E s (Libc (Malloc 8000)) \<noteq> 0" for s c
    using assms(2) by (simp_all add: all_well_def)
  have len: "\<not> 4999 \<le> length (token (signing_input iat exp) (signature E hp t))" for iat exp hp t
    using token_short [OF assms(1), of iat exp hp t] by simp
  show ?thesis
    using assms(3)
    by (simp add: len xgiotc_gen_JWT_run sign_token_run [OF assms(1)] Let_def work_block_def ok
        hash_call_def sign_call_def do_ext_def ext_def skip_def ret_def free_oBuf_def using_state_def
        free_run)
qed

text \<open>
  The calls to the client library, and the point a start reaches when nothing fails: the client
  runs, and the token's block is still to be freed.
\<close>

definition client_calls :: "machine \<Rightarrow> call list" where
  "client_calls s = filter (\<lambda>c. case c of Mqtt _ \<Rightarrow> True | _ \<Rightarrow> False) (calls s)"

lemma mqtt_app_start_reaches:
  assumes rsa: "rsa_signatures E" and fresh: "fresh_blocks E"
    and cfg: "uri cfg = Some GCPIOT_BROKER_URI" and ok: "jwt_block E s \<noteq> 0" "all_well E"
  shows "\<exists>tok err u. (\<forall>during. mqtt_app_start_during E during cfg s =
      block [during, using_state (\<lambda>u. only_if (jwt u \<noteq> 0) free_jwt), ret err] u) \<and>
    jwt u = jwt_block E s \<and> live u = jwt_block E s # live s \<and> mqttc u \<noteq> 0 \<and>
    client_calls u = client_calls s @
      [init_call (giotc_config cfg (Some tok)), Mqtt (Esp_mqtt_client_start (mqttc u))] \<and>
    mqttcfg u = mqttcfg s \<and> wifi_connect u = wifi_connect s"
proof -
  let ?p = "jwt_block E s" and ?s = "with_jwt E s"
  obtain t where t: "xgiotc_gen_JWT E ?p 5000 86400 ?s = Return 0 t"
    using xgiotc_gen_JWT_succeeds [OF rsa ok(2,1)] by blast
  then obtain cs where frame: "token_frame ?s t" and buf: "buffers t ?p \<noteq> None"
    and cs: "calls t = calls ?s @ cs" "\<forall>c. Mqtt c \<notin> set cs"
    using xgiotc_gen_JWT_result [OF rsa fresh ok(1), of 5000 86400 ?s] ok(1) by auto
  note eqs = token_frame_eqs [OF frame]
  obtain tok where tok: "buffers t ?p = Some tok" using buf by auto
  let ?cfg = "giotc_config cfg (Some tok)"
  let ?start = "Mqtt (Esp_mqtt_client_start (int_reply E t (init_call ?cfg)))"
  let ?u = "logged ?start (made E ?cfg t)" and ?err = "int_reply E (made E ?cfg t) ?start"
  have "mqtt_app_start_during E during cfg s = start_client E during ?cfg t" for during
    using eqs ok(1) tok by (simp add: mqtt_app_start_giotc [OF cfg] t)
  moreover have "int_reply E t (init_call ?cfg) \<noteq> 0" using ok(2) by (simp add: all_well_def)
  moreover have "filter (\<lambda>c. case c of Mqtt _ \<Rightarrow> True | _ \<Rightarrow> False) cs = []"
    using cs(2) by (auto simp: filter_empty_conv split: call.splits)
  ultimately show ?thesis
    using eqs ok(1) tok cs(1) start_client_run [of t E _ ?cfg]
    by (rule_tac x = tok in exI, rule_tac x = ?err in exI, rule_tac x = ?u in exI)
      (simp add: client_calls_def init_call_def Let_def del: block_more)
qed

text \<open>
  C33: The null check of the token's block comes after the token has been written through it: if
  the allocation fails but the token is generated, the write goes through a null pointer.
\<close>

theorem mqtt_app_start_null_block:
  assumes "rsa_signatures E" and cfg: "uri cfg = Some GCPIOT_BROKER_URI"
    and null: "int_reply E s (Libc (Malloc 5000)) = 0"
    and ok: "\<And>s c. int_reply E s (Tls c) = 0" "\<And>s. int_reply E s (Libc (Malloc 8000)) \<noteq> 0"
  shows "\<exists>t. mqtt_app_start E cfg s = Fault Null_Deref t"
proof -
  have short: "\<not> 4999 \<le> length (token (signing_input iat exp) (signature E hp t))" for iat exp hp t
    using token_short [OF assms(1), of iat exp hp t] by simp
  show ?thesis
    using null ok
    by (simp add: short mqtt_app_start_def mqtt_app_start_giotc [OF cfg] xgiotc_gen_JWT_run sign_token_run [OF assms(1)]
        jwt_block_def Let_def work_block_def hash_call_def sign_call_def)
qed

theorem mqtt_app_start_null_block_witness:
  "\<exists>t. mqtt_app_start (rsa_256\<lparr>int_reply := \<lambda>_ c. if c = Libc (Malloc 8000) then 9 else 0\<rparr>)
     broker_config init_machine = Fault Null_Deref t"
  by (rule mqtt_app_start_null_block)
    (simp_all add: rsa_signatures_def rsa_256_def broker_config_def)

text \<open>
  C30: With any other address the token is not generated, but its block is printed: if the
  allocation succeeded, the code reads memory that was never written.
\<close>

theorem mqtt_app_start_other_broker:
  assumes "uri cfg = Some u" "u \<noteq> GCPIOT_BROKER_URI" "int_reply E s (Libc (Malloc 5000)) \<noteq> 0"
  shows "\<exists>t. mqtt_app_start E cfg s = Fault Uninitialised t"
  using assms
  by (simp add: mqtt_app_start_def mqtt_app_start_during_def only_if_def skip_def malloc_jwt if_else_def
      start_client_def
      using_state_def print_block_def with_jwt_def jwt_block_def fail_def Let_def)

theorem mqtt_app_start_other_broker_witness:
  "\<exists>t. mqtt_app_start rsa_256 (no_config\<lparr>uri := Some ''mqtt://localhost''\<rparr>) init_machine =
     Fault Uninitialised t"
proof (rule mqtt_app_start_other_broker)
  have "length ''mqtt://localhost'' \<noteq> length GCPIOT_BROKER_URI"
    by (simp add: GCPIOT_BROKER_URI_def)
  then show "''mqtt://localhost'' \<noteq> GCPIOT_BROKER_URI" by metis
qed (use next_block_pos [of init_machine] in \<open>simp_all add: rsa_256_def\<close>)

end
