(* ===== verification/Modbus.thy ===== *)
theory Modbus
  imports Machine
begin

text \<open>
  \<^verbatim>\<open>main/modbus.c\<close> and \<^verbatim>\<open>main/modbus_params.[ch]\<close>: the table of device parameters, the
  function that turns a descriptor into a pointer, the two readers of the slave's registers and
  the start of the Modbus master. The Modbus stack is a parameter: the descriptor a lookup leaves
  in \<open>param_descriptor\<close> is a number, 0 for NULL and \<open>k\<close> for entry \<open>k - 1\<close> of the table, and a
  read hands over the bytes it has written to its buffer.
\<close>

section \<open>Configuration\<close>

definition MB_PORT_NUM :: int where "MB_PORT_NUM = 2"
definition MB_DEV_SPEED :: int where "MB_DEV_SPEED = 19200"
definition CONFIG_MB_UART_RXD :: int where "CONFIG_MB_UART_RXD = 16"
definition CONFIG_MB_UART_TXD :: int where "CONFIG_MB_UART_TXD = 17"
definition CONFIG_MB_UART_RTS :: int where "CONFIG_MB_UART_RTS = 4"
definition UART_PIN_NO_CHANGE :: int where "UART_PIN_NO_CHANGE = -1"
definition UPDATE_CIDS_TIMEOUT_TICS :: int where "UPDATE_CIDS_TIMEOUT_TICS = 500 div 10"
definition NUM_REG :: nat where "NUM_REG = 86"
definition MB_DEVICE_ADDR1 :: u8 where "MB_DEVICE_ADDR1 = 1"
definition MB_ANALOG_BOARD :: u8 where "MB_ANALOG_BOARD = 2"
definition CID_INP_DATA_0 :: u16 where "CID_INP_DATA_0 = 0"
definition CID_HOLD_DATA_0 :: u16 where "CID_HOLD_DATA_0 = 1"
definition ESP_ERR_INVALID_STATE :: int where "ESP_ERR_INVALID_STATE = 0x103"
definition ESP_ERR_NOT_FOUND :: int where "ESP_ERR_NOT_FOUND = 0x105"

section \<open>Parameter areas and the parameter table\<close>

text \<open>The packed structs, as their fields and the sizes of these in bytes.\<close>

definition discrete_reg_params_t :: "(string \<times> nat) list" where
  "discrete_reg_params_t = [(''discrete_input0_7'', 1), (''discrete_input_port1'', 1)]"

definition coil_reg_params_t :: "(string \<times> nat) list" where
  "coil_reg_params_t = [(''coils_port0'', 1), (''coils_port1'', 1)]"

definition input_reg_params_t :: "(string \<times> nat) list" where
  "input_reg_params_t = [(''input_data0'', 2 * 128), (''input_data0_analog'', 2 * 4)]"

definition holding_reg_params_t :: "(string \<times> nat) list" where
  "holding_reg_params_t = [(''Holding_reg'', 2 * 150)]"

fun offset_of :: "(string \<times> nat) list \<Rightarrow> string \<Rightarrow> nat" where
  "offset_of [] f = 0"
| "offset_of ((g, n) # fs) f = (if f = g then 0 else n + offset_of fs f)"

definition INPUT_OFFSET :: "string \<Rightarrow> u16" where
  "INPUT_OFFSET f = of_nat (offset_of input_reg_params_t f + 1)"

datatype mb_param_type_t =
  MB_PARAM_HOLDING | MB_PARAM_INPUT | MB_PARAM_COIL | MB_PARAM_DISCRETE | MB_PARAM_COUNT
| MB_PARAM_UNKNOWN

record mb_parameter_descriptor_t =
  cid :: u16
  param_key :: string
  param_units :: string
  mb_slave_addr :: u8
  mb_param_type :: mb_param_type_t
  mb_reg_start :: u16
  mb_size :: u16
  param_offset :: u16
  param_type :: string
  param_size :: nat
  param_opts :: "int \<times> int \<times> int"
  access :: string

definition device_parameters :: "mb_parameter_descriptor_t list" where
  "device_parameters =
     [\<lparr>cid = CID_INP_DATA_0, param_key = ''Data_channel_0'', param_units = ''Volts'',
       mb_slave_addr = MB_DEVICE_ADDR1, mb_param_type = MB_PARAM_HOLDING, mb_reg_start = 0,
       mb_size = of_nat NUM_REG, param_offset = INPUT_OFFSET ''input_data0'',
       param_type = ''PARAM_TYPE_U16'', param_size = 2 * NUM_REG, param_opts = (0, 65536, 1),
       access = ''PAR_PERMS_READ_WRITE_TRIGGER''\<rparr>,
      \<lparr>cid = CID_HOLD_DATA_0, param_key = ''Data_channel_1'', param_units = ''Ampere'',
       mb_slave_addr = MB_ANALOG_BOARD, mb_param_type = MB_PARAM_HOLDING, mb_reg_start = 0,
       mb_size = 4, param_offset = INPUT_OFFSET ''input_data0_analog'',
       param_type = ''PARAM_TYPE_U16'', param_size = 2 * 4, param_opts = (0, 65536, 1),
       access = ''PAR_PERMS_READ_WRITE_TRIGGER''\<rparr>]"

definition num_device_parameters :: nat where
  "num_device_parameters = length device_parameters"

text \<open>The four areas of \<^verbatim>\<open>modbus_params.c\<close>; a pointer into one is its offset in bytes.\<close>

datatype reg_area = holding_reg_params | input_reg_params | coil_reg_params | discrete_reg_params

fun area_fields :: "reg_area \<Rightarrow> (string \<times> nat) list" where
  "area_fields holding_reg_params = holding_reg_params_t"
| "area_fields input_reg_params = input_reg_params_t"
| "area_fields coil_reg_params = coil_reg_params_t"
| "area_fields discrete_reg_params = discrete_reg_params_t"

definition area_size :: "reg_area \<Rightarrow> nat" where
  "area_size a = sum_list (map snd (area_fields a))"

definition master_get_param_data ::
    "mb_parameter_descriptor_t option \<Rightarrow> (reg_area \<times> int) option stmt" where
  "master_get_param_data param_descriptor =
     (case param_descriptor of
        None \<Rightarrow> fail Assert_Failed
      | Some d \<Rightarrow>
          if param_offset d \<noteq> 0 then
            let off = uint (param_offset d) - 1 in
            ret (case mb_param_type d of
                MB_PARAM_HOLDING \<Rightarrow> Some (holding_reg_params, off)
              | MB_PARAM_INPUT \<Rightarrow> Some (input_reg_params, off)
              | MB_PARAM_COIL \<Rightarrow> Some (coil_reg_params, off)
              | MB_PARAM_DISCRETE \<Rightarrow> Some (discrete_reg_params, off)
              | _ \<Rightarrow> None)
          else fail Assert_Failed)"

section \<open>Reading the registers\<close>

text \<open>\<open>array_modbus\<close> as the little-endian bytes the stack writes through \<open>(uint8_t*)\<close>.\<close>

definition bytes_of :: "u16 list \<Rightarrow> u8 list" where
  "bytes_of regs = concat (map (\<lambda>w. [ucast w, ucast (drop_bit 8 w)]) regs)"

fun words_of :: "u8 list \<Rightarrow> u16 list" where
  "words_of (a # b # r) = (ucast a OR push_bit 8 (ucast b)) # words_of r"
| "words_of _ = []"

definition store_bytes :: "u8 list \<Rightarrow> u16 list \<Rightarrow> u16 list" where
  "store_bytes bs regs = words_of (bs @ drop (length bs) (bytes_of regs))"

definition write_array_modbus :: "u8 list \<Rightarrow> 'r stmt" where
  "write_array_modbus bs =
     using_state (\<lambda>s.
       if_else (length bs \<le> 2 * length (array_modbus s))
         (upd (\<lambda>s. s\<lparr>array_modbus := store_bytes bs (array_modbus s)\<rparr>)) (fail Out_Of_Bounds))"

text \<open>The loop that prints the registers reads \<open>NUM_REG\<close> cells of the array.\<close>

definition log_registers :: "'r stmt" where
  "log_registers =
     using_state (\<lambda>s. if_else (NUM_REG \<le> length (array_modbus s)) skip (fail Out_Of_Bounds))"

definition descriptor_at :: "int \<Rightarrow> (mb_parameter_descriptor_t \<Rightarrow> 'r stmt) \<Rightarrow> 'r stmt" where
  "descriptor_at p k =
     (if 1 \<le> p \<and> nat p \<le> num_device_parameters then k (device_parameters ! (nat p - 1))
      else fail Out_Of_Bounds)"

definition read_cid :: "env \<Rightarrow> u16 \<Rightarrow> 'r stmt" where
  "read_cid E c =
     ext_out E (Mb (Mbc_master_get_cid_info c)) (\<lambda>err p.
       only_if (err \<noteq> ESP_ERR_NOT_FOUND \<and> p \<noteq> 0) (descriptor_at p (\<lambda>d.
         call_fn (master_get_param_data (Some d)) (\<lambda>temp_data_ptr. block
           [c_assert (temp_data_ptr \<noteq> None),
            ext_bytes E (Mb (Mbc_master_get_parameter c (param_key d))) (\<lambda>err bs. block
              [write_array_modbus bs, only_if (err = 0) log_registers])]))))"

definition request_modbus_info :: "env \<Rightarrow> unit stmt" where
  "request_modbus_info E = read_cid E 0"

text \<open>The task's loop has no exit: \<open>n\<close> bounds the rounds that are run.\<close>

definition master_operation_func :: "nat \<Rightarrow> env \<Rightarrow> unit stmt" where
  "master_operation_func n E = block
     [while_fuel n (\<lambda>_. True)
        (block [read_cid E 0, do_ext E (Rtos (VTaskDelay UPDATE_CIDS_TIMEOUT_TICS))]),
      checked E (Mb Mbc_master_destroy)]"

section \<open>Starting the master\<close>

definition mb_return_on_false :: "bool \<Rightarrow> int \<Rightarrow> int stmt" where
  "mb_return_on_false ok code = only_if (\<not> ok) (ret code)"

definition mb_step :: "env \<Rightarrow> call \<Rightarrow> int stmt" where
  "mb_step E c = ext E c (\<lambda>err. mb_return_on_false (err = 0) ESP_ERR_INVALID_STATE)"

definition comm :: mb_communication_info where
  "comm = \<lparr>mb_mode = ''MB_MODE_RTU'', mb_port = MB_PORT_NUM, mb_baudrate = MB_DEV_SPEED,
     mb_parity = ''UART_PARITY_EVEN''\<rparr>"

definition master_init :: "env \<Rightarrow> int stmt" where
  "master_init E = block
     [ext_out E (Mb (Mbc_master_init ''MB_PORT_SERIAL_MASTER'')) (\<lambda>err master_handler. block
        [mb_return_on_false (master_handler \<noteq> 0) ESP_ERR_INVALID_STATE,
         mb_return_on_false (err = 0) ESP_ERR_INVALID_STATE]),
      mb_step E (Mb (Mbc_master_setup comm)),
      mb_step E (Mb (Uart_set_pin MB_PORT_NUM CONFIG_MB_UART_TXD CONFIG_MB_UART_RXD
        CONFIG_MB_UART_RTS UART_PIN_NO_CHANGE)),
      mb_step E (Mb Mbc_master_start),
      mb_step E (Mb (Uart_set_mode MB_PORT_NUM ''UART_MODE_RS485_HALF_DUPLEX'')),
      do_ext E (Rtos (VTaskDelay 5)),
      mb_step E (Mb (Mbc_master_set_descriptor (int num_device_parameters))),
      ret 0]"

section \<open>Registers and their bytes\<close>

lemma bytes_of_simps [simp]:
  "bytes_of [] = []" "bytes_of (w # ws) = ucast w # ucast (drop_bit 8 w) # bytes_of ws"
  by (simp_all add: bytes_of_def)

lemma length_bytes_of [simp]: "length (bytes_of ws) = 2 * length ws"
  by (induction ws) simp_all

lemma join_bytes: "(ucast (ucast (w :: u16) :: u8) OR push_bit 8 (ucast (ucast (drop_bit 8 w) :: u8)) :: u16) = w"
  by (rule bit_word_eqI)
    (auto simp: bit_or_iff bit_push_bit_iff bit_unsigned_iff bit_drop_bit_eq)

lemma words_of_bytes_of [simp]: "words_of (bytes_of ws) = ws"
  by (induction ws) (simp_all add: join_bytes)

lemma length_words_of: "length (words_of bs) = length bs div 2"
  by (induction bs rule: words_of.induct) simp_all

lemma words_of_nth:
  "2 * i + 1 < length bs \<Longrightarrow>
    words_of bs ! i = ucast (bs ! (2 * i)) OR push_bit 8 (ucast (bs ! (2 * i + 1)))"
proof (induction bs arbitrary: i rule: words_of.induct)
  case (1 a b r)
  then show ?case by (cases i) simp_all
qed simp_all

lemma bytes_of_nth:
  "i < length ws \<Longrightarrow> bytes_of ws ! (2 * i) = ucast (ws ! i) \<and>
    bytes_of ws ! (2 * i + 1) = ucast (drop_bit 8 (ws ! i))"
proof (induction ws arbitrary: i)
  case (Cons w ws)
  then show ?case by (cases i) simp_all
qed simp

lemma length_store_bytes [simp]:
  "length bs \<le> 2 * length regs \<Longrightarrow> length (store_bytes bs regs) = length regs"
  by (simp add: store_bytes_def length_words_of)

lemma store_bytes_Nil [simp]: "store_bytes [] regs = regs"
  by (simp add: store_bytes_def)

lemma store_bytes_nth:
  assumes "length bs = 2 * n" "n \<le> length regs" "i < length regs"
  shows "store_bytes bs regs ! i =
    (if i < n then ucast (bs ! (2 * i)) OR push_bit 8 (ucast (bs ! (2 * i + 1))) else regs ! i)"
proof -
  have "store_bytes bs regs ! i =
      ucast ((bs @ drop (2 * n) (bytes_of regs)) ! (2 * i)) OR
      push_bit 8 (ucast ((bs @ drop (2 * n) (bytes_of regs)) ! (2 * i + 1)))"
    using assms by (simp add: store_bytes_def words_of_nth)
  then show ?thesis
    using assms bytes_of_nth [of i regs] by (auto simp: nth_append join_bytes)
qed

lemma store_bytes_keeps:
  assumes "length bs \<le> 2 * i" "i < length regs"
  shows "store_bytes bs regs ! i = regs ! i"
proof -
  let ?bs = "bs @ drop (length bs) (bytes_of regs)"
  have "?bs ! (2 * i) = bytes_of regs ! (2 * i)" "?bs ! (2 * i + 1) = bytes_of regs ! (2 * i + 1)"
    using assms by (simp_all add: nth_append)
  moreover have "2 * i + 1 < length ?bs" using assms by simp
  ultimately show ?thesis
    using bytes_of_nth [OF assms(2)] words_of_nth [of i ?bs] by (simp only: store_bytes_def join_bytes)
qed

section \<open>The parameter table\<close>

text \<open>
  Each entry of the table sits at the index that is its CID, describes as many bytes as it
  has registers, and its pointer is defined: all of its bytes lie inside the holding area,
  although the offsets are those of the input area's fields.
\<close>

lemma device_parameters_in_bounds:
  "map (uint \<circ> cid) device_parameters = map int [0..<num_device_parameters] \<and>
   list_all (\<lambda>d. param_size d = 2 * unat (mb_size d) \<and>
     master_get_param_data (Some d) s =
       Return (Some (holding_reg_params, uint (param_offset d) - 1)) s \<and>
     0 < param_offset d \<and> unat (param_offset d) - 1 + param_size d \<le> area_size holding_reg_params)
     device_parameters"
  by (simp add: device_parameters_def num_device_parameters_def CID_INP_DATA_0_def
      CID_HOLD_DATA_0_def NUM_REG_def master_get_param_data_def INPUT_OFFSET_def
      input_reg_params_t_def ret_def area_size_def holding_reg_params_t_def upt_rec)

lemma param_data_0:
  "master_get_param_data (Some (device_parameters ! 0)) s = Return (Some (holding_reg_params, 0)) s"
  by (simp add: device_parameters_def NUM_REG_def master_get_param_data_def INPUT_OFFSET_def
      input_reg_params_t_def ret_def)

lemma key_0: "param_key (device_parameters ! 0) = ''Data_channel_0''"
  by (simp add: device_parameters_def)

section \<open>Reading\<close>

abbreviation lookup_0 :: call where
  "lookup_0 \<equiv> Mb (Mbc_master_get_cid_info 0)"

abbreviation read_0 :: call where
  "read_0 \<equiv> Mb (Mbc_master_get_parameter 0 ''Data_channel_0'')"

text \<open>
  The documented behaviour of the stack for the table it was given: looking up CID 0 leaves NULL
  or the first entry, and a read stores the entry's registers when it succeeds; one that fails may
  have stored any part of them.
\<close>

definition mb_stack :: "env \<Rightarrow> bool" where
  "mb_stack E \<longleftrightarrow> (\<forall>s. (out_reply E s lookup_0 = 0 \<or> out_reply E s lookup_0 = 1) \<and>
     length (bytes_reply E s read_0) \<le> 2 * NUM_REG \<and>
     (int_reply E s read_0 = 0 \<longrightarrow> length (bytes_reply E s read_0) = 2 * NUM_REG))"

definition cid_found :: "env \<Rightarrow> machine \<Rightarrow> bool" where
  "cid_found E s \<longleftrightarrow> int_reply E s lookup_0 \<noteq> ESP_ERR_NOT_FOUND \<and> out_reply E s lookup_0 \<noteq> 0"

lemma read_cid_run:
  assumes "mb_stack E" "length (array_modbus s) = 128"
  shows "read_cid E 0 s =
    (let s1 = logged lookup_0 s in
     Next (if cid_found E s then
        (logged read_0 s1)\<lparr>array_modbus := store_bytes (bytes_reply E s1 read_0) (array_modbus s)\<rparr>
      else s1))"
proof -
  let ?s1 = "logged lookup_0 s"
  have "length (bytes_reply E ?s1 read_0) \<le> 172" using assms(1) by (simp add: mb_stack_def NUM_REG_def)
  then have "length (bytes_reply E ?s1 read_0) \<le> 2 * 128" by simp
  moreover have "descriptor_at 1 k = k (device_parameters ! 0)" for k :: "_ \<Rightarrow> 'a stmt"
    by (simp add: descriptor_at_def num_device_parameters_def device_parameters_def)
  moreover have "out_reply E s lookup_0 = 0 \<or> out_reply E s lookup_0 = 1"
    using assms(1) by (simp add: mb_stack_def)
  ultimately show ?thesis
    using assms(2)
    by (auto simp: read_cid_def cid_found_def stmt_simps param_data_0 key_0 write_array_modbus_def
        log_registers_def NUM_REG_def Let_def)
qed

text \<open>
  C16: A request for the registers never faults and keeps the array's size, and the registers from
  \<open>NUM_REG\<close> on keep their values. If the read succeeds, the first \<open>NUM_REG\<close> are the words the slave
  sent, low byte first. If the lookup fails, every register keeps its old value; if the read
  fails, so does every register none of whose bytes the stack had stored by then. In each of these
  cases the request ends in the same way, without a result.
\<close>

theorem request_modbus_info_effect:
  assumes stack: "mb_stack E" and size: "length (array_modbus s) = 128"
  shows "\<exists>s'. request_modbus_info E s = Next s' \<and> length (array_modbus s') = 128 \<and>
    (\<forall>i < 128. NUM_REG \<le> i \<longrightarrow> array_modbus s' ! i = array_modbus s ! i) \<and>
    (let s1 = logged lookup_0 s; bs = bytes_reply E s1 read_0 in
     if \<not> cid_found E s then array_modbus s' = array_modbus s
     else if int_reply E s1 read_0 = 0
     then \<forall>i < NUM_REG. array_modbus s' ! i =
       ucast (bs ! (2 * i)) OR push_bit 8 (ucast (bs ! (2 * i + 1)))
     else \<forall>i < NUM_REG. length bs \<le> 2 * i \<longrightarrow> array_modbus s' ! i = array_modbus s ! i)"
proof -
  let ?bs = "bytes_reply E (logged lookup_0 s) read_0"
  have len: "length ?bs \<le> 2 * NUM_REG"
    "int_reply E (logged lookup_0 s) read_0 = 0 \<Longrightarrow> length ?bs = 2 * NUM_REG"
    using stack by (simp_all add: mb_stack_def)
  have "store_bytes ?bs (array_modbus s) ! i = ucast (?bs ! (2 * i)) OR push_bit 8 (ucast (?bs ! (2 * i + 1)))"
    if "int_reply E (logged lookup_0 s) read_0 = 0" "i < NUM_REG" for i
    using store_bytes_nth [of ?bs NUM_REG "array_modbus s" i] len(2) that size by (simp add: NUM_REG_def)
  moreover have "store_bytes ?bs (array_modbus s) ! i = array_modbus s ! i" if "length ?bs \<le> 2 * i" "i < 128" for i
    using store_bytes_keeps [of ?bs i "array_modbus s"] that size by simp
  moreover have "length (store_bytes ?bs (array_modbus s)) = 128" using len(1) size by (simp add: NUM_REG_def)
  ultimately show ?thesis
    using len(1)
    by (auto simp: request_modbus_info_def read_cid_run [OF stack size] Let_def size NUM_REG_def)
qed

text \<open>A slave whose registers all hold 0x0201.\<close>

definition slave_0201 :: env where
  "slave_0201 = quiet\<lparr>out_reply := \<lambda>_ _. 1,
     bytes_reply := \<lambda>_ _. concat (replicate NUM_REG [0x01, 0x02])\<rparr>"

lemma slave_stack: "mb_stack slave_0201"
  by (simp add: mb_stack_def slave_0201_def quiet_def NUM_REG_def length_concat sum_list_replicate)

theorem request_modbus_info_effect_witness:
  "\<exists>s'. request_modbus_info slave_0201 init_machine = Next s' \<and>
    array_modbus s' ! 0 = 0x0201 \<and> array_modbus s' ! 100 = 0"
proof -
  have "length (array_modbus init_machine) = 128" "array_modbus init_machine ! 100 = 0"
    by (simp_all add: init_machine_def)
  moreover have "cid_found slave_0201 s" "int_reply slave_0201 s c = 0" for s c
    by (simp_all add: cid_found_def slave_0201_def quiet_def ESP_ERR_NOT_FOUND_def)
  moreover have "bytes_reply slave_0201 s c ! 0 = 1" "bytes_reply slave_0201 s c ! 1 = 2" for s c
    by (simp_all add: slave_0201_def NUM_REG_def numeral_eq_Suc)
  ultimately show ?thesis
    using request_modbus_info_effect [OF slave_stack, of init_machine]
    by (fastforce simp: Let_def NUM_REG_def)
qed

lemma operation_loop:
  assumes stack: "mb_stack E"
  shows "length (array_modbus s) = 128 \<Longrightarrow>
    \<exists>s'. while_fuel n (\<lambda>_. True)
        (block [read_cid E 0, do_ext E (Rtos (VTaskDelay UPDATE_CIDS_TIMEOUT_TICS))]) s =
      Fault Out_Of_Fuel s' \<and> length (array_modbus s') = 128 \<and>
      (\<exists>cs. calls s' = calls s @ cs \<and> Mb Mbc_master_destroy \<notin> set cs \<and>
        length (filter (\<lambda>c. c = Rtos (VTaskDelay UPDATE_CIDS_TIMEOUT_TICS)) cs) = n)"
proof (induction n arbitrary: s)
  case 0
  then show ?case by simp
next
  case (Suc n)
  let ?slp = "Rtos (VTaskDelay UPDATE_CIDS_TIMEOUT_TICS)"
  obtain v cs where v: "block [read_cid E 0, do_ext E ?slp] s = (Next v :: 'a flow)"
    "length (array_modbus v) = 128" "calls v = calls s @ cs @ [?slp]" "set cs \<subseteq> {lookup_0, read_0}"
  proof -
    have "length (bytes_reply E (logged lookup_0 s) read_0) \<le> 172"
      using stack by (simp add: mb_stack_def NUM_REG_def)
    then have "length (bytes_reply E (logged lookup_0 s) read_0) \<le> 256" by simp
    then have "\<exists>u cs. read_cid E 0 s = (Next u :: 'a flow) \<and> length (array_modbus u) = 128 \<and>
        calls u = calls s @ cs \<and> set cs \<subseteq> {lookup_0, read_0}"
      using Suc.prems by (auto simp: read_cid_run [OF stack Suc.prems] Let_def)
    then obtain u cs where w: "read_cid E 0 s = (Next u :: 'a flow)" "length (array_modbus u) = 128"
      "calls u = calls s @ cs" "set cs \<subseteq> {lookup_0, read_0}" by blast
    have "block [read_cid E 0, do_ext E ?slp] s = (Next (logged ?slp u) :: 'a flow)"
      using w(1) by (simp add: do_ext_def ext_def skip_def)
    then show thesis using that [of "logged ?slp u" cs] w by simp
  qed
  from Suc.IH [OF v(2)] obtain s' ds where
    "while_fuel n (\<lambda>_. True) (block [read_cid E 0, do_ext E ?slp]) v = (Fault Out_Of_Fuel s' :: 'a flow)"
    "length (array_modbus s') = 128" "calls s' = calls v @ ds" "Mb Mbc_master_destroy \<notin> set ds"
    "length (filter (\<lambda>c. c = ?slp) ds) = n" by blast
  moreover have "filter (\<lambda>c. c = ?slp) cs = []" "Mb Mbc_master_destroy \<notin> set cs"
    using v(4) by (auto simp: filter_empty_conv)
  ultimately show ?case
    using v(1,3) by (intro exI [of _ s'] conjI exI [of _ "cs @ [?slp] @ ds"])
      (simp_all del: block_more)
qed

text \<open>
  The reading task never returns and never faults: whatever number \<open>n\<close> of rounds it is given,
  it is still in its loop after them, has slept once in each and has not destroyed the master, so
  the code behind the loop is never reached.
\<close>

theorem master_operation_func_never_ends:
  assumes "mb_stack E" "length (array_modbus s) = 128"
  shows "\<exists>s' cs. master_operation_func n E s = Fault Out_Of_Fuel s' \<and>
    calls s' = calls s @ cs \<and> Mb Mbc_master_destroy \<notin> set cs \<and>
    length (filter (\<lambda>c. c = Rtos (VTaskDelay UPDATE_CIDS_TIMEOUT_TICS)) cs) = n"
proof -
  from operation_loop [OF assms, of n, where ?'a = unit] show ?thesis
    by (auto simp: master_operation_func_def)
qed

theorem master_operation_func_never_ends_witness:
  "\<exists>s' cs. master_operation_func 3 slave_0201 init_machine = Fault Out_Of_Fuel s' \<and>
    calls s' = cs \<and> length (filter (\<lambda>c. c = Rtos (VTaskDelay UPDATE_CIDS_TIMEOUT_TICS)) cs) = 3"
  using master_operation_func_never_ends [OF slave_stack, of init_machine 3]
  by (auto simp: init_machine_def)

section \<open>Starting the master\<close>

definition master_init_calls :: "call list" where
  "master_init_calls =
     [Mb (Mbc_master_init ''MB_PORT_SERIAL_MASTER''), Mb (Mbc_master_setup comm),
      Mb (Uart_set_pin 2 17 16 4 (-1)), Mb Mbc_master_start,
      Mb (Uart_set_mode 2 ''UART_MODE_RS485_HALF_DUPLEX''), Rtos (VTaskDelay 5),
      Mb (Mbc_master_set_descriptor 2)]"

text \<open>A call fails if it reports an error, the first also if it leaves no handle; a delay cannot.\<close>

definition mb_failed :: "env \<Rightarrow> machine \<Rightarrow> nat \<Rightarrow> bool" where
  "mb_failed E s k \<longleftrightarrow>
     (let t = s\<lparr>calls := calls s @ take k master_init_calls\<rparr>; c = master_init_calls ! k in
      k \<noteq> 5 \<and> int_reply E t c \<noteq> 0 \<or> k = 0 \<and> out_reply E t c = 0)"

text \<open>
  C29: Whatever the Modbus stack answers, starting the master makes its seven calls in order, from
  the controller's creation over setup, pins, start and half-duplex mode to the parameter table,
  and stops at the first that fails: it returns \<open>ESP_OK\<close> if all were made and none failed, else
  \<open>ESP_ERR_INVALID_STATE\<close>, and it changes no variable of the program.
\<close>

theorem master_init_result:
  "\<exists>r k. master_init E s = Return r (s\<lparr>calls := calls s @ take k master_init_calls\<rparr>) \<and> 1 \<le> k \<and>
    (\<forall>j < k - 1. \<not> mb_failed E s j) \<and>
    (r = 0 \<and> k = 7 \<and> \<not> mb_failed E s 6 \<or> r = ESP_ERR_INVALID_STATE \<and> mb_failed E s (k - 1))"
proof -
  let ?t = "\<lambda>k. s\<lparr>calls := calls s @ take k master_init_calls\<rparr>"
  let ?bad = "\<lambda>k. int_reply E (?t k) (master_init_calls ! k) \<noteq> 0"
  have run: "master_init E s =
    (if out_reply E (?t 0) (master_init_calls ! 0) = 0 then Return 0x103 (?t 1)
     else if ?bad 0 then Return 0x103 (?t 1) else if ?bad 1 then Return 0x103 (?t 2)
     else if ?bad 2 then Return 0x103 (?t 3) else if ?bad 3 then Return 0x103 (?t 4)
     else if ?bad 4 then Return 0x103 (?t 5) else if ?bad 6 then Return 0x103 (?t 7)
     else Return 0 (?t 7))"
    by (simp add: master_init_def mb_step_def mb_return_on_false_def stmt_simps logged_def
        master_init_calls_def ESP_ERR_INVALID_STATE_def MB_PORT_NUM_def CONFIG_MB_UART_TXD_def
        CONFIG_MB_UART_RXD_def CONFIG_MB_UART_RTS_def UART_PIN_NO_CHANGE_def
        num_device_parameters_def device_parameters_def)
  define bad where "bad k \<longleftrightarrow> mb_failed E s k" for k
  define T where "T k = ?t k" for k
  have failed: ?thesis if "bad k" "\<forall>j < k. \<not> bad j" "master_init E s = Return 0x103 (T (Suc k))" for k
    using that by (intro exI [of _ "0x103"] exI [of _ "Suc k"])
      (auto simp: ESP_ERR_INVALID_STATE_def bad_def T_def)
  have b5: "\<not> bad 5" by (simp add: bad_def mb_failed_def)
  have run': "master_init E s =
    (if bad 0 then Return 0x103 (T (Suc 0)) else if bad 1 then Return 0x103 (T (Suc 1))
     else if bad 2 then Return 0x103 (T (Suc 2)) else if bad 3 then Return 0x103 (T (Suc 3))
     else if bad 4 then Return 0x103 (T (Suc 4)) else if bad 6 then Return 0x103 (T (Suc 6))
     else Return 0 (T 7))"
    unfolding run bad_def T_def by (simp add: mb_failed_def numeral_eq_Suc)
  consider "bad 0" | "\<not> bad 0" "bad 1" | "\<not> bad 0" "\<not> bad 1" "bad 2"
    | "\<not> bad 0" "\<not> bad 1" "\<not> bad 2" "bad 3"
    | "\<not> bad 0" "\<not> bad 1" "\<not> bad 2" "\<not> bad 3" "bad 4"
    | "\<not> bad 0" "\<not> bad 1" "\<not> bad 2" "\<not> bad 3" "\<not> bad 4" "bad 6"
    | "\<not> bad 0" "\<not> bad 1" "\<not> bad 2" "\<not> bad 3" "\<not> bad 4" "\<not> bad 6"
    by argo
  then show ?thesis
  proof cases
    case 7
    then have "\<forall>j < 6. \<not> bad j" using b5 by (simp add: less_Suc_eq numeral_eq_Suc)
    moreover have "master_init E s = Return 0 (?t 7)" using 7 by (simp add: run' T_def)
    ultimately show ?thesis
      using 7(6) unfolding bad_def by (intro exI [of _ 0] exI [of _ 7]) simp
  qed (rule failed, assumption, use b5 in \<open>simp add: less_Suc_eq numeral_eq_Suc\<close>, simp add: run')+
qed

theorem master_init_result_witness:
  "master_init slave_0201 init_machine = Return 0 (init_machine\<lparr>calls := master_init_calls\<rparr>)"
proof -
  have "\<not> mb_failed slave_0201 s k" for s k by (simp add: mb_failed_def slave_0201_def quiet_def)
  then show ?thesis
    using master_init_result [of slave_0201 init_machine]
    by (auto simp: init_machine_def master_init_calls_def)
qed

end
