(* ===== verification/Payload.thy ===== *)
theory Payload
  imports Ctext Modbus Utility
begin

text \<open>
  The message that \<^verbatim>\<open>ctrl_tsk\<close> in \<^verbatim>\<open>main/app_main.c\<close> prints for the cloud: the labels are
  those of the format string, the registers those of the argument list. A reader for such
  messages states what the receiver can rely on.
\<close>

section \<open>The format string and its arguments\<close>

definition payload_labels :: "string list" where
  "payload_labels =
     [''_1_5'', ''_1_6'', ''_1_7'', ''_1_8'', ''_1_14'', ''_1_15'', ''_1_16'', ''_1_17'', ''_1_18'',
      ''_1_19'', ''_1_20'', ''_1_21'', ''_1_22'', ''_1_23'', ''_1_24'', ''_1_25'', ''_1_61'',
      ''_1_62'', ''_1_63'', ''_1_66'', ''_1_67'', ''_1_68'', ''_1_69'', ''_1_76'', ''_1_77'',
      ''_1_78'', ''_1_82'', ''_1_83'', ''_1_84'']"

definition payload_args :: "nat list" where
  "payload_args =
     [5, 6, 7, 8, 14, 15, 16, 17, 18, 19, 20, 21, 22, 23, 24, 25, 61, 62, 63, 66, 67, 68, 69, 76,
      77, 78, 82, 83, 84]"

fun entry_text :: "string \<times> int \<Rightarrow> string" where
  "entry_text (label, v) = ''\"m\": \"'' @ label @ ''\",\"v\": '' @ fmt_d v"

fun entries_text :: "(string \<times> int) list \<Rightarrow> string" where
  "entries_text [] = []"
| "entries_text [e] = entry_text e"
| "entries_text (e # f # es) = entry_text e @ ''},{'' @ entries_text (f # es)"

definition payload_text :: "string \<Rightarrow> int \<Rightarrow> (string \<times> int) list \<Rightarrow> string" where
  "payload_text u ts es =
     ''{\"rt\": true,\"u\": \"'' @ u @ ''\",\"ts\": '' @ fmt_d ts @ '',\"m\": [{'' @
     entries_text es @ ''}]}''"

text \<open>Reading the registers named in the argument list; outside the array it is a fault.\<close>

definition payload_values :: "u16 list \<Rightarrow> int list checked" where
  "payload_values regs =
     foldr (\<lambda>i acc. and_then (read_at regs i) (\<lambda>v. and_then acc (\<lambda>vs. Inr (uint v # vs))))
       payload_args (Inr [])"

definition fill_payload :: "env \<Rightarrow> unit stmt" where
  "fill_payload E =
     call_fn (get_curtimestamp E) (\<lambda>ts. using_state (\<lambda>s.
       case payload_values (array_modbus s) of
         Inl _ \<Rightarrow> fail Out_Of_Bounds
       | Inr vs \<Rightarrow>
           let p = payload_text (tmp_macstr s) ts (zip payload_labels vs) in
           block [fits_in p 2000, upd (\<lambda>s. s\<lparr>payload_char := p\<rparr>)]))"

section \<open>Reading a message\<close>

definition expect :: "string \<Rightarrow> string \<Rightarrow> string option" where
  "expect p cs = (if take (length p) cs = p then Some (drop (length p) cs) else None)"

definition no_quote :: "string \<Rightarrow> bool" where
  "no_quote cs \<longleftrightarrow> CHR 0x22 \<notin> set cs"

definition until_quote :: "string \<Rightarrow> string \<times> string" where
  "until_quote cs = (takeWhile (\<lambda>c. c \<noteq> CHR 0x22) cs, dropWhile (\<lambda>c. c \<noteq> CHR 0x22) cs)"

definition read_entry :: "string \<Rightarrow> ((string \<times> int) \<times> string) option" where
  "read_entry cs =
     Option.bind (expect ''\"m\": \"'' cs) (\<lambda>r.
     case until_quote r of (label, r) \<Rightarrow>
     Option.bind (expect ''\",\"v\": '' r) (\<lambda>r.
     Option.bind (read_int r) (\<lambda>(v, r). Some ((label, v), r))))"

function read_entries :: "string \<Rightarrow> ((string \<times> int) list \<times> string) option" where
  "read_entries cs =
     (case read_entry cs of
        None \<Rightarrow> None
      | Some (e, r) \<Rightarrow>
          (case expect ''},{'' r of
             None \<Rightarrow> Some ([e], r)
           | Some r' \<Rightarrow>
               if length r' < length cs
               then map_option (\<lambda>(es, q). (e # es, q)) (read_entries r') else None))"
  by pat_completeness auto
termination
  by (relation "measure length") auto

declare read_entries.simps [simp del]

definition read_payload :: "string \<Rightarrow> ((string \<times> int \<times> (string \<times> int) list) \<times> string) option" where
  "read_payload cs =
     Option.bind (expect ''{\"rt\": true,\"u\": \"'' cs) (\<lambda>r.
     case until_quote r of (u, r) \<Rightarrow>
     Option.bind (expect ''\",\"ts\": '' r) (\<lambda>r.
     Option.bind (read_int r) (\<lambda>(ts, r).
     Option.bind (expect '',\"m\": [{'' r) (\<lambda>r.
     Option.bind (read_entries r) (\<lambda>(es, r).
     Option.bind (expect ''}]}'' r) (\<lambda>r. Some ((u, ts, es), r)))))))"

lemma expect_append [simp]: "expect p (p @ r) = Some r"
  by (simp add: expect_def)

lemma until_quote_append:
  "no_quote l \<Longrightarrow> until_quote (l @ CHR 0x22 # r) = (l, CHR 0x22 # r)"
proof -
  assume "no_quote l"
  then have "\<forall>c \<in> set l. c \<noteq> CHR 0x22" by (auto simp: no_quote_def)
  then show ?thesis by (simp add: until_quote_def)
qed

lemma read_entry_print:
  assumes "no_quote (fst e)" "no_digit r"
  shows "read_entry (entry_text e @ r) = Some (e, r)"
proof (cases e)
  case (Pair l v)
  have "expect ''\",\"v\": '' (CHR 0x22 # '',\"v\": '' @ q) = Some q" for q
    using expect_append [of "''\",\"v\": ''" q] by simp
  with Pair assms until_quote_append [of l "'',\"v\": '' @ fmt_d v @ r"]
    expect_append [of "''\"m\": \"''" "l @ ''\",\"v\": '' @ fmt_d v @ r"]
  show ?thesis
    by (simp add: read_entry_def read_int_fmt_d)
qed

interpretation entry_text: print_parse entry_text read_entry "\<lambda>e. no_quote (fst e)" no_digit
  by unfold_locales (rule read_entry_print)

text \<open>What may follow a list of entries: neither a digit nor the separator.\<close>

definition list_end :: "string \<Rightarrow> bool" where
  "list_end r \<longleftrightarrow> no_digit r \<and> expect ''},{'' r = None"

lemma read_entries_print:
  assumes "list_end r" "es \<noteq> []" "\<forall>e \<in> set es. no_quote (fst e)"
  shows "read_entries (entries_text es @ r) = Some (es, r)"
  using assms(2,3)
proof (induction es rule: entries_text.induct)
  case (2 e)
  then have "read_entry (entry_text e @ r) = Some (e, r)"
    using assms(1) by (intro entry_text.parse_print) (auto simp: list_end_def)
  then show ?case using assms(1) by (simp add: read_entries.simps list_end_def)
next
  case (3 e f es)
  let ?q = "entries_text (f # es) @ r"
  have "read_entry (entry_text e @ ''},{'' @ ?q) = Some (e, ''},{'' @ ?q)"
    using 3 by (intro entry_text.parse_print) (auto simp: is_digit_def)
  moreover have "expect ''},{'' (''},{'' @ ?q) = Some ?q" by (rule expect_append)
  ultimately show ?case using 3 by (simp add: read_entries.simps [of "_ @ _"])
qed simp

interpretation entries_text: print_parse entries_text read_entries
    "\<lambda>es. es \<noteq> [] \<and> (\<forall>e \<in> set es. no_quote (fst e))" list_end
  by unfold_locales (auto intro: read_entries_print)

lemma read_payload_print:
  assumes "no_quote u" "es \<noteq> []" "\<forall>e \<in> set es. no_quote (fst e)"
  shows "read_payload (payload_text u ts es @ r) = Some ((u, ts, es), r)"
proof -
  have 1: "expect ''\",\"ts\": '' (CHR 0x22 # '',\"ts\": '' @ q) = Some q" for q
    using expect_append [of "''\",\"ts\": ''" q] by simp
  have 2: "read_int (fmt_d ts @ '',\"m\": [{'' @ q) = Some (ts, '',\"m\": [{'' @ q)" for q
    by (rule read_int_fmt_d) (simp add: is_digit_def)
  have 3: "read_entries (entries_text es @ ''}]}'' @ r) = Some (es, ''}]}'' @ r)"
    using assms by (intro entries_text.parse_print) (auto simp: list_end_def is_digit_def expect_def)
  show ?thesis
    using 1 2 3
      expect_append [of "''{\"rt\": true,\"u\": \"''" "u @ ''\",\"ts\": '' @ fmt_d ts @ '',\"m\": [{'' @
        entries_text es @ ''}]}'' @ r"]
      until_quote_append [OF assms(1), of "'',\"ts\": '' @ fmt_d ts @ '',\"m\": [{'' @
        entries_text es @ ''}]}'' @ r"]
      expect_append [of "'',\"m\": [{''" "entries_text es @ ''}]}'' @ r"]
      expect_append [of "''}]}''" r]
    by (simp add: read_payload_def payload_text_def)
qed

interpretation payload_text: print_parse "\<lambda>(u, ts, es). payload_text u ts es" read_payload
    "\<lambda>(u, ts, es). no_quote u \<and> es \<noteq> [] \<and> (\<forall>e \<in> set es. no_quote (fst e))" "\<lambda>_. True"
  by unfold_locales (auto intro: read_payload_print)

section \<open>The message\<close>

lemma length_args [simp]: "length payload_args = 29" "length payload_labels = 29"
  by (simp_all add: payload_args_def payload_labels_def)

lemma nonempty_args [simp]: "payload_args \<noteq> []" "payload_labels \<noteq> []"
  by (simp_all add: payload_args_def payload_labels_def)

text \<open>
  Every value of the message is labelled with the number of the register it comes from, no
  register appears twice, and every register named is one that the Modbus request reads.
\<close>

theorem payload_labels_match:
  "payload_labels = map (\<lambda>n. ''_1_'' @ dec n) payload_args \<and> distinct payload_args \<and>
   list_all (\<lambda>n. n < NUM_REG) payload_args"
  by (simp add: payload_labels_def payload_args_def NUM_REG_def dec.simps digit_chars)

lemma foldr_read:
  assumes "\<forall>i \<in> set is. i < length regs"
  shows "foldr (\<lambda>i acc. and_then (read_at regs i) (\<lambda>v. and_then acc (\<lambda>vs. Inr (uint v # vs)))) is (Inr []) =
    (Inr (map (\<lambda>i. uint (regs ! i)) is) :: int list checked)"
  using assms by (induction "is") (simp_all add: mem_simps)

lemma payload_args_bound: "\<forall>i \<in> set payload_args. i < 86"
  by (simp add: payload_args_def)

lemma payload_values_run:
  assumes "86 \<le> length regs"
  shows "payload_values regs = Inr (map (\<lambda>i. uint (regs ! i)) payload_args)"
  unfolding payload_values_def
  by (rule foldr_read) (use assms payload_args_bound in force)

definition payload_entries :: "u16 list \<Rightarrow> (string \<times> int) list" where
  "payload_entries regs = zip payload_labels (map (\<lambda>i. uint (regs ! i)) payload_args)"

lemma entries_text_length:
  assumes "\<forall>e \<in> set es. length (entry_text e) \<le> k" "es \<noteq> []"
  shows "length (entries_text es) \<le> length es * (k + 3)"
  using assms by (induction es rule: entries_text.induct) auto

lemma entry_text_length:
  assumes "length l \<le> 5" "0 \<le> v" "v < 65536"
  shows "length (entry_text (l, v)) \<le> 24"
  using assms length_fmt_d_u16 [OF assms(2,3)] by simp

lemma payload_text_length:
  assumes "length u \<le> 19" "fits_long ts"
  shows "length (payload_text u ts (payload_entries regs)) < 2000"
proof -
  have "length (entry_text e) \<le> 24" if "e \<in> set (payload_entries regs)" for e
  proof -
    obtain l v where e: "e = (l, v)" by (cases e)
    have l: "l \<in> set payload_labels" and v: "v \<in> set (map (\<lambda>i. uint (regs ! i)) payload_args)"
      using that set_zip_leftD set_zip_rightD unfolding payload_entries_def e by fast+
    have "\<forall>l \<in> set payload_labels. length l \<le> 5" by (simp add: payload_labels_def)
    with l have "length l \<le> 5" by blast
    moreover from v obtain w :: u16 where "v = uint w" by auto
    then have "0 \<le> v" "v < 65536" using uint_bounded [of w] by simp_all
    ultimately show ?thesis unfolding e by (rule entry_text_length)
  qed
  then have "length (entries_text (payload_entries regs)) \<le> 29 * 27"
    using entries_text_length [of "payload_entries regs" 24] by (simp add: payload_entries_def)
  then show ?thesis
    using assms length_fmt_d [OF assms(2)] by (simp add: payload_text_def)
qed

lemma fill_payload_run:
  assumes "length (array_modbus s) = 128" "length (tmp_macstr s) \<le> 19"
  shows "fill_payload E s =
    Next ((logged (Libc Time) s)\<lparr>payload_char :=
      payload_text (tmp_macstr s) (clock_at E s) (payload_entries (array_modbus s))\<rparr>)"
proof -
  have "fits_long (clock_at E s)" by (simp add: clock_at_def)
  from payload_text_length [OF assms(2) this] show ?thesis
    using assms
    by (simp add: fill_payload_def call_fn_def get_curtimestamp_run using_state_def
        payload_values_run fits_in_def skip_def upd_def Let_def payload_entries_def)
qed

lemma labels_no_quote: "\<forall>l \<in> set payload_labels. no_quote l"
  by (simp add: payload_labels_def no_quote_def)

lemma payload_text_reads:
  assumes "no_quote u" "fits_long ts"
  shows "read_payload (payload_text u ts (payload_entries regs)) =
    Some ((u, ts, map (\<lambda>n. (''_1_'' @ dec n, uint (regs ! n))) payload_args), [])"
proof -
  have l: "payload_labels = map (\<lambda>n. ''_1_'' @ dec n) payload_args"
    by (simp add: payload_labels_def payload_args_def dec.simps digit_chars)
  have e: "payload_entries regs = map (\<lambda>n. (''_1_'' @ dec n, uint (regs ! n))) payload_args"
    unfolding payload_entries_def l by (simp add: zip_map_map zip_same_conv_map)
  have "\<forall>e \<in> set (payload_entries regs). no_quote (fst e)"
    using labels_no_quote by (auto simp: payload_entries_def dest: set_zip_leftD)
  moreover have "payload_entries regs \<noteq> []"
    by (simp add: payload_entries_def zip_eq_Nil_iff flip: length_0_conv)
  ultimately have "read_payload (payload_text u ts (payload_entries regs) @ []) =
      Some ((u, ts, payload_entries regs), [])"
    using assms by (intro payload_text.parse_print [of "(_, _, _)", unfolded prod.case]) auto
  then show ?thesis by (simp add: e)
qed

text \<open>
  C7: Filling the message never overruns its buffer of 2000 characters, whatever the registers
  and the clock hold, and reading the message back gives the device's name, the clock's reading
  and, under each label, the value of the register it names.
\<close>

theorem fill_payload_roundtrip:
  assumes "length (array_modbus s) = 128" "length (tmp_macstr s) \<le> 19" "no_quote (tmp_macstr s)"
  shows "\<exists>s'. fill_payload E s = Next s' \<and> length (payload_char s') < 2000 \<and>
    read_payload (payload_char s') =
      Some ((tmp_macstr s, clock_at E s,
        map (\<lambda>n. (''_1_'' @ dec n, uint (array_modbus s ! n))) payload_args), [])"
proof -
  have "fits_long (clock_at E s)" by (simp add: clock_at_def)
  then show ?thesis
    using payload_text_length [OF assms(2)] payload_text_reads [OF assms(3)]
      fill_payload_run [OF assms(1,2), of E] by simp
qed

theorem fill_payload_roundtrip_witness:
  "\<exists>s' es. fill_payload quiet init_machine = Next s' \<and>
    read_payload (payload_char s') = Some (([], 0, es), [])"
proof -
  have "clock_at quiet init_machine = 0"
    by (simp add: clock_at_def quiet_def to_long_id fits_long_def)
  with fill_payload_roundtrip [of init_machine quiet] show ?thesis
    by (auto simp: init_machine_def no_quote_def)
qed

end
