(* ===== verification/Fsntp.thy ===== *)
theory Fsntp
  imports Utility
begin

text \<open>
  \<^verbatim>\<open>main/fsntp.c\<close>: setting the clock from a time server. While the task sleeps the SNTP client
  may run the notification callback; whether it does so is the output of the delay call. The
  polling loop has no bound of its own, so it takes the number of rounds it may run as fuel; the
  lemmas say how many are enough.
\<close>

section \<open>The code\<close>

definition DEFAULT_SNTP_TMOUT :: int where "DEFAULT_SNTP_TMOUT = 30"

definition DEFAULT_SNTP_SERVER :: string where "DEFAULT_SNTP_SERVER = ''time.google.com''"

definition time_sync_notification_cb :: "unit stmt" where
  "time_sync_notification_cb = upd (\<lambda>s. s\<lparr>time_sync_flag := 1\<rparr>)"

definition initialize_sntp :: "env \<Rightarrow> string option \<Rightarrow> unit stmt" where
  "initialize_sntp E sntp_server = block
     [do_ext E (Sntp (Sntp_setoperatingmode ''SNTP_OPMODE_POLL'')),
      do_ext E (Sntp (Sntp_set_time_sync_notification_cb ''time_sync_notification_cb'')),
      do_ext E (Sntp (Sntp_setservername 0
        (case sntp_server of None \<Rightarrow> DEFAULT_SNTP_SERVER | Some url \<Rightarrow> url))),
      do_ext E (Sntp Sntp_init)]"

text \<open>\<open>vTaskDelay(2000 / portTICK_PERIOD_MS)\<close>, one tick being ten milliseconds.\<close>

definition sync_delay :: "env \<Rightarrow> 'r stmt" where
  "sync_delay E = ext_out E (Rtos (VTaskDelay 200)) (\<lambda>_ event.
     if_else (event \<noteq> 0) (call_void time_sync_notification_cb) skip)"

fun sntp_wait :: "nat \<Rightarrow> env \<Rightarrow> int \<Rightarrow> int \<Rightarrow> int \<Rightarrow> int stmt" where
  "sntp_wait 0 E t tmt year = if_else (year < 2016 - 1900) (fail Out_Of_Fuel) skip"
| "sntp_wait (Suc n) E t tmt year =
     if_else (year < 2016 - 1900)
       (block
          [do_ext E (Sys Esp_task_wdt_reset),
           sync_delay E,
           ext E (Libc Time) (\<lambda>now.
             let year' = tm_year (localtime (to_long now)) in
             using_state (\<lambda>s.
               if_else (time_sync_flag s = 0)
                 (call_fn (get_curtimestamp E) (\<lambda>cur.
                    if_else (\<not> fits_long (cur - t)) (fail Overflow)
                      (if_else (cur - t > tmt)
                         (block [do_ext E (Sntp Sntp_stop), ret (- 2)])
                         (sntp_wait n E t tmt year'))))
                 (sntp_wait n E t tmt year')))])
       skip"

definition sntp_tmout :: "int \<Rightarrow> int" where
  "sntp_tmout tmout_s = (if tmout_s \<noteq> 0 then tmout_s else DEFAULT_SNTP_TMOUT)"

definition sntp_init_time :: "nat \<Rightarrow> env \<Rightarrow> string option \<Rightarrow> int \<Rightarrow> int stmt" where
  "sntp_init_time n E sntp_server tmout_s = block
     [set_curtimestamp E 0,
      call_fn (get_curtimestamp E) (\<lambda>t. block
        [call_void (initialize_sntp E sntp_server),
         sntp_wait n E t (sntp_tmout tmout_s) 0,
         call_void (get_curtimestamp E),
         ret 0])]"

section \<open>One round\<close>

definition after_delay :: "env \<Rightarrow> machine \<Rightarrow> machine" where
  "after_delay E s =
     (let s1 = logged (Sys Esp_task_wdt_reset) s;
          s2 = logged (Rtos (VTaskDelay 200)) s1 in
      if out_reply E s1 (Rtos (VTaskDelay 200)) \<noteq> 0 then s2\<lparr>time_sync_flag := 1\<rparr> else s2)"

lemma sntp_wait_Suc:
  "sntp_wait (Suc n) E t tmt year s =
    (if year < 116 then
       let s1 = after_delay E s; now = clock_at E s1; s2 = logged (Libc Time) s1;
           year' = tm_year (localtime now) in
       if time_sync_flag s1 = 0 then
         let cur = clock_at E s2; s3 = logged (Libc Time) s2 in
         if \<not> fits_long (cur - t) then Fault Overflow s3
         else if cur - t > tmt then Return (- 2) (logged (Sntp Sntp_stop) s3)
         else sntp_wait n E t tmt year' s3
       else sntp_wait n E t tmt year' s2
     else Next s)"
  by (simp add: stmt_simps Let_def after_delay_def sync_delay_def time_sync_notification_cb_def
      get_curtimestamp_def clock_at_def split: flow.split)

lemma sntp_wait_0:
  "sntp_wait 0 E t tmt year s = (if year < 116 then Fault Out_Of_Fuel s else Next s)"
  by (simp add: stmt_simps)

declare sntp_wait.simps [simp del]

lemma sntp_wait_done [simp]: "116 \<le> year \<Longrightarrow> sntp_wait n E t tmt year s = Next s"
  by (cases n) (simp_all add: sntp_wait_0 sntp_wait_Suc)

text \<open>The state in which the loop starts, and its first clock reading.\<close>

definition sntp_started :: "env \<Rightarrow> string option \<Rightarrow> machine \<Rightarrow> machine" where
  "sntp_started E server s =
     s\<lparr>calls := calls s @
       [Libc (Settimeofday 0), Libc Time, Sntp (Sntp_setoperatingmode ''SNTP_OPMODE_POLL''),
        Sntp (Sntp_set_time_sync_notification_cb ''time_sync_notification_cb''),
        Sntp (Sntp_setservername 0
          (case server of None \<Rightarrow> DEFAULT_SNTP_SERVER | Some url \<Rightarrow> url)),
        Sntp Sntp_init]\<rparr>"

lemma sntp_init_time_run:
  "sntp_init_time n E server tmout s =
    (let t = clock_at E (logged (Libc (Settimeofday 0)) s) in
     case sntp_wait n E t (sntp_tmout tmout) 0 (sntp_started E server s) of
       Next s' \<Rightarrow> Return 0 (logged (Libc Time) s')
     | Return r s' \<Rightarrow> Return r s' | Fault f s' \<Rightarrow> Fault f s')"
  by (simp add: sntp_init_time_def stmt_simps Let_def set_curtimestamp_def initialize_sntp_def
      get_curtimestamp_def clock_at_def sntp_started_def logged_def split: flow.split)

section \<open>What the result means\<close>

lemma after_delay_calls:
  "calls (after_delay E s) = calls s @ [Sys Esp_task_wdt_reset, Rtos (VTaskDelay 200)]"
  by (simp add: after_delay_def Let_def)

lemma year_clock: "116 \<le> tm_year (localtime (clock_at E s)) \<longleftrightarrow> 1451606400 \<le> clock_at E s"
  using year_before_2016 [of "clock_at E s"] by linarith

lemma sntp_wait_Next:
  "sntp_wait n E t tmt year s = Next s' \<Longrightarrow> year < 116 \<Longrightarrow>
    \<exists>u. history_grows s u \<and> history_grows u s' \<and> 1451606400 \<le> clock_at E u"
proof (induction n arbitrary: year s)
  case (Suc n)
  let ?s1 = "after_delay E s"
  let ?year = "tm_year (localtime (clock_at E ?s1))"
  have "sntp_wait n E t tmt ?year (logged (Libc Time) ?s1) = Next s' \<or>
    sntp_wait n E t tmt ?year (logged (Libc Time) (logged (Libc Time) ?s1)) = Next s'"
    using Suc.prems by (auto simp: sntp_wait_Suc Let_def split: if_splits)
  moreover have "history_grows ?s1 (logged (Libc Time) ?s1)"
    "history_grows ?s1 (logged (Libc Time) (logged (Libc Time) ?s1))"
    by (simp_all add: history_grows_def)
  ultimately obtain v where v: "sntp_wait n E t tmt ?year v = Next s'" "history_grows ?s1 v"
    by blast
  have s1: "history_grows s ?s1" by (simp add: history_grows_def after_delay_calls)
  show ?case
  proof (cases "?year < 116")
    case True
    from Suc.IH [OF v(1) True] obtain u where
      "history_grows v u" "history_grows u s'" "1451606400 \<le> clock_at E u" by blast
    moreover have "history_grows s u"
      using s1 v(2) \<open>history_grows v u\<close> history.trans_R by blast
    ultimately show ?thesis by blast
  next
    case False
    then have "s' = v" "1451606400 \<le> clock_at E ?s1"
      using v(1) year_clock [of E ?s1] by simp_all
    with v(2) s1 show ?thesis by blast
  qed
qed (simp add: sntp_wait_0)

lemma sntp_wait_Return:
  "sntp_wait n E t tmt year s = Return r s' \<Longrightarrow>
    r = - 2 \<and> time_sync_flag s' = 0 \<and> last (calls s') = Sntp Sntp_stop \<and>
    (\<exists>u. history_grows s u \<and> history_grows u s' \<and> tmt < clock_at E u - t)"
proof (induction n arbitrary: year s)
  case (Suc n)
  let ?s1 = "after_delay E s"
  let ?s2 = "logged (Libc Time) ?s1"
  let ?s3 = "logged (Libc Time) ?s2"
  have s: "history_grows s ?s2" "history_grows s ?s3"
    by (simp_all add: history_grows_def after_delay_calls)
  let ?year = "tm_year (localtime (clock_at E ?s1))"
  have "tmt < clock_at E ?s2 - t \<and> r = - 2 \<and> s' = logged (Sntp Sntp_stop) ?s3 \<and>
      time_sync_flag ?s1 = 0 \<or>
    sntp_wait n E t tmt ?year ?s2 = Return r s' \<or> sntp_wait n E t tmt ?year ?s3 = Return r s'"
    using Suc.prems by (simp add: sntp_wait_Suc Let_def split: if_splits)
  then consider (stop) "tmt < clock_at E ?s2 - t" "r = - 2" "s' = logged (Sntp Sntp_stop) ?s3"
      "time_sync_flag ?s1 = 0"
    | (more) v where "sntp_wait n E t tmt ?year v = Return r s'" "history_grows s v"
    using s by blast
  then show ?case
  proof cases
    case stop
    moreover have "history_grows ?s2 s'" by (simp add: stop history_grows_def)
    ultimately show ?thesis using s(1) by auto
  next
    case more
    with Suc.IH [OF more(1)] history.trans_R [of s v] show ?thesis by blast
  qed
qed (simp add: sntp_wait_0 split: if_splits)

lemma sntp_init_time_result:
  assumes "sntp_init_time n E server tmout s = Return r s'"
  shows "r = 0 \<and> (\<exists>u. history_grows u s' \<and> 1451606400 \<le> clock_at E u) \<or>
    r = - 2 \<and> time_sync_flag s' = 0 \<and> last (calls s') = Sntp Sntp_stop \<and>
      (\<exists>u. history_grows u s' \<and>
        sntp_tmout tmout < clock_at E u - clock_at E (logged (Libc (Settimeofday 0)) s))"
proof (cases "sntp_wait n E (clock_at E (logged (Libc (Settimeofday 0)) s)) (sntp_tmout tmout) 0
    (sntp_started E server s)")
  case (Next v)
  then obtain u where "history_grows u v" "1451606400 \<le> clock_at E u"
    using sntp_wait_Next [OF Next] by auto
  moreover have "r = 0" "s' = logged (Libc Time) v"
    using assms Next by (simp_all add: sntp_init_time_run)
  moreover have "history_grows v (logged (Libc Time) v)" by (simp add: history_grows_def)
  ultimately show ?thesis using history.trans_R [of _ v] by blast
next
  case (Return q v)
  then have "r = q" "s' = v" using assms by (simp_all add: sntp_init_time_run)
  with sntp_wait_Return [OF Return] show ?thesis by blast
next
  case (Fault f v)
  with assms show ?thesis by (simp add: sntp_init_time_run)
qed

text \<open>
  C18: \<open>sntp_init_time\<close> returns 0 only after reading a clock of 2016 or later, and otherwise -2,
  with the client stopped as its last act, no synchronisation received and a clock reading more
  than the time-out after the first one. It never returns -1.
\<close>

theorem sntp_init_time_outcome:
  assumes "sntp_init_time n E server tmout s = Return r s'"
  shows "r = 0 \<and> (\<exists>u. history_grows u s' \<and> 1451606400 \<le> clock_at E u) \<or>
    r = - 2 \<and> time_sync_flag s' = 0 \<and> last (calls s') = Sntp Sntp_stop \<and>
      (\<exists>u. history_grows u s' \<and>
        sntp_tmout tmout < clock_at E u - clock_at E (logged (Libc (Settimeofday 0)) s))"
  by (rule sntp_init_time_result [OF assms])

section \<open>Termination\<close>

text \<open>Seconds the program has slept since it last set the clock.\<close>

fun slept :: "call list \<Rightarrow> int" where
  "slept [] = 0"
| "slept (c # cs) =
     (if c = Rtos (VTaskDelay 200) then 2 + slept cs
      else if \<exists>x. c = Libc (Settimeofday x) then 0 else slept cs)"

text \<open>
  The documented behaviour of the clock in the states after \<open>s0\<close>: it does not fall behind the
  time slept since it was set to zero (up to the end of its 32-bit range), reads at most one
  second right after that, is never negative, and once a notification has come it shows the
  time of a server, which is past 2016.
\<close>

definition sntp_clock :: "env \<Rightarrow> machine \<Rightarrow> bool" where
  "sntp_clock E s0 \<longleftrightarrow> (\<forall>s. history_grows s0 s \<longrightarrow>
     min (slept (rev (calls s))) 2000000000 \<le> clock_at E s \<and> 0 \<le> clock_at E s \<and>
     (calls s \<noteq> [] \<and> last (calls s) = Libc (Settimeofday 0) \<longrightarrow> clock_at E s \<le> 1) \<and>
     (0 < slept (rev (calls s)) \<and> time_sync_flag s \<noteq> 0 \<longrightarrow> 1451606400 \<le> clock_at E s))"

lemma sntp_clockD:
  assumes "sntp_clock E s0" "history_grows s0 s"
  shows "slept (rev (calls s)) \<le> 2000000000 \<Longrightarrow> slept (rev (calls s)) \<le> clock_at E s"
    "0 \<le> clock_at E s" "calls s \<noteq> [] \<Longrightarrow> last (calls s) = Libc (Settimeofday 0) \<Longrightarrow> clock_at E s \<le> 1"
    "0 < slept (rev (calls s)) \<Longrightarrow> time_sync_flag s \<noteq> 0 \<Longrightarrow> 1451606400 \<le> clock_at E s"
  using assms by (auto simp: sntp_clock_def)

lemma slept_after_delay: "slept (rev (calls (after_delay E s))) = slept (rev (calls s)) + 2"
  by (simp add: after_delay_calls)

lemma sntp_wait_returns:
  assumes clock: "sntp_clock E s0" and t: "0 \<le> t" "t \<le> 1" and tmt: "0 \<le> tmt" "tmt \<le> 1000000000"
  shows "history_grows s0 s \<Longrightarrow> slept (rev (calls s)) = 2 * k \<Longrightarrow> 0 \<le> k \<Longrightarrow> 2 * k \<le> tmt + 1 \<Longrightarrow>
    tmt + 1 < 2 * (k + int n) \<Longrightarrow> time_sync_flag s = 0 \<Longrightarrow> \<not> faulty (sntp_wait n E t tmt year s)"
proof (induction n arbitrary: s k year)
  case (Suc n)
  let ?s1 = "after_delay E s"
  let ?s2 = "logged (Libc Time) ?s1"
  let ?s3 = "logged (Libc Time) ?s2"
  have h: "history_grows s0 ?s1" "history_grows s0 ?s2" "history_grows s0 ?s3"
    using Suc.prems(1) by (auto simp: history_grows_def after_delay_calls)
  have sl: "slept (rev (calls ?s1)) = 2 * (k + 1)" "slept (rev (calls ?s2)) = 2 * (k + 1)"
    using slept_after_delay [of E s] Suc.prems(2) by simp_all
  have c: "2 * (k + 1) \<le> clock_at E ?s2" "0 \<le> clock_at E ?s2"
    using sntp_clockD(1,2) [OF clock h(2)] sl Suc.prems(4) tmt by simp_all
  have fit: "fits_long (clock_at E ?s2 - t)"
    using c(2) t to_long_bounds(2) [of "int_reply E ?s2 (Libc Time)"]
    by (simp add: fits_long_def clock_at_def)
  show ?case
  proof (cases "time_sync_flag ?s1 = 0")
    case False
    with sntp_clockD(4) [OF clock h(1)] sl Suc.prems(3)
    have "116 \<le> tm_year (localtime (clock_at E ?s1))" by (simp add: year_clock)
    with False show ?thesis by (simp add: sntp_wait_Suc Let_def)
  next
    case True
    have "\<not> faulty (sntp_wait n E t tmt (tm_year (localtime (clock_at E ?s1))) ?s3)"
      if "clock_at E ?s2 - t \<le> tmt"
      using that True h c t sl Suc.prems by (intro Suc.IH [of _ "k + 1"]) simp_all
    with True fit show ?thesis by (simp add: sntp_wait_Suc Let_def)
  qed
qed (simp add: sntp_wait_0)

text \<open>
  C17: With a running clock and no synchronisation pending from before, \<open>sntp_init_time\<close> returns:
  half the time-out and a round more are enough, whether a server answers or not.
\<close>

theorem sntp_init_time_returns:
  assumes clock: "sntp_clock E s" and flag: "time_sync_flag s = 0"
    and tmout: "0 \<le> tmout" "tmout \<le> 1000000000" and fuel: "sntp_tmout tmout + 1 < 2 * int n"
  shows "\<exists>r s'. sntp_init_time n E server tmout s = Return r s'"
proof -
  let ?z = "logged (Libc (Settimeofday 0)) s"
  have h: "history_grows s ?z" "history_grows s (sntp_started E server s)"
    by (simp_all add: history_grows_def sntp_started_def)
  have "0 \<le> clock_at E ?z" "clock_at E ?z \<le> 1" using sntp_clockD [OF clock h(1)] by simp_all
  moreover have "0 \<le> sntp_tmout tmout" "sntp_tmout tmout \<le> 1000000000"
    using tmout by (simp_all add: sntp_tmout_def DEFAULT_SNTP_TMOUT_def)
  ultimately have "\<not> faulty (sntp_wait n E (clock_at E ?z) (sntp_tmout tmout) 0 (sntp_started E server s))"
    using fuel flag h(2)
    by (intro sntp_wait_returns [OF clock, where k = 0]) (simp_all add: sntp_started_def)
  then show ?thesis
    by (cases "sntp_wait n E (clock_at E ?z) (sntp_tmout tmout) 0 (sntp_started E server s)")
      (simp_all add: sntp_init_time_run)
qed

text \<open>A device whose clock runs and that no server answers.\<close>

definition offline :: env where
  "offline = quiet\<lparr>int_reply := (\<lambda>s c.
     if c = Libc Time then
       (if time_sync_flag s \<noteq> 0 \<and> 0 < slept (rev (calls s)) then 2000000000
        else min (slept (rev (calls s))) 2000000000)
     else 0)\<rparr>"

lemma slept_nonneg: "0 \<le> slept cs"
  by (induction cs) auto

lemma clock_at_offline:
  "clock_at offline s =
    (if time_sync_flag s \<noteq> 0 \<and> 0 < slept (rev (calls s)) then 2000000000
     else min (slept (rev (calls s))) 2000000000)"
  using slept_nonneg [of "rev (calls s)"]
  by (simp add: clock_at_def offline_def to_long_id fits_long_def)

lemma offline_clock: "sntp_clock offline s0"
  unfolding sntp_clock_def
proof (intro allI impI conjI)
  fix s
  show "min (slept (rev (calls s))) 2000000000 \<le> clock_at offline s"
    by (simp add: clock_at_offline)
  show "0 \<le> clock_at offline s"
    using slept_nonneg [of "rev (calls s)"] by (simp add: clock_at_offline)
  show "clock_at offline s \<le> 1" if "calls s \<noteq> [] \<and> last (calls s) = Libc (Settimeofday 0)"
    using that by (cases "calls s" rule: rev_cases) (simp_all add: clock_at_offline)
  show "1451606400 \<le> clock_at offline s" if "0 < slept (rev (calls s)) \<and> time_sync_flag s \<noteq> 0"
    using that by (simp add: clock_at_offline)
qed

theorem sntp_init_time_returns_witness:
  "\<exists>r s'. sntp_init_time 20 offline None 0 init_machine = Return r s'"
  by (rule sntp_init_time_returns [OF offline_clock])
    (simp_all add: init_machine_def sntp_tmout_def DEFAULT_SNTP_TMOUT_def)

text \<open>A clock that is right from the start ends the wait in the first round.\<close>

lemma sntp_first_round:
  assumes c: "\<And>u. clock_at E u = now" and now: "1451606400 \<le> now" and tmout: "0 \<le> tmout"
  shows "\<exists>t. sntp_init_time (Suc n) E server tmout s = Return 0 t"
proof -
  have "116 \<le> tm_year (localtime now)" using year_before_2016 [of now] now by linarith
  moreover have "0 \<le> sntp_tmout tmout"
    using tmout by (simp add: sntp_tmout_def DEFAULT_SNTP_TMOUT_def)
  ultimately show ?thesis
    by (auto simp: sntp_init_time_run sntp_wait_Suc Let_def c fits_long_def)
qed

theorem sntp_init_time_outcome_witness:
  "\<exists>E s'. sntp_init_time 1 E None 0 init_machine = Return 0 s' \<and>
     (\<exists>u. history_grows u s' \<and> 1451606400 \<le> clock_at E u)"
proof -
  define E where "E = quiet\<lparr>int_reply := \<lambda>_ _. 1700000000\<rparr>"
  have "clock_at E u = 1700000000" for u
    by (simp add: E_def clock_at_def to_long_id fits_long_def)
  then obtain s' where s': "sntp_init_time 1 E None 0 init_machine = Return 0 s'"
    using sntp_first_round [of E 1700000000 0 0 None init_machine] by auto
  from sntp_init_time_outcome [OF s'] s' show ?thesis by auto
qed

section \<open>A flag left over from an earlier call\<close>

lemma sntp_wait_stuck:
  assumes "\<And>s. clock_at E s < 1451606400"
  shows "time_sync_flag s \<noteq> 0 \<Longrightarrow> year < 116 \<Longrightarrow>
    \<exists>s'. sntp_wait n E t tmt year s = Fault Out_Of_Fuel s'"
proof (induction n arbitrary: s year)
  case 0
  then show ?case by (simp add: sntp_wait_0)
next
  case (Suc n)
  let ?s1 = "after_delay E s"
  have "time_sync_flag ?s1 \<noteq> 0" using Suc.prems(1) by (simp add: after_delay_def Let_def)
  moreover have "tm_year (localtime (clock_at E ?s1)) < 116"
    using assms [of ?s1] year_clock [of E ?s1] by linarith
  ultimately show ?case
    using Suc.IH [of "logged (Libc Time) ?s1"] Suc.prems(2) by (simp add: sntp_wait_Suc Let_def)
qed

text \<open>
  C32: The callback's flag is never cleared. If it is already set when the clock is reset, and no
  server answers this time, the time-out is not looked at: however many rounds it is given,
  \<open>sntp_init_time\<close> does not return.
\<close>

theorem sntp_init_time_stuck:
  assumes clock: "\<And>s. clock_at E s < 1451606400" and flag: "time_sync_flag s \<noteq> 0"
  shows "\<exists>s'. sntp_init_time n E server tmout s = Fault Out_Of_Fuel s'"
proof -
  have "time_sync_flag (sntp_started E server s) \<noteq> 0" using flag by (simp add: sntp_started_def)
  from sntp_wait_stuck [OF clock this, of 0 n "clock_at E (logged (Libc (Settimeofday 0)) s)"
      "sntp_tmout tmout"]
  obtain s' where "sntp_wait n E (clock_at E (logged (Libc (Settimeofday 0)) s)) (sntp_tmout tmout) 0
      (sntp_started E server s) = Fault Out_Of_Fuel s'" by auto
  then show ?thesis by (simp add: sntp_init_time_run)
qed

theorem sntp_init_time_stuck_witness:
  "\<exists>s'. sntp_init_time 1000 quiet None 5 (init_machine\<lparr>time_sync_flag := 1\<rparr>) = Fault Out_Of_Fuel s'"
  by (rule sntp_init_time_stuck) (simp_all add: quiet_def clock_at_def to_long_id fits_long_def)

end
