(* ===== verification/AppMain.thy ===== *)
theory AppMain
  imports WifiEvents Mqtt Modbus Payload Fsntp
begin

text \<open>
  \<^verbatim>\<open>main/app_main.c\<close>: start-up, the task that polls the registers and publishes them, and the
  handler of the broker's events. Events of Wi-Fi and of the broker run in tasks of their own;
  they are delivered where the control task blocks, and which of them arrive then is the
  parameter \<open>sched\<close>. Loops without a bound of their own run on fuel.
\<close>

section \<open>Events of the broker\<close>

datatype mqtt_event =
  MQTT_EVENT_CONNECTED | MQTT_EVENT_DISCONNECTED | MQTT_EVENT_SUBSCRIBED int
| MQTT_EVENT_UNSUBSCRIBED int | MQTT_EVENT_PUBLISHED int | MQTT_EVENT_DATA string string
| MQTT_EVENT_ERROR | MQTT_EVENT_OTHER int

definition mqtt_event_handler :: "env \<Rightarrow> int \<Rightarrow> mqtt_event \<Rightarrow> int stmt" where
  "mqtt_event_handler E client ev = block
     [(case ev of
         MQTT_EVENT_CONNECTED \<Rightarrow> block
           [do_ext E (Mqtt (Esp_mqtt_client_subscribe client DATA_TOPIC_SUB 1)),
            call_void (set_mqtt_service_state MQTT_SERV_CONNECTED)]
       | MQTT_EVENT_DISCONNECTED \<Rightarrow> block
           [call_void (set_mqtt_service_state MQTT_SERV_DISCONNECTED),
            using_state (\<lambda>s. if_else (wifi_connect s)
              (call_void (mqtt_app_start E (mqttcfg s)))
              (block [do_ext E (Sys Esp_restart), fail Restarted]))]
       | MQTT_EVENT_ERROR \<Rightarrow> block
           [do_ext E (Tls Esp_tls_get_and_clear_last_error),
            call_void (set_mqtt_service_state MQTT_SERV_ERROR)]
       | _ \<Rightarrow> skip),
      ret 0]"

definition mqtt_app_start_main :: "env \<Rightarrow> unit stmt" where
  "mqtt_app_start_main E = block
     [upd (\<lambda>s. s\<lparr>mqttcfg := (mqttcfg s)\<lparr>uri := Some GCPIOT_BROKER_URI,
        event_handle := Some ''mqtt_event_handler'', task_stack := 5 * 1024\<rparr>\<rparr>),
      using_state (\<lambda>s. call_void (mqtt_app_start E (mqttcfg s)))]"

datatype app_event = Wifi_Event wifi_event | Mqtt_Event int mqtt_event

fun handle_app :: "env \<Rightarrow> sdk \<Rightarrow> app_event \<Rightarrow> 'r stmt" where
  "handle_app E cfg (Wifi_Event e) = call_void (handle_event E cfg e)"
| "handle_app E cfg (Mqtt_Event client e) = call_void (mqtt_event_handler E client e)"

fun arrive :: "env \<Rightarrow> sdk \<Rightarrow> app_event list \<Rightarrow> 'r stmt" where
  "arrive E cfg [] = skip"
| "arrive E cfg (e # es) = block [handle_app E cfg e, arrive E cfg es]"

section \<open>The control task\<close>

text \<open>\<open>vTaskDelay\<close>, one tick being ten milliseconds, and what happens meanwhile.\<close>

definition sleep :: "env \<Rightarrow> sdk \<Rightarrow> (machine \<Rightarrow> app_event list) \<Rightarrow> int \<Rightarrow> 'r stmt" where
  "sleep E cfg sched ticks = block
     [do_ext E (Rtos (VTaskDelay ticks)), using_state (\<lambda>s. arrive E cfg (sched s))]"

definition publish :: "env \<Rightarrow> 'r stmt" where
  "publish E = block
     [call_void (fill_payload E),
      using_state (\<lambda>s. do_ext E (Mqtt (Esp_mqtt_client_publish (mqttc s) DATA_TOPIC
        (payload_char s) (int (length (payload_char s))) 1 0)))]"

text \<open>The request blocks until the slave has answered, so events arrive then, too.\<close>

definition ctrl_cycle :: "env \<Rightarrow> sdk \<Rightarrow> (machine \<Rightarrow> app_event list) \<Rightarrow> 'r stmt" where
  "ctrl_cycle E cfg sched = block
     [call_void (request_modbus_info E),
      using_state (\<lambda>s. arrive E cfg (sched s)),
      call_fn get_mqtt_service_state (\<lambda>st. only_if (st = MQTT_SERV_CONNECTED) (publish E)),
      sleep E cfg sched (10 * 1000 div 10)]"

definition ctrl_tsk :: "nat \<Rightarrow> env \<Rightarrow> sdk \<Rightarrow> (machine \<Rightarrow> app_event list) \<Rightarrow> unit stmt" where
  "ctrl_tsk n E cfg sched = block
     [call_fn (master_init E) error_check,
      while_fuel n (\<lambda>s. \<not> wifi_connect s) (sleep E cfg sched (200 div 10)),
      call_void (mqtt_app_start_main E),
      call_fn (get_mac_str E 20) (\<lambda>mac. upd (\<lambda>s. s\<lparr>tmp_macstr := mac\<rparr>)),
      while_fuel n (\<lambda>_. True) (ctrl_cycle E cfg sched),
      do_ext E (Rtos VTaskDelete)]"

section \<open>Start-up\<close>

definition GOOGLE_SNTP :: string where "GOOGLE_SNTP = ''time.google.com''"

text \<open>The number of rounds, and the fuel of the wait in each of them.\<close>

fun sntp_loop :: "nat \<Rightarrow> nat \<Rightarrow> env \<Rightarrow> 'r stmt" where
  "sntp_loop 0 m E = fail Out_Of_Fuel"
| "sntp_loop (Suc n) m E =
     call_fn (sntp_init_time m E (Some GOOGLE_SNTP) 20) (\<lambda>r.
       if_else (r \<noteq> 0) (sntp_loop n m E) skip)"

definition app_main :: "nat \<Rightarrow> env \<Rightarrow> sdk \<Rightarrow> (machine \<Rightarrow> wifi_event list) \<Rightarrow> unit stmt" where
  "app_main n E cfg sched = block
     [checked E (Sys Nvs_flash_init),
      checked E (Netif Esp_netif_init),
      checked E (Netif Esp_event_loop_create_default),
      call_fn (fisi_example_connect n E cfg sched) error_check,
      sntp_loop n n E,
      do_ext E (Rtos (XTaskCreatePinnedToCore ''ctrl_tsk'' (1024 * 5) 4 1))]"

end
