(* ===== verification/Footprint.thy ===== *)
theory Footprint
  imports AppMain
begin

text \<open>
  What the functions of the firmware may touch. A relation between states that every update of a
  global and every call respects is respected by every function. Among the instances are that the
  arrays keep their declared sizes, and that nothing is published before the broker has answered.
\<close>

section \<open>Relations that all functions respect\<close>

definition is_publish :: "call \<Rightarrow> bool" where
  "is_publish c \<longleftrightarrow> (case c of Mqtt (Esp_mqtt_client_publish _ _ _ _ _ _) \<Rightarrow> True | _ \<Rightarrow> False)"

lemma is_publish_simps [simp]:
  "\<not> is_publish (Libc l)" "\<not> is_publish (Rtos k)" "\<not> is_publish (Sys y)" "\<not> is_publish (Sntp n)"
  "\<not> is_publish (Tls t)" "\<not> is_publish (Mb b)" "\<not> is_publish (Wifi w)" "\<not> is_publish (Netif i)"
  "\<not> is_publish (EthDrv d)" "\<not> is_publish (Mqtt (Esp_mqtt_client_init c))"
  "\<not> is_publish (Mqtt (Esp_mqtt_client_start h))"
  "\<not> is_publish (Mqtt (Esp_mqtt_client_subscribe h topic q))"
  "is_publish (Mqtt (Esp_mqtt_client_publish h topic p len qos keep))"
  by (simp_all add: is_publish_def)

lemma event_not_publish [dest]: "event_call c \<Longrightarrow> \<not> is_publish c"
  by (cases c) (auto simp: event_call_def)

text \<open>Looking an interface up by its name uses the heap and walks the list of interfaces.\<close>

locale lookup_relation = heap_relation +
  assumes R_next: "R s (logged (Netif (Esp_netif_next i)) s)"
    and R_desc: "R s (logged (Netif (Esp_netif_get_desc i)) s)"
begin

lemma obeys_asprintf: "(\<And>p. obeys R (k p)) \<Longrightarrow> obeys R (asprintf E t k)"
  unfolding asprintf_def by (intro heap_intros)

lemma obeys_netif_search: "obeys R (netif_search n E p i)"
  by (induction n arbitrary: i) (auto simp: netif_named_def intro!: heap_intros R_next R_desc)

lemma obeys_get_example_netif_from_desc: "obeys R (get_example_netif_from_desc n E d)"
  unfolding get_example_netif_from_desc_def by (intro obeys_asprintf obeys_netif_search)

end

text \<open>
  Bringing Wi-Fi up or down makes any call but publications and calls of the Ethernet driver, and
  sets the handle of the interface.
\<close>

definition is_driver :: "call \<Rightarrow> bool" where
  "is_driver c \<longleftrightarrow> (case c of EthDrv d \<Rightarrow> True | _ \<Rightarrow> False)"

lemma is_driver_simps [simp]:
  "\<not> is_driver (Libc l)" "\<not> is_driver (Rtos k)" "\<not> is_driver (Sys y)" "\<not> is_driver (Sntp n)"
  "\<not> is_driver (Tls t)" "\<not> is_driver (Mb b)" "\<not> is_driver (Wifi w)" "\<not> is_driver (Netif i)"
  "is_driver (EthDrv d)" "\<not> is_driver (Mqtt q)"
  by (simp_all add: is_driver_def)

lemma event_not_driver [dest]: "event_call c \<Longrightarrow> \<not> is_driver c"
  by (cases c) (auto simp: event_call_def)

locale station_relation = lookup_relation + event_relation +
  assumes R_logged: "\<not> is_publish c \<and> \<not> event_call c \<and> \<not> is_driver c \<Longrightarrow> R s (logged c s)"
    and R_netif: "R s (s\<lparr>s_example_esp_netif := i\<rparr>)"
begin

lemma R_calls: "\<not> is_publish c \<and> \<not> is_driver c \<Longrightarrow> R s (logged c s)"
  using R_logged R_event by blast

lemmas station_intros = heap_intros R_calls R_netif

lemma obeys_wifi_start: "obeys R (wifi_start E cfg)"
  unfolding wifi_start_def by (intro station_intros obeys_asprintf) simp_all

lemma obeys_wifi_stop: "obeys R (wifi_stop n E cfg)"
  unfolding wifi_stop_def
  by (intro station_intros obeys_get_example_netif_from_desc) simp_all

end

text \<open>
  Bringing an interface up or down calls the Ethernet driver too and keeps its handles, but never
  gives the SPI bus back; setting the clock has a flag.
\<close>

definition frees_bus :: "eth_call \<Rightarrow> bool" where
  "frees_bus d \<longleftrightarrow> (case d of Eth n a \<Rightarrow> n = ''spi_bus_free'')"

lemma frees_bus_simps [simp]:
  "frees_bus (Eth n a) \<longleftrightarrow> n = ''spi_bus_free''" "phy_new p \<noteq> ''spi_bus_free''"
  by (simp add: frees_bus_def) (cases p; simp)

locale setup_relation = station_relation +
  assumes R_driver: "\<not> frees_bus d \<Longrightarrow> R s (logged (EthDrv d) s)"
    and R_eth: "R s (s\<lparr>s_eth_handle := i\<rparr>)" "R s (s\<lparr>s_eth_glue := i\<rparr>)"
      "R s (s\<lparr>s_mac := i\<rparr>)" "R s (s\<lparr>s_phy := i\<rparr>)"
    and R_sync: "R s (s\<lparr>time_sync_flag := f\<rparr>)"
begin

lemmas setup_intros = heap_intros R_driver R_calls R_netif R_eth R_sync

lemma obeys_eth_new:
  "name \<noteq> ''spi_bus_free'' \<Longrightarrow> (\<And>i. obeys R (k i)) \<Longrightarrow> obeys R (eth_new E name args k)"
  unfolding eth_new_def by (intro setup_intros) simp_all

lemma obeys_set_mac_phy:
  "m \<noteq> ''spi_bus_free'' \<Longrightarrow> p \<noteq> ''spi_bus_free'' \<Longrightarrow> obeys R (set_mac_phy E m ms p ps)"
  unfolding set_mac_phy_def by (intro setup_intros obeys_eth_new)

lemma obeys_eth_make_driver: "obeys R (eth_make_driver E cfg)"
  by (cases "ETH_DRIVER cfg"; simp add: eth_make_driver_def del: block_more block_last;
      (intro setup_intros obeys_set_mac_phy)?; simp)

lemma obeys_eth_start: "obeys R (eth_start E cfg)"
  unfolding eth_start_def
  by (intro setup_intros obeys_asprintf obeys_eth_make_driver obeys_eth_new) simp_all

lemma obeys_eth_stop: "obeys R (eth_stop n E cfg)"
  unfolding eth_stop_def
  by (intro setup_intros obeys_get_example_netif_from_desc) simp_all

lemma obeys_sntp_wait: "obeys R (sntp_wait n E t tmt year)"
  by (induction n arbitrary: year)
    (auto simp: sntp_wait.simps sync_delay_def time_sync_notification_cb_def get_curtimestamp_def
      Let_def intro!: setup_intros)

lemma obeys_sntp_init_time: "obeys R (sntp_init_time n E server tmout)"
  unfolding sntp_init_time_def set_curtimestamp_def get_curtimestamp_def initialize_sntp_def
  by (intro setup_intros obeys_sntp_wait) simp_all

lemma obeys_sntp_loop: "obeys R (sntp_loop n m E)"
  by (induction n) (auto intro!: heap_intros obeys_sntp_init_time)

end

text \<open>Connecting also changes the module's own counters and handles.\<close>

locale wifi_relation = setup_relation +
  assumes R_active: "R s (s\<lparr>s_active_interfaces := i\<rparr>)"
    and R_semaphore: "R s (s\<lparr>s_semph_get_ip_addrs := i\<rparr>)"
begin

lemmas wifi_intros = setup_intros R_active R_semaphore

lemma obeys_start_during: "obeys R during \<Longrightarrow> obeys R (start_during E cfg during)"
  unfolding start_during_def by (intro wifi_intros obeys_wifi_start obeys_eth_start) simp_all

lemma obeys_start: "obeys R (start E cfg)"
  unfolding start_def by (rule obeys_start_during) simp

lemma obeys_fisi_example_connect: "obeys R (fisi_example_connect n E cfg sched)"
  unfolding fisi_example_connect_def
  by (intro wifi_intros obeys_start obeys_take_all obeys_print_netifs) simp_all

lemma obeys_example_disconnect: "obeys R (example_disconnect n E cfg)"
  unfolding example_disconnect_def example_disconnect_during_def stop_def
  by (intro wifi_intros obeys_wifi_stop obeys_eth_stop) simp_all

lemma obeys_app_main: "obeys R (app_main n E cfg sched)"
  unfolding app_main_def
  by (intro wifi_intros obeys_fisi_example_connect obeys_sntp_loop) simp_all

end

text \<open>
  Handlers of broker events set the service state and start the client again; \<open>ok\<close> are the events
  that may arrive.
\<close>

locale handler_relation = wifi_relation + client_relation +
  fixes ok :: "app_event \<Rightarrow> bool"
  assumes R_service: "st \<noteq> MQTT_SERV_CONNECTED \<Longrightarrow> R s (s\<lparr>mqtt_service_state := st\<rparr>)"
    and R_connected: "ok (Mqtt_Event h MQTT_EVENT_CONNECTED) \<Longrightarrow>
      R s (s\<lparr>mqtt_service_state := MQTT_SERV_CONNECTED\<rparr>)"
begin

lemma obeys_set_service:
  "st \<noteq> MQTT_SERV_CONNECTED \<Longrightarrow> obeys R (call_void (set_mqtt_service_state st))"
  unfolding set_mqtt_service_state_def by (intro heap_intros R_service)

lemma obeys_mqtt_event_handler:
  assumes "ok (Mqtt_Event h e)"
  shows "obeys R (mqtt_event_handler E client e)"
proof -
  have "obeys R (call_void (set_mqtt_service_state MQTT_SERV_CONNECTED) :: int stmt)"
    if "e = MQTT_EVENT_CONNECTED"
    using assms that unfolding set_mqtt_service_state_def
    by (intro heap_intros R_connected) simp
  then show ?thesis
    unfolding mqtt_event_handler_def
    by (cases e) (auto simp del: block_more
      intro!: heap_intros obeys_set_service obeys_mqtt_app_start R_calls)
qed

lemma obeys_handle_app: "ok e \<Longrightarrow> obeys R (handle_app E cfg e)"
  by (cases e) (auto intro!: obeys_call_void obeys_handle_event obeys_mqtt_event_handler)

lemma obeys_arrive: "\<forall>e \<in> set es. ok e \<Longrightarrow> obeys R (arrive E cfg es)"
  by (induction es) (auto simp del: block_more intro!: heap_intros obeys_handle_app)

lemma obeys_sleep: "(\<And>s. \<forall>e \<in> set (sched s). ok e) \<Longrightarrow> obeys R (sleep E cfg sched ticks)"
  unfolding sleep_def by (intro heap_intros obeys_arrive R_calls) simp_all

end

text \<open>The control task adds the client's configuration and the arrays it fills, within their sizes.\<close>

locale app_relation = handler_relation +
  assumes R_config: "R s (s\<lparr>mqttcfg := c\<rparr>)"
    and R_registers: "length bs \<le> 2 * length (array_modbus s) \<Longrightarrow>
      R s (s\<lparr>array_modbus := store_bytes bs (array_modbus s)\<rparr>)"
    and R_mac: "length m < 20 \<Longrightarrow> R s (s\<lparr>tmp_macstr := m\<rparr>)"
    and R_publish: "mqtt_service_state s = MQTT_SERV_CONNECTED \<Longrightarrow>
      R s (end_state (publish E s :: unit flow))"
begin

lemma obeys_write_array_modbus: "obeys R (write_array_modbus bs)"
  unfolding write_array_modbus_def obeys_def
  by (simp add: using_state_def if_else_def upd_def fail_def R_registers refl_R)

lemma obeys_request_modbus_info: "obeys R (request_modbus_info E)"
  unfolding request_modbus_info_def read_cid_def descriptor_at_def log_registers_def
    master_get_param_data_def
  by (auto simp: Let_def split: option.split
      intro!: heap_intros obeys_write_array_modbus R_calls)

lemma obeys_master_init: "obeys R (master_init E)"
  unfolding master_init_def mb_step_def mb_return_on_false_def
  by (intro heap_intros R_calls) simp_all

lemma publish_when_connected:
  "call_fn get_mqtt_service_state (\<lambda>st. only_if (st = MQTT_SERV_CONNECTED) c) =
   using_state (\<lambda>s. only_if (mqtt_service_state s = MQTT_SERV_CONNECTED) c)"
  by (simp add: fun_eq_iff call_fn_def get_mqtt_service_state_def using_state_def ret_def)

lemma obeys_publish:
  "obeys R (call_fn get_mqtt_service_state
     (\<lambda>st. only_if (st = MQTT_SERV_CONNECTED) (publish E) :: unit stmt))"
  unfolding publish_when_connected obeys_def
  by (simp add: using_state_def only_if_def skip_def R_publish refl_R)

lemma obeys_ctrl_cycle:
  "(\<And>s. \<forall>e \<in> set (sched s). ok e) \<Longrightarrow> obeys R (ctrl_cycle E cfg sched :: unit stmt)"
  unfolding ctrl_cycle_def
  by (intro obeys_Nil obeys_Cons obeys_call_void obeys_using_state obeys_request_modbus_info obeys_arrive
      obeys_publish obeys_sleep)

lemma obeys_store_mac: "obeys R (call_fn (get_mac_str E 20) (\<lambda>mac. upd (\<lambda>s. s\<lparr>tmp_macstr := mac\<rparr>)))"
  unfolding obeys_def
proof
  fix s
  let ?s = "logged (Sys Esp_efuse_mac_get_default) s"
  have "R s ?s" by (rule R_calls) simp
  moreover have "R ?s (?s\<lparr>tmp_macstr := m\<rparr>)" if "length m < 20" for m by (rule R_mac [OF that])
  ultimately show "R s (end_state (call_fn (get_mac_str E 20) (\<lambda>mac. upd (\<lambda>s. s\<lparr>tmp_macstr := mac\<rparr>)) s))"
    using trans_R [of s ?s]
    by (simp add: call_fn_def get_mac_str_def with_mac_def ext_bytes_def fits_in_def skip_def
        fail_def ret_def upd_def Let_def)
qed

lemma obeys_ctrl_tsk:
  "(\<And>s. \<forall>e \<in> set (sched s). ok e) \<Longrightarrow> obeys R (ctrl_tsk n E cfg sched)"
  unfolding ctrl_tsk_def mqtt_app_start_main_def
  by (intro obeys_Nil obeys_Cons obeys_call_void obeys_while_fuel obeys_sleep obeys_ctrl_cycle obeys_store_mac
      obeys_mqtt_app_start obeys_upd obeys_using_state obeys_do_ext obeys_call_fn [OF obeys_master_init]
      obeys_pure R_config R_calls) simp_all

end

section \<open>Sizes of the arrays\<close>

text \<open>The arrays have the sizes they are declared with, and NULL is not a live block.\<close>

definition machine_ok :: "machine \<Rightarrow> bool" where
  "machine_ok s \<longleftrightarrow> length (array_modbus s) = 128 \<and> length (payload_char s) < 2000 \<and>
     length (tmp_macstr s) < 20 \<and> 0 \<notin> set (live s)"

definition keeps_ok :: "machine \<Rightarrow> machine \<Rightarrow> bool" where
  "keeps_ok s t \<longleftrightarrow> (machine_ok s \<longrightarrow> machine_ok t)"

interpretation sizes: app_relation keeps_ok "\<lambda>_. True"
proof unfold_locales
  show "keeps_ok s (end_state (publish E s :: unit flow))" for E s
  proof -
    have "end_state (publish E s :: unit flow) \<in>
        {logged (Libc Time) s} \<union> {t. \<exists>p c. length p < 2000 \<and>
           (t = (logged (Libc Time) s)\<lparr>payload_char := p\<rparr> \<or>
            t = logged c ((logged (Libc Time) s)\<lparr>payload_char := p\<rparr>))}"
      by (auto simp: publish_def fill_payload_def get_curtimestamp_def stmt_simps Let_def split: sum.split)
    then show ?thesis by (auto simp: keeps_ok_def machine_ok_def)
  qed
qed (auto simp: keeps_ok_def machine_ok_def dest: notin_set_remove1)

interpretation events: operation_invariant "\<lambda>e s. end_state (handle_app E cfg e s :: unit flow)" machine_ok
  for E cfg
proof
  have "obeys keeps_ok (handle_app E cfg e :: unit stmt)" for e by (rule sizes.obeys_handle_app) simp
  then show "machine_ok (end_state (handle_app E cfg e s :: unit flow))" if "machine_ok s" for e s
    using that by (simp add: obeys_def keeps_ok_def)
qed

lemmas events_keep_sizes = events.run_inv

section \<open>Silence before the broker answers\<close>

definition publications :: "machine \<Rightarrow> call list" where
  "publications s = filter is_publish (calls s)"

lemma publications_logged [simp]:
  "publications (logged c s) = publications s @ (if is_publish c then [c] else [])"
  by (simp add: publications_def)

definition silent :: "machine \<Rightarrow> machine \<Rightarrow> bool" where
  "silent s t \<longleftrightarrow> (mqtt_service_state s \<noteq> MQTT_SERV_CONNECTED \<longrightarrow>
     mqtt_service_state t \<noteq> MQTT_SERV_CONNECTED \<and> publications t = publications s)"

definition no_connect :: "app_event \<Rightarrow> bool" where
  "no_connect e \<longleftrightarrow> (case e of Mqtt_Event h MQTT_EVENT_CONNECTED \<Rightarrow> False | _ \<Rightarrow> True)"

interpretation silence: app_relation silent no_connect
  by unfold_locales (auto simp: silent_def publications_def no_connect_def)

text \<open>
  C19: Nothing is published unless the broker has confirmed a connection: as long as that event
  does not arrive, the control task, started with the service in any other state, makes no
  publication, whatever else happens.
\<close>

theorem silent_until_connected:
  assumes "\<And>s e. e \<in> set (sched s) \<Longrightarrow> no_connect e" "mqtt_service_state s \<noteq> MQTT_SERV_CONNECTED"
  shows "publications (end_state (ctrl_tsk n E cfg sched s)) = publications s"
proof -
  have "obeys silent (ctrl_tsk n E cfg sched)"
    by (rule silence.obeys_ctrl_tsk) (simp add: assms(1))
  then show ?thesis using assms(2) by (simp add: obeys_def silent_def)
qed

theorem silent_until_connected_witness:
  "publications (end_state (ctrl_tsk 7 slave_0201 build_sdk
     (\<lambda>_. [Mqtt_Event 1 MQTT_EVENT_ERROR, Wifi_Event (STA_CONNECTED 5)]) init_machine)) = []"
  by (subst silent_until_connected)
    (auto simp: no_connect_def init_machine_def publications_def)

end
