(* ===== verification/AppEvents.thy ===== *)
theory AppEvents
  imports Footprint
begin

text \<open>
  The events of \<^verbatim>\<open>main/app_main.c\<close> and \<^verbatim>\<open>main/WifiConnect.c\<close> together, against an abstract view of
  the device: link, addresses and service state. Reconnecting to the broker runs the whole of
  \<open>mqtt_app_start\<close>, so the refinement rests on what starting a client does.
\<close>

section \<open>The abstract view\<close>

type_synonym view = "net \<times> mqtt_serv_state_t"

definition view_of :: "machine \<Rightarrow> view" where
  "view_of s = (net_of s, mqtt_service_state s)"

text \<open>\<open>None\<close>: the device restarts, as it does when the broker is lost without a link.\<close>

fun broker_event :: "mqtt_event \<Rightarrow> view \<Rightarrow> view option" where
  "broker_event MQTT_EVENT_CONNECTED (w, st) = Some (w, MQTT_SERV_CONNECTED)"
| "broker_event MQTT_EVENT_DISCONNECTED (w, st) =
     (if link_up w then Some (w, MQTT_SERV_DISCONNECTED) else None)"
| "broker_event MQTT_EVENT_ERROR (w, st) = Some (w, MQTT_SERV_ERROR)"
| "broker_event _ (w, st) = Some (w, st)"

fun view_event ::
    "sdk \<Rightarrow> (int \<Rightarrow> string) \<Rightarrow> (u32 list \<Rightarrow> int) \<Rightarrow> app_event \<Rightarrow> view \<Rightarrow> view option" where
  "view_event cfg name ty (Wifi_Event e) (w, st) = Some (net_event cfg name ty e w, st)"
| "view_event cfg name ty (Mqtt_Event h e) v = broker_event e v"

fun view_events ::
    "sdk \<Rightarrow> (int \<Rightarrow> string) \<Rightarrow> (u32 list \<Rightarrow> int) \<Rightarrow> app_event list \<Rightarrow> view \<Rightarrow> view option" where
  "view_events cfg name ty [] v = Some v"
| "view_events cfg name ty (e # es) v =
     Option.bind (view_event cfg name ty e v) (view_events cfg name ty es)"

section \<open>What events leave alone\<close>

definition same_net :: "machine \<Rightarrow> machine \<Rightarrow> bool" where
  "same_net s t \<longleftrightarrow> net_of t = net_of s \<and> s_semph_get_ip_addrs t = s_semph_get_ip_addrs s"

definition same_data :: "machine \<Rightarrow> machine \<Rightarrow> bool" where
  "same_data s t \<longleftrightarrow> array_modbus t = array_modbus s \<and> tmp_macstr t = tmp_macstr s \<and>
     publications t = publications s"

definition same_service :: "machine \<Rightarrow> machine \<Rightarrow> bool" where
  "same_service s t \<longleftrightarrow> mqttcfg t = mqttcfg s \<and> mqtt_service_state t = mqtt_service_state s"

lemma net_of_update [simp]:
  "net_of (s\<lparr>live := l\<rparr>) = net_of s" "net_of (s\<lparr>buffers := b\<rparr>) = net_of s"
  "net_of (s\<lparr>oBuf := p\<rparr>) = net_of s" "net_of (s\<lparr>expire_t := e\<rparr>) = net_of s"
  "net_of (s\<lparr>mqttc := h\<rparr>) = net_of s" "net_of (s\<lparr>jwt := p\<rparr>) = net_of s"
  "net_of (s\<lparr>mqtt_service_state := st\<rparr>) = net_of s" "net_of (s\<lparr>array_modbus := a\<rparr>) = net_of s"
  "net_of (s\<lparr>payload_char := c\<rparr>) = net_of s"
  by (simp_all add: net_of_def gives_def)

lemma is_give_lib [simp]:
  "\<not> is_give (Tls t)" "\<not> is_give (Mqtt m)" "\<not> is_give (Mb b)" "\<not> is_give (Rtos (VTaskDelay n))"
  by (simp_all add: is_give_def)

interpretation net_kept: client_relation same_net
  by unfold_locales (auto simp: same_net_def)

interpretation data_kept: client_relation same_data
  by unfold_locales (auto simp: same_data_def publications_def)

interpretation data_kept_wifi: wifi_relation same_data
  by unfold_locales (auto simp: same_data_def publications_def)

interpretation service_kept: wifi_relation same_service
  by unfold_locales (auto simp: same_service_def)

lemma publications_update [simp]:
  "publications (s\<lparr>mqtt_service_state := st\<rparr>) = publications s"
  "publications (s\<lparr>array_modbus := a\<rparr>) = publications s"
  "publications (s\<lparr>payload_char := c\<rparr>) = publications s"
  "publications (s\<lparr>mqttcfg := cfg\<rparr>) = publications s"
  "publications (s\<lparr>tmp_macstr := m\<rparr>) = publications s"
  by (simp_all add: publications_def)

section \<open>One event\<close>

text \<open>
  The documented behaviour of network stack, mbedTLS and heap together, on a device that still has
  memory for the token: \<open>mqtt_app_start_null_block\<close> shows what happens when it has not.
\<close>

definition app_env :: "env \<Rightarrow> (int \<Rightarrow> string) \<Rightarrow> (u32 list \<Rightarrow> int) \<Rightarrow> bool" where
  "app_env E name ty \<longleftrightarrow> net_env E name ty \<and> rsa_signatures E \<and> fresh_blocks E \<and>
     (\<forall>s. int_reply E s (Libc (Malloc 5000)) \<noteq> 0)"

text \<open>The semaphore exists and the client is configured for the broker.\<close>

definition ready :: "machine \<Rightarrow> bool" where
  "ready s \<longleftrightarrow> s_semph_get_ip_addrs s \<noteq> 0 \<and> uri (mqttcfg s) = Some GCPIOT_BROKER_URI"

lemma restart_client:
  assumes "app_env E name ty" "ready s"
  shows "\<exists>t. (call_void (mqtt_app_start E (mqttcfg s)) :: 'r stmt) s = Next t \<and>
    view_of t = view_of s \<and> ready t \<and> same_data s t"
proof -
  have "obeys same_net (mqtt_app_start E (mqttcfg s))" "obeys same_data (mqtt_app_start E (mqttcfg s))"
    by (rule net_kept.obeys_mqtt_app_start data_kept.obeys_mqtt_app_start)+
  moreover obtain r t where "mqtt_app_start E (mqttcfg s) s = Return r t" "client_frame s t"
    using mqtt_app_start_outcome [of E "mqttcfg s" s] assms
    by (auto simp: app_env_def ready_def jwt_block_def)
  ultimately show ?thesis
    using assms(2)
    by (auto simp: call_void_def obeys_def same_net_def client_frame_def view_of_def ready_def
        dest: spec [of _ s])
qed

text \<open>A run that ends as the abstract one does.\<close>

definition follows :: "'r flow \<Rightarrow> view option \<Rightarrow> machine \<Rightarrow> bool" where
  "follows f v s \<longleftrightarrow> (case v of
     None \<Rightarrow> \<exists>t. f = Fault Restarted t \<and> Sys Esp_restart \<in> set (calls t)
   | Some w \<Rightarrow> \<exists>t. f = Next t \<and> view_of t = w \<and> ready t \<and> same_data s t)"

lemma same_data_refl [simp]: "same_data s s"
  by (rule data_kept.refl_R)

lemma same_data_set [simp]: "same_data s (s\<lparr>mqtt_service_state := st\<rparr>)"
  by (simp add: same_data_def publications_def)

lemma handle_app_follows:
  assumes env: "app_env E name ty" and s: "ready s"
  shows "follows (handle_app E cfg e s :: 'r flow) (view_event cfg name ty e (view_of s)) s"
proof (cases e)
  case (Wifi_Event w)
  obtain t where t: "(call_void (handle_event E cfg w) :: 'r stmt) s = Next t"
    "net_of t = net_event cfg name ty w (net_of s)" "s_semph_get_ip_addrs t = s_semph_get_ip_addrs s"
    using handle_event_run [of E name ty s cfg w] env s by (auto simp: app_env_def ready_def)
  have "obeys same_service (call_void (handle_event E cfg w) :: 'r stmt)"
    "obeys same_data (call_void (handle_event E cfg w) :: 'r stmt)"
    by (intro service_kept.obeys_call_void service_kept.obeys_handle_event
        data_kept.obeys_call_void data_kept_wifi.obeys_handle_event)+
  then have "same_service s t" "same_data s t" using t(1) by (auto simp: obeys_def dest: spec [of _ s])
  with t s Wifi_Event show ?thesis
    by (auto simp: follows_def view_of_def ready_def same_service_def)
next
  case (Mqtt_Event h m)
  let ?d = "s\<lparr>mqtt_service_state := MQTT_SERV_DISCONNECTED\<rparr>"
  obtain t where t: "(call_void (mqtt_app_start E (mqttcfg ?d)) :: int stmt) ?d = Next t"
    "view_of t = view_of ?d" "ready t" "same_data ?d t"
    using restart_client [OF env, of ?d] s by (auto simp: ready_def)
  have "same_data s t" using t(4) by (simp add: same_data_def publications_def)
  moreover have "link_up (net_of s) = wifi_connect s" by (simp add: net_of_def)
  ultimately show ?thesis
    using s t(1-3) Mqtt_Event
    by (cases m) (auto simp: follows_def mqtt_event_handler_def set_mqtt_service_state_def stmt_simps
        view_of_def ready_def same_data_def)
qed

section \<open>Sequences of events\<close>

lemma follows_trans:
  assumes "follows (c s) (Some w) s" "\<And>t. view_of t = w \<Longrightarrow> ready t \<Longrightarrow> follows (d t) v t"
  shows "follows (block [c, d] s) v s"
proof -
  obtain t where t: "c s = Next t" "view_of t = w" "ready t" "same_data s t"
    using assms(1) by (auto simp: follows_def)
  then have "follows (d t) v t" by (simp add: assms(2))
  then show ?thesis
    using t by (auto simp: follows_def intro: data_kept.trans_R split: option.splits)
qed

lemma follows_arrive:
  assumes env: "app_env E name ty"
  shows "ready s \<Longrightarrow>
    follows (arrive E cfg es s :: 'r flow) (view_events cfg name ty es (view_of s)) s"
proof (induction es arbitrary: s)
  case Nil
  then show ?case by (simp add: follows_def skip_def)
next
  case (Cons e es)
  note e = handle_app_follows [OF env Cons.prems, of cfg e, where ?'r = 'r]
  show ?case
  proof (cases "view_event cfg name ty e (view_of s)")
    case None
    with e show ?thesis by (auto simp: follows_def)
  next
    case (Some w)
    with e Cons.IH show ?thesis
      by (simp del: block_more) (rule follows_trans, auto)
  qed
qed

text \<open>
  C3: The event handlers of Wi-Fi and broker together refine the abstract view of the device: for
  every sequence of events the device ends in the state that the abstract run gives, through
  every restart of the client, with the registers and the device's name unchanged and nothing
  published; or, exactly when the abstract run says so, it restarts.
\<close>

theorem arrive_refines:
  assumes "app_env E name ty" "ready s"
  shows "case view_events cfg name ty es (view_of s) of
    None \<Rightarrow> \<exists>t. (arrive E cfg es s :: unit flow) = Fault Restarted t \<and> Sys Esp_restart \<in> set (calls t)
  | Some v \<Rightarrow> \<exists>t. (arrive E cfg es s :: unit flow) = Next t \<and> (net_of t, mqtt_service_state t) = v \<and>
      ready t \<and> array_modbus t = array_modbus s \<and> tmp_macstr t = tmp_macstr s \<and>
      publications t = publications s"
  using follows_arrive [OF assms, of cfg es, where ?'r = unit]
  by (auto simp: follows_def view_of_def same_data_def split: option.splits)

text \<open>A device on a network, with a slave whose registers hold 0x0201 and a 2048-bit key.\<close>

definition device :: env where
  "device = quiet
     \<lparr>int_reply := (\<lambda>s c. case c of
        Netif (Esp_netif_ip6_get_addr_type a) \<Rightarrow> 2 | Netif (Esp_netif_create_wifi d i) \<Rightarrow> 5
      | Netif (Esp_netif_get_desc i) \<Rightarrow> 1
      | Rtos (XSemaphoreCreateCounting m i) \<Rightarrow> 42 | Libc (Malloc n) \<Rightarrow> next_block s | _ \<Rightarrow> 0),
      out_reply := (\<lambda>_ _. 1),
      str_reply := (\<lambda>_ _. ''example_connect: sta''),
      bytes_reply := (\<lambda>s c. case c of
        Tls t \<Rightarrow> replicate 256 0 | Mb b \<Rightarrow> concat (replicate NUM_REG [0x01, 0x02])
      | _ \<Rightarrow> [0x24, 0xdc, 0xc3, 0xb0, 0xce, 0x00])\<rparr>"

lemma device_app_env: "app_env device (\<lambda>_. ''example_connect: sta'') (\<lambda>_. 2)"
  using next_block_fresh next_block_pos
  by (simp add: app_env_def net_env_def device_def rsa_signatures_def fresh_blocks_def less_imp_neq
      [THEN not_sym])

lemma device_mb_stack: "mb_stack device"
  by (simp add: mb_stack_def device_def NUM_REG_def length_concat sum_list_replicate)

definition connected :: machine where
  "connected = init_machine\<lparr>s_semph_get_ip_addrs := 42, mqttcfg := broker_config, wifi_connect := True\<rparr>"

lemma connected_ready: "ready connected"
  by (simp add: ready_def connected_def broker_config_def)

theorem arrive_refines_witness:
  "\<exists>t. (arrive device build_sdk [Mqtt_Event 1 MQTT_EVENT_CONNECTED, Mqtt_Event 1 MQTT_EVENT_DISCONNECTED,
      Wifi_Event STA_DISCONNECTED, Mqtt_Event 1 MQTT_EVENT_DISCONNECTED] connected :: unit flow) =
      Fault Restarted t"
  using arrive_refines [OF device_app_env connected_ready, of build_sdk
      "[Mqtt_Event 1 MQTT_EVENT_CONNECTED, Mqtt_Event 1 MQTT_EVENT_DISCONNECTED,
        Wifi_Event STA_DISCONNECTED, Mqtt_Event 1 MQTT_EVENT_DISCONNECTED]"]
  by (auto simp: view_of_def net_of_def connected_def build_sdk_parts)

section \<open>The control task\<close>

text \<open>
  The message that is published for the registers \<open>regs\<close>: under each label the register it names,
  with the device's name and the time.
\<close>

definition reports :: "string \<Rightarrow> string \<Rightarrow> int \<Rightarrow> u16 list \<Rightarrow> bool" where
  "reports p u ts regs \<longleftrightarrow> length p < 2000 \<and> read_payload p =
     Some ((u, ts, map (\<lambda>n. (''_1_'' @ dec n, uint (regs ! n))) payload_args), [])"

definition publish_call :: "int \<Rightarrow> string \<Rightarrow> call" where
  "publish_call h p = Mqtt (Esp_mqtt_client_publish h DATA_TOPIC p (int (length p)) 1 0)"

text \<open>The state of the control task between its steps.\<close>

definition running :: "machine \<Rightarrow> bool" where
  "running s \<longleftrightarrow> ready s \<and> length (array_modbus s) = 128 \<and> length (tmp_macstr s) \<le> 19 \<and>
     no_quote (tmp_macstr s)"

lemma running_same_data: "running s \<Longrightarrow> ready t \<Longrightarrow> same_data s t \<Longrightarrow> running t"
  by (simp add: running_def same_data_def)

lemma request_run:
  assumes "mb_stack E" "running s"
  shows "\<exists>t. request_modbus_info E s = Next t \<and> running t \<and> view_of t = view_of s \<and>
    publications t = publications s \<and> tmp_macstr t = tmp_macstr s"
proof -
  have "length (bytes_reply E (logged lookup_0 s) read_0) \<le> 172"
    using assms(1) by (simp add: mb_stack_def NUM_REG_def)
  then have "length (bytes_reply E (logged lookup_0 s) read_0) \<le> 256" by simp
  with assms show ?thesis
    by (simp add: request_modbus_info_def read_cid_run running_def ready_def Let_def view_of_def)
qed

lemma publish_run:
  assumes "running s"
  shows "\<exists>t p. (publish E s :: 'r flow) = Next t \<and> running t \<and> view_of t = view_of s \<and>
    publications t = publications s @ [publish_call (mqttc s) p] \<and>
    array_modbus t = array_modbus s \<and> tmp_macstr t = tmp_macstr s \<and>
    reports p (tmp_macstr s) (clock_at E s) (array_modbus s)"
proof -
  have "fits_long (clock_at E s)" by (simp add: clock_at_def)
  with assms show ?thesis
    using payload_text_length [of "tmp_macstr s" "clock_at E s" "array_modbus s"]
      payload_text_reads [of "tmp_macstr s" "clock_at E s" "array_modbus s"]
    by (simp add: publish_def call_void_def fill_payload_run running_def do_ext_def ext_def
        using_state_def skip_def publish_call_def view_of_def ready_def reports_def)
qed

text \<open>Events that do not restart a device that is ready.\<close>

definition harmless ::
    "sdk \<Rightarrow> (int \<Rightarrow> string) \<Rightarrow> (u32 list \<Rightarrow> int) \<Rightarrow> (machine \<Rightarrow> app_event list) \<Rightarrow> bool" where
  "harmless cfg name ty sched \<longleftrightarrow>
     (\<forall>u. ready u \<longrightarrow> view_events cfg name ty (sched u) (view_of u) \<noteq> None)"

lemma arrive_run:
  assumes "app_env E name ty" "harmless cfg name ty sched" "running s"
  shows "\<exists>t. (arrive E cfg (sched s) s :: 'r flow) = Next t \<and> running t \<and> same_data s t"
proof -
  have r: "ready s" using assms(3) by (simp add: running_def)
  from r assms(2) obtain v where "view_events cfg name ty (sched s) (view_of s) = Some v"
    by (auto simp: harmless_def)
  with follows_arrive [OF assms(1) r, of cfg "sched s", where ?'r = 'r] running_same_data [OF assms(3)]
  show ?thesis by (auto simp: follows_def)
qed

lemma sleep_run:
  assumes "app_env E name ty" "harmless cfg name ty sched" "running s"
  shows "\<exists>t. (sleep E cfg sched n s :: 'r flow) = Next t \<and> running t \<and> same_data s t"
proof -
  let ?s = "logged (Rtos (VTaskDelay n)) s"
  have s: "running ?s" "same_data s ?s"
    using assms(3) by (simp_all add: running_def ready_def same_data_def)
  from arrive_run [OF assms(1,2) s(1), where ?'r = 'r] show ?thesis
    using data_kept.trans_R [OF s(2)]
    by (auto simp: sleep_def do_ext_def ext_def skip_def using_state_def)
qed

definition published_by :: "env \<Rightarrow> machine \<Rightarrow> machine \<Rightarrow> call list \<Rightarrow> bool" where
  "published_by E r u cs \<longleftrightarrow>
     (if mqtt_service_state u = MQTT_SERV_CONNECTED
      then \<exists>p. cs = [publish_call (mqttc u) p] \<and>
        reports p (tmp_macstr r) (clock_at E u) (array_modbus r)
      else cs = [])"

text \<open>
  What one round of the task does: it asks for the registers, then, after what arrived meanwhile,
  publishes if the service is connected, and then sleeps for ten seconds.
\<close>

definition round_done ::
    "env \<Rightarrow> sdk \<Rightarrow> (machine \<Rightarrow> app_event list) \<Rightarrow> machine \<Rightarrow> machine \<Rightarrow> bool" where
  "round_done E cfg sched s t \<longleftrightarrow> (\<exists>r u v cs. request_modbus_info E s = Next r \<and>
     arrive E cfg (sched r) r = (Next u :: unit flow) \<and> publications u = publications s \<and>
     published_by E r u cs \<and> publications v = publications s @ cs \<and>
     (sleep E cfg sched 1000 v :: unit flow) = Next t \<and> publications t = publications v)"

lemma ctrl_cycle_parts:
  assumes env: "app_env E name ty" "mb_stack E" and h: "harmless cfg name ty sched" and s: "running s"
  shows "\<exists>r u v t cs. request_modbus_info E s = Next r \<and> arrive E cfg (sched r) r = (Next u :: 'r flow) \<and>
    (ctrl_cycle E cfg sched s :: 'r flow) = Next t \<and> running t \<and>
    tmp_macstr r = tmp_macstr s \<and> tmp_macstr t = tmp_macstr s \<and>
    publications u = publications s \<and> published_by E r u cs \<and> publications v = publications s @ cs \<and>
    (sleep E cfg sched 1000 v :: 'r flow) = Next t \<and> publications t = publications v"
proof -
  obtain r where r: "request_modbus_info E s = Next r" "running r" "publications r = publications s"
    "tmp_macstr r = tmp_macstr s" using request_run [OF env(2) s] by blast
  obtain u where u: "(arrive E cfg (sched r) r :: 'r flow) = Next u" "running u" "same_data r u"
    using arrive_run [OF env(1) h r(2)] by blast
  let ?pub = "call_fn get_mqtt_service_state (\<lambda>st. only_if (st = MQTT_SERV_CONNECTED) (publish E) :: 'r stmt)"
  obtain v cs where v: "?pub u = Next v" "running v" "publications v = publications u @ cs"
    "published_by E r u cs" "tmp_macstr v = tmp_macstr u"
  proof (cases "mqtt_service_state u = MQTT_SERV_CONNECTED")
    case True
    obtain t p where "(publish E u :: 'r flow) = Next t" "running t"
      "publications t = publications u @ [publish_call (mqttc u) p]" "tmp_macstr t = tmp_macstr u"
      "reports p (tmp_macstr u) (clock_at E u) (array_modbus u)"
      using publish_run [OF u(2), where ?'r = 'r] by metis
    moreover then have "published_by E r u [publish_call (mqttc u) p]"
      using True u(3) by (auto simp: published_by_def same_data_def)
    ultimately show thesis
      using True that [of t "[publish_call (mqttc u) p]"]
      by (simp add: call_fn_def get_mqtt_service_state_def using_state_def ret_def only_if_def)
  next
    case False
    with u(2) that [of u "[]"] show thesis
      by (simp add: call_fn_def get_mqtt_service_state_def using_state_def ret_def only_if_def
          skip_def published_by_def)
  qed
  obtain t where t: "(sleep E cfg sched (10 * 1000 div 10) v :: 'r flow) = Next t" "running t" "same_data v t"
    using sleep_run [OF env(1) h v(2)] by blast
  have "(ctrl_cycle E cfg sched s :: 'r flow) = Next t"
    unfolding ctrl_cycle_def block_more block_last call_void_def r(1)
    using t(1) by (simp add: r(1) using_state_def u(1) v(1) del: block_last)
  moreover have "publications u = publications s" "publications v = publications s @ cs"
    "publications t = publications v" "tmp_macstr t = tmp_macstr s"
    using r(3,4) u(3) v(3,5) t(3) by (simp_all add: same_data_def)
  moreover have "(sleep E cfg sched 1000 v :: 'r flow) = Next t" using t(1) by simp
  ultimately show ?thesis using r u v t(2) by blast
qed

lemma ctrl_cycle_run:
  assumes "app_env E name ty" "mb_stack E" "harmless cfg name ty sched" "running s"
  shows "\<exists>r u t cs. request_modbus_info E s = Next r \<and> arrive E cfg (sched r) r = (Next u :: 'r flow) \<and>
    (ctrl_cycle E cfg sched s :: 'r flow) = Next t \<and> running t \<and>
    tmp_macstr r = tmp_macstr s \<and> tmp_macstr t = tmp_macstr s \<and>
    publications t = publications s @ cs \<and> published_by E r u cs"
  using ctrl_cycle_parts [OF assms, where ?'r = 'r] by metis

lemma ctrl_cycle_round:
  assumes "app_env E name ty" "mb_stack E" "harmless cfg name ty sched" "running s"
  shows "\<exists>t. (ctrl_cycle E cfg sched s :: unit flow) = Next t \<and> running t \<and> round_done E cfg sched s t"
  using ctrl_cycle_parts [OF assms, where ?'r = unit] unfolding round_done_def by metis

text \<open>
  C5: One round of the control task, on a device whose libraries behave as documented and whose
  memory suffices (\<open>app_env\<close>, \<open>mb_stack\<close>), when no event that arrives meanwhile asks for a restart
  (\<open>harmless\<close>): the round gets through; if the service is connected when the registers have been
  read, exactly one message is published, on the client's current handle, and reading it back gives
  the device's name, the time and every register it names; otherwise nothing is published.
\<close>

theorem ctrl_cycle_publishes:
  assumes "app_env E name ty" "mb_stack E" "harmless cfg name ty sched" "running s"
  shows "\<exists>r u t cs. request_modbus_info E s = Next r \<and> arrive E cfg (sched r) r = (Next u :: unit flow) \<and>
    (ctrl_cycle E cfg sched s :: unit flow) = Next t \<and> running t \<and>
    publications t = publications s @ cs \<and>
    (if mqtt_service_state u = MQTT_SERV_CONNECTED
     then \<exists>p. cs = [publish_call (mqttc u) p] \<and>
       reports p (tmp_macstr s) (clock_at E u) (array_modbus r)
     else cs = [])"
  using ctrl_cycle_run [OF assms, where ?'r = unit] unfolding published_by_def by metis

definition at_work :: machine where
  "at_work = connected\<lparr>mqtt_service_state := MQTT_SERV_CONNECTED, tmp_macstr := ''24dcc3b0ce00''\<rparr>"

lemma at_work_running: "running at_work"
  using connected_ready
  by (simp add: running_def at_work_def ready_def connected_def init_machine_def no_quote_def)

lemma no_events_harmless: "harmless cfg name ty (\<lambda>_. [])"
  by (simp add: harmless_def)

theorem ctrl_cycle_publishes_witness:
  "\<exists>t p. (ctrl_cycle device build_sdk (\<lambda>_. []) at_work :: unit flow) = Next t \<and>
    publications t = [publish_call 0 p]"
proof -
  obtain r u t cs where *: "request_modbus_info device at_work = Next r"
    "arrive device build_sdk [] r = (Next u :: unit flow)"
    "(ctrl_cycle device build_sdk (\<lambda>_. []) at_work :: unit flow) = Next t"
    "publications t = publications at_work @ cs"
    "if mqtt_service_state u = MQTT_SERV_CONNECTED
     then \<exists>p. cs = [publish_call (mqttc u) p] \<and>
       reports p (tmp_macstr at_work) (clock_at device u) (array_modbus r) else cs = []"
    using ctrl_cycle_publishes [OF device_app_env device_mb_stack no_events_harmless at_work_running,
        of build_sdk] by blast
  have "mqtt_service_state at_work = MQTT_SERV_CONNECTED" "length (array_modbus at_work) = 128"
    "mqttc at_work = 0" "publications at_work = []"
    by (simp_all add: at_work_def connected_def init_machine_def publications_def)
  moreover then have "mqtt_service_state r = MQTT_SERV_CONNECTED" "mqttc r = 0"
    using *(1) by (auto simp: request_modbus_info_def read_cid_run [OF device_mb_stack] Let_def)
  moreover have "u = r" using *(2) by (simp add: skip_def)
  ultimately show ?thesis using *(3-5) by auto
qed

end
