(* ===== verification/WifiNetif.thy ===== *)
theory WifiNetif
  imports WifiConnect
begin

text \<open>
  What \<^verbatim>\<open>main/WifiConnect.c\<close> does with the list of interfaces: finding an interface by its
  name, printing the addresses of its own ones, and connecting as a whole.
\<close>

section \<open>The list of interfaces\<close>

text \<open>
  The documented behaviour of the interface list: \<open>esp_netif_next\<close> walks it from NULL to NULL,
  \<open>esp_netif_get_desc\<close> gives each interface its name.
\<close>

fun succ_in :: "int list \<Rightarrow> int \<Rightarrow> int" where
  "succ_in (y # z # r) x = (if x = y then z else succ_in (z # r) x)"
| "succ_in _ x = 0"

definition netif_list :: "env \<Rightarrow> int list \<Rightarrow> (int \<Rightarrow> string) \<Rightarrow> bool" where
  "netif_list E ns name \<longleftrightarrow> distinct ns \<and> 0 \<notin> set ns \<and>
     (\<forall>s x. int_reply E s (Netif (Esp_netif_next x)) = succ_in (0 # ns) x) \<and>
     (\<forall>s x. x \<in> set ns \<longrightarrow> int_reply E s (Netif (Esp_netif_get_desc x)) \<noteq> 0) \<and>
     (\<forall>s x. str_reply E s (Netif (Esp_netif_get_desc x)) = name x)"

lemma succ_in_append:
  "distinct (pre @ x # r) \<Longrightarrow> succ_in (pre @ x # r) x = (case r of [] \<Rightarrow> 0 | y # _ \<Rightarrow> y)"
proof (induction pre)
  case Nil
  then show ?case by (cases r) simp_all
next
  case (Cons a pre)
  then show ?case by (cases pre) auto
qed

lemma netif_next:
  assumes "netif_list E ns name" "0 # ns = pre @ x # r"
  shows "int_reply E s (Netif (Esp_netif_next x)) = (case r of [] \<Rightarrow> 0 | y # _ \<Rightarrow> y)"
proof -
  have "distinct (pre @ x # r)"
    using assms(1) unfolding assms(2) [symmetric] by (simp add: netif_list_def)
  with succ_in_append [of pre x r] assms show ?thesis by (simp add: netif_list_def)
qed

text \<open>The first interface of a list that has a name, 0 if there is none.\<close>

definition find_named :: "(int \<Rightarrow> string) \<Rightarrow> string \<Rightarrow> int list \<Rightarrow> int" where
  "find_named name d ns = (case find (\<lambda>x. name x = d) ns of Some x \<Rightarrow> x | None \<Rightarrow> 0)"

lemma find_named_simps [simp]:
  "find_named name d [] = 0"
  "find_named name d (x # ns) = (if name x = d then x else find_named name d ns)"
  by (simp_all add: find_named_def)

text \<open>
  What a search may touch: only the log, and the block that holds the name it looks for.
\<close>

definition search_frame :: "int \<Rightarrow> machine \<Rightarrow> machine \<Rightarrow> bool" where
  "search_frame p s t \<longleftrightarrow> (\<exists>cs. t = freed p (s\<lparr>calls := calls s @ cs\<rparr>) \<and>
     (\<forall>c \<in> set cs. \<exists>n. c = Netif n))"

lemma search_frame_logged:
  assumes "search_frame p (logged (Netif c) s) t"
  shows "search_frame p s t"
proof -
  from assms obtain cs where "t = freed p ((logged (Netif c) s)\<lparr>calls := (calls s @ [Netif c]) @ cs\<rparr>)"
    "\<forall>c \<in> set cs. \<exists>n. c = Netif n" by (auto simp: search_frame_def)
  then show ?thesis
    unfolding search_frame_def by (intro exI [of _ "Netif c # cs"]) (simp add: logged_def)
qed

lemma search_frame_freed: "search_frame p s (freed p s)"
  unfolding search_frame_def by (intro exI [of _ "[]"]) simp

lemma netif_search_run:
  assumes ns: "netif_list E ns name" and p: "p \<noteq> 0"
  shows "0 # ns = pre @ x # r \<Longrightarrow> length r < n \<Longrightarrow> p \<in> set (live s) \<Longrightarrow> buffers s p = Some d \<Longrightarrow>
    \<exists>t. netif_search n E p x s = Return (find_named name d r) t \<and> search_frame p s t"
proof (induction n arbitrary: pre x r s)
  case (Suc n)
  let ?s1 = "logged (Netif (Esp_netif_next x)) s"
  note nxt = netif_next [OF ns Suc.prems(1), of s]
  show ?case
  proof (cases r)
    case Nil
    have "search_frame p s (freed p ?s1)" by (rule search_frame_logged [OF search_frame_freed])
    with Nil nxt p Suc.prems show ?thesis by (simp add: ext_def if_else_def free_run ret_def)
  next
    case (Cons y r')
    have y: "y \<noteq> 0" "int_reply E u (Netif (Esp_netif_get_desc y)) \<noteq> 0"
      "str_reply E u (Netif (Esp_netif_get_desc y)) = name y" for u
      using ns Suc.prems(1) Cons by (auto simp: netif_list_def Cons_eq_append_conv)
    let ?s2 = "logged (Netif (Esp_netif_get_desc y)) ?s1"
    have "search_frame p s (freed p ?s2)"
      by (rule search_frame_logged [OF search_frame_logged [OF search_frame_freed]])
    moreover obtain t where "netif_search n E p y ?s2 = Return (find_named name d r') t"
      "search_frame p ?s2 t"
      using Suc.IH [of "pre @ [x]" y r' ?s2] Suc.prems Cons by auto
    moreover then have "search_frame p s t" by (blast intro: search_frame_logged)
    ultimately show ?thesis
      using Cons nxt p y Suc.prems
      by (auto simp: ext_def ext_text_def if_else_def netif_named_def using_state_def free_run ret_def)
  qed
qed simp

lemma get_example_netif_from_desc_run:
  assumes ns: "netif_list E ns name" and fresh: "fresh_blocks E"
    and block: "\<And>k. int_reply E s (Libc (Malloc k)) \<noteq> 0" and fuel: "length ns < n"
  shows "\<exists>t. get_example_netif_from_desc n E desc s =
      Return (find_named name (''example_connect: '' @ desc) ns) t \<and>
    live t = live s \<and> s_example_esp_netif t = s_example_esp_netif s"
proof -
  let ?d = "netif_desc desc"
  let ?m = "Libc (Malloc (int (length ?d) + 1))"
  define p where "p = int_reply E s ?m"
  define u where "u = (logged ?m s)\<lparr>live := p # live s, buffers := (buffers s)(p := Some ?d)\<rparr>"
  have p: "p \<noteq> 0" "p \<notin> set (live s)" using block fresh by (simp_all add: p_def fresh_blocks_def)
  have run: "get_example_netif_from_desc n E desc s = netif_search n E p 0 u"
    using p by (simp add: get_example_netif_from_desc_def asprintf_def malloc_def ext_def upd_def
        only_if_def store_text_def u_def p_def)
  obtain t where t: "netif_search n E p 0 u = Return (find_named name ?d ns) t" "search_frame p u t"
    using netif_search_run [OF ns p(1), of "[]" 0 ns n u ?d] fuel by (auto simp: u_def)
  then have "live t = live s" "s_example_esp_netif t = s_example_esp_netif s"
    by (auto simp: search_frame_def u_def)
  with t(1) run show ?thesis by (simp add: netif_desc_def CONNECT_TAG_def)
qed

text \<open>
  C40: Looking an interface up by its description returns the first interface of the list whose
  name is exactly the module's prefix and that description, NULL if there is none; it always
  ends, within one round more than there are interfaces, and gives its scratch block back.
\<close>

theorem get_example_netif_from_desc_finds:
  assumes ns: "netif_list E ns name" and fresh: "fresh_blocks E"
    and block: "\<And>k. int_reply E s (Libc (Malloc k)) \<noteq> 0" and fuel: "length ns < n"
  shows "\<exists>t. get_example_netif_from_desc n E desc s =
      Return (find_named name (''example_connect: '' @ desc) ns) t \<and>
    live t = live s \<and> s_example_esp_netif t = s_example_esp_netif s"
  by (rule get_example_netif_from_desc_run [OF assms])

text \<open>A device with a loopback interface and the station interface.\<close>

definition two_netifs :: env where
  "two_netifs = quiet\<lparr>int_reply := (\<lambda>s c. case c of
       Netif (Esp_netif_next x) \<Rightarrow> if x = 0 then 7 else if x = 7 then 9 else 0
     | Netif (Esp_netif_get_desc x) \<Rightarrow> 1
     | Libc (Malloc n) \<Rightarrow> next_block s | _ \<Rightarrow> 0),
     str_reply := (\<lambda>s c. case c of
       Netif (Esp_netif_get_desc x) \<Rightarrow> if x = 9 then ''example_connect: sta'' else ''lo'' | _ \<Rightarrow> [])\<rparr>"

theorem get_example_netif_from_desc_finds_witness:
  "\<exists>t. get_example_netif_from_desc 3 two_netifs ''sta'' init_machine = Return 9 t"
proof -
  have "netif_list two_netifs [7, 9] (\<lambda>x. if x = 9 then ''example_connect: sta'' else ''lo'')"
    by (simp add: netif_list_def two_netifs_def)
  moreover have "fresh_blocks two_netifs"
    using next_block_fresh by (simp add: fresh_blocks_def two_netifs_def)
  moreover have "int_reply two_netifs init_machine (Libc (Malloc k)) \<noteq> 0" for k
    using next_block_pos [of init_machine] by (simp add: two_netifs_def)
  ultimately show ?thesis
    using get_example_netif_from_desc_finds
      [of two_netifs "[7, 9]" "\<lambda>x. if x = 9 then ''example_connect: sta'' else ''lo''"
        init_machine 3 "''sta''"]
    by auto
qed

end
