(* ===== verification/Connect.thy ===== *)
theory Connect
  imports Footprint WifiNetif
begin

text \<open>
  Connecting as a whole: \<open>fisi_example_connect\<close> returns only after as many addresses as it waits
  for have been accepted, it does return when they arrive, and what happens to an address that
  arrives before the semaphore exists.
\<close>

section \<open>Counting addresses\<close>

definition gives_grow :: "machine \<Rightarrow> machine \<Rightarrow> bool" where
  "gives_grow s t \<longleftrightarrow> gives s \<le> gives t"

lemma gives_update [simp]:
  "gives (logged c s) = gives s + (if is_give c then 1 else 0)"
  "gives (s\<lparr>live := l\<rparr>) = gives s" "gives (s\<lparr>buffers := b\<rparr>) = gives s"
  "gives (s\<lparr>wifi_connect := w\<rparr>) = gives s" "gives (s\<lparr>s_ip_addr := a\<rparr>) = gives s"
  "gives (s\<lparr>s_ipv6_addr := a6\<rparr>) = gives s" "gives (s\<lparr>s_active_interfaces := i\<rparr>) = gives s"
  "gives (s\<lparr>s_semph_get_ip_addrs := i\<rparr>) = gives s" "gives (s\<lparr>s_example_esp_netif := i\<rparr>) = gives s"
  "gives (s\<lparr>s_eth_handle := i\<rparr>) = gives s" "gives (s\<lparr>s_eth_glue := i\<rparr>) = gives s"
  "gives (s\<lparr>s_mac := i\<rparr>) = gives s" "gives (s\<lparr>s_phy := i\<rparr>) = gives s"
  "gives (s\<lparr>time_sync_flag := f\<rparr>) = gives s"
  by (simp_all add: gives_def)

interpretation gives_grow: wifi_relation gives_grow
  by unfold_locales (auto simp: gives_grow_def)

text \<open>The semaphore's count now.\<close>

definition sem_count :: "machine \<Rightarrow> nat" where
  "sem_count s = tokens (rev (calls s))"

lemma count_update [simp]:
  "sem_count (s\<lparr>wifi_connect := w\<rparr>) = sem_count s" "sem_count (s\<lparr>s_ip_addr := a\<rparr>) = sem_count s"
  "sem_count (s\<lparr>s_ipv6_addr := a6\<rparr>) = sem_count s" "sem_count (s\<lparr>s_semph_get_ip_addrs := h\<rparr>) = sem_count s"
  "sem_count (logged (Netif n) s) = sem_count s" "sem_count (logged (Wifi w') s) = sem_count s"
  "sem_count (logged (Sys y) s) = sem_count s"
  "sem_count (logged (Rtos (XSemaphoreCreateCounting m i)) s) = nat i"
  "sem_count (logged (Rtos (XSemaphoreTake h)) s) = sem_count s - 1"
  by (simp_all add: sem_count_def)

lemma count_event: "event_call c \<Longrightarrow> sem_count (logged c s) \<le> sem_count s + (if is_give c then 1 else 0)"
  by (auto simp: sem_count_def event_call_def is_give_def split: call.splits rtos_call.splits)

text \<open>The count never exceeds what has been given since.\<close>

definition covered :: "machine \<Rightarrow> machine \<Rightarrow> bool" where
  "covered s t \<longleftrightarrow> sem_count t + gives s \<le> sem_count s + gives t"

interpretation covered: event_relation covered
proof unfold_locales
  show "covered s (logged c s)" if "event_call c" for c s
    using count_event [OF that, of s] by (simp add: covered_def)
qed (auto simp: covered_def)

lemma obeys_end: "obeys R c \<Longrightarrow> c s = f \<Longrightarrow> R s (end_state f)"
  by (auto simp: obeys_def)

lemma take_semaphore_covered:
  assumes "(take_semaphore E cfg sched s :: 'r flow) = Next t"
  shows "sem_count t + 1 + gives s \<le> sem_count s + gives t"
proof -
  obtain u where u: "(deliver E cfg (sched s) s :: 'r flow) = Next u" "sem_count u \<noteq> 0"
    "t = logged (Rtos (XSemaphoreTake (s_semph_get_ip_addrs u))) u"
    using assms
    by (auto simp: take_semaphore_def flow_iffs sem_count_def simp del: block_more split: if_splits)
  moreover have "covered s (end_state (deliver E cfg (sched s) s :: 'r flow))"
    by (rule obeys_end [OF covered.obeys_deliver refl])
  ultimately show ?thesis by (simp add: covered_def)
qed

lemma take_all_covered:
  "(take_all k E cfg sched s :: 'r flow) = Next t \<Longrightarrow>
    sem_count t + k + gives s \<le> sem_count s + gives t"
proof (induction k arbitrary: s)
  case (Suc k)
  then obtain u where u: "(take_semaphore E cfg sched s :: 'r flow) = Next u"
    "(take_all k E cfg sched u :: 'r flow) = Next t"
    by (auto simp: flow_iffs simp del: block_more)
  from take_semaphore_covered [OF u(1)] Suc.IH [OF u(2)] show ?case by linarith
qed (simp add: flow_iffs)

text \<open>The number of interfaces is changed by \<open>start\<close> alone.\<close>

definition same_active :: "machine \<Rightarrow> machine \<Rightarrow> bool" where
  "same_active s t \<longleftrightarrow> s_active_interfaces t = s_active_interfaces s \<and>
     s_semph_get_ip_addrs t = s_semph_get_ip_addrs s"

interpretation same_active: setup_relation same_active
  by unfold_locales (auto simp: same_active_def)

definition configured :: "sdk \<Rightarrow> int" where
  "configured cfg = (if CONNECT_WIFI cfg then 1 else 0) + (if CONNECT_ETHERNET cfg then 1 else 0)"

definition interface_up :: "bool \<Rightarrow> int stmt \<Rightarrow> unit stmt" where
  "interface_up b f =
     only_if b (block [call_fn f (\<lambda>i. upd (\<lambda>s. s\<lparr>s_example_esp_netif := i\<rparr>)),
       upd (\<lambda>s. s\<lparr>s_active_interfaces := s_active_interfaces s + 1\<rparr>)])"

lemma interface_up_Next:
  assumes "interface_up b f s = Next t" and "obeys same_active f"
  shows "s_active_interfaces t = s_active_interfaces s + (if b then 1 else 0)"
proof (cases b)
  case True
  then obtain i u where u: "f s = Return i u"
    and t: "t = u\<lparr>s_example_esp_netif := i, s_active_interfaces := s_active_interfaces u + 1\<rparr>"
    using assms(1) by (auto simp: interface_up_def flow_iffs simp del: block_more)
  show ?thesis using obeys_end [OF assms(2) u] t True by (simp add: same_active_def)
qed (use assms(1) in \<open>simp add: interface_up_def flow_iffs\<close>)

lemma start_Next:
  assumes "start E cfg s = (Next t :: unit flow)" "EXAMPLE_DO_CONNECT cfg"
  shows "s_active_interfaces t = s_active_interfaces s + configured cfg \<and> sem_count t = 0 \<and> gives s \<le> gives t"
proof -
  let ?rest = "[only_if (CONNECT_WIFI cfg \<and> CONNECT_ETHERNET cfg)
      (upd (\<lambda>s. s\<lparr>s_example_esp_netif := 0\<rparr>)),
    only_if (EXAMPLE_DO_CONNECT cfg) (using_state (\<lambda>s.
      ext E (Rtos (XSemaphoreCreateCounting (NR_OF_IP_ADDRESSES_TO_WAIT_FOR cfg s) 0)) (\<lambda>h.
        upd (\<lambda>s. s\<lparr>s_semph_get_ip_addrs := h\<rparr>))))] :: unit stmt list"
  obtain u v where u: "interface_up (CONNECT_WIFI cfg) (wifi_start E cfg) s = (Next u :: unit flow)"
    and v: "interface_up (CONNECT_ETHERNET cfg) (eth_start E cfg) u = (Next v :: unit flow)"
    and vt: "block ?rest v = Next t"
    using assms(1) unfolding start_eq interface_up_def [symmetric] block_Cons_Next by blast
  have "s_active_interfaces u = s_active_interfaces s + (if CONNECT_WIFI cfg then 1 else 0)"
    "s_active_interfaces v = s_active_interfaces u + (if CONNECT_ETHERNET cfg then 1 else 0)"
    by (rule interface_up_Next [OF u same_active.obeys_wifi_start]
        interface_up_Next [OF v same_active.obeys_eth_start])+
  moreover have "\<exists>w h y. t = (logged (Rtos (XSemaphoreCreateCounting y 0)) w)\<lparr>s_semph_get_ip_addrs := h\<rparr> \<and>
      w = (if CONNECT_WIFI cfg \<and> CONNECT_ETHERNET cfg then v\<lparr>s_example_esp_netif := 0\<rparr> else v)"
    using vt assms(2) unfolding flow_iffs by (simp only: if_True) metis
  then have "s_active_interfaces t = s_active_interfaces v" "sem_count t = 0" by (auto split: if_splits)
  moreover have "gives s \<le> gives t"
    using obeys_end [OF gives_grow.obeys_start assms(1)] by (simp add: gives_grow_def)
  ultimately show ?thesis by (simp add: configured_def)
qed

text \<open>Waiting and printing do not return from the function.\<close>

lemma deliver_no_return: "(deliver E cfg es s :: 'r flow) \<noteq> Return r t"
  unfolding deliver_def
  by (induction es arbitrary: s) (simp_all add: flow_iffs del: block_more block_last)

lemma take_all_no_return: "(take_all k E cfg sched s :: 'r flow) \<noteq> Return r t"
  by (induction k arbitrary: s)
    (auto simp: take_semaphore_def deliver_no_return flow_iffs simp del: block_more block_last)

lemma print_ip6s_no_return: "(print_ip6s k E bytes j s :: 'r flow) \<noteq> Return r t"
  by (induction k arbitrary: j s) (auto simp: flow_iffs simp del: block_more block_last)

lemma print_netifs_no_return: "(print_netifs n E cfg i netif s :: 'r flow) \<noteq> Return r t"
  by (induction n arbitrary: i netif s)
    (auto simp: is_our_netif_def print_own_def print_ip6s_no_return flow_iffs simp del: block_more block_last)

text \<open>The parts of a run of \<open>fisi_example_connect\<close> that returns 0.\<close>

lemma connect_returned:
  assumes "fisi_example_connect n E cfg sched s = Return 0 t"
  obtains u v where "(call_void (start E cfg) s :: int flow) = Next u"
    "(take_all (nat (NR_OF_IP_ADDRESSES_TO_WAIT_FOR cfg u)) E cfg sched
      (logged (Sys (Esp_register_shutdown_handler ''stop'')) u) :: int flow) = Next v"
    "(print_netifs n E cfg 0 0 v :: int flow) = Next t"
proof -
  let ?reg = "logged (Sys (Esp_register_shutdown_handler ''stop''))"
  have g: "(using_state (\<lambda>s. only_if b (ret INVALID_STATE)) s :: int flow) \<noteq> Return 0 t" for b
    by (simp add: flow_iffs INVALID_STATE_def)
  have nr: "NR_OF_IP_ADDRESSES_TO_WAIT_FOR cfg (?reg u) = NR_OF_IP_ADDRESSES_TO_WAIT_FOR cfg u" for u
    by (simp add: NR_OF_IP_ADDRESSES_TO_WAIT_FOR_def)
  show thesis
    using assms that unfolding fisi_example_connect_def block_Cons_Return
    by (auto simp: flow_iffs nr INVALID_STATE_def take_all_no_return print_netifs_no_return simp del: block_more split: if_splits)
qed

lemma start_no_return: "start E cfg s \<noteq> Return r t"
  by (auto simp: start_eq flow_iffs simp del: block_more block_last)

lemma connect_returned_counts:
  assumes "fisi_example_connect n E cfg sched s = Return 0 t" "EXAMPLE_DO_CONNECT cfg"
  shows "s_active_interfaces t = s_active_interfaces s + configured cfg \<and>
    gives s + nat (NR_OF_IP_ADDRESSES_TO_WAIT_FOR cfg t) \<le> gives t"
proof -
  let ?reg = "logged (Sys (Esp_register_shutdown_handler ''stop''))"
  obtain u v where u: "(call_void (start E cfg) s :: int flow) = Next u"
    and v: "(take_all (nat (NR_OF_IP_ADDRESSES_TO_WAIT_FOR cfg u)) E cfg sched (?reg u) :: int flow) = Next v"
    and t: "(print_netifs n E cfg 0 0 v :: int flow) = Next t"
    using connect_returned [OF assms(1)] .
  from u have "start E cfg s = Next u" by (simp add: flow_iffs start_no_return)
  note u' = start_Next [OF this assms(2)]
  have "same_active (?reg u) v"
    using obeys_end [OF same_active.obeys_take_all v] by (simp add: same_active_def)
  moreover have "same_active v t" "gives_grow v t"
    using obeys_end [OF same_active.obeys_print_netifs t] obeys_end [OF gives_grow.obeys_print_netifs t]
    by simp_all
  ultimately show ?thesis
    using u' take_all_covered [OF v]
    by (auto simp: same_active_def gives_grow_def NR_OF_IP_ADDRESSES_TO_WAIT_FOR_def)
qed

section \<open>Connecting succeeds\<close>

text \<open>Printing: an interface hands over at most five addresses of twenty bytes.\<close>

definition printable :: "env \<Rightarrow> int list \<Rightarrow> bool" where
  "printable E ns \<longleftrightarrow> (\<forall>s. int_reply E s (Netif Esp_netif_get_nr_of_ifs) = int (length ns) \<and>
     (\<forall>i. int_reply E s (Netif (Esp_netif_get_ip_info i)) = 0 \<and>
       int_reply E s (Netif (Esp_netif_get_all_ip6 i)) \<le> 5 \<and>
       20 * int_reply E s (Netif (Esp_netif_get_all_ip6 i)) \<le>
         int (length (bytes_reply E s (Netif (Esp_netif_get_all_ip6 i)))) \<and>
       length (bytes_reply E s (Netif (Esp_netif_get_all_ip6 i))) \<le> 100) \<and>
     (\<forall>a. 0 \<le> int_reply E s (Netif (Esp_netif_ip6_get_addr_type a)) \<and>
       int_reply E s (Netif (Esp_netif_ip6_get_addr_type a)) < 6))"

lemma nat_count: "x \<le> 5 \<Longrightarrow> nat x + 0 \<le> 5" "20 * x \<le> int m \<Longrightarrow> 20 * (nat x + 0) \<le> m"
  by (cases "0 \<le> x"; simp add: nat_le_iff flip: of_nat_le_iff [where ?'a = int])+

lemma print_ip6s_run:
  assumes "printable E ns"
  shows "k + j \<le> 5 \<Longrightarrow> 20 * (k + j) \<le> length bytes \<Longrightarrow>
    \<exists>t. (print_ip6s k E bytes j s :: 'r flow) = Next t"
proof (induction k arbitrary: j s)
  case (Suc k)
  let ?c = "Netif (Esp_netif_ip6_get_addr_type (ip6_at bytes j))"
  have "0 \<le> int_reply E s ?c" "int_reply E s ?c < 6" using assms by (simp_all add: printable_def)
  with Suc show ?case
    by (simp add: ext_def only_if_def s_ipv6_addr_types_def nat_less_iff skip_def
        MAX_IP6_ADDRS_PER_NETIF_def)
qed (simp add: skip_def)

lemma block_two_run:
  "\<exists>t. c s = Next t \<Longrightarrow> \<forall>u. \<exists>t. d u = Next t \<Longrightarrow> \<exists>t. block [c, d] s = Next t"
  by auto

lemma print_own_run:
  assumes "printable E ns"
  shows "\<exists>t. (print_own E cfg y s :: 'r flow) = Next t"
proof -
  let ?s = "logged (Netif (Esp_netif_get_ip_info y)) s" and ?all = "Netif (Esp_netif_get_all_ip6 y)"
  have "int_reply E s (Netif (Esp_netif_get_ip_info y)) = 0"
    "length (bytes_reply E ?s ?all) \<le> 20 * MAX_IP6_ADDRS_PER_NETIF"
    "int_reply E ?s ?all \<le> 5" "20 * int_reply E ?s ?all \<le> int (length (bytes_reply E ?s ?all))"
    using assms by (simp_all add: printable_def MAX_IP6_ADDRS_PER_NETIF_def)
  moreover from this(3,4) have "\<exists>t. (print_ip6s (nat (int_reply E ?s ?all)) E (bytes_reply E ?s ?all) 0
      (logged ?all ?s) :: 'r flow) = Next t"
    by (intro print_ip6s_run [OF assms] nat_count)
  ultimately show ?thesis
    by (simp add: print_own_def checked_def ext_def ext_bytes_def error_check_def only_if_def skip_def)
qed

lemma print_netifs_run:
  assumes ns: "netif_list E ns name" and pr: "printable E ns"
  shows "0 # ns = pre @ x # r \<Longrightarrow> length r \<le> n \<Longrightarrow>
    \<exists>t. (print_netifs n E cfg (int (length pre)) x s :: 'r flow) = Next t"
proof (induction n arbitrary: pre x r s)
  case 0
  have "length ns = length pre" using arg_cong [OF 0(1), of length] 0(2) by simp
  then show ?case using pr by (simp add: printable_def ext_def if_else_def skip_def)
next
  case (Suc n)
  have nr: "int_reply E s (Netif Esp_netif_get_nr_of_ifs) = int (length pre + length r)" for s
    using pr arg_cong [OF Suc.prems(1), of length] by (simp add: printable_def)
  show ?case
  proof (cases r)
    case Nil
    then show ?thesis using nr by (simp add: ext_def if_else_def skip_def)
  next
    case (Cons y r')
    have named: "int_reply E u (Netif (Esp_netif_get_desc y)) \<noteq> 0" for u
      using ns Suc.prems(1) Cons by (auto simp: netif_list_def Cons_eq_append_conv)
    have "int_reply E u (Netif (Esp_netif_next x)) = y" for u
      using netif_next [OF ns Suc.prems(1)] Cons by simp
    moreover have "\<exists>t. (print_netifs n E cfg (int (length pre) + 1) y u :: 'r flow) = Next t" for u
      using Suc.IH [of "pre @ [x]" y r' u] Suc.prems Cons by (simp add: add.commute)
    moreover have "\<exists>t. (only_if b (print_own E cfg y) u :: 'r flow) = Next t" for b u
      by (simp add: only_if_def skip_def print_own_run [OF pr])
    ultimately show ?thesis
      using nr Cons named by (simp add: ext_def ext_text_def if_else_def is_our_netif_def block_two_run
        del: block_more)
  qed
qed

text \<open>Waiting: events arrive that are accepted, until the wait is over.\<close>

fun accepts :: "sdk \<Rightarrow> (int \<Rightarrow> string) \<Rightarrow> (u32 list \<Rightarrow> int) \<Rightarrow> wifi_event \<Rightarrow> bool" where
  "accepts cfg name ty (GOT_IP n a) \<longleftrightarrow> our_name (name n)"
| "accepts cfg name ty (GOT_IP6 n a) \<longleftrightarrow> CONNECT_IPV6 cfg \<and> our_name (name n) \<and> ty a = PREFERRED_IPV6_TYPE cfg"
| "accepts cfg name ty e \<longleftrightarrow> False"

definition supplies ::
    "sdk \<Rightarrow> (int \<Rightarrow> string) \<Rightarrow> (u32 list \<Rightarrow> int) \<Rightarrow> (machine \<Rightarrow> wifi_event list) \<Rightarrow> bool" where
  "supplies cfg name ty sched \<longleftrightarrow> (\<forall>u. \<exists>e \<in> set (sched u). accepts cfg name ty e)"

lemma accepted_net_event:
  "accepted (net_event cfg name ty e w) = accepted w + (if accepts cfg name ty e then 1 else 0)"
  by (cases e) auto

lemma accepted_fold_mono: "accepted w \<le> accepted (fold (net_event cfg name ty) es w)"
proof (induction es arbitrary: w)
  case (Cons e es)
  from Cons [of "net_event cfg name ty e w"] show ?case
    by (simp add: accepted_net_event split: if_splits)
qed simp

lemma accepted_fold:
  "\<exists>e \<in> set es. accepts cfg name ty e \<Longrightarrow> accepted w < accepted (fold (net_event cfg name ty) es w)"
proof (induction es arbitrary: w)
  case (Cons e es)
  show ?case
  proof (cases "accepts cfg name ty e")
    case True
    with accepted_fold_mono [of "net_event cfg name ty e w" cfg name ty es] show ?thesis
      by (simp add: accepted_net_event)
  next
    case False
    with Cons.IH [of "net_event cfg name ty e w"] Cons.prems show ?thesis
      by (simp add: accepted_net_event)
  qed
qed simp

definition sem_cap :: "machine \<Rightarrow> nat" where
  "sem_cap s = sem_max (rev (calls s))"

definition armed :: "machine \<Rightarrow> machine \<Rightarrow> bool" where
  "armed s t \<longleftrightarrow> sem_cap t = sem_cap s \<and> gives s \<le> gives t \<and>
     (0 < sem_cap s \<and> (gives s < gives t \<or> 0 < sem_count s) \<longrightarrow> 0 < sem_count t)"

lemma sem_cap_update [simp]:
  "sem_cap (s\<lparr>wifi_connect := w\<rparr>) = sem_cap s" "sem_cap (s\<lparr>s_ip_addr := a\<rparr>) = sem_cap s"
  "sem_cap (s\<lparr>s_ipv6_addr := a6\<rparr>) = sem_cap s" "sem_cap (s\<lparr>s_semph_get_ip_addrs := h\<rparr>) = sem_cap s"
  "sem_cap (logged (Sys y) s) = sem_cap s"
  "sem_cap (logged (Rtos (XSemaphoreCreateCounting m i)) s) = nat m"
  "sem_cap (logged (Rtos (XSemaphoreTake h)) s) = sem_cap s"
  by (simp_all add: sem_cap_def)

lemma armed_event: "event_call c \<Longrightarrow> armed s (logged c s)"
  by (auto simp: armed_def sem_cap_def sem_count_def event_call_def is_give_def
      split: call.splits rtos_call.splits)

interpretation armed: event_relation armed
  by unfold_locales (auto simp: armed_event, auto simp: armed_def)

lemma take_semaphore_run:
  assumes env: "net_env E name ty" and sup: "supplies cfg name ty sched"
    and s: "s_semph_get_ip_addrs s \<noteq> 0" "0 < sem_cap s"
  shows "\<exists>t. (take_semaphore E cfg sched s :: 'r flow) = Next t \<and>
    s_semph_get_ip_addrs t = s_semph_get_ip_addrs s \<and> sem_cap t = sem_cap s"
proof -
  obtain u where u: "(deliver E cfg (sched s) s :: 'r flow) = Next u"
    "net_of u = fold (net_event cfg name ty) (sched s) (net_of s)"
    "s_semph_get_ip_addrs u = s_semph_get_ip_addrs s"
    using deliver_run [OF env s(1), of cfg "sched s", where ?'r = 'r] by blast
  have "accepted (net_of s) < accepted (net_of u)"
    unfolding u(2) by (rule accepted_fold) (use sup in \<open>simp add: supplies_def\<close>)
  then have "gives s < gives u" by (simp add: net_of_def)
  moreover have "armed s u" using obeys_end [OF armed.obeys_deliver u(1)] by simp
  ultimately have "0 < sem_count u" "sem_cap u = sem_cap s" using s(2) by (simp_all add: armed_def)
  with u s show ?thesis
    by (simp add: take_semaphore_def using_state_def if_else_def skip_def do_ext_def ext_def
        sem_count_def)
qed

lemma take_all_run:
  assumes "net_env E name ty" "supplies cfg name ty sched"
  shows "s_semph_get_ip_addrs s \<noteq> 0 \<Longrightarrow> 0 < sem_cap s \<Longrightarrow>
    \<exists>t. (take_all k E cfg sched s :: 'r flow) = Next t \<and>
    s_semph_get_ip_addrs t = s_semph_get_ip_addrs s"
proof (induction k arbitrary: s)
  case (Suc k)
  obtain u where u: "(take_semaphore E cfg sched s :: 'r flow) = Next u"
    "s_semph_get_ip_addrs u = s_semph_get_ip_addrs s" "sem_cap u = sem_cap s"
    using take_semaphore_run [OF assms Suc.prems, where ?'r = 'r] by blast
  then show ?case using Suc.IH [of u] Suc.prems by simp
qed (simp add: skip_def)

text \<open>Bringing Wi-Fi and Ethernet up: the documented results of the calls when all is well.\<close>

definition sta_env :: "env \<Rightarrow> bool" where
  "sta_env E \<longleftrightarrow> fresh_blocks E \<and> (\<forall>s. (\<forall>k. int_reply E s (Libc (Malloc k)) \<noteq> 0) \<and>
     (\<forall>w. int_reply E s (Wifi w) = 0) \<and>
     (\<forall>b i h a. int_reply E s (Netif (Esp_event_handler_register b i h a)) = 0) \<and>
     (\<forall>m i. int_reply E s (Rtos (XSemaphoreCreateCounting m i)) \<noteq> 0) \<and>
     (\<forall>h. int_reply E s (Sys (Esp_register_shutdown_handler h)) = 0))"

text \<open>
  The SPI bus may be in use if it has been initialised since it was last freed. Drivers have been
  made when both parts exist.
\<close>

fun bus_taken :: "call list \<Rightarrow> bool" where
  "bus_taken (EthDrv (Eth n a) # cs) =
     (if n = ''spi_bus_initialize'' then True else if n = ''spi_bus_free'' then False else bus_taken cs)"
| "bus_taken (c # cs) = bus_taken cs"
| "bus_taken [] = False"

definition spi_used :: "machine \<Rightarrow> bool" where
  "spi_used s \<longleftrightarrow> bus_taken (rev (calls s))"

definition uses_spi :: "sdk \<Rightarrow> bool" where
  "uses_spi cfg \<longleftrightarrow> (case ETH_DRIVER cfg of SPI_ETHERNET chip \<Rightarrow> CONNECT_ETHERNET cfg | _ \<Rightarrow> False)"

definition driver_made :: "machine \<Rightarrow> bool" where
  "driver_made s \<longleftrightarrow> s_mac s \<noteq> 0 \<and> s_phy s \<noteq> 0"

definition eth_env :: "env \<Rightarrow> bool" where
  "eth_env E \<longleftrightarrow> (\<forall>s. (\<forall>d m. int_reply E s (Netif (Esp_netif_new d m)) \<noteq> 0) \<and>
     (\<forall>a. \<not> spi_used s \<longrightarrow> int_reply E s (EthDrv (Eth ''spi_bus_initialize'' a)) = 0) \<and>
     (\<forall>a. int_reply E s (EthDrv (Eth ''spi_bus_add_device'' a)) = 0) \<and>
     (\<forall>a. int_reply E s (EthDrv (Eth ''esp_eth_driver_install'' a)) = 0) \<and>
     (\<forall>a. int_reply E s (EthDrv (Eth ''esp_eth_ioctl'' a)) = 0) \<and>
     (\<forall>n a. take 15 n \<in> {''esp_eth_mac_new'', ''esp_eth_phy_new''} \<longrightarrow>
        int_reply E s (EthDrv (Eth n a)) \<noteq> 0))"

lemma spi_used_update [simp]:
  "spi_used (logged (EthDrv (Eth n args)) s) \<longleftrightarrow>
     (if n = ''spi_bus_initialize'' then True else if n = ''spi_bus_free'' then False else spi_used s)"
  "\<not> is_driver c \<Longrightarrow> spi_used (logged c s) = spi_used s"
  "spi_used (s\<lparr>live := l\<rparr>) = spi_used s" "spi_used (s\<lparr>buffers := b\<rparr>) = spi_used s"
  "spi_used (s\<lparr>s_example_esp_netif := i\<rparr>) = spi_used s" "spi_used (s\<lparr>wifi_connect := w\<rparr>) = spi_used s"
  "spi_used (s\<lparr>s_ip_addr := a\<rparr>) = spi_used s" "spi_used (s\<lparr>s_ipv6_addr := a6\<rparr>) = spi_used s"
  "spi_used (s\<lparr>s_active_interfaces := i\<rparr>) = spi_used s" "spi_used (s\<lparr>s_semph_get_ip_addrs := i\<rparr>) = spi_used s"
  "spi_used (s\<lparr>s_eth_handle := i\<rparr>) = spi_used s" "spi_used (s\<lparr>s_eth_glue := i\<rparr>) = spi_used s"
  "spi_used (s\<lparr>s_mac := i\<rparr>) = spi_used s" "spi_used (s\<lparr>s_phy := i\<rparr>) = spi_used s"
  "spi_used (s\<lparr>time_sync_flag := f\<rparr>) = spi_used s"
  by (cases c; simp add: spi_used_def)+

definition same_bus :: "machine \<Rightarrow> machine \<Rightarrow> bool" where
  "same_bus s t \<longleftrightarrow> spi_used t = spi_used s"

interpretation same_bus: station_relation same_bus
  by unfold_locales (auto simp: same_bus_def dest!: event_not_driver)

definition same_driver :: "machine \<Rightarrow> machine \<Rightarrow> bool" where
  "same_driver s t \<longleftrightarrow> driver_made t = driver_made s"

interpretation same_driver: station_relation same_driver
  by unfold_locales (auto simp: same_driver_def driver_made_def)

text \<open>The configured interfaces work.\<close>

definition nets_env :: "sdk \<Rightarrow> env \<Rightarrow> bool" where
  "nets_env cfg E \<longleftrightarrow> sta_env E \<and> (if CONNECT_ETHERNET cfg then eth_env E else True)"

lemma wifi_start_run:
  assumes "sta_env E"
  shows "\<exists>netif t. wifi_start E cfg s = Return netif t"
proof -
  have "int_reply E s (Libc (Malloc k)) \<notin> set (live s)" for s k
    using assms by (simp add: sta_env_def fresh_blocks_def)
  with assms show ?thesis
    by (simp add: sta_env_def wifi_start_def asprintf_def stmt_simps)
qed

lemma driver_name [simp]:
  "take 15 (phy_new p) = ''esp_eth_phy_new''"
  by (cases p) simp_all

lemma make_driver_run:
  assumes "eth_env E" "CONNECT_ETHERNET cfg" "uses_spi cfg \<longrightarrow> \<not> spi_used s"
  shows "\<exists>t. (eth_make_driver E cfg s :: 'r flow) = Next t \<and> driver_made t"
proof -
  have "int_reply E s (EthDrv (Eth n a)) \<noteq> 0" if "take 15 n \<in> {''esp_eth_mac_new'', ''esp_eth_phy_new''}" for s n a
    using assms(1) that unfolding eth_env_def by blast
  with assms show ?thesis
    by (cases "ETH_DRIVER cfg")
      (simp_all add: eth_env_def uses_spi_def eth_make_driver_def set_mac_phy_def eth_new_def stmt_simps driver_made_def)
qed

lemma eth_start_run:
  assumes "sta_env E" "eth_env E" "CONNECT_ETHERNET cfg" "uses_spi cfg \<longrightarrow> \<not> spi_used s"
  shows "\<exists>netif t. eth_start E cfg s = Return netif t \<and> driver_made t"
proof -
  have "int_reply E s (Libc (Malloc k)) \<notin> set (live s)" for s k
    using assms by (simp add: sta_env_def fresh_blocks_def)
  moreover obtain g where "(eth_make_driver E cfg s :: int flow) = Next (g s)" "driver_made (g s)"
    if "uses_spi cfg \<longrightarrow> \<not> spi_used s" for s
    using make_driver_run [OF assms(2,3)] by metis
  ultimately show ?thesis
    using assms
    by (simp add: sta_env_def eth_env_def eth_start_def eth_new_def asprintf_def stmt_simps driver_made_def)
qed

lemma interface_up_run:
  assumes "b \<Longrightarrow> \<exists>i t. f s = Return i t \<and> P t" "\<not> b \<Longrightarrow> P s" "obeys same_active f"
    and "\<And>t i n. P t \<Longrightarrow> P (t\<lparr>s_example_esp_netif := i, s_active_interfaces := n\<rparr>)"
  shows "\<exists>t. interface_up b f s = Next t \<and> P t \<and>
    s_active_interfaces t = s_active_interfaces s + (if b then 1 else 0)"
proof -
  have "\<exists>t. interface_up b f s = Next t \<and> P t"
    using assms(1,2,4) by (fastforce simp: interface_up_def call_fn_def only_if_def upd_def skip_def)
  with interface_up_Next [OF _ assms(3)] show ?thesis by blast
qed

definition create_semaphore :: "env \<Rightarrow> sdk \<Rightarrow> unit stmt" where
  "create_semaphore E cfg = only_if (EXAMPLE_DO_CONNECT cfg) (using_state (\<lambda>s.
     ext E (Rtos (XSemaphoreCreateCounting (NR_OF_IP_ADDRESSES_TO_WAIT_FOR cfg s) 0)) (\<lambda>h.
       upd (\<lambda>s. s\<lparr>s_semph_get_ip_addrs := h\<rparr>))))"

text \<open>Both interfaces come up; then other tasks may run, and then the semaphore is created.\<close>

lemma interfaces_run:
  assumes env: "nets_env cfg E" and cfg: "EXAMPLE_DO_CONNECT cfg" "uses_spi cfg \<longrightarrow> \<not> spi_used s"
    and s: "0 \<le> s_active_interfaces s"
  obtains v where "\<And>during. start_during E cfg during s = block [during, create_semaphore E cfg] v"
    "s_semph_get_ip_addrs v = s_semph_get_ip_addrs s" "0 < s_active_interfaces v"
    "CONNECT_ETHERNET cfg \<longrightarrow> driver_made v"
proof -
  have sta: "sta_env E" using env by (simp add: nets_env_def)
  obtain i t where wifi: "wifi_start E cfg s = Return i t" using wifi_start_run [OF sta] by blast
  have "same_bus s t \<and> s_semph_get_ip_addrs t = s_semph_get_ip_addrs s"
    using obeys_end [OF same_bus.obeys_wifi_start wifi] obeys_end [OF same_active.obeys_wifi_start wifi]
    by (simp add: same_active_def)
  with wifi have "\<exists>u. interface_up (CONNECT_WIFI cfg) (wifi_start E cfg) s = Next u \<and>
      (same_bus s u \<and> s_semph_get_ip_addrs u = s_semph_get_ip_addrs s) \<and>
      s_active_interfaces u = s_active_interfaces s + (if CONNECT_WIFI cfg then 1 else 0)"
    by (intro interface_up_run [OF _ _ same_active.obeys_wifi_start]) (auto simp: same_bus_def)
  then obtain u where u: "interface_up (CONNECT_WIFI cfg) (wifi_start E cfg) s = Next u" "same_bus s u"
    "s_semph_get_ip_addrs u = s_semph_get_ip_addrs s"
    "s_active_interfaces u = s_active_interfaces s + (if CONNECT_WIFI cfg then 1 else 0)" by blast
  have "\<exists>v. interface_up (CONNECT_ETHERNET cfg) (eth_start E cfg) u = Next v \<and>
      ((CONNECT_ETHERNET cfg \<longrightarrow> driver_made v) \<and> s_semph_get_ip_addrs v = s_semph_get_ip_addrs u) \<and>
      s_active_interfaces v = s_active_interfaces u + (if CONNECT_ETHERNET cfg then 1 else 0)"
  proof (rule interface_up_run [OF _ _ same_active.obeys_eth_start])
    assume eth: "CONNECT_ETHERNET cfg"
    have "eth_env E" using env eth by (simp add: nets_env_def)
    moreover have "uses_spi cfg \<longrightarrow> \<not> spi_used u" using cfg(2) u(2) by (simp add: same_bus_def)
    ultimately obtain k w where w: "eth_start E cfg u = Return k w" "driver_made w"
      using eth_start_run [OF sta _ eth] by blast
    with obeys_end [OF same_active.obeys_eth_start w(1)]
    show "\<exists>i t. eth_start E cfg u = Return i t \<and>
      (CONNECT_ETHERNET cfg \<longrightarrow> driver_made t) \<and> s_semph_get_ip_addrs t = s_semph_get_ip_addrs u"
      by (simp add: same_active_def)
  qed (simp_all add: driver_made_def)
  then obtain v where v: "interface_up (CONNECT_ETHERNET cfg) (eth_start E cfg) u = Next v"
    "CONNECT_ETHERNET cfg \<longrightarrow> driver_made v" "s_semph_get_ip_addrs v = s_semph_get_ip_addrs u"
    "s_active_interfaces v = s_active_interfaces u + (if CONNECT_ETHERNET cfg then 1 else 0)" by blast
  let ?v = "if CONNECT_WIFI cfg \<and> CONNECT_ETHERNET cfg then v\<lparr>s_example_esp_netif := 0\<rparr> else v"
  have "start_during E cfg during s = block [during, create_semaphore E cfg] ?v" for during
    unfolding start_during_def interface_up_def [symmetric] create_semaphore_def [symmetric]
    using u(1) v(1) by (simp add: only_if_def upd_def skip_def)
  moreover have "0 < s_active_interfaces ?v" using u v s cfg by (auto simp: EXAMPLE_DO_CONNECT_def)
  ultimately show thesis using that [of ?v] u(3) v(2,3) by (simp add: driver_made_def)
qed

lemma start_run:
  assumes env: "nets_env cfg E" and cfg: "EXAMPLE_DO_CONNECT cfg" "uses_spi cfg \<longrightarrow> \<not> spi_used s"
    and s: "0 \<le> s_active_interfaces s"
  shows "\<exists>t. start E cfg s = Next t \<and> s_semph_get_ip_addrs t \<noteq> 0 \<and> 0 < sem_cap t \<and>
    (CONNECT_ETHERNET cfg \<longrightarrow> driver_made t)"
proof -
  obtain v where v: "\<And>during. start_during E cfg during s = block [during, create_semaphore E cfg] v"
    "0 < s_active_interfaces v" "CONNECT_ETHERNET cfg \<longrightarrow> driver_made v"
    by (rule interfaces_run [OF assms]) (rule that; assumption)
  then show ?thesis
    using cfg env by (simp add: start_def create_semaphore_def only_if_def upd_def skip_def driver_made_def
        using_state_def ext_def nets_env_def sta_env_def NR_OF_IP_ADDRESSES_TO_WAIT_FOR_def)
qed

lemma connect_run:
  assumes env: "net_env E name ty" "nets_env cfg E" and ns: "netif_list E ns name" "printable E ns"
    and fuel: "length ns \<le> n" and sup: "supplies cfg name ty sched"
    and cfg: "EXAMPLE_DO_CONNECT cfg" "uses_spi cfg \<longrightarrow> \<not> spi_used s"
    and s: "0 \<le> s_active_interfaces s" "s_semph_get_ip_addrs s = 0"
  shows "\<exists>t. fisi_example_connect n E cfg sched s = Return 0 t \<and> s_semph_get_ip_addrs t \<noteq> 0 \<and>
    (CONNECT_ETHERNET cfg \<longrightarrow> driver_made t)"
proof -
  let ?reg = "logged (Sys (Esp_register_shutdown_handler ''stop''))"
  obtain u where u: "start E cfg s = Next u" "s_semph_get_ip_addrs u \<noteq> 0" "0 < sem_cap u"
    "CONNECT_ETHERNET cfg \<longrightarrow> driver_made u"
    using start_run [OF env(2) cfg s(1)] by blast
  obtain v where v: "(take_all (nat (NR_OF_IP_ADDRESSES_TO_WAIT_FOR cfg (?reg u))) E cfg sched (?reg u)
      :: int flow) = Next v" "s_semph_get_ip_addrs v = s_semph_get_ip_addrs u"
    using take_all_run [OF env(1) sup, of "?reg u", where ?'r = int] u by auto
  obtain t where t: "(print_netifs n E cfg 0 0 v :: int flow) = Next t"
    using print_netifs_run [OF ns, of "[]" 0 ns n] fuel by auto
  have "s_semph_get_ip_addrs t = s_semph_get_ip_addrs v"
    using obeys_end [OF same_active.obeys_print_netifs t] by (simp add: same_active_def)
  moreover have "same_driver (?reg u) v"
    by (rule obeys_end [OF same_driver.obeys_take_all v(1), simplified]) (simp add: same_driver_def driver_made_def)
  then have "driver_made t = driver_made u"
    using obeys_end [OF same_driver.obeys_print_netifs t] by (simp add: same_driver_def driver_made_def)
  moreover have "(call_void (start E cfg) s :: int flow) = Next u" using u(1) by (simp add: call_void_def)
  moreover have "int_reply E u (Sys (Esp_register_shutdown_handler ''stop'')) = 0"
    using env(2) by (simp add: nets_env_def sta_env_def)
  moreover have "(using_state (\<lambda>s. only_if (EXAMPLE_DO_CONNECT cfg \<and> s_semph_get_ip_addrs s \<noteq> 0)
      (ret INVALID_STATE)) s :: int flow) = Next s" using s(2) by (simp add: using_state_def only_if_def skip_def)
  moreover have "(using_state (\<lambda>s. take_all (nat (NR_OF_IP_ADDRESSES_TO_WAIT_FOR cfg s)) E cfg sched)
      (?reg u) :: int flow) = Next v" using v(1) by (simp add: using_state_def)
  ultimately show ?thesis
    using u v t
    by (simp add: fisi_example_connect_def checked_def ext_def error_check_def skip_def ret_def)
qed

lemma connect_refused:
  "EXAMPLE_DO_CONNECT cfg \<Longrightarrow> s_semph_get_ip_addrs s \<noteq> 0 \<Longrightarrow>
    fisi_example_connect n E cfg sched s = Return INVALID_STATE s"
proof -
  assume "EXAMPLE_DO_CONNECT cfg" "s_semph_get_ip_addrs s \<noteq> 0"
  then have "using_state (\<lambda>s. only_if (EXAMPLE_DO_CONNECT cfg \<and> s_semph_get_ip_addrs s \<noteq> 0)
      (ret INVALID_STATE)) s = Return INVALID_STATE s"
    by (simp add: using_state_def only_if_def ret_def)
  then show ?thesis by (simp add: fisi_example_connect_def)
qed

text \<open>
  C8: If connecting returns 0, at least as many addresses have been accepted since it was called
  as there are active interfaces, twice as many with IPv6: whatever the libraries answer and
  whatever events arrive, it does not return before.
\<close>

theorem connect_waits:
  assumes "fisi_example_connect n E cfg sched s = Return 0 t" "EXAMPLE_DO_CONNECT cfg"
  shows "s_active_interfaces t = s_active_interfaces s + configured cfg \<and>
    gives s + nat (NR_OF_IP_ADDRESSES_TO_WAIT_FOR cfg t) \<le> gives t"
  by (rule connect_returned_counts [OF assms])

text \<open>
  A network with a station and an Ethernet interface that have one IPv6 address each, and a clock
  that is right.
\<close>

definition station :: env where
  "station = quiet\<lparr>int_reply := (\<lambda>s c. case c of
       Netif (Esp_netif_ip6_get_addr_type a) \<Rightarrow> 2 | Netif (Esp_netif_create_wifi d i) \<Rightarrow> 5
     | Netif (Esp_netif_get_desc i) \<Rightarrow> 1 | Netif (Esp_netif_new d i) \<Rightarrow> 6 | Netif Esp_netif_get_nr_of_ifs \<Rightarrow> 2
     | Netif (Esp_netif_next x) \<Rightarrow> if x = 0 then 5 else if x = 5 then 6 else 0
     | Netif (Esp_netif_get_all_ip6 i) \<Rightarrow> 1 | Rtos (XSemaphoreCreateCounting m i) \<Rightarrow> 42
     | EthDrv (Eth n a) \<Rightarrow> if take 15 n \<in> {''esp_eth_mac_new'', ''esp_eth_phy_new''} then 8
         else if n = ''spi_bus_initialize'' \<and> spi_used s then INVALID_STATE else 0
     | Libc (Malloc k) \<Rightarrow> next_block s | Libc Time \<Rightarrow> 1700000000 | _ \<Rightarrow> 0),
     str_reply := (\<lambda>_ c. case c of Netif (Esp_netif_get_desc i) \<Rightarrow>
       if i = 6 then ''example_connect: eth'' else ''example_connect: sta'' | _ \<Rightarrow> []),
     bytes_reply := (\<lambda>_ _. replicate 20 0)\<rparr>"

definition station_name :: "int \<Rightarrow> string" where
  "station_name i = (if i = 6 then ''example_connect: eth'' else ''example_connect: sta'')"

lemma station_laws:
  "net_env station station_name (\<lambda>_. 2)" "nets_env cfg station"
  "netif_list station [5, 6] station_name" "printable station [5, 6]"
  using next_block_fresh next_block_pos
  by (simp_all add: net_env_def nets_env_def sta_env_def eth_env_def netif_list_def printable_def station_def
      station_name_def fresh_blocks_def less_imp_neq [THEN not_sym])

lemma supplies_got_ip: "supplies cfg station_name (\<lambda>_. 2) (\<lambda>_. [GOT_IP 5 0x0100a8c0])"
  by (simp add: supplies_def our_name_def station_name_def)

text \<open>The configuration of the repository, and the same with Ethernet too.\<close>

definition both_sdk :: sdk where "both_sdk = build_sdk\<lparr>CONNECT_ETHERNET := True\<rparr>"

lemma init_connect:
  "0 \<le> s_active_interfaces init_machine" "s_semph_get_ip_addrs init_machine = 0"
  "EXAMPLE_DO_CONNECT build_sdk" "EXAMPLE_DO_CONNECT both_sdk"
  "uses_spi build_sdk \<longrightarrow> \<not> spi_used s" "uses_spi both_sdk \<longrightarrow> \<not> spi_used s"
  by (simp_all add: init_machine_def build_sdk_def both_sdk_def uses_spi_def EXAMPLE_DO_CONNECT_def)

theorem connect_waits_witness:
  "\<exists>t. fisi_example_connect 3 station build_sdk (\<lambda>_. [GOT_IP 5 0x0100a8c0]) init_machine = Return 0 t \<and>
    2 \<le> gives t"
proof -
  obtain t where t: "fisi_example_connect 3 station build_sdk (\<lambda>_. [GOT_IP 5 0x0100a8c0]) init_machine =
      Return 0 t"
    using connect_run [OF station_laws _ supplies_got_ip init_connect(3,5,1,2), of 3] by auto
  from connect_waits [OF t init_connect(3)] have "2 \<le> gives t"
    by (auto simp: configured_def NR_OF_IP_ADDRESSES_TO_WAIT_FOR_def build_sdk_def init_machine_def)
  with t show ?thesis by blast
qed

text \<open>
  C12: Connecting succeeds with Wi-Fi, Ethernet or both, from whatever state with no semaphore: if
  the calls succeed and accepted addresses keep arriving, connecting gets through the start, the
  wait and the printing of all interfaces and returns 0, and the semaphore is left in place, so a
  second call is refused. IPv4 addresses alone are enough, also where IPv6 ones are waited for.
\<close>

theorem connect_succeeds:
  assumes "net_env E name ty" "nets_env cfg E" "netif_list E ns name" "printable E ns"
    and "length ns \<le> n" "supplies cfg name ty sched" "EXAMPLE_DO_CONNECT cfg"
    and "uses_spi cfg \<longrightarrow> \<not> spi_used s"
    and "0 \<le> s_active_interfaces s" "s_semph_get_ip_addrs s = 0"
  shows "\<exists>t. fisi_example_connect n E cfg sched s = Return 0 t \<and> s_semph_get_ip_addrs t \<noteq> 0 \<and>
    fisi_example_connect n E cfg sched t = Return INVALID_STATE t"
  using connect_run [OF assms] connect_refused [of cfg] assms(7) by auto

theorem connect_succeeds_witness:
  "\<exists>t. fisi_example_connect 3 station both_sdk (\<lambda>_. [GOT_IP 5 0x0100a8c0]) init_machine = Return 0 t \<and>
    fisi_example_connect 3 station both_sdk (\<lambda>_. [GOT_IP 5 0x0100a8c0]) t = Return INVALID_STATE t"
  using connect_succeeds [OF station_laws _ supplies_got_ip init_connect(4,6,1,2), of 3] by auto

section \<open>An address before the semaphore\<close>

text \<open>
  C39: Wi-Fi is started, and connecting to the access point requested, before the semaphore exists:
  on a device on which the interfaces come up, an address of one of them that is handled between
  their start and the creation of the semaphore hits an assertion of the kernel and stops the
  start, while the same address a moment later, when \<open>start\<close> has returned, is accepted.
\<close>

theorem early_address_asserts:
  assumes "net_env E name ty" "nets_env cfg E" "EXAMPLE_DO_CONNECT cfg" "uses_spi cfg \<longrightarrow> \<not> spi_used s"
    and "0 \<le> s_active_interfaces s" "s_semph_get_ip_addrs s = 0" "our_name (name netif)"
  shows "(\<exists>u. start_during E cfg (deliver E cfg [GOT_IP netif a]) s = Fault Assert_Failed u) \<and>
    (\<exists>t u. start E cfg s = Next t \<and> (deliver E cfg [GOT_IP netif a] t :: unit flow) = Next u \<and>
      s_ip_addr u = a)"
proof
  obtain v where v: "\<And>during. start_during E cfg during s = block [during, create_semaphore E cfg] v"
    "s_semph_get_ip_addrs v = 0"
    using interfaces_run [OF assms(2-5)] assms(6) by metis
  have "str_reply E v (Netif (Esp_netif_get_desc netif)) = name netif"
    "int_reply E v (Netif (Esp_netif_get_desc netif)) \<noteq> 0"
    using assms(1) by (simp_all add: net_env_def)
  with v assms(7) show "\<exists>u. start_during E cfg (deliver E cfg [GOT_IP netif a]) s = Fault Assert_Failed u"
    by (simp add: deliver_def call_void_def on_got_ip_def is_our_netif_def give_semaphore_def
        strncmp_our_name stmt_simps)
next
  obtain t where t: "start E cfg s = Next t" "s_semph_get_ip_addrs t \<noteq> 0"
    using start_run [OF assms(2-5)] by blast
  obtain u where "(deliver E cfg [GOT_IP netif a] t :: unit flow) = Next u"
    "net_of u = fold (net_event cfg name ty) [GOT_IP netif a] (net_of t)"
    using deliver_run [OF assms(1) t(2), of cfg "[GOT_IP netif a]", where ?'r = unit] by blast
  with t(1) assms(7) show "\<exists>t u. start E cfg s = Next t \<and>
      (deliver E cfg [GOT_IP netif a] t :: unit flow) = Next u \<and> s_ip_addr u = a"
    by (auto simp: net_of_def)
qed

theorem early_address_asserts_witness:
  "\<exists>u. start_during station both_sdk (deliver station both_sdk [GOT_IP 5 0x0100a8c0]) init_machine =
    Fault Assert_Failed u"
  using early_address_asserts [OF station_laws(1,2) init_connect(4,6,1,2), of 5 "0x0100a8c0"]
  by (auto simp: our_name_def station_name_def)

end
