(* ===== verification/Startup.thy ===== *)
theory Startup
  imports AppEvents Connect
begin

text \<open>
  The program as a whole: the order of start-up in \<^verbatim>\<open>app_main\<close>, and the control task that it
  creates, which then runs for good.
\<close>

section \<open>Order of start-up\<close>

lemma sntp_loop_Next:
  "(sntp_loop n m E s :: 'r flow) = Next t \<Longrightarrow> \<exists>u. history_grows u t \<and> 1451606400 \<le> clock_at E u"
proof (induction n arbitrary: s)
  case (Suc n)
  then obtain r v where v: "sntp_init_time m E (Some GOOGLE_SNTP) 20 s = Return r v"
    "r \<noteq> 0 \<and> (sntp_loop n m E v :: 'r flow) = Next t \<or> r = 0 \<and> v = t"
    by (auto simp: flow_iffs split: if_splits)
  with sntp_init_time_result [OF v(1)] Suc.IH [of v] show ?case by auto
qed (simp add: flow_iffs)

definition task_call :: call where
  "task_call = Rtos (XTaskCreatePinnedToCore ''ctrl_tsk'' 5120 4 1)"

definition addresses_needed :: "sdk \<Rightarrow> machine \<Rightarrow> nat" where
  "addresses_needed cfg s =
     nat ((s_active_interfaces s + configured cfg) * (if CONNECT_IPV6 cfg then 2 else 1))"

lemma app_main_Next:
  assumes "app_main n E cfg sched s = Next t" "EXAMPLE_DO_CONNECT cfg"
  shows "\<exists>cs u. calls t = cs @ [task_call] \<and> gives s + addresses_needed cfg s \<le> gives t \<and>
    history_grows u t \<and> 1451606400 \<le> clock_at E u"
proof -
  define s3 where "s3 = logged (Netif Esp_event_loop_create_default) (logged (Netif Esp_netif_init)
    (logged (Sys Nvs_flash_init) s))"
  have "error_check r u = (Next v :: unit flow) \<longleftrightarrow> r = 0 \<and> v = u" for r u v
    by (auto simp: error_check_def skip_def fail_def)
  then obtain u w where u: "fisi_example_connect n E cfg sched s3 = Return 0 u"
    and w: "(sntp_loop n n E u :: unit flow) = Next w" and t: "t = logged task_call w"
    using assms(1) by (auto simp: app_main_def flow_iffs s3_def task_call_def simp del: block_more)
  have "gives s + addresses_needed cfg s \<le> gives u"
    using connect_returned_counts [OF u assms(2)]
    by (auto simp: s3_def addresses_needed_def NR_OF_IP_ADDRESSES_TO_WAIT_FOR_def split: if_splits)
  moreover have "gives_grow u w" using obeys_end [OF gives_grow.obeys_sntp_loop w] by simp
  moreover obtain x where "history_grows x w" "1451606400 \<le> clock_at E x"
    using sntp_loop_Next [OF w] by blast
  moreover have "history_grows w t" "gives t = gives w" "calls t = calls w @ [task_call]"
    by (simp_all add: t history_grows_def task_call_def is_give_def)
  ultimately show ?thesis
    using history.trans_R [of x w t] by (fastforce simp: gives_grow_def)
qed

text \<open>
  C13: When \<open>app_main\<close> returns, its last act was to create the control task; by then as many
  addresses have been accepted as there are interfaces, twice as many with IPv6, and a clock of
  2016 or later has been read.
\<close>

theorem app_main_order:
  assumes "app_main n E cfg sched s = Next t" "EXAMPLE_DO_CONNECT cfg"
  shows "\<exists>cs u. calls t = cs @ [task_call] \<and> gives s + addresses_needed cfg s \<le> gives t \<and>
    history_grows u t \<and> 1451606400 \<le> clock_at E u"
  by (rule app_main_Next [OF assms])

theorem app_main_order_witness:
  "\<exists>t cs. app_main 3 station build_sdk (\<lambda>_. [GOT_IP 5 0x0100a8c0]) init_machine = Next t \<and>
    calls t = cs @ [task_call] \<and> 2 \<le> gives t"
proof -
  define s3 where "s3 = logged (Netif Esp_event_loop_create_default) (logged (Netif Esp_netif_init)
    (logged (Sys Nvs_flash_init) init_machine))"
  have "0 \<le> s_active_interfaces s3" "s_semph_get_ip_addrs s3 = 0"
    by (simp_all add: s3_def init_machine_def)
  then obtain u where u: "fisi_example_connect 3 station build_sdk (\<lambda>_. [GOT_IP 5 0x0100a8c0]) s3 =
      Return 0 u"
    using connect_run [OF station_laws _ supplies_got_ip init_connect(3,5), of 3 s3] by auto
  have "clock_at station v = 1700000000" for v
    by (simp add: clock_at_def station_def to_long_id fits_long_def)
  then obtain v where v: "sntp_init_time 3 station (Some GOOGLE_SNTP) 20 u = Return 0 v"
    using sntp_first_round [of station 1700000000 20 2 "Some GOOGLE_SNTP" u] by (auto simp: numeral_3_eq_3)
  have "int_reply station w (Sys Nvs_flash_init) = 0" "int_reply station w (Netif Esp_netif_init) = 0"
    "int_reply station w (Netif Esp_event_loop_create_default) = 0" for w
    by (simp_all add: station_def)
  then have t: "app_main 3 station build_sdk (\<lambda>_. [GOT_IP 5 0x0100a8c0]) init_machine = Next (logged task_call v)"
    using u v by (simp add: app_main_def checked_def ext_def error_check_def skip_def call_fn_def
        s3_def numeral_3_eq_3 if_else_def do_ext_def task_call_def)
  have cfg: "EXAMPLE_DO_CONNECT build_sdk" by (simp add: EXAMPLE_DO_CONNECT_def build_sdk_def)
  from app_main_order [OF t cfg] t show ?thesis
    by (auto simp: addresses_needed_def configured_def build_sdk_def init_machine_def)
qed

section \<open>The control task runs for good\<close>

text \<open>Before the client is configured there is none, so no events of a broker arrive.\<close>

definition wifi_only :: "(machine \<Rightarrow> app_event list) \<Rightarrow> bool" where
  "wifi_only sched \<longleftrightarrow>
     (\<forall>u. uri (mqttcfg u) = None \<longrightarrow> (\<forall>e \<in> set (sched u). \<exists>w. e = Wifi_Event w))"

definition waiting :: "machine \<Rightarrow> bool" where
  "waiting s \<longleftrightarrow> s_semph_get_ip_addrs s \<noteq> 0 \<and> uri (mqttcfg s) = None \<and> length (array_modbus s) = 128"

lemma wifi_events_run:
  assumes env: "net_env E name ty"
  shows "\<forall>e \<in> set es. \<exists>w. e = Wifi_Event w \<Longrightarrow> waiting s \<Longrightarrow>
    \<exists>t. (arrive E cfg es s :: 'r flow) = Next t \<and> waiting t"
proof (induction es arbitrary: s)
  case (Cons e es)
  then obtain w where w: "e = Wifi_Event w" by auto
  obtain u where u: "(call_void (handle_event E cfg w) s :: 'r flow) = Next u"
    "s_semph_get_ip_addrs u = s_semph_get_ip_addrs s"
    using handle_event_run [OF env, of s cfg w, where ?'r = 'r] Cons.prems(2) by (auto simp: waiting_def)
  have "same_service s u"
    using obeys_end [OF service_kept.obeys_call_void [OF service_kept.obeys_handle_event] u(1)] by simp
  moreover have "same_data s u"
    using obeys_end [OF data_kept.obeys_call_void [OF data_kept_wifi.obeys_handle_event] u(1)] by simp
  ultimately have "waiting u" using Cons.prems(2) u(2)
    by (simp add: waiting_def same_service_def same_data_def)
  with Cons u(1) w show ?case by simp
qed (simp add: skip_def)

text \<open>One delay of the wait for the link.\<close>

definition waited ::
    "env \<Rightarrow> sdk \<Rightarrow> (machine \<Rightarrow> app_event list) \<Rightarrow> machine \<Rightarrow> machine \<Rightarrow> bool" where
  "waited E cfg sched s t \<longleftrightarrow> \<not> wifi_connect s \<and> (sleep E cfg sched 20 s :: unit flow) = Next t"

lemma wait_run:
  assumes env: "net_env E name ty" and sched: "wifi_only sched"
  shows "waiting s \<Longrightarrow>
    \<exists>t. while_fuel n (\<lambda>s. \<not> wifi_connect s) (sleep E cfg sched 20) s = (Fault Out_Of_Fuel t :: unit flow) \<and>
        (waited E cfg sched ^^ n) s t \<and> \<not> wifi_connect t \<or>
      while_fuel n (\<lambda>s. \<not> wifi_connect s) (sleep E cfg sched 20) s = (Next t :: unit flow) \<and> waiting t \<and>
        (\<exists>k \<le> n. (waited E cfg sched ^^ k) s t) \<and> wifi_connect t"
proof (induction n arbitrary: s)
  case (Suc n)
  show ?case
  proof (cases "wifi_connect s")
    case True
    with Suc.prems show ?thesis by (auto intro: exI [of _ 0])
  next
    case False
    let ?s = "logged (Rtos (VTaskDelay 20)) s"
    have "waiting ?s" using Suc.prems by (simp add: waiting_def)
    moreover then have "uri (mqttcfg ?s) = None" by (simp add: waiting_def)
    then have "\<forall>e \<in> set (sched ?s). \<exists>w. e = Wifi_Event w" using sched unfolding wifi_only_def by blast
    ultimately obtain u where "(arrive E cfg (sched ?s) ?s :: unit flow) = Next u" "waiting u"
      using wifi_events_run [OF env] by blast
    then have u: "(sleep E cfg sched 20 s :: unit flow) = Next u" "waiting u"
      by (simp_all add: sleep_def do_ext_def ext_def skip_def using_state_def)
    then have w: "waited E cfg sched s u" using False by (simp add: waited_def)
    from Suc.IH [OF u(2)] obtain t where
      "while_fuel n (\<lambda>s. \<not> wifi_connect s) (sleep E cfg sched 20) u = (Fault Out_Of_Fuel t :: unit flow) \<and>
        (waited E cfg sched ^^ n) u t \<and> \<not> wifi_connect t \<or>
      while_fuel n (\<lambda>s. \<not> wifi_connect s) (sleep E cfg sched 20) u = (Next t :: unit flow) \<and> waiting t \<and>
        (\<exists>k \<le> n. (waited E cfg sched ^^ k) u t) \<and> wifi_connect t" by blast
    then show ?thesis
    proof (elim disjE conjE exE)
      fix k assume k: "k \<le> n" "(waited E cfg sched ^^ k) u t"
        and t: "while_fuel n (\<lambda>s. \<not> wifi_connect s) (sleep E cfg sched 20) u = (Next t :: unit flow)"
          "waiting t" "wifi_connect t"
      from w k(2) have "(waited E cfg sched ^^ Suc k) s t" by (rule relpowp_Suc_I2)
      with False u(1) k(1) t show ?thesis by (intro exI [of _ t] disjI2) (auto simp del: relpowp.simps intro: exI [of _ "Suc k"])
    qed (use False u(1) w in \<open>auto simp del: relpowp.simps intro: relpowp_Suc_I2\<close>)
  qed
qed auto

text \<open>The wait ends with the delay in which the link is reported, if the build handles that.\<close>

lemma arrive_link:
  assumes "CONNECT_WIFI cfg" "CONNECT_IPV6 cfg"
  shows "(arrive E cfg (es @ [Wifi_Event (STA_CONNECTED i)]) s :: 'r flow) = Next t \<Longrightarrow> wifi_connect t"
  using assms
  by (induction es arbitrary: s)
    (auto simp: on_wifi_connect_def flow_iffs simp del: block_more block_last)

lemma sleep_link:
  assumes "(sleep E cfg sched k s :: unit flow) = Next t" "CONNECT_WIFI cfg" "CONNECT_IPV6 cfg"
    and "sched (logged (Rtos (VTaskDelay k)) s) = es @ [Wifi_Event (STA_CONNECTED i)]"
  shows "wifi_connect t"
proof -
  have "(arrive E cfg (es @ [Wifi_Event (STA_CONNECTED i)]) (logged (Rtos (VTaskDelay k)) s) :: unit flow) = Next t"
    using assms(1,4) by (simp add: sleep_def do_ext_def ext_def skip_def using_state_def)
  then show ?thesis by (rule arrive_link [OF assms(2,3)])
qed

lemma cycles_run:
  assumes "app_env E name ty" "mb_stack E" "harmless cfg name ty sched"
  shows "running s \<Longrightarrow>
    \<exists>t. while_fuel n (\<lambda>_. True) (ctrl_cycle E cfg sched) s = (Fault Out_Of_Fuel t :: unit flow) \<and>
      (round_done E cfg sched ^^ n) s t"
proof (induction n arbitrary: s)
  case (Suc n)
  obtain u where u: "(ctrl_cycle E cfg sched s :: unit flow) = Next u" "running u" "round_done E cfg sched s u"
    using ctrl_cycle_round [OF assms Suc.prems] by blast
  with Suc.IH [OF u(2)] show ?case by (auto simp del: relpowp.simps intro: relpowp_Suc_I2)
qed simp

text \<open>The documented results of starting the master, and a MAC address of six bytes.\<close>

definition board_env :: "env \<Rightarrow> bool" where
  "board_env E \<longleftrightarrow> (\<forall>s. (\<forall>c. int_reply E s (Mb c) = 0) \<and>
     out_reply E s (Mb (Mbc_master_init ''MB_PORT_SERIAL_MASTER'')) \<noteq> 0 \<and>
     6 \<le> length (bytes_reply E s (Sys Esp_efuse_mac_get_default)))"

lemma master_init_run:
  assumes "board_env E"
  shows "\<exists>cs. master_init E s = Return 0 (s\<lparr>calls := calls s @ cs\<rparr>)"
  using assms
  by (simp add: board_env_def master_init_def mb_step_def mb_return_on_false_def stmt_simps
      logged_def) (metis append_assoc)

lemma no_quote_mac: "no_quote (mac_text mac)"
proof -
  have "CHR 0x22 \<noteq> hex_digits ! k" if "k < 16" for k
  proof -
    have "hex_digits ! k \<in> set hex_digits" using that by simp
    moreover have "CHR 0x22 \<notin> set hex_digits" by (simp add: hex_digits_def)
    ultimately show ?thesis by metis
  qed
  moreover have "unat b div 16 < 16" for b :: u8
    using unsigned_less [of b, where ?'a = nat] by (simp add: div_less_iff_less_mult)
  ultimately show ?thesis
    by (induction mac) (auto simp: no_quote_def mac_text_def fmt_02x_def)
qed

text \<open>
  Once the link is up the client is configured for the broker and started, and the device's name
  is printed from its MAC address.
\<close>

definition client_started :: "env \<Rightarrow> machine \<Rightarrow> machine \<Rightarrow> bool" where
  "client_started E s t \<longleftrightarrow> (\<exists>r u cs.
     let c = s\<lparr>mqttcfg := (mqttcfg s)\<lparr>uri := Some GCPIOT_BROKER_URI,
           event_handle := Some ''mqtt_event_handler'', task_stack := 5120\<rparr>\<rparr>;
         mac = Sys Esp_efuse_mac_get_default in
     calls u = calls s @ cs \<and> start_ended E (mqttcfg c) c r u cs \<and> mqttcfg u = mqttcfg c \<and>
     t = (logged mac u)\<lparr>tmp_macstr := mac_text (take 6 (bytes_reply E u mac))\<rparr>)"

lemma configured_run:
  assumes env: "app_env E name ty" "board_env E" and s: "waiting s"
  shows "\<exists>t. block [call_void (mqtt_app_start_main E),
      call_fn (get_mac_str E 20) (\<lambda>mac. upd (\<lambda>s. s\<lparr>tmp_macstr := mac\<rparr>))] s = (Next t :: unit flow) \<and>
    running t \<and> publications t = publications s \<and> client_started E s t"
proof -
  let ?c = "s\<lparr>mqttcfg := (mqttcfg s)\<lparr>uri := Some GCPIOT_BROKER_URI,
    event_handle := Some ''mqtt_event_handler'', task_stack := 5 * 1024\<rparr>\<rparr>"
  have "ready ?c" using s by (simp add: ready_def waiting_def)
  then obtain u where u: "(call_void (mqtt_app_start E (mqttcfg ?c)) :: unit stmt) ?c = Next u"
    "ready u" "same_data ?c u" using restart_client [OF env(1), of ?c] by blast
  have "rsa_signatures E" "fresh_blocks E" "jwt_block E ?c \<noteq> 0"
    using env(1) by (simp_all add: app_env_def jwt_block_def)
  then obtain r cs where r: "calls u = calls ?c @ cs" "start_ended E (mqttcfg ?c) ?c r u cs" "client_frame ?c u"
    using mqtt_app_start_outcome [of E "mqttcfg ?c" ?c] u(1) by (auto simp: call_void_def)
  let ?m = "bytes_reply E u (Sys Esp_efuse_mac_get_default)"
  have "6 \<le> length ?m" using env(2) by (simp add: board_env_def)
  moreover then have "length (mac_text (take 6 ?m)) = 12" by (simp add: length_mac_text)
  moreover have "(call_void (mqtt_app_start_main E) s :: unit flow) = Next u"
    using u(1) by (simp add: mqtt_app_start_main_def call_void_def upd_def using_state_def)
  moreover have "length (array_modbus u) = 128" "publications u = publications s"
    using u(3) s by (simp_all add: same_data_def waiting_def publications_def)
  moreover have "client_started E s ((logged (Sys Esp_efuse_mac_get_default) u)\<lparr>tmp_macstr := mac_text (take 6 ?m)\<rparr>)"
    unfolding client_started_def Let_def
    using r by (intro exI [of _ r] exI [of _ u] exI [of _ cs]) (simp add: client_frame_def)
  ultimately show ?thesis
    using u(2) no_quote_mac
    by (simp add: call_fn_def get_mac_str_def with_mac_def ext_bytes_def fits_in_def skip_def ret_def
        upd_def running_def ready_def)
qed

text \<open>
  C9: The control task runs for good: on a device whose libraries behave as documented and whose
  memory suffices, once the semaphore exists and as long as no event asks for a restart, it never
  faults and never returns, however many rounds it is given. The master is started first. Then
  either the task is still waiting, the link having been down before each delay of 200 ms; or the
  link came up, the client was started and the name printed, and from then on the task has made
  \<open>n\<close> rounds, each of which asks the slave for the registers, publishes their complete message if
  the service is connected and nothing otherwise, and sleeps for ten seconds.
\<close>

theorem ctrl_tsk_runs_for_good:
  assumes env: "app_env E name ty" "mb_stack E" "board_env E"
    and sched: "harmless cfg name ty sched" "wifi_only sched" and s: "waiting s"
  shows "\<exists>m t. master_init E s = Return 0 m \<and> ctrl_tsk n E cfg sched s = Fault Out_Of_Fuel t \<and>
    ((waited E cfg sched ^^ n) m t \<and> \<not> wifi_connect t \<or>
     (\<exists>k w v. k \<le> n \<and> (waited E cfg sched ^^ k) m w \<and> wifi_connect w \<and> client_started E w v \<and>
       (round_done E cfg sched ^^ n) v t))"
proof -
  obtain cs where m: "master_init E s = Return 0 (s\<lparr>calls := calls s @ cs\<rparr>)"
    using master_init_run [OF env(3)] by blast
  let ?m = "s\<lparr>calls := calls s @ cs\<rparr>"
  let ?wait = "while_fuel n (\<lambda>s. \<not> wifi_connect s) (sleep E cfg sched 20) ?m :: unit flow"
  have "waiting ?m" using s by (simp add: waiting_def)
  moreover have "net_env E name ty" using env(1) by (simp add: app_env_def)
  ultimately obtain w where "?wait = Fault Out_Of_Fuel w \<and> (waited E cfg sched ^^ n) ?m w \<and> \<not> wifi_connect w \<or>
     ?wait = Next w \<and> waiting w \<and> (\<exists>k \<le> n. (waited E cfg sched ^^ k) ?m w) \<and> wifi_connect w"
    using wait_run [OF _ sched(2)] by blast
  then show ?thesis
  proof (elim disjE conjE exE)
    fix k assume w: "?wait = Next w" "waiting w" "k \<le> n" "(waited E cfg sched ^^ k) ?m w" "wifi_connect w"
    obtain v where v: "block [call_void (mqtt_app_start_main E),
      call_fn (get_mac_str E 20) (\<lambda>mac. upd (\<lambda>s. s\<lparr>tmp_macstr := mac\<rparr>))] w = (Next v :: unit flow)"
      "running v" "client_started E w v" using configured_run [OF env(1,3) w(2)] by blast
    obtain t where t: "while_fuel n (\<lambda>_. True) (ctrl_cycle E cfg sched) v = (Fault Out_Of_Fuel t :: unit flow)"
      "(round_done E cfg sched ^^ n) v t"
      using cycles_run [OF env(1,2) sched(1) v(2)] by blast
    have "ctrl_tsk n E cfg sched s = Fault Out_Of_Fuel t"
      using w(1) v(1) t(1)
      by (auto simp: ctrl_tsk_def call_fn_def [of "master_init E"] m error_check_def skip_def
          split: flow.splits)
    with m w v(3) t(2) show ?thesis by blast
  next
    assume "?wait = Fault Out_Of_Fuel w" "(waited E cfg sched ^^ n) ?m w" "\<not> wifi_connect w"
    moreover from this(1) have "ctrl_tsk n E cfg sched s = Fault Out_Of_Fuel w"
      by (simp add: ctrl_tsk_def call_fn_def [of "master_init E"] m error_check_def skip_def)
    ultimately show ?thesis using m by blast
  qed
qed

theorem ctrl_tsk_runs_for_good_witness:
  "\<exists>t w v. ctrl_tsk 12 device build_sdk (\<lambda>_. [Wifi_Event (STA_CONNECTED 5)])
      (init_machine\<lparr>s_semph_get_ip_addrs := 42\<rparr>) = Fault Out_Of_Fuel t \<and>
    wifi_connect w \<and> client_started device w v \<and>
    (round_done device build_sdk (\<lambda>_. [Wifi_Event (STA_CONNECTED 5)]) ^^ 12) v t"
proof -
  let ?sched = "\<lambda>_. [Wifi_Event (STA_CONNECTED 5)]"
  let ?waited = "waited device build_sdk ?sched"
  have "board_env device" by (simp add: board_env_def device_def)
  moreover have "harmless build_sdk (\<lambda>_. ''example_connect: sta'') (\<lambda>_. 2) ?sched"
    by (simp add: harmless_def view_of_def)
  moreover have "wifi_only ?sched" by (simp add: wifi_only_def)
  moreover have "waiting (init_machine\<lparr>s_semph_get_ip_addrs := 42\<rparr>)"
    by (simp add: waiting_def init_machine_def no_config_def)
  moreover have "\<not> (?waited ^^ 12) m t" for m t
  proof
    assume "(?waited ^^ 12) m t"
    then have "(?waited ^^ Suc (Suc 10)) m t" by (simp only: Suc_numeral) simp
    then obtain a b where "?waited m a" "?waited a b" by (meson relpowp_Suc_E2)
    moreover from this(1) have "wifi_connect a"
      using sleep_link [of device build_sdk ?sched 20 m a "[]" 5] build_sdk_parts by (simp add: waited_def)
    ultimately show False by (simp add: waited_def)
  qed
  ultimately show ?thesis
    using ctrl_tsk_runs_for_good [OF device_app_env device_mb_stack, where n = 12] by metis
qed

end
