(* ===== verification/Delivery.thy ===== *)
theory Delivery
  imports Startup
begin

text \<open>
  From power-on to the cloud: what \<^verbatim>\<open>app_main\<close> hands over to the control task, and the messages
  that the task has published after a number of rounds.
\<close>

section \<open>What start-up hands over\<close>

lemma take_all_semaphore:
  "(take_all (Suc k) E cfg sched s :: 'r flow) = Next t \<Longrightarrow> s_semph_get_ip_addrs s \<noteq> 0"
  by (auto simp: take_semaphore_def flow_iffs simp del: block_more block_last split: if_splits)

lemma connect_semaphore:
  assumes "fisi_example_connect n E cfg sched s = Return 0 t" "EXAMPLE_DO_CONNECT cfg"
    and "0 \<le> s_active_interfaces s"
  shows "s_semph_get_ip_addrs t \<noteq> 0"
proof -
  let ?reg = "logged (Sys (Esp_register_shutdown_handler ''stop''))"
  obtain u v where u: "(call_void (start E cfg) s :: int flow) = Next u"
    and v: "(take_all (nat (NR_OF_IP_ADDRESSES_TO_WAIT_FOR cfg u)) E cfg sched (?reg u) :: int flow) = Next v"
    and t: "(print_netifs n E cfg 0 0 v :: int flow) = Next t"
    using connect_returned [OF assms(1)] .
  from u have "start E cfg s = Next u" by (simp add: flow_iffs start_no_return)
  from start_Next [OF this assms(2)] have "0 < NR_OF_IP_ADDRESSES_TO_WAIT_FOR cfg u"
    using assms(2,3) by (auto simp: NR_OF_IP_ADDRESSES_TO_WAIT_FOR_def configured_def EXAMPLE_DO_CONNECT_def)
  then obtain k where "nat (NR_OF_IP_ADDRESSES_TO_WAIT_FOR cfg u) = Suc k"
    by (metis gr0_implies_Suc zero_less_nat_eq)
  with v have "s_semph_get_ip_addrs (?reg u) \<noteq> 0" using take_all_semaphore by metis
  moreover have "same_active (?reg u) v" "same_active v t"
    using obeys_end [OF same_active.obeys_take_all v] obeys_end [OF same_active.obeys_print_netifs t]
    by (simp_all add: same_active_def)
  ultimately show ?thesis by (simp add: same_active_def)
qed

lemma app_main_waiting:
  assumes "app_main m E cfg wifi init_machine = Next t" "EXAMPLE_DO_CONNECT cfg"
  shows "waiting t \<and> publications t = []"
proof -
  define s3 where "s3 = logged (Netif Esp_event_loop_create_default) (logged (Netif Esp_netif_init)
    (logged (Sys Nvs_flash_init) init_machine))"
  have "error_check r u = (Next v :: unit flow) \<longleftrightarrow> r = 0 \<and> v = u" for r u v
    by (auto simp: error_check_def skip_def fail_def)
  then obtain u w where u: "fisi_example_connect m E cfg wifi s3 = Return 0 u"
    and w: "(sntp_loop m m E u :: unit flow) = Next w" and t: "t = logged task_call w"
    using assms(1) by (auto simp: app_main_def flow_iffs s3_def task_call_def simp del: block_more)
  have "0 \<le> s_active_interfaces s3" by (simp add: s3_def init_machine_def)
  from connect_semaphore [OF u assms(2) this] have "s_semph_get_ip_addrs t \<noteq> 0"
    using obeys_end [OF same_active.obeys_sntp_loop w] t by (simp add: same_active_def)
  moreover have "same_service init_machine t" "keeps_ok init_machine t" "silent init_machine t"
    using obeys_end [OF service_kept.obeys_app_main assms(1)] obeys_end [OF sizes.obeys_app_main assms(1)]
      obeys_end [OF silence.obeys_app_main assms(1)] by simp_all
  ultimately show ?thesis
    by (auto simp: waiting_def same_service_def keeps_ok_def machine_ok_def silent_def init_machine_def
        no_config_def publications_def)
qed

section \<open>Rounds of a connected device\<close>

text \<open>
  The network and the broker are there: whenever the task of a device whose client has been
  configured blocks, the events that arrive leave the service connected.
\<close>

definition online ::
    "sdk \<Rightarrow> (int \<Rightarrow> string) \<Rightarrow> (u32 list \<Rightarrow> int) \<Rightarrow> (machine \<Rightarrow> app_event list) \<Rightarrow> bool" where
  "online cfg name ty sched \<longleftrightarrow> (\<forall>u. ready u \<longrightarrow>
     (\<exists>net. view_events cfg name ty (sched u) (view_of u) = Some (net, MQTT_SERV_CONNECTED)))"

lemma online_harmless: "online cfg name ty sched \<Longrightarrow> harmless cfg name ty sched"
  by (fastforce simp: online_def harmless_def)

text \<open>Messages of the device \<open>u\<close>, each complete.\<close>

definition messages_of :: "string \<Rightarrow> call list \<Rightarrow> bool" where
  "messages_of u cs \<longleftrightarrow> (\<forall>c \<in> set cs. \<exists>h p ts regs. c = publish_call h p \<and> reports p u ts regs)"

lemma messages_of_simps [simp]:
  "messages_of u []" "messages_of u (cs @ ds) \<longleftrightarrow> messages_of u cs \<and> messages_of u ds"
  by (auto simp: messages_of_def)

lemma arrive_online:
  assumes "app_env E name ty" "online cfg name ty sched" "running s"
    and "(arrive E cfg (sched s) s :: 'r flow) = Next t"
  shows "mqtt_service_state t = MQTT_SERV_CONNECTED"
proof -
  have r: "ready s" using assms(3) by (simp add: running_def)
  with assms(2) obtain net where
    "view_events cfg name ty (sched s) (view_of s) = Some (net, MQTT_SERV_CONNECTED)"
    by (auto simp: online_def)
  with follows_arrive [OF assms(1) r, of cfg "sched s", where ?'r = 'r] assms(4)
  show ?thesis by (simp add: follows_def view_of_def)
qed

lemma online_cycle:
  assumes env: "app_env E name ty" "mb_stack E" and on: "online cfg name ty sched" and s: "running s"
  shows "\<exists>t c. (ctrl_cycle E cfg sched s :: 'r flow) = Next t \<and> running t \<and>
    tmp_macstr t = tmp_macstr s \<and> publications t = publications s @ [c] \<and>
    messages_of (tmp_macstr s) [c]"
proof -
  obtain r u t cs where *: "request_modbus_info E s = Next r" "arrive E cfg (sched r) r = (Next u :: 'r flow)"
    "(ctrl_cycle E cfg sched s :: 'r flow) = Next t" "running t"
    "tmp_macstr r = tmp_macstr s" "tmp_macstr t = tmp_macstr s"
    "publications t = publications s @ cs" "published_by E r u cs"
    using ctrl_cycle_run [OF env online_harmless [OF on] s, where ?'r = 'r] by blast
  have "running r" using request_run [OF env(2) s] *(1) by auto
  from arrive_online [OF env(1) on this *(2)] *(5,8)
  obtain p where "cs = [publish_call (mqttc u) p]"
    "reports p (tmp_macstr s) (clock_at E u) (array_modbus r)"
    by (auto simp: published_by_def)
  then have "messages_of (tmp_macstr s) cs" "cs = [publish_call (mqttc u) p]"
    unfolding messages_of_def by auto
  then show ?thesis using *(3,4,6,7) by blast
qed

lemma online_cycles:
  assumes "app_env E name ty" "mb_stack E" "online cfg name ty sched"
  shows "running s \<Longrightarrow> \<exists>t cs.
    while_fuel n (\<lambda>_. True) (ctrl_cycle E cfg sched) s = (Fault Out_Of_Fuel t :: 'r flow) \<and>
    publications t = publications s @ cs \<and> length cs = n \<and> messages_of (tmp_macstr s) cs"
proof (induction n arbitrary: s)
  case (Suc n)
  obtain u c where u: "(ctrl_cycle E cfg sched s :: 'r flow) = Next u" "running u"
    "tmp_macstr u = tmp_macstr s" "publications u = publications s @ [c]" "messages_of (tmp_macstr s) [c]"
    using online_cycle [OF assms Suc.prems, where ?'r = 'r] by blast
  obtain t cs where "while_fuel n (\<lambda>_. True) (ctrl_cycle E cfg sched) u = (Fault Out_Of_Fuel t :: 'r flow)"
    "publications t = publications u @ cs" "length cs = n" "messages_of (tmp_macstr s) cs"
    using Suc.IH [OF u(2)] u(3) by auto
  with u show ?case by (intro exI [of _ t] exI [of _ "c # cs"]) (simp add: messages_of_def)
qed simp

text \<open>Waiting for the link publishes nothing.\<close>

interpretation data_kept_all: handler_relation same_data "\<lambda>_. True"
  by unfold_locales auto

lemma master_init_same_data: "obeys same_data (master_init E)"
  unfolding master_init_def mb_step_def mb_return_on_false_def
  by (intro data_kept_wifi.station_intros) simp_all

lemma wait_same_data:
  "obeys same_data (while_fuel n (\<lambda>s. \<not> wifi_connect s) (sleep E cfg sched k) :: unit stmt)"
  by (intro data_kept.obeys_while_fuel data_kept_all.obeys_sleep) simp

text \<open>The link is reported during the task's first delay, and the build has a handler for it.\<close>

definition link_at_once :: "sdk \<Rightarrow> (machine \<Rightarrow> app_event list) \<Rightarrow> bool" where
  "link_at_once cfg sched \<longleftrightarrow> CONNECT_WIFI cfg \<and> CONNECT_IPV6 cfg \<and>
     (\<forall>u. uri (mqttcfg u) = None \<longrightarrow> (\<exists>es i. sched u = es @ [Wifi_Event (STA_CONNECTED i)]))"

lemma first_delay:
  assumes env: "net_env E name ty" and sched: "wifi_only sched" "link_at_once cfg sched" and s: "waiting s"
  shows "while_fuel (Suc n) (\<lambda>s. \<not> wifi_connect s) (sleep E cfg sched k) s \<noteq> (Fault f t :: unit flow)"
proof -
  let ?s = "logged (Rtos (VTaskDelay k)) s"
  have w: "waiting ?s" and u: "uri (mqttcfg ?s) = None" using s by (simp_all add: waiting_def)
  then have "\<forall>e \<in> set (sched ?s). \<exists>w. e = Wifi_Event w" using sched(1) unfolding wifi_only_def by blast
  then obtain v where v: "(arrive E cfg (sched ?s) ?s :: unit flow) = Next v"
    using wifi_events_run [OF env _ w] by blast
  then have v': "(sleep E cfg sched k s :: unit flow) = Next v"
    by (simp add: sleep_def do_ext_def ext_def skip_def using_state_def)
  moreover obtain es i where "sched ?s = es @ [Wifi_Event (STA_CONNECTED i)]"
    using sched(2) u unfolding link_at_once_def by blast
  with sleep_link [OF v'] sched(2) have "wifi_connect v" by (auto simp: link_at_once_def)
  ultimately show ?thesis by (cases n) auto
qed

lemma online_task:
  assumes env: "app_env E name ty" "mb_stack E" "board_env E"
    and sched: "online cfg name ty sched" "wifi_only sched" and s: "waiting s"
  shows "\<exists>t u cs. ctrl_tsk n E cfg sched s = Fault Out_Of_Fuel t \<and>
    publications t = publications s @ cs \<and> messages_of u cs \<and>
    (cs = [] \<and> \<not> wifi_connect t \<or> length cs = n) \<and> (link_at_once cfg sched \<longrightarrow> length cs = n)"
proof -
  let ?wait = "while_fuel n (\<lambda>s. \<not> wifi_connect s) (sleep E cfg sched 20) :: unit stmt"
  obtain m where m: "master_init E s = Return 0 m" "waiting m"
    using master_init_run [OF env(3), of s] s by (auto simp: waiting_def)
  have pm: "publications m = publications s"
    using obeys_end [OF master_init_same_data m(1)] by (simp add: same_data_def)
  have net: "net_env E name ty" using env(1) by (simp add: app_env_def)
  from wait_run [OF this sched(2) m(2), of n cfg] consider
    (waits) u where "?wait m = Fault Out_Of_Fuel u" "\<not> wifi_connect u"
  | (up) u where "?wait m = Next u" "waiting u" by blast
  then show ?thesis
  proof cases
    case waits
    then have "publications u = publications m"
      using obeys_end [OF wait_same_data waits(1)] by (simp add: same_data_def)
    moreover have "n = 0" if "link_at_once cfg sched"
      using first_delay [OF net sched(2) that m(2)] waits(1) by (cases n) auto
    ultimately show ?thesis
      using waits pm
      by (auto simp: ctrl_tsk_def call_fn_def [of "master_init E"] m error_check_def skip_def)
  next
    case up
    then have "publications u = publications m"
      using obeys_end [OF wait_same_data up(1)] by (simp add: same_data_def)
    moreover obtain v where v: "block [call_void (mqtt_app_start_main E),
        call_fn (get_mac_str E 20) (\<lambda>mac. upd (\<lambda>s. s\<lparr>tmp_macstr := mac\<rparr>))] u = (Next v :: unit flow)"
      "running v" "publications v = publications u"
      using configured_run [OF env(1,3) up(2)] by blast
    moreover obtain t cs where
      "while_fuel n (\<lambda>_. True) (ctrl_cycle E cfg sched) v = (Fault Out_Of_Fuel t :: unit flow)"
      "publications t = publications v @ cs" "length cs = n" "messages_of (tmp_macstr v) cs"
      using online_cycles [OF env(1,2) sched(1) v(2)] by blast
    ultimately show ?thesis
      using up pm
      by (auto simp: ctrl_tsk_def call_fn_def [of "master_init E"] m error_check_def skip_def
          split: flow.splits)
  qed
qed

text \<open>
  C2: From power-on to the cloud: on a device whose libraries behave as documented and
  whose memory suffices, if \<open>app_main\<close> returns and the broker can be reached, the control task that it created publishes
  one complete message in every round, all with the same device's name, and nothing before;
  only while the Wi-Fi link has not been reported has it published nothing at all, which is over
  after the first delay if the link is reported then and the build has a handler for that.
\<close>

theorem firmware_publishes:
  assumes "app_main m E cfg wifi init_machine = Next s" "EXAMPLE_DO_CONNECT cfg"
    and "app_env E name ty" "mb_stack E" "board_env E"
    and "online cfg name ty sched" "wifi_only sched"
  shows "\<exists>t u. ctrl_tsk n E cfg sched s = Fault Out_Of_Fuel t \<and> messages_of u (publications t) \<and>
    (publications t = [] \<and> \<not> wifi_connect t \<or> length (publications t) = n) \<and>
    (link_at_once cfg sched \<longrightarrow> length (publications t) = n)"
  using online_task [OF assms(3-7), of s n] app_main_waiting [OF assms(1,2)]
  by (auto intro: exI [of _ "[]"])

text \<open>
  The station of \<open>Connect\<close> with a broker, a slave whose registers hold 0x0201 and a 2048-bit key;
  its link comes up at once, and the broker answers.
\<close>

definition plant :: env where
  "plant = station
     \<lparr>int_reply := (\<lambda>s c. case c of Mqtt (Esp_mqtt_client_init cfg) \<Rightarrow> 1 | _ \<Rightarrow> int_reply station s c),
      out_reply := (\<lambda>_ _. 1),
      bytes_reply := (\<lambda>s c. case c of
        Tls t \<Rightarrow> replicate 256 0 | Mb b \<Rightarrow> concat (replicate NUM_REG [0x01, 0x02])
      | Sys y \<Rightarrow> [0x24, 0xdc, 0xc3, 0xb0, 0xce, 0x00] | _ \<Rightarrow> replicate 20 0)\<rparr>"

definition plant_events :: "machine \<Rightarrow> app_event list" where
  "plant_events s =
     (if uri (mqttcfg s) = None then [Wifi_Event (STA_CONNECTED 5)] else [Mqtt_Event 1 MQTT_EVENT_CONNECTED])"

lemma plant_laws:
  "app_env plant station_name (\<lambda>_. 2)" "mb_stack plant" "board_env plant"
  "nets_env cfg plant" "netif_list plant [5, 6] station_name" "printable plant [5, 6]"
  using next_block_fresh next_block_pos
  by (simp_all add: app_env_def net_env_def nets_env_def sta_env_def eth_env_def netif_list_def printable_def
      plant_def station_def station_name_def fresh_blocks_def rsa_signatures_def mb_stack_def board_env_def
      NUM_REG_def length_concat sum_list_replicate less_imp_neq [THEN not_sym])

lemma plant_online: "online cfg name ty plant_events" "wifi_only plant_events"
  "link_at_once build_sdk plant_events"
  by (auto simp: build_sdk_parts online_def link_at_once_def view_of_def wifi_only_def plant_events_def ready_def)

theorem firmware_publishes_witness:
  "\<exists>s t u. app_main 3 plant build_sdk (\<lambda>_. [GOT_IP 5 0x0100a8c0]) init_machine = Next s \<and>
    ctrl_tsk 7 plant build_sdk plant_events s = Fault Out_Of_Fuel t \<and>
    length (publications t) = 7 \<and> messages_of u (publications t)"
proof -
  define s3 where "s3 = logged (Netif Esp_event_loop_create_default) (logged (Netif Esp_netif_init)
    (logged (Sys Nvs_flash_init) init_machine))"
  have "0 \<le> s_active_interfaces s3" "s_semph_get_ip_addrs s3 = 0"
    by (simp_all add: s3_def init_machine_def)
  moreover have "net_env plant station_name (\<lambda>_. 2)" using plant_laws(1) by (simp add: app_env_def)
  ultimately obtain u where u: "fisi_example_connect 3 plant build_sdk (\<lambda>_. [GOT_IP 5 0x0100a8c0]) s3 =
      Return 0 u"
    using connect_run [OF _ plant_laws(4-6) _ supplies_got_ip init_connect(3,5), of 3 s3] by auto
  have "clock_at plant v = 1700000000" for v
    by (simp add: clock_at_def plant_def station_def to_long_id fits_long_def)
  then obtain v where v: "sntp_init_time 3 plant (Some GOOGLE_SNTP) 20 u = Return 0 v"
    using sntp_first_round [of plant 1700000000 20 2 "Some GOOGLE_SNTP" u] by (auto simp: numeral_3_eq_3)
  have "int_reply plant w (Sys Nvs_flash_init) = 0" "int_reply plant w (Netif Esp_netif_init) = 0"
    "int_reply plant w (Netif Esp_event_loop_create_default) = 0" for w
    by (simp_all add: plant_def station_def)
  then have "app_main 3 plant build_sdk (\<lambda>_. [GOT_IP 5 0x0100a8c0]) init_machine = Next (logged task_call v)"
    using u v by (simp add: app_main_def checked_def ext_def error_check_def skip_def call_fn_def
        s3_def numeral_3_eq_3 if_else_def do_ext_def task_call_def)
  with firmware_publishes [OF this init_connect(3) plant_laws(1-3) plant_online(1,2), of 7]
  show ?thesis using plant_online(3) by blast
qed

section \<open>Builds that never learn of the link\<close>

text \<open>Without the handler that sets it, the flag for the link stays down, and nothing is published.\<close>

definition stays_down :: "machine \<Rightarrow> machine \<Rightarrow> bool" where
  "stays_down s t \<longleftrightarrow> (\<not> wifi_connect s \<longrightarrow> \<not> wifi_connect t) \<and> publications t = publications s"

interpretation stays_down: client_relation stays_down
  by unfold_locales (auto simp: stays_down_def publications_def)

lemma stays_down_logged: "\<not> is_publish c \<Longrightarrow> stays_down s (logged c s)"
  by (simp add: stays_down_def)

lemma stays_down_update [simp]:
  "stays_down s (s\<lparr>s_ip_addr := a\<rparr>)" "stays_down s (s\<lparr>s_ipv6_addr := a6\<rparr>)"
  "stays_down s (s\<lparr>wifi_connect := False\<rparr>)" "stays_down s (s\<lparr>mqtt_service_state := st\<rparr>)"
  by (simp_all add: stays_down_def publications_def)

lemmas stays_down_intros = stays_down.heap_intros stays_down_logged stays_down_update

lemma handle_event_stays_down:
  assumes "\<not> (CONNECT_WIFI cfg \<and> CONNECT_IPV6 cfg)"
  shows "obeys stays_down (handle_event E cfg e)"
proof (cases e)
  case (STA_CONNECTED i)
  with assms show ?thesis by (auto simp: only_if_def)
qed (simp del: block_more block_last add: on_wifi_disconnect_def on_got_ip_def on_got_ipv6_def
    on_eth_event_def is_our_netif_def give_semaphore_def; intro stays_down_intros; simp)+

lemma arrive_stays_down:
  assumes "\<not> (CONNECT_WIFI cfg \<and> CONNECT_IPV6 cfg)"
  shows "obeys stays_down (arrive E cfg es)"
proof (induction es)
  case (Cons e es)
  have "obeys stays_down (mqtt_event_handler E h m)" for h m
    unfolding mqtt_event_handler_def set_mqtt_service_state_def
    by (cases m; simp del: block_more block_last;
      intro stays_down_intros stays_down.obeys_mqtt_app_start; simp)
  then have "obeys stays_down (handle_app E cfg e)"
    by (cases e) (simp_all add: stays_down.obeys_call_void handle_event_stays_down [OF assms])
  with Cons show ?case by (simp only: arrive.simps) (intro stays_down_intros)
qed simp

lemma arrive_no_return: "(arrive E cfg es s :: 'r flow) \<noteq> Return r t"
proof (induction es arbitrary: s)
  case (Cons e es)
  then show ?case by (cases e) (auto simp: flow_iffs simp del: block_more block_last)
qed (simp add: flow_iffs)

lemma sleep_stays_down:
  assumes "\<not> (CONNECT_WIFI cfg \<and> CONNECT_IPV6 cfg)"
  shows "obeys stays_down (sleep E cfg sched k)"
  unfolding sleep_def by (intro stays_down_intros arrive_stays_down [OF assms]) simp_all

lemma wait_for_ever:
  assumes "\<not> (CONNECT_WIFI cfg \<and> CONNECT_IPV6 cfg)"
  shows "\<not> wifi_connect s \<Longrightarrow> \<exists>f t.
    while_fuel n (\<lambda>s. \<not> wifi_connect s) (sleep E cfg sched k) s = (Fault f t :: unit flow) \<and> stays_down s t"
proof (induction n arbitrary: s)
  case (Suc n)
  have *: "stays_down s (end_state (sleep E cfg sched k s :: unit flow))"
    using sleep_stays_down [OF assms, where ?'a = unit] by (simp add: obeys_def)
  show ?case
  proof (cases "sleep E cfg sched k s :: unit flow")
    case (Next u)
    with * Suc.prems have "\<not> wifi_connect u" by (simp add: stays_down_def)
    from Suc.IH [OF this] Next * Suc.prems show ?thesis by (auto intro: stays_down.trans_R)
  next
    case (Return r u)
    then show ?thesis by (simp add: sleep_def flow_iffs arrive_no_return del: block_more)
  next
    case (Fault f u)
    with * Suc.prems show ?thesis by simp
  qed
qed (simp add: stays_down.refl_R)

lemma master_init_stays_down: "obeys stays_down (master_init E)"
  unfolding master_init_def mb_step_def mb_return_on_false_def
  by (intro stays_down_intros) simp_all

text \<open>
  C22: The flag that the control task waits for is set by one handler only, which exists only in
  builds with Wi-Fi and IPv6. In any other build, for Ethernet alone or without IPv6, the task never
  gets past its wait: whatever the libraries answer and whatever events arrive, it does not
  return, the flag stays down, and nothing is ever published.
\<close>

theorem no_link_no_messages:
  assumes "\<not> (CONNECT_WIFI cfg \<and> CONNECT_IPV6 cfg)" "\<not> wifi_connect s"
  shows "\<exists>f t. ctrl_tsk n E cfg sched s = Fault f t \<and> \<not> wifi_connect t \<and> publications t = publications s"
proof -
  have m: "stays_down s (end_state (master_init E s))"
    using master_init_stays_down by (simp add: obeys_def)
  show ?thesis
  proof (cases "master_init E s")
    case (Return r u)
    with m assms(2) have u: "\<not> wifi_connect u" "publications u = publications s"
      by (simp_all add: stays_down_def)
    obtain f t where "while_fuel n (\<lambda>s. \<not> wifi_connect s) (sleep E cfg sched 20) u = (Fault f t :: unit flow)"
      "stays_down u t" using wait_for_ever [OF assms(1) u(1)] by blast
    with Return u show ?thesis
      by (cases "r = 0") (auto simp: ctrl_tsk_def call_fn_def [of "master_init E"] error_check_def skip_def
        fail_def stays_down_def)
  qed (use m assms(2) in \<open>auto simp: ctrl_tsk_def call_fn_def [of "master_init E"] stays_down_def\<close>)
qed

theorem no_link_no_messages_witness:
  "\<exists>f t. ctrl_tsk 7 plant (build_sdk\<lparr>CONNECT_IPV6 := False\<rparr>) plant_events init_machine = Fault f t \<and>
    \<not> wifi_connect t \<and> publications t = []"
  using no_link_no_messages [of "build_sdk\<lparr>CONNECT_IPV6 := False\<rparr>" init_machine 7 plant plant_events]
  by (simp add: init_machine_def publications_def)

end
