(* ===== verification/Disconnect.thy ===== *)
theory Disconnect
  imports Connect
begin

text \<open>
  Disconnecting undoes what connecting did, for Wi-Fi and Ethernet alike: the event handlers, the
  number of active interfaces and the semaphore are those from before.
\<close>

section \<open>The registered handlers\<close>

text \<open>
  The handlers that are registered, read off the calls made (the newest first). Registering a
  handler for an event once more replaces it.
\<close>

fun registered :: "call list \<Rightarrow> (string \<times> string \<times> handler) set" where
  "registered (Netif (Esp_event_handler_register b i h a) # cs) = insert (b, i, h) (registered cs)"
| "registered (Netif (Esp_event_handler_unregister b i h) # cs) = registered cs - {(b, i, h)}"
| "registered (c # cs) = registered cs"
| "registered [] = {}"

definition handlers :: "machine \<Rightarrow> (string \<times> string \<times> handler) set" where
  "handlers s = registered (rev (calls s))"

lemma handlers_update [simp]:
  "handlers (logged (Netif (Esp_event_handler_register b i h a)) s) = insert (b, i, h) (handlers s)"
  "handlers (logged (Netif (Esp_event_handler_unregister b i h)) s) = handlers s - {(b, i, h)}"
  "handlers (logged (Wifi w) s) = handlers s" "handlers (logged (Libc c) s) = handlers s"
  "handlers (logged (EthDrv x1) s) = handlers s" "handlers (logged (Sys y) s) = handlers s"
  "handlers (logged (Rtos x2) s) = handlers s"
  "handlers (logged (Netif (Esp_netif_next j)) s) = handlers s"
  "handlers (logged (Netif (Esp_netif_get_desc j)) s) = handlers s"
  "handlers (logged (Netif (Esp_netif_destroy j)) s) = handlers s"
  "handlers (logged (Netif (Esp_netif_create_wifi d k)) s) = handlers s"
  "handlers (logged (Netif (Esp_netif_new d k)) s) = handlers s"
  "handlers (logged (Netif (Esp_netif_attach j g)) s) = handlers s"
  "handlers (s\<lparr>live := l\<rparr>) = handlers s" "handlers (s\<lparr>buffers := m\<rparr>) = handlers s"
  "handlers (s\<lparr>s_example_esp_netif := j\<rparr>) = handlers s" "handlers (s\<lparr>s_mac := j\<rparr>) = handlers s"
  "handlers (s\<lparr>s_phy := j\<rparr>) = handlers s" "handlers (s\<lparr>s_eth_handle := j\<rparr>) = handlers s"
  "handlers (s\<lparr>s_eth_glue := j\<rparr>) = handlers s" "handlers (s\<lparr>s_active_interfaces := x3\<rparr>) = handlers s"
  "handlers (s\<lparr>s_semph_get_ip_addrs := j\<rparr>) = handlers s"
  "handlers (s\<lparr>wifi_connect := f\<rparr>) = handlers s" "handlers (s\<lparr>s_ip_addr := a4\<rparr>) = handlers s"
  "handlers (s\<lparr>s_ipv6_addr := a6\<rparr>) = handlers s"
  by (simp_all add: handlers_def)

lemma handlers_event: "event_call c \<Longrightarrow> handlers (logged c s) = handlers s"
  by (auto simp: handlers_def event_call_def split: call.splits netif_call.splits del: equalityI)

definition same_handlers :: "machine \<Rightarrow> machine \<Rightarrow> bool" where
  "same_handlers s t \<longleftrightarrow> handlers t = handlers s"

interpretation same_handlers: lookup_relation same_handlers
  by unfold_locales (auto simp: same_handlers_def)

interpretation same_handlers_event: event_relation same_handlers
  by unfold_locales (auto simp: same_handlers_def handlers_event)

lemma same_handlersI [intro]: "handlers t = handlers s \<Longrightarrow> same_handlers s t"
  by (simp add: same_handlers_def)

lemma make_driver_keeps_handlers: "obeys same_handlers (eth_make_driver E cfg)"
  unfolding eth_make_driver_def set_mac_phy_def eth_new_def
  by (auto split: eth_driver.split intro!: same_handlers.heap_intros)

section \<open>Bringing an interface up and down\<close>

definition wifi_handlers :: "sdk \<Rightarrow> (string \<times> string \<times> handler) set" where
  "wifi_handlers cfg =
     {(''WIFI_EVENT'', ''WIFI_EVENT_STA_DISCONNECTED'', Ref_on_wifi_disconnect),
      (''IP_EVENT'', ''IP_EVENT_STA_GOT_IP'', Ref_on_got_ip)} \<union>
     (if CONNECT_IPV6 cfg then
        {(''WIFI_EVENT'', ''WIFI_EVENT_STA_CONNECTED'', Ref_on_wifi_connect),
         (''IP_EVENT'', ''IP_EVENT_GOT_IP6'', Ref_on_got_ipv6)} else {})"

definition eth_handlers :: "sdk \<Rightarrow> (string \<times> string \<times> handler) set" where
  "eth_handlers cfg =
     {(''IP_EVENT'', ''IP_EVENT_ETH_GOT_IP'', Ref_on_got_ip)} \<union>
     (if CONNECT_IPV6 cfg then
        {(''ETH_EVENT'', ''ETHERNET_EVENT_CONNECTED'', Ref_on_eth_event),
         (''IP_EVENT'', ''IP_EVENT_GOT_IP6'', Ref_on_got_ipv6)} else {})"

lemma free_Next: "(free p s :: 'r flow) = Next t \<Longrightarrow> handlers t = handlers s"
  by (auto simp: free_def flow_iffs logged_def handlers_def split: if_splits)

lemma free_no_return: "(free p s :: 'r flow) \<noteq> Return r t"
  by (auto simp: free_def flow_iffs)

lemma make_driver_Next: "(eth_make_driver E cfg s :: 'r flow) = Next t \<Longrightarrow> handlers t = handlers s"
  using obeys_end [OF make_driver_keeps_handlers, of E cfg s "Next t"] by (simp add: same_handlers_def)

lemma make_driver_no_return: "(eth_make_driver E cfg s :: 'r flow) \<noteq> Return r t"
  by (auto simp: eth_make_driver_def set_mac_phy_def eth_new_def error_check_def flow_iffs
      simp del: block_more block_last split: eth_driver.split if_splits)

lemmas up_down = asprintf_def malloc_def store_text_def eth_new_def error_check_def c_assert_def flow_iffs


lemma wifi_start_handlers:
  assumes "wifi_start E cfg s = Return netif t"
  shows "handlers t = handlers s \<union> wifi_handlers cfg"
proof -
  have "handlers t = (let H = insert (''IP_EVENT'', ''IP_EVENT_STA_GOT_IP'', Ref_on_got_ip)
      (insert (''WIFI_EVENT'', ''WIFI_EVENT_STA_DISCONNECTED'', Ref_on_wifi_disconnect) (handlers s)) in
    if CONNECT_IPV6 cfg then insert (''IP_EVENT'', ''IP_EVENT_GOT_IP6'', Ref_on_got_ipv6)
      (insert (''WIFI_EVENT'', ''WIFI_EVENT_STA_CONNECTED'', Ref_on_wifi_connect) H) else H)"
    using assms
    by (cases "CONNECT_IPV6 cfg")
      (auto simp: wifi_start_def up_down free_no_return
        simp del: block_more block_last dest!: free_Next split: if_splits del: equalityI)
  then show ?thesis by (auto simp: wifi_handlers_def Let_def)
qed

lemma eth_start_handlers:
  assumes "eth_start E cfg s = Return netif t"
  shows "handlers t = handlers s \<union> eth_handlers cfg"
proof -
  have "handlers t = (let H = insert (''IP_EVENT'', ''IP_EVENT_ETH_GOT_IP'', Ref_on_got_ip) (handlers s) in
    if CONNECT_IPV6 cfg then insert (''IP_EVENT'', ''IP_EVENT_GOT_IP6'', Ref_on_got_ipv6)
      (insert (''ETH_EVENT'', ''ETHERNET_EVENT_CONNECTED'', Ref_on_eth_event) H) else H)"
    using assms
    by (cases "CONNECT_IPV6 cfg")
      (auto simp: eth_start_def up_down free_no_return make_driver_no_return
        simp del: block_more block_last dest!: free_Next make_driver_Next split: if_splits del: equalityI)
  then show ?thesis by (auto simp: eth_handlers_def Let_def)
qed

lemma lookup_Return:
  "get_example_netif_from_desc n E d s = Return i u \<Longrightarrow> handlers u = handlers s"
  using obeys_end [OF same_handlers.obeys_get_example_netif_from_desc, of n E d s "Return i u"]
  by (simp add: same_handlers_def)

lemma wifi_stop_handlers:
  assumes "wifi_stop n E cfg s = Next t \<or> wifi_stop n E cfg s = Return () t"
  shows "handlers t = handlers s - wifi_handlers cfg"
proof -
  have "handlers t = (let H = handlers s -
      {(''WIFI_EVENT'', ''WIFI_EVENT_STA_DISCONNECTED'', Ref_on_wifi_disconnect)} -
      {(''IP_EVENT'', ''IP_EVENT_STA_GOT_IP'', Ref_on_got_ip)} in
    if CONNECT_IPV6 cfg then H - {(''IP_EVENT'', ''IP_EVENT_GOT_IP6'', Ref_on_got_ipv6)} -
      {(''WIFI_EVENT'', ''WIFI_EVENT_STA_CONNECTED'', Ref_on_wifi_connect)} else H)"
    using assms
    by (cases "CONNECT_IPV6 cfg")
      (auto simp: wifi_stop_def error_check_def flow_iffs
        simp del: block_more block_last dest!: lookup_Return split: if_splits del: equalityI)
  then show ?thesis by (auto simp: wifi_handlers_def Let_def)
qed

lemma eth_stop_handlers:
  assumes "eth_stop n E cfg s = Next t \<or> eth_stop n E cfg s = Return () t"
  shows "handlers t = handlers s - eth_handlers cfg"
proof -
  have "handlers t = (let H = handlers s - {(''IP_EVENT'', ''IP_EVENT_ETH_GOT_IP'', Ref_on_got_ip)} in
    if CONNECT_IPV6 cfg then H - {(''IP_EVENT'', ''IP_EVENT_GOT_IP6'', Ref_on_got_ipv6)} -
      {(''ETH_EVENT'', ''ETHERNET_EVENT_CONNECTED'', Ref_on_eth_event)} else H)"
    using assms
    by (cases "CONNECT_IPV6 cfg")
      (auto simp: eth_stop_def error_check_def flow_iffs
        simp del: block_more block_last dest!: lookup_Return split: if_splits del: equalityI)
  then show ?thesis by (auto simp: eth_handlers_def Let_def)
qed

definition interface_handlers :: "sdk \<Rightarrow> (string \<times> string \<times> handler) set" where
  "interface_handlers cfg = (if CONNECT_WIFI cfg then wifi_handlers cfg else {}) \<union>
     (if CONNECT_ETHERNET cfg then eth_handlers cfg else {})"

lemma interface_up_handlers:
  assumes "interface_up b f s = Next t" "\<And>i u. f s = Return i u \<Longrightarrow> handlers u = handlers s \<union> H"
  shows "handlers t = handlers s \<union> (if b then H else {})"
  using assms by (auto simp: interface_up_def flow_iffs simp del: block_more block_last split: if_splits)

lemma start_handlers:
  assumes "start E cfg s = (Next t :: unit flow)"
  shows "handlers t = handlers s \<union> interface_handlers cfg"
proof -
  obtain u v where u: "interface_up (CONNECT_WIFI cfg) (wifi_start E cfg) s = (Next u :: unit flow)"
    and v: "interface_up (CONNECT_ETHERNET cfg) (eth_start E cfg) u = (Next v :: unit flow)"
    and t: "handlers t = handlers v"
    using assms unfolding start_eq interface_up_def [symmetric] block_Cons_Next
    by (auto simp: flow_iffs simp del: block_more block_last split: if_splits)
  have "handlers u = handlers s \<union> (if CONNECT_WIFI cfg then wifi_handlers cfg else {})"
    "handlers v = handlers u \<union> (if CONNECT_ETHERNET cfg then eth_handlers cfg else {})"
    by (rule interface_up_handlers [OF u wifi_start_handlers]
        interface_up_handlers [OF v eth_start_handlers]; assumption)+
  then show ?thesis using t by (simp add: interface_handlers_def Un_assoc)
qed

definition interface_down :: "bool \<Rightarrow> unit stmt \<Rightarrow> unit stmt" where
  "interface_down b f = only_if b (block [call_void f,
     upd (\<lambda>s. s\<lparr>s_active_interfaces := s_active_interfaces s - 1\<rparr>)])"

lemma interface_down_Next:
  assumes "interface_down b f s = Next t" and "obeys same_active f"
    and "\<And>u. f s = Next u \<or> f s = Return () u \<Longrightarrow> handlers u = handlers s - H"
  shows "handlers t = handlers s - (if b then H else {}) \<and>
    s_active_interfaces t = s_active_interfaces s - (if b then 1 else 0) \<and>
    s_semph_get_ip_addrs t = s_semph_get_ip_addrs s"
proof (cases b)
  case True
  with assms(1) obtain u where u: "f s = Next u \<or> f s = Return () u"
    and t: "t = u\<lparr>s_active_interfaces := s_active_interfaces u - 1\<rparr>"
    by (auto simp: interface_down_def flow_iffs simp del: block_more block_last)
  have "same_active s u" using assms(2) u by (auto simp: obeys_def dest: spec [of _ s])
  then show ?thesis using True t assms(3) [OF u] by (simp add: same_active_def)
qed (use assms(1) in \<open>simp add: interface_down_def flow_iffs\<close>)

lemma stop_Next:
  assumes "stop n E cfg s = Next t"
  shows "handlers t = handlers s - interface_handlers cfg \<and>
    s_active_interfaces t = s_active_interfaces s - configured cfg \<and>
    s_semph_get_ip_addrs t = s_semph_get_ip_addrs s"
proof -
  obtain u where u: "interface_down (CONNECT_WIFI cfg) (wifi_stop n E cfg) s = Next u"
    and t: "interface_down (CONNECT_ETHERNET cfg) (eth_stop n E cfg) u = Next t"
    using assms unfolding stop_def interface_down_def [symmetric] by (auto simp: flow_iffs simp del: block_more)
  note interface_down_Next [OF u same_active.obeys_wifi_stop wifi_stop_handlers]
    interface_down_Next [OF t same_active.obeys_eth_stop eth_stop_handlers]
  then show ?thesis by (simp add: interface_handlers_def configured_def Diff_Un Diff_Int_distrib Diff_eq Int_assoc)
qed

section \<open>Connecting and disconnecting\<close>

lemma connect_handlers:
  assumes "fisi_example_connect n E cfg sched s = Return 0 t"
  shows "handlers t = handlers s \<union> interface_handlers cfg"
proof -
  let ?reg = "logged (Sys (Esp_register_shutdown_handler ''stop''))"
  obtain u v where u: "(call_void (start E cfg) s :: int flow) = Next u"
    and v: "(take_all (nat (NR_OF_IP_ADDRESSES_TO_WAIT_FOR cfg u)) E cfg sched (?reg u) :: int flow) = Next v"
    and t: "(print_netifs n E cfg 0 0 v :: int flow) = Next t"
    using connect_returned [OF assms] .
  from u have "start E cfg s = Next u" by (simp add: flow_iffs start_no_return)
  note start_handlers [OF this]
  moreover have "same_handlers (?reg u) v"
    by (rule obeys_end [OF same_handlers_event.obeys_take_all v, simplified]) auto
  moreover have "same_handlers v t"
    using obeys_end [OF same_handlers_event.obeys_print_netifs t] by simp
  ultimately show ?thesis by (simp add: same_handlers_def)
qed

lemma stop_no_return: "stop n E cfg s \<noteq> Return r t"
  by (auto simp: stop_def flow_iffs simp del: block_more block_last)

lemma disconnect_returned:
  assumes "example_disconnect n E cfg s = Return 0 t"
  obtains u where "stop n E cfg
      ((logged (Rtos (VSemaphoreDelete (s_semph_get_ip_addrs s))) s)\<lparr>s_semph_get_ip_addrs := 0\<rparr>) = Next u"
    "t = logged (Sys (Esp_unregister_shutdown_handler ''stop'')) u"
  using assms that unfolding example_disconnect_def example_disconnect_during_def
  by (auto simp: flow_iffs INVALID_STATE_def error_check_def stop_no_return simp del: block_more block_last
      split: if_splits)

text \<open>
  C20: Disconnecting undoes connecting, for Wi-Fi, Ethernet or both, with and without IPv6: if
  connecting returned 0, the handlers of exactly the configured interfaces have been added; if
  disconnecting, later and whatever the libraries answer, returns 0 too, the handlers and the
  number of active interfaces are those from before connecting, and the semaphore is gone, so
  that connecting is not refused any more.
\<close>

theorem disconnect_undoes_connect:
  assumes "fisi_example_connect n E cfg sched s = Return 0 t" "EXAMPLE_DO_CONNECT cfg"
    and "handlers s \<inter> interface_handlers cfg = {}"
    and "handlers u = handlers t" "s_active_interfaces u = s_active_interfaces t"
    and "example_disconnect m E' cfg u = Return 0 v"
  shows "handlers t = handlers s \<union> interface_handlers cfg \<and> handlers v = handlers s \<and>
    s_active_interfaces v = s_active_interfaces s \<and> s_semph_get_ip_addrs v = 0"
proof -
  let ?u = "(logged (Rtos (VSemaphoreDelete (s_semph_get_ip_addrs u))) u)\<lparr>s_semph_get_ip_addrs := 0\<rparr>"
  obtain w where w: "stop m E' cfg ?u = Next w"
    and v: "v = logged (Sys (Esp_unregister_shutdown_handler ''stop'')) w"
    by (rule disconnect_returned [OF assms(6)])
  have t: "handlers t = handlers s \<union> interface_handlers cfg" by (rule connect_handlers [OF assms(1)])
  have "handlers v = handlers s" using stop_Next [OF w] v t assms(3,4) by auto
  moreover have "s_active_interfaces v = s_active_interfaces s"
    using stop_Next [OF w] v assms(5) connect_returned_counts [OF assms(1,2)] by simp
  moreover have "s_semph_get_ip_addrs v = 0" using stop_Next [OF w] v by simp
  ultimately show ?thesis using t by simp
qed

section \<open>Disconnecting succeeds\<close>

definition down_env :: "env \<Rightarrow> bool" where
  "down_env E \<longleftrightarrow> (\<forall>s. (\<forall>b i h. int_reply E s (Netif (Esp_event_handler_unregister b i h)) = 0) \<and>
     (\<forall>n a. n \<in> {''esp_eth_stop'', ''esp_eth_del_netif_glue'', ''esp_eth_driver_uninstall'',
        ''s_phy->del'', ''s_mac->del''} \<longrightarrow> int_reply E s (EthDrv (Eth n a)) = 0) \<and>
     (\<forall>h. int_reply E s (Sys (Esp_unregister_shutdown_handler h)) = 0))"

lemma lookup_run:
  assumes "sta_env E" "netif_list E ns name" "length ns < m"
  shows "\<exists>i t. get_example_netif_from_desc m E d s = Return i t \<and> same_driver s t"
proof -
  obtain i t where t: "get_example_netif_from_desc m E d s = Return i t"
    using get_example_netif_from_desc_run [OF assms(2), of s m d] assms(1,3) by (auto simp: sta_env_def)
  moreover have "same_driver s t"
    using obeys_end [OF same_driver.obeys_get_example_netif_from_desc t] by simp
  ultimately show ?thesis by blast
qed

lemma wifi_stop_run:
  assumes "sta_env E" "down_env E" "netif_list E ns name" "length ns < m"
  shows "\<exists>t. wifi_stop m E cfg s = Next t"
proof -
  obtain i t where "get_example_netif_from_desc m E ''sta'' s = Return i t"
    using lookup_run [OF assms(1,3,4)] by blast
  with assms(1,2) show ?thesis
    by (simp add: wifi_stop_def sta_env_def down_env_def ERR_WIFI_NOT_INIT_def stmt_simps)
qed

lemma eth_stop_run:
  assumes "sta_env E" "down_env E" "netif_list E ns name" "length ns < m" "driver_made s"
  shows "\<exists>t. eth_stop m E cfg s = Next t"
proof -
  obtain i t where "get_example_netif_from_desc m E ''eth'' s = Return i t" "same_driver s t"
    using lookup_run [OF assms(1,3,4)] by blast
  with assms(2,5) show ?thesis
    by (simp add: eth_stop_def down_env_def driver_made_def same_driver_def stmt_simps)
qed

lemma stop_run:
  assumes env: "sta_env E" "down_env E" "netif_list E ns name" "length ns < m"
    and s: "CONNECT_ETHERNET cfg \<longrightarrow> driver_made s"
  shows "\<exists>t. stop m E cfg s = Next t"
proof -
  obtain u where u: "wifi_stop m E cfg s = Next u" using wifi_stop_run [OF env] by blast
  let ?u = "if CONNECT_WIFI cfg then u\<lparr>s_active_interfaces := s_active_interfaces u - 1\<rparr> else s"
  have "driver_made ?u \<longleftrightarrow> driver_made s"
    using obeys_end [OF same_driver.obeys_wifi_stop u] by (auto simp: same_driver_def driver_made_def)
  then obtain v where "CONNECT_ETHERNET cfg \<longrightarrow> eth_stop m E cfg ?u = Next v"
    using eth_stop_run [OF env] s by blast
  with u show ?thesis by (auto simp: stop_def only_if_def call_void_def upd_def skip_def)
qed

lemma disconnect_run:
  assumes "sta_env E" "down_env E" "netif_list E ns name" "length ns < m"
    and "CONNECT_ETHERNET cfg \<longrightarrow> driver_made s" "s_semph_get_ip_addrs s \<noteq> 0"
  shows "\<exists>t. example_disconnect m E cfg s = Return 0 t"
proof -
  let ?s = "(logged (Rtos (VSemaphoreDelete (s_semph_get_ip_addrs s))) s)\<lparr>s_semph_get_ip_addrs := 0\<rparr>"
  have "CONNECT_ETHERNET cfg \<longrightarrow> driver_made ?s" using assms(5) by (simp add: driver_made_def)
  then obtain t where "stop m E cfg ?s = Next t" using stop_run [OF assms(1-4)] by blast
  with assms(2,6) show ?thesis
    by (simp add: example_disconnect_def example_disconnect_during_def stmt_simps down_env_def)
qed

text \<open>The same device, with both interfaces, taken down; and with Ethernet on the SPI bus.\<close>

lemma down_station: "down_env station"
  by (auto simp: down_env_def station_def)

definition spi_sdk :: sdk where
  "spi_sdk = both_sdk\<lparr>ETH_DRIVER := SPI_ETHERNET W5500\<rparr>"

lemma up_and_down:
  assumes "EXAMPLE_DO_CONNECT cfg"
  shows "\<exists>t u. fisi_example_connect 3 station cfg (\<lambda>_. [GOT_IP 5 0x0100a8c0]) init_machine = Return 0 t \<and>
    example_disconnect 3 station cfg t = Return 0 u"
proof -
  have "uses_spi cfg \<longrightarrow> \<not> spi_used init_machine" by (simp add: spi_used_def init_machine_def)
  then obtain t where t: "fisi_example_connect 3 station cfg (\<lambda>_. [GOT_IP 5 0x0100a8c0]) init_machine = Return 0 t"
    "s_semph_get_ip_addrs t \<noteq> 0" "CONNECT_ETHERNET cfg \<longrightarrow> driver_made t"
    using connect_run [OF station_laws _ supplies_got_ip assms _ init_connect(1,2), of 3] by auto
  have "sta_env station" using station_laws(2) by (simp add: nets_env_def)
  from disconnect_run [OF this down_station station_laws(3) _ t(3,2), of 3] t(1) show ?thesis by auto
qed

theorem disconnect_undoes_connect_witness:
  "\<exists>t u. fisi_example_connect 3 station both_sdk (\<lambda>_. [GOT_IP 5 0x0100a8c0]) init_machine = Return 0 t \<and>
    (''IP_EVENT'', ''IP_EVENT_ETH_GOT_IP'', Ref_on_got_ip) \<in> handlers t \<and>
    example_disconnect 3 station both_sdk t = Return 0 u \<and> handlers u = {}"
proof -
  obtain t u where t: "fisi_example_connect 3 station both_sdk (\<lambda>_. [GOT_IP 5 0x0100a8c0]) init_machine = Return 0 t"
    and u: "example_disconnect 3 station both_sdk t = Return 0 u"
    using up_and_down [OF init_connect(4)] by blast
  have "handlers init_machine = {}" by (simp add: handlers_def init_machine_def)
  with disconnect_undoes_connect [OF t init_connect(4) _ refl refl u] t u show ?thesis
    by (auto simp: interface_handlers_def eth_handlers_def both_sdk_def build_sdk_def)
qed

text \<open>
  C21: The life of a connection: where connecting succeeds, disconnecting succeeds too, and then
  connecting again: for Wi-Fi, for Ethernet with any driver that is not on the SPI bus, and for
  both together.
\<close>

theorem reconnect_succeeds:
  assumes "net_env E name ty" "nets_env cfg E" "down_env E" "netif_list E ns name" "printable E ns"
    and "length ns < n" "supplies cfg name ty sched" "EXAMPLE_DO_CONNECT cfg" "\<not> uses_spi cfg"
    and "0 \<le> s_active_interfaces s" "s_semph_get_ip_addrs s = 0"
  shows "\<exists>t u v. fisi_example_connect n E cfg sched s = Return 0 t \<and>
    example_disconnect n E cfg t = Return 0 u \<and> s_semph_get_ip_addrs u = 0 \<and>
    s_active_interfaces u = s_active_interfaces s \<and> fisi_example_connect n E cfg sched u = Return 0 v"
proof -
  have spi: "uses_spi cfg \<longrightarrow> \<not> spi_used w" for w using assms(9) by simp
  note run = connect_run [OF assms(1,2,4,5) less_imp_le [OF assms(6)] assms(7,8) spi]
  obtain t where t: "fisi_example_connect n E cfg sched s = Return 0 t" "s_semph_get_ip_addrs t \<noteq> 0"
    "CONNECT_ETHERNET cfg \<longrightarrow> driver_made t"
    using run [OF assms(10,11)] by blast
  obtain u where u: "example_disconnect n E cfg t = Return 0 u"
    using disconnect_run [OF _ assms(3,4,6) t(3,2)] assms(2) by (auto simp: nets_env_def)
  obtain w where "stop n E cfg
      ((logged (Rtos (VSemaphoreDelete (s_semph_get_ip_addrs t))) t)\<lparr>s_semph_get_ip_addrs := 0\<rparr>) = Next w"
    "u = logged (Sys (Esp_unregister_shutdown_handler ''stop'')) w"
    by (rule disconnect_returned [OF u])
  then have "s_semph_get_ip_addrs u = 0" "s_active_interfaces u = s_active_interfaces s"
    using stop_Next connect_returned_counts [OF t(1) assms(8)] by fastforce+
  with run [of u] assms(10) t(1) u show ?thesis by auto
qed

theorem reconnect_succeeds_witness:
  "\<exists>t u v. fisi_example_connect 3 station both_sdk (\<lambda>_. [GOT_IP 5 0x0100a8c0]) init_machine = Return 0 t \<and>
    example_disconnect 3 station both_sdk t = Return 0 u \<and>
    fisi_example_connect 3 station both_sdk (\<lambda>_. [GOT_IP 5 0x0100a8c0]) u = Return 0 v"
proof -
  have "\<not> uses_spi both_sdk" by (simp add: uses_spi_def both_sdk_def build_sdk_def)
  from reconnect_succeeds [OF station_laws(1,2) down_station station_laws(3,4) _ supplies_got_ip
    init_connect(4) this init_connect(1,2), of 3]
  show ?thesis by auto
qed

section \<open>The SPI bus is never freed\<close>

text \<open>
  The bus has not been given back since \<open>s\<close>. It is held if initialising it has succeeded and it has
  not been given back since.
\<close>

definition frees :: "call \<Rightarrow> bool" where
  "frees c \<longleftrightarrow> (case c of EthDrv d \<Rightarrow> frees_bus d | _ \<Rightarrow> False)"

lemma frees_simps [simp]: "frees (EthDrv d) \<longleftrightarrow> frees_bus d" "\<not> is_driver c \<Longrightarrow> \<not> frees c"
  by (auto simp: frees_def split: call.split)

definition unfreed :: "machine \<Rightarrow> machine \<Rightarrow> bool" where
  "unfreed s t \<longleftrightarrow> (\<exists>cs. calls t = calls s @ cs \<and> (\<forall>c \<in> set cs. \<not> frees c))"

abbreviation spi_init :: "sdk \<Rightarrow> call" where
  "spi_init cfg \<equiv> EthDrv (Eth ''spi_bus_initialize'' (buscfg (ETH cfg)))"

definition bus_held :: "env \<Rightarrow> sdk \<Rightarrow> machine \<Rightarrow> bool" where
  "bus_held E cfg t \<longleftrightarrow> (\<exists>s. int_reply E s (spi_init cfg) = 0 \<and> unfreed (logged (spi_init cfg) s) t)"

text \<open>
  The documented behaviour of the bus driver: a host that has been initialised and not freed since is
  in use, and initialising it again gives \<open>ESP_ERR_INVALID_STATE\<close>.
\<close>

definition bus_exclusive :: "env \<Rightarrow> sdk \<Rightarrow> bool" where
  "bus_exclusive E cfg \<longleftrightarrow> (\<forall>s t. int_reply E s (spi_init cfg) = 0 \<and> unfreed (logged (spi_init cfg) s) t \<longrightarrow>
     int_reply E t (spi_init cfg) = INVALID_STATE)"

lemma unfreed_logged: "\<not> frees c \<Longrightarrow> unfreed s (logged c s)"
  by (auto simp: unfreed_def)

lemma unfreed_trans: "unfreed s t \<Longrightarrow> unfreed t u \<Longrightarrow> unfreed s u"
  unfolding unfreed_def by (elim exE conjE) auto

interpretation unfreed: wifi_relation unfreed
proof unfold_locales
  show "unfreed s u" if "unfreed s t" "unfreed t u" for s t u using that by (rule unfreed_trans)
  show "unfreed s (logged (EthDrv d) s)" if "\<not> frees_bus d" for d s
    using that by (simp add: unfreed_logged)
qed (auto simp: unfreed_logged dest!: event_not_driver, auto simp: unfreed_def)

lemma bus_held_later: "bus_held E cfg s \<Longrightarrow> unfreed s t \<Longrightarrow> bus_held E cfg t"
  unfolding bus_held_def by (blast intro: unfreed_trans)

lemma bus_held_update [simp]:
  "bus_held E cfg s \<Longrightarrow> \<not> frees c \<Longrightarrow> bus_held E cfg (logged c s)"
  "bus_held E cfg (s\<lparr>live := l\<rparr>) = bus_held E cfg s" "bus_held E cfg (s\<lparr>buffers := b\<rparr>) = bus_held E cfg s"
  "bus_held E cfg (s\<lparr>s_example_esp_netif := i\<rparr>) = bus_held E cfg s"
  "bus_held E cfg (s\<lparr>s_active_interfaces := i\<rparr>) = bus_held E cfg s"
  "bus_held E cfg (s\<lparr>s_semph_get_ip_addrs := i\<rparr>) = bus_held E cfg s"
  "bus_held E cfg (s\<lparr>s_eth_handle := i\<rparr>) = bus_held E cfg s"
  "bus_held E cfg (s\<lparr>s_eth_glue := i\<rparr>) = bus_held E cfg s"
  by (auto intro: bus_held_later unfreed_logged) (auto simp: bus_held_def unfreed_def)

lemma make_driver_uses_bus:
  assumes "(eth_make_driver E cfg s :: 'r flow) = Next t" "uses_spi cfg"
  shows "bus_held E cfg t"
proof -
  obtain chip where chip: "ETH_DRIVER cfg = SPI_ETHERNET chip"
    using assms(2) by (auto simp: uses_spi_def split: eth_driver.splits)
  let ?rest = "ext_out E (EthDrv (Eth ''spi_bus_add_device'' (devcfg chip (ETH cfg))))
    (\<lambda>err spi_handle. block [error_check err, set_mac_phy E (''esp_eth_mac_new_'' @ spi_name chip)
      [spi_handle, SPI_INT_GPIO (ETH cfg)] (''esp_eth_phy_new_'' @ spi_name chip)
      (phy_config (ETH cfg))]) :: 'r stmt"
  obtain u where "int_reply E u (spi_init cfg) = 0" and t: "?rest (logged (spi_init cfg) u) = Next t"
    using assms(1) chip by (auto simp: eth_make_driver_def flow_iffs simp del: block_more)
  moreover have "obeys unfreed ?rest"
    by (intro unfreed.setup_intros unfreed.obeys_set_mac_phy) simp_all
  from obeys_end [OF this t] have "unfreed (logged (spi_init cfg) u) t" by simp
  ultimately show ?thesis unfolding bus_held_def by blast
qed

lemma free_bus_held: "(free p s :: 'r flow) = Next t \<Longrightarrow> bus_held E cfg s \<Longrightarrow> bus_held E cfg t"
  by (rule bus_held_later, assumption, drule obeys_end [OF unfreed.obeys_free]) simp

lemma eth_start_uses_bus:
  assumes "eth_start E cfg s = Return i t" "uses_spi cfg"
  shows "bus_held E cfg t"
  using assms(1)
  by (cases "CONNECT_IPV6 cfg")
    (auto simp: eth_start_def up_down free_no_return make_driver_no_return
      simp del: block_more block_last dest!: make_driver_uses_bus [OF _ assms(2)] split: if_splits)

lemma start_uses_bus:
  assumes "start E cfg s = (Next t :: unit flow)" "uses_spi cfg"
  shows "bus_held E cfg t"
proof -
  have "CONNECT_ETHERNET cfg" using assms(2) by (auto simp: uses_spi_def split: eth_driver.splits)
  then obtain u v i w where "eth_start E cfg u = Return i v"
    and t: "t = w" "bus_held E cfg v \<Longrightarrow> bus_held E cfg w"
    using assms(1) unfolding start_eq
    by (auto simp: flow_iffs simp del: block_more block_last split: if_splits)
  then show ?thesis using eth_start_uses_bus assms(2) by blast
qed

lemma connect_uses_bus:
  assumes "fisi_example_connect n E cfg sched s = Return 0 t" "uses_spi cfg"
  shows "bus_held E cfg t"
proof -
  let ?reg = "logged (Sys (Esp_register_shutdown_handler ''stop''))"
  obtain u v where u: "(call_void (start E cfg) s :: int flow) = Next u"
    and v: "(take_all (nat (NR_OF_IP_ADDRESSES_TO_WAIT_FOR cfg u)) E cfg sched (?reg u) :: int flow) = Next v"
    and t: "(print_netifs n E cfg 0 0 v :: int flow) = Next t"
    using connect_returned [OF assms(1)] .
  from u have "start E cfg s = Next u" by (simp add: flow_iffs start_no_return)
  then have "bus_held E cfg (?reg u)" using start_uses_bus assms(2) by simp
  moreover have "unfreed (?reg u) v"
    by (rule obeys_end [OF unfreed.obeys_take_all v, simplified]) (simp add: unfreed_logged)
  moreover have "unfreed v t" using obeys_end [OF unfreed.obeys_print_netifs t] by simp
  ultimately show ?thesis by (blast intro: bus_held_later)
qed

lemma start_bus_in_use:
  assumes env: "nets_env cfg E" "uses_spi cfg" "bus_held E cfg s"
    and law: "\<And>s. bus_held E cfg s \<Longrightarrow> int_reply E s (spi_init cfg) = INVALID_STATE"
  shows "\<exists>t. start E cfg s = Fault (Error_Check INVALID_STATE) t"
proof -
  have sta: "sta_env E" using env by (simp add: nets_env_def)
  have eth: "CONNECT_ETHERNET cfg" using env(2) by (auto simp: uses_spi_def split: eth_driver.splits)
  have fault: "\<exists>t. eth_start E cfg u = Fault (Error_Check INVALID_STATE) t" if "bus_held E cfg u" for u
  proof -
    have "int_reply E s (Libc (Malloc k)) \<notin> set (live s)" for s k
      using sta by (simp add: sta_env_def fresh_blocks_def)
    with env(1,2) sta law that eth show ?thesis
      by (cases "ETH_DRIVER cfg")
        (simp_all add: nets_env_def sta_env_def eth_env_def uses_spi_def eth_start_def eth_make_driver_def
          asprintf_def stmt_simps INVALID_STATE_def)
  qed
  obtain i t where wifi: "wifi_start E cfg s = Return i t" using wifi_start_run [OF sta] by blast
  have "bus_held E cfg t"
    using bus_held_later [OF env(3)] obeys_end [OF unfreed.obeys_wifi_start wifi] by simp
  with wifi fault [of "if CONNECT_WIFI cfg then t\<lparr>s_example_esp_netif := i,
      s_active_interfaces := s_active_interfaces t + 1\<rparr> else s"] env(3) eth
  show ?thesis by (auto simp: start_eq only_if_def call_fn_def upd_def skip_def)
qed

text \<open>
  C38: With Ethernet on the SPI bus a second connection is impossible. Initialising a bus that has
  been initialised and not freed since gives \<open>ESP_ERR_INVALID_STATE\<close>; neither connecting nor
  disconnecting ever frees it, so, after both have returned 0, connecting once more is stopped by
  the error check, which restarts the device.
\<close>

theorem spi_reconnect_aborts:
  assumes "fisi_example_connect n E cfg sched s = Return 0 t" "example_disconnect m E cfg t = Return 0 u"
    and "nets_env cfg E" "uses_spi cfg" "bus_exclusive E cfg"
  shows "\<exists>v. fisi_example_connect n E cfg sched u = Fault (Error_Check INVALID_STATE) v"
proof -
  obtain w where w: "stop m E cfg
      ((logged (Rtos (VSemaphoreDelete (s_semph_get_ip_addrs t))) t)\<lparr>s_semph_get_ip_addrs := 0\<rparr>) = Next w"
    "u = logged (Sys (Esp_unregister_shutdown_handler ''stop'')) w"
    by (rule disconnect_returned [OF assms(2)])
  have "unfreed t u" using obeys_end [OF unfreed.obeys_example_disconnect assms(2)] by simp
  then have "bus_held E cfg u" using bus_held_later [OF connect_uses_bus [OF assms(1,4)]] by blast
  moreover have "int_reply E y (spi_init cfg) = INVALID_STATE" if "bus_held E cfg y" for y
    using that assms(5) unfolding bus_held_def bus_exclusive_def by blast
  ultimately obtain v where "start E cfg u = Fault (Error_Check INVALID_STATE) v"
    using start_bus_in_use [OF assms(3,4)] by blast
  moreover have "s_semph_get_ip_addrs u = 0" using stop_Next [OF w(1)] w(2) by simp
  ultimately show ?thesis
    by (simp add: fisi_example_connect_def using_state_def only_if_def skip_def call_void_def)
qed

lemma bus_taken_append:
  "\<forall>c \<in> set ds. \<not> frees c \<Longrightarrow> bus_taken cs \<Longrightarrow> bus_taken (ds @ cs)"
proof (induction ds)
  case (Cons d ds)
  show ?case
  proof (cases d)
    case (EthDrv e)
    with Cons show ?thesis by (cases e) simp
  qed (use Cons in simp_all)
qed simp

lemma unfreed_used: "unfreed s t \<Longrightarrow> spi_used s \<Longrightarrow> spi_used t"
  by (auto simp: unfreed_def spi_used_def intro!: bus_taken_append)

theorem spi_reconnect_aborts_witness:
  "\<exists>t u v. fisi_example_connect 3 station spi_sdk (\<lambda>_. [GOT_IP 5 0x0100a8c0]) init_machine = Return 0 t \<and>
    example_disconnect 3 station spi_sdk t = Return 0 u \<and>
    fisi_example_connect 3 station spi_sdk (\<lambda>_. [GOT_IP 5 0x0100a8c0]) u = Fault (Error_Check INVALID_STATE) v"
proof -
  have spi: "EXAMPLE_DO_CONNECT spi_sdk" "uses_spi spi_sdk"
    by (simp_all add: spi_sdk_def both_sdk_def build_sdk_def EXAMPLE_DO_CONNECT_def uses_spi_def)
  obtain t u where t: "fisi_example_connect 3 station spi_sdk (\<lambda>_. [GOT_IP 5 0x0100a8c0]) init_machine = Return 0 t"
    and u: "example_disconnect 3 station spi_sdk t = Return 0 u"
    using up_and_down [OF spi(1)] by blast
  have "int_reply station y (spi_init spi_sdk) = INVALID_STATE"
    if "unfreed (logged (spi_init spi_sdk) x) y" for x y
  proof -
    have "spi_used y" by (rule unfreed_used [OF that]) simp
    then show ?thesis by (simp add: station_def)
  qed
  then have "bus_exclusive station spi_sdk" by (auto simp: bus_exclusive_def)
  from spi_reconnect_aborts [OF t u station_laws(2) spi(2) this] t u show ?thesis by blast
qed

end
