(* ===== verification/Preprocessor.thy ===== *)
theory Preprocessor
  imports Ctext "HOL-Library.Signed_Division"
begin

text \<open>
  What the C preprocessor does with the files of the build: object-like macros and their
  expansion, arithmetic conditions, and nested \<open>#if\<close> blocks that define further macros.
\<close>

section \<open>Macros\<close>

text \<open>A macro is defined as a number, as a string literal, or as another macro's name.\<close>

datatype macro = Num int | Text string | Same string

type_synonym macros = "(string \<times> macro) list"

text \<open>
  The expansion of a name: a macro that stands for another one is replaced by it, and is not
  expanded again while it is being replaced; a name that is not defined stays as it is.
\<close>

definition undef :: "string \<Rightarrow> macros \<Rightarrow> macros" where
  "undef x tab = filter (\<lambda>e. fst e \<noteq> x) tab"

lemma undef_shorter: "map_of tab x = Some m \<Longrightarrow> length (undef x tab) < length tab"
  unfolding undef_def by (rule length_filter_less [of "(x, m)"]) (auto dest: map_of_SomeD)

function expand :: "macros \<Rightarrow> string \<Rightarrow> macro" where
  "expand tab x =
     (case map_of tab x of None \<Rightarrow> Same x | Some (Same y) \<Rightarrow> expand (undef x tab) y
      | Some m \<Rightarrow> m)"
  by auto

termination
  by (relation "measure (\<lambda>(tab, x). length tab)") (auto simp: undef_shorter)

declare expand.simps [simp del]

definition defined :: "macros \<Rightarrow> string \<Rightarrow> bool" where
  "defined tab x \<longleftrightarrow> map_of tab x \<noteq> None"

text \<open>The value of \<open>#if x\<close>: an identifier that is left counts as 0, a string is an error.\<close>

definition if_value :: "macros \<Rightarrow> string \<Rightarrow> int option" where
  "if_value tab x = (case expand tab x of Num n \<Rightarrow> Some n | Same y \<Rightarrow> Some 0 | Text t \<Rightarrow> None)"

text \<open>
  Looking a name up one entry and one character at a time. The tables are long: the congruence
  rules keep the simplifier from normalising what is left of a table at every step.
\<close>

fun same_name :: "string \<Rightarrow> string \<Rightarrow> bool" where
  "same_name (x # xs) (y # ys) = (if x = y then same_name xs ys else False)"
| "same_name [] [] = True"
| "same_name _ _ = False"

lemma same_name_eq: "same_name xs ys \<longleftrightarrow> xs = ys"
  by (induction xs ys rule: same_name.induct) auto

fun find_macro :: "macros \<Rightarrow> string \<Rightarrow> macro option" where
  "find_macro [] x = None"
| "find_macro ((y, m) # tab) x = (if same_name x y then Some m else find_macro tab x)"

lemma find_macro_eq: "find_macro tab x = map_of tab x"
  by (induction tab) (auto simp: same_name_eq)

lemma find_macro_append:
  "find_macro (xs @ ys) x = (case find_macro xs x of None \<Rightarrow> find_macro ys x | Some m \<Rightarrow> Some m)"
  by (induction xs) auto

lemma find_macro_cong: "find_macro tab x = find_macro tab x" by (rule refl)
lemma same_name_cong: "same_name xs ys = same_name xs ys" by (rule refl)

section \<open>Conditions\<close>

text \<open>The arithmetic of conditions and of version numbers, and the conditions of \<open>#if\<close>.\<close>

datatype iexp =
  Lit int | Mac string | Quot iexp iexp | Rem iexp iexp | Times iexp iexp | Minus iexp iexp
| Shift iexp iexp | Bits iexp iexp

datatype cond =
  Defined string | Neg cond | Conj cond cond | Disj cond cond
| Less iexp iexp | Less_Eq iexp iexp | Equals iexp iexp

text \<open>\<open>defined(a) || defined(b) || ...\<close>\<close>

fun any_defined :: "string list \<Rightarrow> cond" where
  "any_defined [] = Neg (Equals (Lit 0) (Lit 0))"
| "any_defined [x] = Defined x"
| "any_defined (x # xs) = Disj (Defined x) (any_defined xs)"

text \<open>Division truncates, as in C; by zero it is an error. \<open>look\<close> gives the value of a name.\<close>

fun ieval :: "(string \<Rightarrow> int option) \<Rightarrow> iexp \<Rightarrow> int option" where
  "ieval look (Lit n) = Some n"
| "ieval look (Mac x) = look x"
| "ieval look (Quot a b) = Option.bind (ieval look a) (\<lambda>m. Option.bind (ieval look b) (\<lambda>n.
     if n = 0 then None else Some (m sdiv n)))"
| "ieval look (Rem a b) = Option.bind (ieval look a) (\<lambda>m. Option.bind (ieval look b) (\<lambda>n.
     if n = 0 then None else Some (m smod n)))"
| "ieval look (Times a b) = Option.bind (ieval look a) (\<lambda>m. map_option ((*) m) (ieval look b))"
| "ieval look (Minus a b) = Option.bind (ieval look a) (\<lambda>m. map_option ((-) m) (ieval look b))"
| "ieval look (Shift a b) = Option.bind (ieval look a) (\<lambda>m. Option.bind (ieval look b) (\<lambda>n.
     if n < 0 then None else Some (drop_bit (nat n) m)))"
| "ieval look (Bits a b) = Option.bind (ieval look a) (\<lambda>m. map_option (and m) (ieval look b))"

section \<open>Directives\<close>

text \<open>
  What a file may define: the digits of a number in decimal or hexadecimal, a string literal, an
  arithmetic value, another macro's text, or a literal followed by another macro's spelling.
\<close>

datatype body =
  Dec iexp | Hex iexp | Str string | Value iexp | Name string | Stringify string string

datatype directive =
  Define string body | Error | If_Else cond "directive list" "directive list"

abbreviation When :: "cond \<Rightarrow> directive list \<Rightarrow> directive" where
  "When c as \<equiv> If_Else c as []"

type_synonym defs = "(string \<times> body) list"

text \<open>An \<open>#if\<close> with its \<open>#elif\<close> branches and the \<open>#else\<close> branch.\<close>

definition chain :: "(cond \<times> directive list) list \<Rightarrow> directive list \<Rightarrow> directive list" where
  "chain branches otherwise = foldr (\<lambda>(c, b) r. [If_Else c b r]) branches otherwise"

text \<open>In a condition a name stands for the file's own definition, or else the compiler's.\<close>

definition has :: "macros \<Rightarrow> defs \<Rightarrow> string \<Rightarrow> bool" where
  "has P d x \<longleftrightarrow> map_of d x \<noteq> None \<or> defined P x"

definition if_look :: "macros \<Rightarrow> defs \<Rightarrow> string \<Rightarrow> int option" where
  "if_look P d x = (case map_of d x of
     None \<Rightarrow> if_value P x | Some (Value e) \<Rightarrow> ieval (if_value P) e | Some b \<Rightarrow> None)"

fun holds :: "macros \<Rightarrow> defs \<Rightarrow> cond \<Rightarrow> bool option" where
  "holds P d (Defined x) = Some (has P d x)"
| "holds P d (Neg c) = map_option Not (holds P d c)"
| "holds P d (Conj a b) = Option.bind (holds P d a) (\<lambda>v. if v then holds P d b else Some False)"
| "holds P d (Disj a b) = Option.bind (holds P d a) (\<lambda>v. if v then Some True else holds P d b)"
| "holds P d (Less a b) = Option.bind (ieval (if_look P d) a) (\<lambda>m.
     map_option ((<) m) (ieval (if_look P d) b))"
| "holds P d (Less_Eq a b) = Option.bind (ieval (if_look P d) a) (\<lambda>m.
     map_option ((\<le>) m) (ieval (if_look P d) b))"
| "holds P d (Equals a b) = Option.bind (ieval (if_look P d) a) (\<lambda>m.
     map_option ((=) m) (ieval (if_look P d) b))"

text \<open>\<open>None\<close>: the file does not compile.\<close>

fun run :: "macros \<Rightarrow> directive list \<Rightarrow> defs \<Rightarrow> defs option" where
  "run P [] d = Some d"
| "run P (Define x b # ds) d = run P ds ((x, b) # d)"
| "run P (Error # ds) d = None"
| "run P (If_Else c as bs # ds) d =
     Option.bind (holds P d c) (\<lambda>v. Option.bind (run P (if v then as else bs) d) (run P ds))"

section \<open>Strings built from macros\<close>

text \<open>
  The eight characters of a number, most significant digit first. The code adds the digit to \<open>'0'\<close>
  in both bases, so hexadecimal digits from ten on are the characters behind \<open>'9'\<close>.
\<close>

definition DEC :: "int \<Rightarrow> string" where
  "DEC n = map (\<lambda>k. char_of (48 + (n sdiv 10 ^ k) smod 10)) (rev [0..<8])"

definition HEX :: "int \<Rightarrow> string" where
  "HEX n = map (\<lambda>k. char_of (48 + and (drop_bit (4 * k) n) 15)) (rev [0..<8])"

definition int_of :: "macros \<Rightarrow> string \<Rightarrow> int option" where
  "int_of P x = (case expand P x of Num n \<Rightarrow> Some n | _ \<Rightarrow> None)"

text \<open>What a definition stands for in an initialiser; a name the compiler does not know is an error.\<close>

fun text_of :: "macros \<Rightarrow> body \<Rightarrow> string option" where
  "text_of P (Dec e) = map_option DEC (ieval (int_of P) e)"
| "text_of P (Hex e) = map_option HEX (ieval (int_of P) e)"
| "text_of P (Str s) = Some s"
| "text_of P (Value e) = None"
| "text_of P (Name x) = (case expand P x of Text t \<Rightarrow> Some t | _ \<Rightarrow> None)"
| "text_of P (Stringify s x) = map_option (\<lambda>n. s @ fmt_d n) (int_of P x)"

definition piece :: "macros \<Rightarrow> defs \<Rightarrow> string \<Rightarrow> string option" where
  "piece P d x = Option.bind (map_of d x) (text_of P)"

end
