(* ===== verification/Sdkconfig.thy ===== *)
theory Sdkconfig
  imports Preprocessor
begin

text \<open>
  \<^verbatim>\<open>build/config/sdkconfig.h\<close> and \<^verbatim>\<open>build/bootloader/config/sdkconfig.h\<close>: the options the firmware
  and its bootloader are compiled with, as tables in the order of the files. Every name of the
  tables starts with \<open>CONFIG_\<close> in the files; the prefix is left out.
\<close>

section \<open>The tables\<close>

definition sdkconfig_1 :: macros where
  "sdkconfig_1 =
    [(''IDF_CMAKE'', Num 1),
     (''IDF_TARGET_ARCH_XTENSA'', Num 1),
     (''IDF_TARGET'', Text ''esp32''),
     (''IDF_TARGET_ESP32'', Num 1),
     (''IDF_FIRMWARE_CHIP_ID'', Num 0x0000),
     (''SDK_TOOLPREFIX'', Text ''xtensa-esp32-elf-''),
     (''APP_BUILD_TYPE_APP_2NDBOOT'', Num 1),
     (''APP_BUILD_GENERATE_BINARIES'', Num 1),
     (''APP_BUILD_BOOTLOADER'', Num 1),
     (''APP_BUILD_USE_FLASH_SECTIONS'', Num 1),
     (''APP_COMPILE_TIME_DATE'', Num 1),
     (''APP_RETRIEVE_LEN_ELF_SHA'', Num 16),
     (''BOOTLOADER_OFFSET_IN_FLASH'', Num 0x1000),
     (''BOOTLOADER_COMPILER_OPTIMIZATION_SIZE'', Num 1),
     (''BOOTLOADER_LOG_LEVEL_INFO'', Num 1),
     (''BOOTLOADER_LOG_LEVEL'', Num 3),
     (''BOOTLOADER_FLASH_XMC_SUPPORT'', Num 1),
     (''BOOTLOADER_VDDSDIO_BOOST_1_9V'', Num 1),
     (''BOOTLOADER_REGION_PROTECTION_ENABLE'', Num 1),
     (''BOOTLOADER_WDT_ENABLE'', Num 1),
     (''BOOTLOADER_WDT_TIME_MS'', Num 9000),
     (''BOOTLOADER_RESERVE_RTC_SIZE'', Num 0x0),
     (''ESPTOOLPY_BAUD_OTHER_VAL'', Num 115200),
     (''ESPTOOLPY_FLASHMODE_DIO'', Num 1),
     (''ESPTOOLPY_FLASH_SAMPLE_MODE_STR'', Num 1),
     (''ESPTOOLPY_FLASHMODE'', Text ''dio''),
     (''ESPTOOLPY_FLASHFREQ_40M'', Num 1),
     (''ESPTOOLPY_FLASHFREQ'', Text ''40m''),
     (''ESPTOOLPY_FLASHSIZE_8MB'', Num 1),
     (''ESPTOOLPY_FLASHSIZE'', Text ''8MB''),
     (''ESPTOOLPY_FLASHSIZE_DETECT'', Num 1),
     (''ESPTOOLPY_BEFORE_RESET'', Num 1),
     (''ESPTOOLPY_BEFORE'', Text ''default_reset''),
     (''ESPTOOLPY_AFTER_RESET'', Num 1),
     (''ESPTOOLPY_AFTER'', Text ''hard_reset''),
     (''ESPTOOLPY_MONITOR_BAUD_115200B'', Num 1),
     (''ESPTOOLPY_MONITOR_BAUD_OTHER_VAL'', Num 115200),
     (''ESPTOOLPY_MONITOR_BAUD'', Num 115200),
     (''PARTITION_TABLE_CUSTOM'', Num 1),
     (''PARTITION_TABLE_CUSTOM_FILENAME'', Text ''partitions.csv''),
     (''PARTITION_TABLE_FILENAME'', Text ''partitions.csv''),
     (''PARTITION_TABLE_OFFSET'', Num 0x8000),
     (''PARTITION_TABLE_MD5'', Num 1),
     (''BROKER_URI'', Text ''mqtts://mqtt.eclipseprojects.io:8883''),
     (''BROKER_CERTIFICATE_OVERRIDE'', Text ''''),
     (''BROKER_BIN_SIZE_TO_SEND'', Num 20000),
     (''EXAMPLE_GPIO_RANGE_MIN'', Num 0),
     (''EXAMPLE_GPIO_RANGE_MAX'', Num 33),
     (''EXAMPLE_CONNECT_WIFI'', Num 1),
     (''EXAMPLE_WIFI_SSID'', Text ''Tenda_46DEA0''),
     (''EXAMPLE_WIFI_PASSWORD'', Text ''''),
     (''EXAMPLE_WIFI_SCAN_METHOD_ALL_CHANNEL'', Num 1),
     (''EXAMPLE_WIFI_SCAN_RSSI_THRESHOLD'', Num (-127)),
     (''EXAMPLE_WIFI_AUTH_OPEN'', Num 1),
     (''EXAMPLE_WIFI_CONNECT_AP_BY_SIGNAL'', Num 1),
     (''EXAMPLE_CONNECT_IPV6'', Num 1),
     (''EXAMPLE_CONNECT_IPV6_PREF_LOCAL_LINK'', Num 1),
     (''COMPILER_OPTIMIZATION_DEFAULT'', Num 1),
     (''COMPILER_OPTIMIZATION_ASSERTIONS_ENABLE'', Num 1),
     (''COMPILER_OPTIMIZATION_ASSERTION_LEVEL'', Num 2),
     (''COMPILER_HIDE_PATHS_MACROS'', Num 1),
     (''COMPILER_STACK_CHECK_MODE_NONE'', Num 1),
     (''APPTRACE_DEST_NONE'', Num 1),
     (''APPTRACE_LOCK_ENABLE'', Num 1),
     (''COAP_MBEDTLS_PSK'', Num 1),
     (''COAP_LOG_DEFAULT_LEVEL'', Num 0),
     (''ADC_DISABLE_DAC'', Num 1),
     (''SPI_MASTER_ISR_IN_IRAM'', Num 1),
     (''SPI_SLAVE_ISR_IN_IRAM'', Num 1),
     (''EFUSE_CODE_SCHEME_COMPAT_3_4'', Num 1),
     (''EFUSE_MAX_BLK_LEN'', Num 192),
     (''ESP_TLS_USING_MBEDTLS'', Num 1),
     (''ESP32_REV_MIN_0'', Num 1),
     (''ESP32_REV_MIN'', Num 0),
     (''ESP32_REV_MIN_FULL'', Num 0),
     (''ESP_REV_MIN_FULL'', Num 0),
     (''ESP32_REV_MAX_FULL_STR_OPT'', Num 1),
     (''ESP32_REV_MAX_FULL'', Num 399),
     (''ESP_REV_MAX_FULL'', Num 399),
     (''ESP32_DPORT_WORKAROUND'', Num 1),
     (''ESP32_DEFAULT_CPU_FREQ_160'', Num 1),
     (''ESP32_DEFAULT_CPU_FREQ_MHZ'', Num 160),
     (''ESP32_TRACEMEM_RESERVE_DRAM'', Num 0x0),
     (''ESP32_ULP_COPROC_RESERVE_MEM'', Num 0),
     (''ESP32_DEBUG_OCDAWARE'', Num 1),
     (''ESP32_BROWNOUT_DET'', Num 1),
     (''ESP32_BROWNOUT_DET_LVL_SEL_0'', Num 1),
     (''ESP32_BROWNOUT_DET_LVL'', Num 0),
     (''ESP32_TIME_SYSCALL_USE_RTC_FRC1'', Num 1),
     (''ESP32_RTC_CLK_SRC_INT_RC'', Num 1),
     (''ESP32_RTC_CLK_CAL_CYCLES'', Num 1024),
     (''ESP32_DEEP_SLEEP_WAKEUP_DELAY'', Num 2000),
     (''ESP32_XTAL_FREQ_40'', Num 1),
     (''ESP32_XTAL_FREQ'', Num 40),
     (''ESP32_DPORT_DIS_INTERRUPT_LVL'', Num 5),
     (''ADC_CAL_EFUSE_TP_ENABLE'', Num 1),
     (''ADC_CAL_EFUSE_VREF_ENABLE'', Num 1),
     (''ADC_CAL_LUT_ENABLE'', Num 1),
     (''ESP_ERR_TO_NAME_LOOKUP'', Num 1),
     (''ETH_ENABLED'', Num 1),
     (''ETH_USE_ESP32_EMAC'', Num 1),
     (''ETH_PHY_INTERFACE_RMII'', Num 1),
     (''ETH_RMII_CLK_INPUT'', Num 1),
     (''ETH_RMII_CLK_IN_GPIO'', Num 0),
     (''ETH_DMA_BUFFER_SIZE'', Num 512),
     (''ETH_DMA_RX_BUFFER_NUM'', Num 10),
     (''ETH_DMA_TX_BUFFER_NUM'', Num 10),
     (''ETH_USE_SPI_ETHERNET'', Num 1),
     (''ESP_EVENT_POST_FROM_ISR'', Num 1),
     (''ESP_EVENT_POST_FROM_IRAM_ISR'', Num 1),
     (''ESP_HTTP_CLIENT_ENABLE_HTTPS'', Num 1),
     (''ESP_HTTP_CLIENT_ENABLE_DIGEST_AUTH'', Num 1),
     (''HTTPD_MAX_REQ_HDR_LEN'', Num 512),
     (''HTTPD_MAX_URI_LEN'', Num 512),
     (''HTTPD_ERR_RESP_NO_DELAY'', Num 1),
     (''HTTPD_PURGE_BUF_LEN'', Num 32),
     (''ESP_MAC_ADDR_UNIVERSE_WIFI_STA'', Num 1),
     (''ESP_MAC_ADDR_UNIVERSE_WIFI_AP'', Num 1),
     (''ESP_MAC_ADDR_UNIVERSE_BT'', Num 1),
     (''ESP_MAC_ADDR_UNIVERSE_ETH'', Num 1),
     (''ESP32_UNIVERSAL_MAC_ADDRESSES_FOUR'', Num 1),
     (''ESP32_UNIVERSAL_MAC_ADDRESSES'', Num 4),
     (''ESP_SLEEP_RTC_BUS_ISO_WORKAROUND'', Num 1),
     (''ESP_SLEEP_FLASH_LEAKAGE_WORKAROUND'', Num 1),
     (''ESP_SLEEP_GPIO_ENABLE_INTERNAL_RESISTORS'', Num 1),
     (''ESP_IPC_TASK_STACK_SIZE'', Num 1536),
     (''ESP_IPC_USES_CALLERS_PRIORITY'', Num 1),
     (''ESP_IPC_ISR_ENABLE'', Num 1),
     (''LCD_PANEL_IO_FORMAT_BUF_SIZE'', Num 32),
     (''ESP_NETIF_IP_LOST_TIMER_INTERVAL'', Num 120)]"

definition sdkconfig_2 :: macros where
  "sdkconfig_2 =
    [(''ESP_NETIF_TCPIP_LWIP'', Num 1),
     (''ESP_NETIF_TCPIP_ADAPTER_COMPATIBLE_LAYER'', Num 1),
     (''ESP_PHY_CALIBRATION_AND_DATA_STORAGE'', Num 1),
     (''ESP_PHY_MAX_WIFI_TX_POWER'', Num 20),
     (''ESP_PHY_MAX_TX_POWER'', Num 20),
     (''ESP_PHY_RF_CAL_PARTIAL'', Num 1),
     (''ESP_PHY_CALIBRATION_MODE'', Num 0),
     (''ESP_SYSTEM_PANIC_PRINT_REBOOT'', Num 1),
     (''ESP_SYSTEM_EVENT_QUEUE_SIZE'', Num 32),
     (''ESP_SYSTEM_EVENT_TASK_STACK_SIZE'', Num 2304),
     (''ESP_MAIN_TASK_STACK_SIZE'', Num 3584),
     (''ESP_MAIN_TASK_AFFINITY_CPU0'', Num 1),
     (''ESP_MAIN_TASK_AFFINITY'', Num 0x0),
     (''ESP_MINIMAL_SHARED_STACK_SIZE'', Num 2048),
     (''ESP_CONSOLE_UART_DEFAULT'', Num 1),
     (''ESP_CONSOLE_UART'', Num 1),
     (''ESP_CONSOLE_MULTIPLE_UART'', Num 1),
     (''ESP_CONSOLE_UART_NUM'', Num 0),
     (''ESP_CONSOLE_UART_BAUDRATE'', Num 115200),
     (''ESP_INT_WDT'', Num 1),
     (''ESP_INT_WDT_TIMEOUT_MS'', Num 300),
     (''ESP_INT_WDT_CHECK_CPU1'', Num 1),
     (''ESP_TASK_WDT'', Num 1),
     (''ESP_TASK_WDT_TIMEOUT_S'', Num 5),
     (''ESP_TASK_WDT_CHECK_IDLE_TASK_CPU0'', Num 1),
     (''ESP_TASK_WDT_CHECK_IDLE_TASK_CPU1'', Num 1),
     (''ESP_SYSTEM_CHECK_INT_LEVEL_4'', Num 1),
     (''ESP_TIME_FUNCS_USE_RTC_TIMER'', Num 1),
     (''ESP_TIME_FUNCS_USE_ESP_TIMER'', Num 1),
     (''ESP_TIMER_TASK_STACK_SIZE'', Num 3584),
     (''ESP_TIMER_INTERRUPT_LEVEL'', Num 1),
     (''ESP_TIMER_IMPL_TG0_LAC'', Num 1),
     (''ESP32_WIFI_ENABLED'', Num 1),
     (''ESP32_WIFI_STATIC_RX_BUFFER_NUM'', Num 10),
     (''ESP32_WIFI_DYNAMIC_RX_BUFFER_NUM'', Num 32),
     (''ESP32_WIFI_DYNAMIC_TX_BUFFER'', Num 1),
     (''ESP32_WIFI_TX_BUFFER_TYPE'', Num 1),
     (''ESP32_WIFI_DYNAMIC_TX_BUFFER_NUM'', Num 32),
     (''ESP_WIFI_STATIC_RX_MGMT_BUFFER'', Num 1),
     (''ESP_WIFI_DYNAMIC_RX_MGMT_BUF'', Num 0),
     (''ESP_WIFI_RX_MGMT_BUF_NUM_DEF'', Num 5),
     (''ESP32_WIFI_AMPDU_TX_ENABLED'', Num 1),
     (''ESP32_WIFI_TX_BA_WIN'', Num 6),
     (''ESP32_WIFI_AMPDU_RX_ENABLED'', Num 1),
     (''ESP32_WIFI_RX_BA_WIN'', Num 6),
     (''ESP32_WIFI_NVS_ENABLED'', Num 1),
     (''ESP32_WIFI_TASK_PINNED_TO_CORE_0'', Num 1),
     (''ESP32_WIFI_SOFTAP_BEACON_MAX_LEN'', Num 752),
     (''ESP32_WIFI_MGMT_SBUF_NUM'', Num 32),
     (''ESP32_WIFI_IRAM_OPT'', Num 1),
     (''ESP32_WIFI_RX_IRAM_OPT'', Num 1),
     (''ESP32_WIFI_ENABLE_WPA3_SAE'', Num 1),
     (''ESP_WIFI_SOFTAP_SUPPORT'', Num 1),
     (''ESP_WIFI_ESPNOW_MAX_ENCRYPT_NUM'', Num 7),
     (''ESP_COREDUMP_ENABLE_TO_NONE'', Num 1),
     (''FATFS_CODEPAGE_437'', Num 1),
     (''FATFS_CODEPAGE'', Num 437),
     (''FATFS_LFN_NONE'', Num 1),
     (''FATFS_FS_LOCK'', Num 0),
     (''FATFS_TIMEOUT_MS'', Num 10000),
     (''FATFS_PER_FILE_CACHE'', Num 1),
     (''FMB_COMM_MODE_TCP_EN'', Num 1),
     (''FMB_TCP_PORT_DEFAULT'', Num 502),
     (''FMB_TCP_PORT_MAX_CONN'', Num 5),
     (''FMB_TCP_CONNECTION_TOUT_SEC'', Num 20),
     (''FMB_COMM_MODE_RTU_EN'', Num 1),
     (''FMB_COMM_MODE_ASCII_EN'', Num 1),
     (''FMB_MASTER_TIMEOUT_MS_RESPOND'', Num 150),
     (''FMB_MASTER_DELAY_MS_CONVERT'', Num 200),
     (''FMB_QUEUE_LENGTH'', Num 20),
     (''FMB_PORT_TASK_STACK_SIZE'', Num 4096),
     (''FMB_SERIAL_BUF_SIZE'', Num 256),
     (''FMB_SERIAL_ASCII_BITS_PER_SYMB'', Num 8),
     (''FMB_SERIAL_ASCII_TIMEOUT_RESPOND_MS'', Num 1000),
     (''FMB_PORT_TASK_PRIO'', Num 10),
     (''FMB_PORT_TASK_AFFINITY_CPU0'', Num 1),
     (''FMB_PORT_TASK_AFFINITY'', Num 0x0),
     (''FMB_CONTROLLER_SLAVE_ID_SUPPORT'', Num 1),
     (''FMB_CONTROLLER_SLAVE_ID'', Num 0x00112233),
     (''FMB_CONTROLLER_NOTIFY_TIMEOUT'', Num 20),
     (''FMB_CONTROLLER_NOTIFY_QUEUE_SIZE'', Num 20),
     (''FMB_CONTROLLER_STACK_SIZE'', Num 4096),
     (''FMB_EVENT_QUEUE_TIMEOUT'', Num 20),
     (''FREERTOS_NO_AFFINITY'', Num 0x7FFFFFFF),
     (''FREERTOS_TICK_SUPPORT_CORETIMER'', Num 1),
     (''FREERTOS_CORETIMER_0'', Num 1),
     (''FREERTOS_SYSTICK_USES_CCOUNT'', Num 1),
     (''FREERTOS_HZ'', Num 100),
     (''FREERTOS_ASSERT_ON_UNTESTED_FUNCTION'', Num 1),
     (''FREERTOS_CHECK_STACKOVERFLOW_CANARY'', Num 1),
     (''FREERTOS_INTERRUPT_BACKTRACE'', Num 1),
     (''FREERTOS_THREAD_LOCAL_STORAGE_POINTERS'', Num 1),
     (''FREERTOS_ASSERT_FAIL_ABORT'', Num 1),
     (''FREERTOS_IDLE_TASK_STACKSIZE'', Num 1536),
     (''FREERTOS_ISR_STACKSIZE'', Num 1536),
     (''FREERTOS_MAX_TASK_NAME_LEN'', Num 16),
     (''FREERTOS_SUPPORT_STATIC_ALLOCATION'', Num 1),
     (''FREERTOS_TIMER_TASK_PRIORITY'', Num 1),
     (''FREERTOS_TIMER_TASK_STACK_DEPTH'', Num 2048),
     (''FREERTOS_TIMER_QUEUE_LENGTH'', Num 10),
     (''FREERTOS_QUEUE_REGISTRY_SIZE'', Num 0),
     (''FREERTOS_TASK_FUNCTION_WRAPPER'', Num 1),
     (''FREERTOS_CHECK_MUTEX_GIVEN_BY_OWNER'', Num 1),
     (''FREERTOS_DEBUG_OCDAWARE'', Num 1),
     (''FREERTOS_ENABLE_TASK_SNAPSHOT'', Num 1),
     (''HAL_ASSERTION_EQUALS_SYSTEM'', Num 1),
     (''HAL_DEFAULT_ASSERTION_LEVEL'', Num 2),
     (''HEAP_POISONING_DISABLED'', Num 1),
     (''HEAP_TRACING_OFF'', Num 1),
     (''LOG_DEFAULT_LEVEL_INFO'', Num 1),
     (''LOG_DEFAULT_LEVEL'', Num 3),
     (''LOG_MAXIMUM_EQUALS_DEFAULT'', Num 1),
     (''LOG_MAXIMUM_LEVEL'', Num 3),
     (''LOG_COLORS'', Num 1),
     (''LOG_TIMESTAMP_SOURCE_RTOS'', Num 1)]"

definition sdkconfig_3 :: macros where
  "sdkconfig_3 =
    [(''LWIP_LOCAL_HOSTNAME'', Text ''espressif''),
     (''LWIP_TCPIP_TASK_PRIO'', Num 18),
     (''LWIP_DNS_SUPPORT_MDNS_QUERIES'', Num 1),
     (''LWIP_TIMERS_ONDEMAND'', Num 1),
     (''LWIP_MAX_SOCKETS'', Num 10),
     (''LWIP_SO_REUSE'', Num 1),
     (''LWIP_SO_REUSE_RXTOALL'', Num 1),
     (''LWIP_IP_DEFAULT_TTL'', Num 64),
     (''LWIP_IP4_FRAG'', Num 1),
     (''LWIP_IP6_FRAG'', Num 1),
     (''LWIP_ESP_GRATUITOUS_ARP'', Num 1),
     (''LWIP_GARP_TMR_INTERVAL'', Num 60),
     (''LWIP_ESP_MLDV6_REPORT'', Num 1),
     (''LWIP_MLDV6_TMR_INTERVAL'', Num 40),
     (''LWIP_TCPIP_RECVMBOX_SIZE'', Num 32),
     (''LWIP_DHCP_DOES_ARP_CHECK'', Num 1),
     (''LWIP_DHCP_DISABLE_VENDOR_CLASS_ID'', Num 1),
     (''LWIP_DHCP_OPTIONS_LEN'', Num 68),
     (''LWIP_DHCP_COARSE_TIMER_SECS'', Num 1),
     (''LWIP_DHCPS'', Num 1),
     (''LWIP_DHCPS_LEASE_UNIT'', Num 60),
     (''LWIP_DHCPS_MAX_STATION_NUM'', Num 8),
     (''LWIP_IPV6'', Num 1),
     (''LWIP_IPV6_NUM_ADDRESSES'', Num 3),
     (''LWIP_NETIF_LOOPBACK'', Num 1),
     (''LWIP_LOOPBACK_MAX_PBUFS'', Num 8),
     (''LWIP_MAX_ACTIVE_TCP'', Num 16),
     (''LWIP_MAX_LISTENING_TCP'', Num 16),
     (''LWIP_TCP_HIGH_SPEED_RETRANSMISSION'', Num 1),
     (''LWIP_TCP_MAXRTX'', Num 12),
     (''LWIP_TCP_SYNMAXRTX'', Num 12),
     (''LWIP_TCP_MSS'', Num 1440),
     (''LWIP_TCP_TMR_INTERVAL'', Num 250),
     (''LWIP_TCP_MSL'', Num 60000),
     (''LWIP_TCP_FIN_WAIT_TIMEOUT'', Num 20000),
     (''LWIP_TCP_SND_BUF_DEFAULT'', Num 5744),
     (''LWIP_TCP_WND_DEFAULT'', Num 5744),
     (''LWIP_TCP_RECVMBOX_SIZE'', Num 6),
     (''LWIP_TCP_QUEUE_OOSEQ'', Num 1),
     (''LWIP_TCP_OOSEQ_TIMEOUT'', Num 6),
     (''LWIP_TCP_OOSEQ_MAX_PBUFS'', Num 4),
     (''LWIP_TCP_OVERSIZE_MSS'', Num 1),
     (''LWIP_TCP_RTO_TIME'', Num 1500),
     (''LWIP_MAX_UDP_PCBS'', Num 16),
     (''LWIP_UDP_RECVMBOX_SIZE'', Num 6),
     (''LWIP_CHECKSUM_CHECK_ICMP'', Num 1),
     (''LWIP_TCPIP_TASK_STACK_SIZE'', Num 3072),
     (''LWIP_TCPIP_TASK_AFFINITY_NO_AFFINITY'', Num 1),
     (''LWIP_TCPIP_TASK_AFFINITY'', Num 0x7FFFFFFF),
     (''LWIP_IPV6_MEMP_NUM_ND6_QUEUE'', Num 3),
     (''LWIP_IPV6_ND6_NUM_NEIGHBORS'', Num 5),
     (''LWIP_ICMP'', Num 1),
     (''LWIP_MAX_RAW_PCBS'', Num 16),
     (''LWIP_SNTP_MAX_SERVERS'', Num 1),
     (''LWIP_SNTP_UPDATE_DELAY'', Num 3600000),
     (''LWIP_DNS_MAX_SERVERS'', Num 3),
     (''LWIP_ESP_LWIP_ASSERT'', Num 1),
     (''LWIP_HOOK_TCP_ISN_DEFAULT'', Num 1),
     (''LWIP_HOOK_IP6_ROUTE_NONE'', Num 1),
     (''LWIP_HOOK_ND6_GET_GW_NONE'', Num 1),
     (''LWIP_HOOK_NETCONN_EXT_RESOLVE_NONE'', Num 1),
     (''MBEDTLS_INTERNAL_MEM_ALLOC'', Num 1),
     (''MBEDTLS_ASYMMETRIC_CONTENT_LEN'', Num 1),
     (''MBEDTLS_SSL_IN_CONTENT_LEN'', Num 16384),
     (''MBEDTLS_SSL_OUT_CONTENT_LEN'', Num 4096),
     (''MBEDTLS_SSL_KEEP_PEER_CERTIFICATE'', Num 1),
     (''MBEDTLS_CERTIFICATE_BUNDLE'', Num 1),
     (''MBEDTLS_CERTIFICATE_BUNDLE_DEFAULT_FULL'', Num 1),
     (''MBEDTLS_CERTIFICATE_BUNDLE_MAX_CERTS'', Num 200),
     (''MBEDTLS_HARDWARE_AES'', Num 1),
     (''MBEDTLS_HARDWARE_MPI'', Num 1),
     (''MBEDTLS_HARDWARE_SHA'', Num 1),
     (''MBEDTLS_ROM_MD5'', Num 1),
     (''MBEDTLS_HAVE_TIME'', Num 1),
     (''MBEDTLS_ECDSA_DETERMINISTIC'', Num 1),
     (''MBEDTLS_SHA512_C'', Num 1),
     (''MBEDTLS_TLS_SERVER_AND_CLIENT'', Num 1),
     (''MBEDTLS_TLS_SERVER'', Num 1),
     (''MBEDTLS_TLS_CLIENT'', Num 1),
     (''MBEDTLS_TLS_ENABLED'', Num 1),
     (''MBEDTLS_KEY_EXCHANGE_RSA'', Num 1),
     (''MBEDTLS_KEY_EXCHANGE_DHE_RSA'', Num 1),
     (''MBEDTLS_KEY_EXCHANGE_ELLIPTIC_CURVE'', Num 1),
     (''MBEDTLS_KEY_EXCHANGE_ECDHE_RSA'', Num 1),
     (''MBEDTLS_KEY_EXCHANGE_ECDHE_ECDSA'', Num 1),
     (''MBEDTLS_KEY_EXCHANGE_ECDH_ECDSA'', Num 1),
     (''MBEDTLS_KEY_EXCHANGE_ECDH_RSA'', Num 1),
     (''MBEDTLS_SSL_RENEGOTIATION'', Num 1),
     (''MBEDTLS_SSL_PROTO_TLS1'', Num 1),
     (''MBEDTLS_SSL_PROTO_TLS1_1'', Num 1),
     (''MBEDTLS_SSL_PROTO_TLS1_2'', Num 1),
     (''MBEDTLS_SSL_ALPN'', Num 1),
     (''MBEDTLS_CLIENT_SSL_SESSION_TICKETS'', Num 1),
     (''MBEDTLS_X509_CHECK_KEY_USAGE'', Num 1),
     (''MBEDTLS_X509_CHECK_EXTENDED_KEY_USAGE'', Num 1),
     (''MBEDTLS_SERVER_SSL_SESSION_TICKETS'', Num 1),
     (''MBEDTLS_AES_C'', Num 1),
     (''MBEDTLS_RC4_DISABLED'', Num 1),
     (''MBEDTLS_CCM_C'', Num 1),
     (''MBEDTLS_GCM_C'', Num 1),
     (''MBEDTLS_PEM_PARSE_C'', Num 1),
     (''MBEDTLS_PEM_WRITE_C'', Num 1),
     (''MBEDTLS_X509_CRL_PARSE_C'', Num 1),
     (''MBEDTLS_X509_CSR_PARSE_C'', Num 1),
     (''MBEDTLS_ECP_C'', Num 1),
     (''MBEDTLS_ECDH_C'', Num 1),
     (''MBEDTLS_ECDSA_C'', Num 1),
     (''MBEDTLS_ECP_DP_SECP192R1_ENABLED'', Num 1),
     (''MBEDTLS_ECP_DP_SECP224R1_ENABLED'', Num 1),
     (''MBEDTLS_ECP_DP_SECP256R1_ENABLED'', Num 1),
     (''MBEDTLS_ECP_DP_SECP384R1_ENABLED'', Num 1),
     (''MBEDTLS_ECP_DP_SECP521R1_ENABLED'', Num 1),
     (''MBEDTLS_ECP_DP_SECP192K1_ENABLED'', Num 1),
     (''MBEDTLS_ECP_DP_SECP224K1_ENABLED'', Num 1),
     (''MBEDTLS_ECP_DP_SECP256K1_ENABLED'', Num 1),
     (''MBEDTLS_ECP_DP_BP256R1_ENABLED'', Num 1),
     (''MBEDTLS_ECP_DP_BP384R1_ENABLED'', Num 1),
     (''MBEDTLS_ECP_DP_BP512R1_ENABLED'', Num 1),
     (''MBEDTLS_ECP_DP_CURVE25519_ENABLED'', Num 1),
     (''MBEDTLS_ECP_NIST_OPTIM'', Num 1),
     (''MDNS_MAX_SERVICES'', Num 10),
     (''MDNS_TASK_PRIORITY'', Num 1),
     (''MDNS_TASK_STACK_SIZE'', Num 4096),
     (''MDNS_TASK_AFFINITY_CPU0'', Num 1),
     (''MDNS_TASK_AFFINITY'', Num 0x0),
     (''MDNS_SERVICE_ADD_TIMEOUT_MS'', Num 2000),
     (''MDNS_TIMER_PERIOD_MS'', Num 100),
     (''MDNS_MULTIPLE_INSTANCE'', Num 1),
     (''MQTT_PROTOCOL_311'', Num 1),
     (''MQTT_TRANSPORT_SSL'', Num 1),
     (''MQTT_TRANSPORT_WEBSOCKET'', Num 1),
     (''MQTT_TRANSPORT_WEBSOCKET_SECURE'', Num 1)]"

definition sdkconfig_4 :: macros where
  "sdkconfig_4 =
    [(''NEWLIB_STDOUT_LINE_ENDING_CRLF'', Num 1),
     (''NEWLIB_STDIN_LINE_ENDING_CR'', Num 1),
     (''OPENSSL_ERROR_STACK'', Num 1),
     (''OPENSSL_ASSERT_EXIT'', Num 1),
     (''PTHREAD_TASK_PRIO_DEFAULT'', Num 5),
     (''PTHREAD_TASK_STACK_SIZE_DEFAULT'', Num 3072),
     (''PTHREAD_STACK_MIN'', Num 768),
     (''PTHREAD_DEFAULT_CORE_NO_AFFINITY'', Num 1),
     (''PTHREAD_TASK_CORE_DEFAULT'', Num (-1)),
     (''PTHREAD_TASK_NAME_DEFAULT'', Text ''pthread''),
     (''SPI_FLASH_ROM_DRIVER_PATCH'', Num 1),
     (''SPI_FLASH_DANGEROUS_WRITE_ABORTS'', Num 1),
     (''SPI_FLASH_YIELD_DURING_ERASE'', Num 1),
     (''SPI_FLASH_ERASE_YIELD_DURATION_MS'', Num 20),
     (''SPI_FLASH_ERASE_YIELD_TICKS'', Num 1),
     (''SPI_FLASH_WRITE_CHUNK_SIZE'', Num 8192),
     (''SPI_FLASH_SUPPORT_ISSI_CHIP'', Num 1),
     (''SPI_FLASH_SUPPORT_MXIC_CHIP'', Num 1),
     (''SPI_FLASH_SUPPORT_GD_CHIP'', Num 1),
     (''SPI_FLASH_SUPPORT_WINBOND_CHIP'', Num 1),
     (''SPI_FLASH_ENABLE_ENCRYPTED_READ_WRITE'', Num 1),
     (''SPIFFS_MAX_PARTITIONS'', Num 3),
     (''SPIFFS_CACHE'', Num 1),
     (''SPIFFS_CACHE_WR'', Num 1),
     (''SPIFFS_PAGE_CHECK'', Num 1),
     (''SPIFFS_GC_MAX_RUNS'', Num 10),
     (''SPIFFS_PAGE_SIZE'', Num 256),
     (''SPIFFS_OBJ_NAME_LEN'', Num 32),
     (''SPIFFS_USE_MAGIC'', Num 1),
     (''SPIFFS_USE_MAGIC_LENGTH'', Num 1),
     (''SPIFFS_META_LENGTH'', Num 4),
     (''SPIFFS_USE_MTIME'', Num 1),
     (''WS_TRANSPORT'', Num 1),
     (''WS_BUFFER_SIZE'', Num 1024),
     (''UNITY_ENABLE_FLOAT'', Num 1),
     (''UNITY_ENABLE_DOUBLE'', Num 1),
     (''UNITY_ENABLE_IDF_TEST_RUNNER'', Num 1),
     (''VFS_SUPPORT_IO'', Num 1),
     (''VFS_SUPPORT_DIR'', Num 1),
     (''VFS_SUPPORT_SELECT'', Num 1),
     (''VFS_SUPPRESS_SELECT_DEBUG_OUTPUT'', Num 1),
     (''VFS_SUPPORT_TERMIOS'', Num 1),
     (''VFS_SEMIHOSTFS_MAX_MOUNT_POINTS'', Num 1),
     (''WL_SECTOR_SIZE_4096'', Num 1),
     (''WL_SECTOR_SIZE'', Num 4096),
     (''WIFI_PROV_SCAN_MAX_ENTRIES'', Num 16),
     (''WIFI_PROV_AUTOSTOP_TIMEOUT'', Num 30),
     (''WPA_MBEDTLS_CRYPTO'', Num 1),
     (''ADC2_DISABLE_DAC'', Same ''ADC_DISABLE_DAC''),
     (''BROWNOUT_DET'', Same ''ESP32_BROWNOUT_DET''),
     (''BROWNOUT_DET_LVL'', Same ''ESP32_BROWNOUT_DET_LVL''),
     (''BROWNOUT_DET_LVL_SEL_0'', Same ''ESP32_BROWNOUT_DET_LVL_SEL_0''),
     (''COMPILER_OPTIMIZATION_LEVEL_DEBUG'', Same ''COMPILER_OPTIMIZATION_DEFAULT''),
     (''CONSOLE_UART'', Same ''ESP_CONSOLE_UART''),
     (''CONSOLE_UART_BAUDRATE'', Same ''ESP_CONSOLE_UART_BAUDRATE''),
     (''CONSOLE_UART_DEFAULT'', Same ''ESP_CONSOLE_UART_DEFAULT''),
     (''CONSOLE_UART_NUM'', Same ''ESP_CONSOLE_UART_NUM''),
     (''ESP32S2_PANIC_PRINT_REBOOT'', Same ''ESP_SYSTEM_PANIC_PRINT_REBOOT''),
     (''ESP32_APPTRACE_DEST_NONE'', Same ''APPTRACE_DEST_NONE''),
     (''ESP32_APPTRACE_LOCK_ENABLE'', Same ''APPTRACE_LOCK_ENABLE''),
     (''ESP32_DEFAULT_PTHREAD_CORE_NO_AFFINITY'', Same ''PTHREAD_DEFAULT_CORE_NO_AFFINITY''),
     (''ESP32_ENABLE_COREDUMP_TO_NONE'', Same ''ESP_COREDUMP_ENABLE_TO_NONE''),
     (''ESP32_PANIC_PRINT_REBOOT'', Same ''ESP_SYSTEM_PANIC_PRINT_REBOOT''),
     (''ESP32_PHY_CALIBRATION_AND_DATA_STORAGE'', Same ''ESP_PHY_CALIBRATION_AND_DATA_STORAGE''),
     (''ESP32_PHY_MAX_TX_POWER'', Same ''ESP_PHY_MAX_TX_POWER''),
     (''ESP32_PHY_MAX_WIFI_TX_POWER'', Same ''ESP_PHY_MAX_WIFI_TX_POWER''),
     (''ESP32_PTHREAD_STACK_MIN'', Same ''PTHREAD_STACK_MIN''),
     (''ESP32_PTHREAD_TASK_CORE_DEFAULT'', Same ''PTHREAD_TASK_CORE_DEFAULT''),
     (''ESP32_PTHREAD_TASK_NAME_DEFAULT'', Same ''PTHREAD_TASK_NAME_DEFAULT''),
     (''ESP32_PTHREAD_TASK_PRIO_DEFAULT'', Same ''PTHREAD_TASK_PRIO_DEFAULT''),
     (''ESP32_PTHREAD_TASK_STACK_SIZE_DEFAULT'', Same ''PTHREAD_TASK_STACK_SIZE_DEFAULT''),
     (''ESP32_RTC_CLOCK_SOURCE_INTERNAL_RC'', Same ''ESP32_RTC_CLK_SRC_INT_RC''),
     (''ESP_GRATUITOUS_ARP'', Same ''LWIP_ESP_GRATUITOUS_ARP''),
     (''FLASHMODE_DIO'', Same ''ESPTOOLPY_FLASHMODE_DIO''),
     (''FOUR_UNIVERSAL_MAC_ADDRESS'', Same ''ESP32_UNIVERSAL_MAC_ADDRESSES_FOUR''),
     (''GARP_TMR_INTERVAL'', Same ''LWIP_GARP_TMR_INTERVAL''),
     (''INT_WDT'', Same ''ESP_INT_WDT''),
     (''INT_WDT_CHECK_CPU1'', Same ''ESP_INT_WDT_CHECK_CPU1''),
     (''INT_WDT_TIMEOUT_MS'', Same ''ESP_INT_WDT_TIMEOUT_MS''),
     (''IPC_TASK_STACK_SIZE'', Same ''ESP_IPC_TASK_STACK_SIZE''),
     (''LOG_BOOTLOADER_LEVEL'', Same ''BOOTLOADER_LOG_LEVEL''),
     (''LOG_BOOTLOADER_LEVEL_INFO'', Same ''BOOTLOADER_LOG_LEVEL_INFO''),
     (''MAIN_TASK_STACK_SIZE'', Same ''ESP_MAIN_TASK_STACK_SIZE''),
     (''MB_CONTROLLER_NOTIFY_QUEUE_SIZE'', Same ''FMB_CONTROLLER_NOTIFY_QUEUE_SIZE''),
     (''MB_CONTROLLER_NOTIFY_TIMEOUT'', Same ''FMB_CONTROLLER_NOTIFY_TIMEOUT''),
     (''MB_CONTROLLER_SLAVE_ID'', Same ''FMB_CONTROLLER_SLAVE_ID''),
     (''MB_CONTROLLER_SLAVE_ID_SUPPORT'', Same ''FMB_CONTROLLER_SLAVE_ID_SUPPORT''),
     (''MB_CONTROLLER_STACK_SIZE'', Same ''FMB_CONTROLLER_STACK_SIZE''),
     (''MB_EVENT_QUEUE_TIMEOUT'', Same ''FMB_EVENT_QUEUE_TIMEOUT''),
     (''MB_MASTER_DELAY_MS_CONVERT'', Same ''FMB_MASTER_DELAY_MS_CONVERT''),
     (''MB_MASTER_TIMEOUT_MS_RESPOND'', Same ''FMB_MASTER_TIMEOUT_MS_RESPOND''),
     (''MB_QUEUE_LENGTH'', Same ''FMB_QUEUE_LENGTH''),
     (''MB_SERIAL_BUF_SIZE'', Same ''FMB_SERIAL_BUF_SIZE''),
     (''MB_SERIAL_TASK_PRIO'', Same ''FMB_PORT_TASK_PRIO''),
     (''MB_SERIAL_TASK_STACK_SIZE'', Same ''FMB_PORT_TASK_STACK_SIZE''),
     (''MONITOR_BAUD'', Same ''ESPTOOLPY_MONITOR_BAUD''),
     (''MONITOR_BAUD_115200B'', Same ''ESPTOOLPY_MONITOR_BAUD_115200B''),
     (''MONITOR_BAUD_OTHER_VAL'', Same ''ESPTOOLPY_MONITOR_BAUD_OTHER_VAL''),
     (''NUMBER_OF_UNIVERSAL_MAC_ADDRESS'', Same ''ESP32_UNIVERSAL_MAC_ADDRESSES''),
     (''OPTIMIZATION_ASSERTIONS_ENABLED'', Same ''COMPILER_OPTIMIZATION_ASSERTIONS_ENABLE''),
     (''OPTIMIZATION_ASSERTION_LEVEL'', Same ''COMPILER_OPTIMIZATION_ASSERTION_LEVEL''),
     (''OPTIMIZATION_LEVEL_DEBUG'', Same ''COMPILER_OPTIMIZATION_DEFAULT''),
     (''POST_EVENTS_FROM_IRAM_ISR'', Same ''ESP_EVENT_POST_FROM_IRAM_ISR''),
     (''POST_EVENTS_FROM_ISR'', Same ''ESP_EVENT_POST_FROM_ISR''),
     (''SEMIHOSTFS_MAX_MOUNT_POINTS'', Same ''VFS_SEMIHOSTFS_MAX_MOUNT_POINTS''),
     (''SPI_FLASH_WRITING_DANGEROUS_REGIONS_ABORTS'', Same ''SPI_FLASH_DANGEROUS_WRITE_ABORTS''),
     (''STACK_CHECK_NONE'', Same ''COMPILER_STACK_CHECK_MODE_NONE''),
     (''SUPPORT_TERMIOS'', Same ''VFS_SUPPORT_TERMIOS''),
     (''SUPPRESS_SELECT_DEBUG_OUTPUT'', Same ''VFS_SUPPRESS_SELECT_DEBUG_OUTPUT''),
     (''SYSTEM_EVENT_QUEUE_SIZE'', Same ''ESP_SYSTEM_EVENT_QUEUE_SIZE''),
     (''SYSTEM_EVENT_TASK_STACK_SIZE'', Same ''ESP_SYSTEM_EVENT_TASK_STACK_SIZE''),
     (''TASK_WDT'', Same ''ESP_TASK_WDT''),
     (''TASK_WDT_CHECK_IDLE_TASK_CPU0'', Same ''ESP_TASK_WDT_CHECK_IDLE_TASK_CPU0''),
     (''TASK_WDT_CHECK_IDLE_TASK_CPU1'', Same ''ESP_TASK_WDT_CHECK_IDLE_TASK_CPU1''),
     (''TASK_WDT_TIMEOUT_S'', Same ''ESP_TASK_WDT_TIMEOUT_S''),
     (''TCPIP_RECVMBOX_SIZE'', Same ''LWIP_TCPIP_RECVMBOX_SIZE''),
     (''TCPIP_TASK_AFFINITY'', Same ''LWIP_TCPIP_TASK_AFFINITY''),
     (''TCPIP_TASK_AFFINITY_NO_AFFINITY'', Same ''LWIP_TCPIP_TASK_AFFINITY_NO_AFFINITY''),
     (''TCPIP_TASK_STACK_SIZE'', Same ''LWIP_TCPIP_TASK_STACK_SIZE''),
     (''TCP_MAXRTX'', Same ''LWIP_TCP_MAXRTX''),
     (''TCP_MSL'', Same ''LWIP_TCP_MSL''),
     (''TCP_MSS'', Same ''LWIP_TCP_MSS''),
     (''TCP_OVERSIZE_MSS'', Same ''LWIP_TCP_OVERSIZE_MSS''),
     (''TCP_QUEUE_OOSEQ'', Same ''LWIP_TCP_QUEUE_OOSEQ''),
     (''TCP_RECVMBOX_SIZE'', Same ''LWIP_TCP_RECVMBOX_SIZE''),
     (''TCP_SND_BUF_DEFAULT'', Same ''LWIP_TCP_SND_BUF_DEFAULT''),
     (''TCP_SYNMAXRTX'', Same ''LWIP_TCP_SYNMAXRTX''),
     (''TCP_WND_DEFAULT'', Same ''LWIP_TCP_WND_DEFAULT''),
     (''TIMER_QUEUE_LENGTH'', Same ''FREERTOS_TIMER_QUEUE_LENGTH''),
     (''TIMER_TASK_PRIORITY'', Same ''FREERTOS_TIMER_TASK_PRIORITY''),
     (''TIMER_TASK_STACK_DEPTH'', Same ''FREERTOS_TIMER_TASK_STACK_DEPTH''),
     (''TIMER_TASK_STACK_SIZE'', Same ''ESP_TIMER_TASK_STACK_SIZE''),
     (''TOOLPREFIX'', Same ''SDK_TOOLPREFIX''),
     (''TRACEMEM_RESERVE_DRAM'', Same ''ESP32_TRACEMEM_RESERVE_DRAM''),
     (''UDP_RECVMBOX_SIZE'', Same ''LWIP_UDP_RECVMBOX_SIZE''),
     (''ULP_COPROC_RESERVE_MEM'', Same ''ESP32_ULP_COPROC_RESERVE_MEM'')]"

definition sdkconfig :: macros where
  "sdkconfig = sdkconfig_1 @ sdkconfig_2 @ sdkconfig_3 @ sdkconfig_4"

definition bootloader_sdkconfig_1 :: macros where
  "bootloader_sdkconfig_1 =
    [(''IDF_CMAKE'', Num 1),
     (''IDF_TARGET_ARCH_XTENSA'', Num 1),
     (''IDF_TARGET'', Text ''esp32''),
     (''IDF_TARGET_ESP32'', Num 1),
     (''IDF_FIRMWARE_CHIP_ID'', Num 0x0000),
     (''SDK_TOOLPREFIX'', Text ''xtensa-esp32-elf-''),
     (''APP_BUILD_TYPE_APP_2NDBOOT'', Num 1),
     (''APP_BUILD_GENERATE_BINARIES'', Num 1),
     (''APP_BUILD_BOOTLOADER'', Num 1),
     (''APP_BUILD_USE_FLASH_SECTIONS'', Num 1),
     (''BOOTLOADER_OFFSET_IN_FLASH'', Num 0x1000),
     (''BOOTLOADER_COMPILER_OPTIMIZATION_SIZE'', Num 1),
     (''BOOTLOADER_LOG_LEVEL_INFO'', Num 1),
     (''BOOTLOADER_LOG_LEVEL'', Num 3),
     (''BOOTLOADER_FLASH_XMC_SUPPORT'', Num 1),
     (''BOOTLOADER_VDDSDIO_BOOST_1_9V'', Num 1),
     (''BOOTLOADER_REGION_PROTECTION_ENABLE'', Num 1),
     (''BOOTLOADER_WDT_ENABLE'', Num 1),
     (''BOOTLOADER_WDT_TIME_MS'', Num 9000),
     (''BOOTLOADER_RESERVE_RTC_SIZE'', Num 0x0),
     (''ESPTOOLPY_BAUD_OTHER_VAL'', Num 115200),
     (''ESPTOOLPY_FLASHMODE_DIO'', Num 1),
     (''ESPTOOLPY_FLASH_SAMPLE_MODE_STR'', Num 1),
     (''ESPTOOLPY_FLASHMODE'', Text ''dio''),
     (''ESPTOOLPY_FLASHFREQ_40M'', Num 1),
     (''ESPTOOLPY_FLASHFREQ'', Text ''40m''),
     (''ESPTOOLPY_FLASHSIZE_8MB'', Num 1),
     (''ESPTOOLPY_FLASHSIZE'', Text ''8MB''),
     (''ESPTOOLPY_FLASHSIZE_DETECT'', Num 1),
     (''ESPTOOLPY_BEFORE_RESET'', Num 1),
     (''ESPTOOLPY_BEFORE'', Text ''default_reset''),
     (''ESPTOOLPY_AFTER_RESET'', Num 1),
     (''ESPTOOLPY_AFTER'', Text ''hard_reset''),
     (''ESPTOOLPY_MONITOR_BAUD_115200B'', Num 1),
     (''ESPTOOLPY_MONITOR_BAUD_OTHER_VAL'', Num 115200),
     (''ESPTOOLPY_MONITOR_BAUD'', Num 115200),
     (''PARTITION_TABLE_CUSTOM'', Num 1),
     (''PARTITION_TABLE_CUSTOM_FILENAME'', Text ''partitions.csv''),
     (''PARTITION_TABLE_FILENAME'', Text ''partitions.csv''),
     (''PARTITION_TABLE_OFFSET'', Num 0x8000),
     (''PARTITION_TABLE_MD5'', Num 1),
     (''COMPILER_OPTIMIZATION_DEFAULT'', Num 1),
     (''COMPILER_OPTIMIZATION_ASSERTIONS_ENABLE'', Num 1),
     (''COMPILER_OPTIMIZATION_ASSERTION_LEVEL'', Num 2),
     (''COMPILER_HIDE_PATHS_MACROS'', Num 1),
     (''COMPILER_STACK_CHECK_MODE_NONE'', Num 1),
     (''EFUSE_CODE_SCHEME_COMPAT_3_4'', Num 1),
     (''EFUSE_MAX_BLK_LEN'', Num 192),
     (''ESP32_REV_MIN_0'', Num 1),
     (''ESP32_REV_MIN'', Num 0),
     (''ESP32_REV_MIN_FULL'', Num 0),
     (''ESP_REV_MIN_FULL'', Num 0),
     (''ESP32_REV_MAX_FULL_STR_OPT'', Num 1),
     (''ESP32_REV_MAX_FULL'', Num 399),
     (''ESP_REV_MAX_FULL'', Num 399),
     (''ESP32_DPORT_WORKAROUND'', Num 1),
     (''ESP32_DEFAULT_CPU_FREQ_160'', Num 1),
     (''ESP32_DEFAULT_CPU_FREQ_MHZ'', Num 160),
     (''ESP32_TRACEMEM_RESERVE_DRAM'', Num 0x0),
     (''ESP32_ULP_COPROC_RESERVE_MEM'', Num 0),
     (''ESP32_DEBUG_OCDAWARE'', Num 1),
     (''ESP32_BROWNOUT_DET'', Num 1),
     (''ESP32_BROWNOUT_DET_LVL_SEL_0'', Num 1),
     (''ESP32_BROWNOUT_DET_LVL'', Num 0),
     (''ESP32_TIME_SYSCALL_USE_RTC_FRC1'', Num 1),
     (''ESP32_RTC_CLK_SRC_INT_RC'', Num 1),
     (''ESP32_RTC_CLK_CAL_CYCLES'', Num 1024),
     (''ESP32_DEEP_SLEEP_WAKEUP_DELAY'', Num 2000),
     (''ESP32_XTAL_FREQ_40'', Num 1),
     (''ESP32_XTAL_FREQ'', Num 40),
     (''ESP32_DPORT_DIS_INTERRUPT_LVL'', Num 5),
     (''ESP_ERR_TO_NAME_LOOKUP'', Num 1),
     (''ESP_MAC_ADDR_UNIVERSE_WIFI_STA'', Num 1),
     (''ESP_MAC_ADDR_UNIVERSE_WIFI_AP'', Num 1),
     (''ESP_MAC_ADDR_UNIVERSE_BT'', Num 1),
     (''ESP_MAC_ADDR_UNIVERSE_ETH'', Num 1),
     (''ESP32_UNIVERSAL_MAC_ADDRESSES_FOUR'', Num 1),
     (''ESP32_UNIVERSAL_MAC_ADDRESSES'', Num 4),
     (''ESP_SLEEP_RTC_BUS_ISO_WORKAROUND'', Num 1),
     (''ESP_SLEEP_FLASH_LEAKAGE_WORKAROUND'', Num 1),
     (''ESP_SLEEP_GPIO_ENABLE_INTERNAL_RESISTORS'', Num 1)]"

definition bootloader_sdkconfig_2 :: macros where
  "bootloader_sdkconfig_2 =
    [(''ESP_SYSTEM_PANIC_PRINT_REBOOT'', Num 1),
     (''ESP_SYSTEM_EVENT_QUEUE_SIZE'', Num 32),
     (''ESP_SYSTEM_EVENT_TASK_STACK_SIZE'', Num 2304),
     (''ESP_MAIN_TASK_STACK_SIZE'', Num 3584),
     (''ESP_MAIN_TASK_AFFINITY_CPU0'', Num 1),
     (''ESP_MAIN_TASK_AFFINITY'', Num 0x0),
     (''ESP_MINIMAL_SHARED_STACK_SIZE'', Num 2048),
     (''ESP_CONSOLE_UART_DEFAULT'', Num 1),
     (''ESP_CONSOLE_UART'', Num 1),
     (''ESP_CONSOLE_MULTIPLE_UART'', Num 1),
     (''ESP_CONSOLE_UART_NUM'', Num 0),
     (''ESP_CONSOLE_UART_BAUDRATE'', Num 115200),
     (''ESP_INT_WDT'', Num 1),
     (''ESP_INT_WDT_TIMEOUT_MS'', Num 300),
     (''ESP_INT_WDT_CHECK_CPU1'', Num 1),
     (''ESP_TASK_WDT'', Num 1),
     (''ESP_TASK_WDT_TIMEOUT_S'', Num 5),
     (''ESP_TASK_WDT_CHECK_IDLE_TASK_CPU0'', Num 1),
     (''ESP_TASK_WDT_CHECK_IDLE_TASK_CPU1'', Num 1),
     (''ESP_SYSTEM_CHECK_INT_LEVEL_4'', Num 1),
     (''FREERTOS_NO_AFFINITY'', Num 0x7FFFFFFF),
     (''FREERTOS_TICK_SUPPORT_CORETIMER'', Num 1),
     (''FREERTOS_CORETIMER_0'', Num 1),
     (''FREERTOS_SYSTICK_USES_CCOUNT'', Num 1),
     (''FREERTOS_HZ'', Num 100),
     (''FREERTOS_ASSERT_ON_UNTESTED_FUNCTION'', Num 1),
     (''FREERTOS_CHECK_STACKOVERFLOW_CANARY'', Num 1),
     (''FREERTOS_INTERRUPT_BACKTRACE'', Num 1),
     (''FREERTOS_THREAD_LOCAL_STORAGE_POINTERS'', Num 1),
     (''FREERTOS_ASSERT_FAIL_ABORT'', Num 1),
     (''FREERTOS_IDLE_TASK_STACKSIZE'', Num 1536),
     (''FREERTOS_ISR_STACKSIZE'', Num 1536),
     (''FREERTOS_MAX_TASK_NAME_LEN'', Num 16),
     (''FREERTOS_SUPPORT_STATIC_ALLOCATION'', Num 1),
     (''FREERTOS_TIMER_TASK_PRIORITY'', Num 1),
     (''FREERTOS_TIMER_TASK_STACK_DEPTH'', Num 2048),
     (''FREERTOS_TIMER_QUEUE_LENGTH'', Num 10),
     (''FREERTOS_QUEUE_REGISTRY_SIZE'', Num 0),
     (''FREERTOS_TASK_FUNCTION_WRAPPER'', Num 1),
     (''FREERTOS_CHECK_MUTEX_GIVEN_BY_OWNER'', Num 1),
     (''FREERTOS_DEBUG_OCDAWARE'', Num 1),
     (''FREERTOS_ENABLE_TASK_SNAPSHOT'', Num 1),
     (''HAL_ASSERTION_EQUALS_SYSTEM'', Num 1),
     (''HAL_DEFAULT_ASSERTION_LEVEL'', Num 2),
     (''LOG_DEFAULT_LEVEL_INFO'', Num 1),
     (''LOG_DEFAULT_LEVEL'', Num 3),
     (''LOG_MAXIMUM_EQUALS_DEFAULT'', Num 1),
     (''LOG_MAXIMUM_LEVEL'', Num 3),
     (''LOG_COLORS'', Num 1),
     (''LOG_TIMESTAMP_SOURCE_RTOS'', Num 1)]"

definition bootloader_sdkconfig_3 :: macros where
  "bootloader_sdkconfig_3 =
    [(''NEWLIB_STDOUT_LINE_ENDING_CRLF'', Num 1),
     (''NEWLIB_STDIN_LINE_ENDING_CR'', Num 1),
     (''SPI_FLASH_ROM_DRIVER_PATCH'', Num 1),
     (''SPI_FLASH_DANGEROUS_WRITE_ABORTS'', Num 1),
     (''SPI_FLASH_YIELD_DURING_ERASE'', Num 1),
     (''SPI_FLASH_ERASE_YIELD_DURATION_MS'', Num 20),
     (''SPI_FLASH_ERASE_YIELD_TICKS'', Num 1),
     (''SPI_FLASH_WRITE_CHUNK_SIZE'', Num 8192),
     (''SPI_FLASH_SUPPORT_ISSI_CHIP'', Num 1),
     (''SPI_FLASH_SUPPORT_MXIC_CHIP'', Num 1),
     (''SPI_FLASH_SUPPORT_GD_CHIP'', Num 1),
     (''SPI_FLASH_SUPPORT_WINBOND_CHIP'', Num 1),
     (''SPI_FLASH_ENABLE_ENCRYPTED_READ_WRITE'', Num 1),
     (''BROWNOUT_DET'', Same ''ESP32_BROWNOUT_DET''),
     (''BROWNOUT_DET_LVL'', Same ''ESP32_BROWNOUT_DET_LVL''),
     (''BROWNOUT_DET_LVL_SEL_0'', Same ''ESP32_BROWNOUT_DET_LVL_SEL_0''),
     (''COMPILER_OPTIMIZATION_LEVEL_DEBUG'', Same ''COMPILER_OPTIMIZATION_DEFAULT''),
     (''CONSOLE_UART'', Same ''ESP_CONSOLE_UART''),
     (''CONSOLE_UART_BAUDRATE'', Same ''ESP_CONSOLE_UART_BAUDRATE''),
     (''CONSOLE_UART_DEFAULT'', Same ''ESP_CONSOLE_UART_DEFAULT''),
     (''CONSOLE_UART_NUM'', Same ''ESP_CONSOLE_UART_NUM''),
     (''ESP32S2_PANIC_PRINT_REBOOT'', Same ''ESP_SYSTEM_PANIC_PRINT_REBOOT''),
     (''ESP32_PANIC_PRINT_REBOOT'', Same ''ESP_SYSTEM_PANIC_PRINT_REBOOT''),
     (''ESP32_RTC_CLOCK_SOURCE_INTERNAL_RC'', Same ''ESP32_RTC_CLK_SRC_INT_RC''),
     (''FLASHMODE_DIO'', Same ''ESPTOOLPY_FLASHMODE_DIO''),
     (''FOUR_UNIVERSAL_MAC_ADDRESS'', Same ''ESP32_UNIVERSAL_MAC_ADDRESSES_FOUR''),
     (''INT_WDT'', Same ''ESP_INT_WDT''),
     (''INT_WDT_CHECK_CPU1'', Same ''ESP_INT_WDT_CHECK_CPU1''),
     (''INT_WDT_TIMEOUT_MS'', Same ''ESP_INT_WDT_TIMEOUT_MS''),
     (''LOG_BOOTLOADER_LEVEL'', Same ''BOOTLOADER_LOG_LEVEL''),
     (''LOG_BOOTLOADER_LEVEL_INFO'', Same ''BOOTLOADER_LOG_LEVEL_INFO''),
     (''MAIN_TASK_STACK_SIZE'', Same ''ESP_MAIN_TASK_STACK_SIZE''),
     (''MONITOR_BAUD'', Same ''ESPTOOLPY_MONITOR_BAUD''),
     (''MONITOR_BAUD_115200B'', Same ''ESPTOOLPY_MONITOR_BAUD_115200B''),
     (''MONITOR_BAUD_OTHER_VAL'', Same ''ESPTOOLPY_MONITOR_BAUD_OTHER_VAL''),
     (''NUMBER_OF_UNIVERSAL_MAC_ADDRESS'', Same ''ESP32_UNIVERSAL_MAC_ADDRESSES''),
     (''OPTIMIZATION_ASSERTIONS_ENABLED'', Same ''COMPILER_OPTIMIZATION_ASSERTIONS_ENABLE''),
     (''OPTIMIZATION_ASSERTION_LEVEL'', Same ''COMPILER_OPTIMIZATION_ASSERTION_LEVEL''),
     (''OPTIMIZATION_LEVEL_DEBUG'', Same ''COMPILER_OPTIMIZATION_DEFAULT''),
     (''SPI_FLASH_WRITING_DANGEROUS_REGIONS_ABORTS'', Same ''SPI_FLASH_DANGEROUS_WRITE_ABORTS''),
     (''STACK_CHECK_NONE'', Same ''COMPILER_STACK_CHECK_MODE_NONE''),
     (''SYSTEM_EVENT_QUEUE_SIZE'', Same ''ESP_SYSTEM_EVENT_QUEUE_SIZE''),
     (''SYSTEM_EVENT_TASK_STACK_SIZE'', Same ''ESP_SYSTEM_EVENT_TASK_STACK_SIZE''),
     (''TASK_WDT'', Same ''ESP_TASK_WDT''),
     (''TASK_WDT_CHECK_IDLE_TASK_CPU0'', Same ''ESP_TASK_WDT_CHECK_IDLE_TASK_CPU0''),
     (''TASK_WDT_CHECK_IDLE_TASK_CPU1'', Same ''ESP_TASK_WDT_CHECK_IDLE_TASK_CPU1''),
     (''TASK_WDT_TIMEOUT_S'', Same ''ESP_TASK_WDT_TIMEOUT_S''),
     (''TIMER_QUEUE_LENGTH'', Same ''FREERTOS_TIMER_QUEUE_LENGTH''),
     (''TIMER_TASK_PRIORITY'', Same ''FREERTOS_TIMER_TASK_PRIORITY''),
     (''TIMER_TASK_STACK_DEPTH'', Same ''FREERTOS_TIMER_TASK_STACK_DEPTH''),
     (''TOOLPREFIX'', Same ''SDK_TOOLPREFIX''),
     (''TRACEMEM_RESERVE_DRAM'', Same ''ESP32_TRACEMEM_RESERVE_DRAM''),
     (''ULP_COPROC_RESERVE_MEM'', Same ''ESP32_ULP_COPROC_RESERVE_MEM'')]"

definition bootloader_sdkconfig :: macros where
  "bootloader_sdkconfig = bootloader_sdkconfig_1 @ bootloader_sdkconfig_2 @ bootloader_sdkconfig_3"

end
