(* ===== verification/BuildConfig.thy ===== *)
theory BuildConfig
  imports WifiConnect Modbus Sdkconfig "HOL-Library.Sublist"
begin

text \<open>
  From the options to the program: the \<open>#if\<close> chains of \<^verbatim>\<open>main/WifiConnect.c\<close> and the values the
  sources read from \<^verbatim>\<open>sdkconfig.h\<close>. The result for the tables of the repository is \<open>build_sdk\<close>, so
  what is shown of the connection for that configuration is what the build runs.
\<close>

section \<open>Chains of conditions\<close>

text \<open>
  \<open>#if x\<close>: not a valid condition if the macro is a string; an undefined one is false. A chain of
  \<open>#if\<close> and \<open>#elif\<close> defines the value of the first condition that holds, and nothing if none does.
\<close>

fun if_chain :: "macros \<Rightarrow> (string \<times> 'a) list \<Rightarrow> 'a option" where
  "if_chain tab [] = None"
| "if_chain tab ((x, v) # r) =
     (case if_value tab x of None \<Rightarrow> None | Some n \<Rightarrow> if n \<noteq> 0 then Some v else if_chain tab r)"

fun ifdef_chain :: "macros \<Rightarrow> (string \<times> 'a) list \<Rightarrow> 'a option" where
  "ifdef_chain tab [] = None"
| "ifdef_chain tab ((x, v) # r) = (if defined tab x then Some v else ifdef_chain tab r)"

definition int_option :: "macros \<Rightarrow> string \<Rightarrow> int option" where
  "int_option tab x = (case expand tab x of Num n \<Rightarrow> Some n | _ \<Rightarrow> None)"

definition text_option :: "macros \<Rightarrow> string \<Rightarrow> string option" where
  "text_option tab x = (case expand tab x of Text t \<Rightarrow> Some t | _ \<Rightarrow> None)"

text \<open>\<open>ESP_IP6_ADDR_IS_GLOBAL\<close> to \<open>ESP_IP6_ADDR_IS_UNIQUE_LOCAL\<close> are 1 to 4.\<close>

definition EXAMPLE_CONNECT_PREFERRED_IPV6_TYPE :: "macros \<Rightarrow> int option" where
  "EXAMPLE_CONNECT_PREFERRED_IPV6_TYPE tab = ifdef_chain tab
     [(''EXAMPLE_CONNECT_IPV6_PREF_LOCAL_LINK'', 2), (''EXAMPLE_CONNECT_IPV6_PREF_GLOBAL'', 1),
      (''EXAMPLE_CONNECT_IPV6_PREF_SITE_LOCAL'', 3),
      (''EXAMPLE_CONNECT_IPV6_PREF_UNIQUE_LOCAL'', 4)]"

definition EXAMPLE_WIFI_SCAN_METHOD :: "macros \<Rightarrow> string option" where
  "EXAMPLE_WIFI_SCAN_METHOD tab = if_chain tab
     [(''EXAMPLE_WIFI_SCAN_METHOD_FAST'', ''WIFI_FAST_SCAN''),
      (''EXAMPLE_WIFI_SCAN_METHOD_ALL_CHANNEL'', ''WIFI_ALL_CHANNEL_SCAN'')]"

definition EXAMPLE_WIFI_CONNECT_AP_SORT_METHOD :: "macros \<Rightarrow> string option" where
  "EXAMPLE_WIFI_CONNECT_AP_SORT_METHOD tab = if_chain tab
     [(''EXAMPLE_WIFI_CONNECT_AP_BY_SIGNAL'', ''WIFI_CONNECT_AP_BY_SIGNAL''),
      (''EXAMPLE_WIFI_CONNECT_AP_BY_SECURITY'', ''WIFI_CONNECT_AP_BY_SECURITY'')]"

definition EXAMPLE_WIFI_SCAN_AUTH_MODE_THRESHOLD :: "macros \<Rightarrow> string option" where
  "EXAMPLE_WIFI_SCAN_AUTH_MODE_THRESHOLD tab = if_chain tab
     [(''EXAMPLE_WIFI_AUTH_OPEN'', ''WIFI_AUTH_OPEN''),
      (''EXAMPLE_WIFI_AUTH_WEP'', ''WIFI_AUTH_WEP''),
      (''EXAMPLE_WIFI_AUTH_WPA_PSK'', ''WIFI_AUTH_WPA_PSK''),
      (''EXAMPLE_WIFI_AUTH_WPA2_PSK'', ''WIFI_AUTH_WPA2_PSK''),
      (''EXAMPLE_WIFI_AUTH_WPA_WPA2_PSK'', ''WIFI_AUTH_WPA_WPA2_PSK''),
      (''EXAMPLE_WIFI_AUTH_WPA2_ENTERPRISE'', ''WIFI_AUTH_WPA2_ENTERPRISE''),
      (''EXAMPLE_WIFI_AUTH_WPA3_PSK'', ''WIFI_AUTH_WPA3_PSK''),
      (''EXAMPLE_WIFI_AUTH_WPA2_WPA3_PSK'', ''WIFI_AUTH_WPA2_WPA3_PSK''),
      (''EXAMPLE_WIFI_AUTH_WAPI_PSK'', ''WIFI_AUTH_WAPI_PSK'')]"

definition eth_phy_of :: "macros \<Rightarrow> eth_phy option" where
  "eth_phy_of tab = if_chain tab
     [(''EXAMPLE_ETH_PHY_IP101'', PHY_IP101), (''EXAMPLE_ETH_PHY_RTL8201'', PHY_RTL8201),
      (''EXAMPLE_ETH_PHY_LAN87XX'', PHY_LAN87XX), (''EXAMPLE_ETH_PHY_DP83848'', PHY_DP83848)]"

definition spi_eth_of :: "macros \<Rightarrow> spi_eth option" where
  "spi_eth_of tab = if_chain tab
     [(''EXAMPLE_USE_DM9051'', DM9051), (''EXAMPLE_USE_W5500'', W5500)]"

definition eth_driver_of :: "macros \<Rightarrow> eth_driver option" where
  "eth_driver_of tab =
     Option.bind (if_chain tab
       [(''EXAMPLE_USE_INTERNAL_ETHERNET'', map_option INTERNAL_ETHERNET (eth_phy_of tab)),
        (''EXAMPLE_USE_SPI_ETHERNET'', map_option SPI_ETHERNET (spi_eth_of tab)),
        (''EXAMPLE_USE_OPENETH'', Some OPENETH)]) id"

section \<open>The configuration\<close>

text \<open>An option that is read only in code that is compiled in some configurations.\<close>

definition int_or_0 :: "macros \<Rightarrow> string \<Rightarrow> int" where
  "int_or_0 tab x = (case int_option tab x of Some n \<Rightarrow> n | None \<Rightarrow> 0)"

definition eth_options_of :: "macros \<Rightarrow> eth_options" where
  "eth_options_of tab =
     \<lparr>PHY_ADDR = int_or_0 tab ''EXAMPLE_ETH_PHY_ADDR'',
      PHY_RST_GPIO = int_or_0 tab ''EXAMPLE_ETH_PHY_RST_GPIO'',
      MDC_GPIO = int_or_0 tab ''EXAMPLE_ETH_MDC_GPIO'',
      MDIO_GPIO = int_or_0 tab ''EXAMPLE_ETH_MDIO_GPIO'',
      SPI_HOST = int_or_0 tab ''EXAMPLE_ETH_SPI_HOST'',
      SPI_MISO_GPIO = int_or_0 tab ''EXAMPLE_ETH_SPI_MISO_GPIO'',
      SPI_MOSI_GPIO = int_or_0 tab ''EXAMPLE_ETH_SPI_MOSI_GPIO'',
      SPI_SCLK_GPIO = int_or_0 tab ''EXAMPLE_ETH_SPI_SCLK_GPIO'',
      SPI_CLOCK_MHZ = int_or_0 tab ''EXAMPLE_ETH_SPI_CLOCK_MHZ'',
      SPI_CS_GPIO = int_or_0 tab ''EXAMPLE_ETH_SPI_CS_GPIO'',
      SPI_INT_GPIO = int_or_0 tab ''EXAMPLE_ETH_SPI_INT_GPIO''\<rparr>"

definition wifi_config_of :: "macros \<Rightarrow> wifi_sta_config option" where
  "wifi_config_of tab =
     Option.bind (text_option tab ''EXAMPLE_WIFI_SSID'') (\<lambda>name.
     Option.bind (text_option tab ''EXAMPLE_WIFI_PASSWORD'') (\<lambda>pass.
     Option.bind (EXAMPLE_WIFI_SCAN_METHOD tab) (\<lambda>scan.
     Option.bind (EXAMPLE_WIFI_CONNECT_AP_SORT_METHOD tab) (\<lambda>sorting.
     Option.bind (int_option tab ''EXAMPLE_WIFI_SCAN_RSSI_THRESHOLD'') (\<lambda>rssi.
     Option.bind (EXAMPLE_WIFI_SCAN_AUTH_MODE_THRESHOLD tab) (\<lambda>auth. Some
       \<lparr>ssid = name, wifi_password = pass, scan_method = scan, sort_method = sorting,
        threshold_rssi = rssi, threshold_authmode = auth\<rparr>))))))"

definition no_wifi :: wifi_sta_config where
  "no_wifi = \<lparr>ssid = [], wifi_password = [], scan_method = [], sort_method = [],
     threshold_rssi = 0, threshold_authmode = []\<rparr>"

text \<open>\<open>None\<close>: the file does not compile. Parts that are not compiled have placeholders.\<close>

definition sdk_of :: "macros \<Rightarrow> sdk option" where
  "sdk_of tab =
     Option.bind (if_value tab ''EXAMPLE_CONNECT_WIFI'') (\<lambda>wifi.
     Option.bind (if_value tab ''EXAMPLE_CONNECT_ETHERNET'') (\<lambda>eth.
     Option.bind (if defined tab ''EXAMPLE_CONNECT_IPV6''
       then EXAMPLE_CONNECT_PREFERRED_IPV6_TYPE tab else Some 2) (\<lambda>ty.
     Option.bind (if wifi \<noteq> 0 then wifi_config_of tab else Some no_wifi) (\<lambda>sta.
     Option.bind (if eth \<noteq> 0 then eth_driver_of tab else Some (INTERNAL_ETHERNET PHY_IP101))
       (\<lambda>drv. Some
       \<lparr>CONNECT_WIFI = (wifi \<noteq> 0), CONNECT_ETHERNET = (eth \<noteq> 0),
        CONNECT_IPV6 = defined tab ''EXAMPLE_CONNECT_IPV6'', PREFERRED_IPV6_TYPE = ty,
        WIFI_CONFIG = sta, ETH_DRIVER = drv,
        ETH = (if eth \<noteq> 0 then eth_options_of tab else no_eth)\<rparr>)))))"

section \<open>What the repository is built with\<close>

lemmas open_tables =
  fun_cong [OF arg_cong [OF sdkconfig_def, of find_macro]]
  fun_cong [OF arg_cong [OF sdkconfig_1_def, of find_macro]]
  fun_cong [OF arg_cong [OF sdkconfig_2_def, of find_macro]]
  fun_cong [OF arg_cong [OF sdkconfig_3_def, of find_macro]]
  fun_cong [OF arg_cong [OF sdkconfig_4_def, of find_macro]]

lemmas lookup_simps =
  open_tables find_macro.simps find_macro_append same_name.simps char.inject simp_thms
  if_True if_False option.case

lemma sdkconfig_example:
  "map_of sdkconfig ''EXAMPLE_CONNECT_WIFI'' = Some (Num 1)"
  "map_of sdkconfig ''EXAMPLE_CONNECT_ETHERNET'' = None"
  "map_of sdkconfig ''EXAMPLE_CONNECT_IPV6'' = Some (Num 1)"
  "map_of sdkconfig ''EXAMPLE_CONNECT_IPV6_PREF_LOCAL_LINK'' = Some (Num 1)"
  "map_of sdkconfig ''EXAMPLE_WIFI_SSID'' = Some (Text ''Tenda_46DEA0'')"
  "map_of sdkconfig ''EXAMPLE_WIFI_PASSWORD'' = Some (Text [])"
  "map_of sdkconfig ''EXAMPLE_WIFI_SCAN_METHOD_FAST'' = None"
  "map_of sdkconfig ''EXAMPLE_WIFI_SCAN_METHOD_ALL_CHANNEL'' = Some (Num 1)"
  "map_of sdkconfig ''EXAMPLE_WIFI_SCAN_RSSI_THRESHOLD'' = Some (Num (-127))"
  "map_of sdkconfig ''EXAMPLE_WIFI_AUTH_OPEN'' = Some (Num 1)"
  "map_of sdkconfig ''EXAMPLE_WIFI_CONNECT_AP_BY_SIGNAL'' = Some (Num 1)"
  unfolding find_macro_eq [symmetric]
  by (simp_all only: lookup_simps cong: find_macro_cong same_name_cong)

lemma sdkconfig_limits:
  "map_of sdkconfig ''FREERTOS_HZ'' = Some (Num 100)"
  "map_of sdkconfig ''FMB_SERIAL_BUF_SIZE'' = Some (Num 256)"
  "map_of sdkconfig ''LWIP_IPV6_NUM_ADDRESSES'' = Some (Num 3)"
  "map_of sdkconfig ''MB_SERIAL_BUF_SIZE'' = Some (Same ''FMB_SERIAL_BUF_SIZE'')"
  unfolding find_macro_eq [symmetric]
  by (simp_all only: lookup_simps cong: find_macro_cong same_name_cong)

lemma expand_cases:
  "map_of tab x = None \<Longrightarrow> expand tab x = Same x"
  "map_of tab x = Some (Num n) \<Longrightarrow> expand tab x = Num n"
  "map_of tab x = Some (Text t) \<Longrightarrow> expand tab x = Text t"
  by (simp_all add: expand.simps)

text \<open>
  With the options of the repository every \<open>#if\<close> chain of the connection module selects a
  value, so it compiles, as a Wi-Fi station that waits for an IPv4 and a link-local IPv6 address.
\<close>

lemma sdk_of_sdkconfig: "sdk_of sdkconfig = Some build_sdk"
  by (simp add: sdk_of_def if_value_def defined_def wifi_config_of_def text_option_def
      int_option_def EXAMPLE_CONNECT_PREFERRED_IPV6_TYPE_def EXAMPLE_WIFI_SCAN_METHOD_def
      EXAMPLE_WIFI_CONNECT_AP_SORT_METHOD_def EXAMPLE_WIFI_SCAN_AUTH_MODE_THRESHOLD_def
      build_sdk_def sdkconfig_example expand_cases)

lemma map_of_undef: "x \<noteq> y \<Longrightarrow> map_of (undef x tab) y = map_of tab y"
  unfolding undef_def by (induction tab) auto

text \<open>\<open>portTICK_PERIOD_MS\<close> of FreeRTOS, and the length of the reply to a request for registers.\<close>

definition portTICK_PERIOD_MS :: "macros \<Rightarrow> int option" where
  "portTICK_PERIOD_MS tab = map_option (\<lambda>hz. 1000 div hz) (int_option tab ''FREERTOS_HZ'')"

definition reply_length :: "nat \<Rightarrow> int" where
  "reply_length regs = 1 + 1 + 1 + 2 * int regs + 2"

text \<open>
  The limits the sources rely on hold in this build: a tick is 10 ms, so the Modbus polling
  delay is 500 ms; the reply with all registers (address, function, count, two bytes each and the
  checksum) fits into the buffer of the Modbus port, also under that option's old name; and an
  interface never has more IPv6 addresses than the array that receives them.
\<close>

theorem build_limits:
  "portTICK_PERIOD_MS sdkconfig = Some (500 div UPDATE_CIDS_TIMEOUT_TICS) \<and>
   (\<exists>n. int_option sdkconfig ''FMB_SERIAL_BUF_SIZE'' = Some n \<and>
     int_option sdkconfig ''MB_SERIAL_BUF_SIZE'' = Some n \<and> reply_length NUM_REG \<le> n) \<and>
   (\<exists>n. int_option sdkconfig ''LWIP_IPV6_NUM_ADDRESSES'' = Some n \<and> 0 < n \<and>
     n \<le> int MAX_IP6_ADDRS_PER_NETIF)"
proof -
  have "expand sdkconfig ''MB_SERIAL_BUF_SIZE'' = Num 256"
    by (simp add: expand.simps sdkconfig_limits map_of_undef)
  then show ?thesis
    by (simp add: portTICK_PERIOD_MS_def int_option_def sdkconfig_limits expand_cases
        reply_length_def NUM_REG_def MAX_IP6_ADDRS_PER_NETIF_def UPDATE_CIDS_TIMEOUT_TICS_def)
qed

text \<open>The bootloader's tables are parts of the firmware's, in the same order.\<close>

lemma bootloader_parts:
  "subseq bootloader_sdkconfig_1 sdkconfig_1" "subseq bootloader_sdkconfig_2 sdkconfig_2"
  "subseq bootloader_sdkconfig_3 sdkconfig_4"
  unfolding bootloader_sdkconfig_1_def sdkconfig_1_def bootloader_sdkconfig_2_def
    sdkconfig_2_def bootloader_sdkconfig_3_def sdkconfig_4_def
  by (rule subseq_Cons2 list_emb_Cons list_emb_Nil)+

text \<open>
  The bootloader is built with the options of the firmware: whatever its configuration
  defines, the firmware's defines with the same value, in the same order.
\<close>

theorem bootloader_options_agree: "subseq bootloader_sdkconfig sdkconfig"
  unfolding bootloader_sdkconfig_def sdkconfig_def
  by (intro list_emb_append_mono list_emb_append2 bootloader_parts)

end
