(* ===== verification/Interleaving.thy ===== *)
theory Interleaving
  imports AppEvents
begin

text \<open>
  The control task and the event handlers run in different tasks. Here a handler may run between
  any two statements of the task's loop, not only where the task blocks: between the check of the
  service state and the message, or between the message and its publication. The steps are a
  relation on the task's position and the state.
\<close>

section \<open>Steps\<close>

datatype position = At_Request | At_Check | At_Fill | At_Send | At_Sleep

inductive device_step ::
    "env \<Rightarrow> sdk \<Rightarrow> position \<times> machine \<Rightarrow> position \<times> machine \<Rightarrow> bool" for E cfg where
  event: "handle_app E cfg e s = (Next t :: unit flow) \<Longrightarrow> device_step E cfg (p, s) (p, t)"
| request: "request_modbus_info E s = Next t \<Longrightarrow> device_step E cfg (At_Request, s) (At_Check, t)"
| connected: "mqtt_service_state s = MQTT_SERV_CONNECTED \<Longrightarrow>
    device_step E cfg (At_Check, s) (At_Fill, s)"
| not_connected: "mqtt_service_state s \<noteq> MQTT_SERV_CONNECTED \<Longrightarrow>
    device_step E cfg (At_Check, s) (At_Sleep, s)"
| fill: "fill_payload E s = Next t \<Longrightarrow> device_step E cfg (At_Fill, s) (At_Send, t)"
| send: "device_step E cfg (At_Send, s)
    (At_Sleep, logged (publish_call (mqttc s) (payload_char s)) s)"
| sleep: "device_step E cfg (At_Sleep, s) (At_Request, logged (Rtos (VTaskDelay 1000)) s)"

inductive_cases device_stepE [consumes 1, case_names event request connected not_connected fill send sleep]:
  "device_step E cfg (p, s) q"

abbreviation device_run where
  "device_run E cfg \<equiv> (device_step E cfg)\<^sup>*\<^sup>*"

section \<open>The loop body is a run\<close>

text \<open>A round in which events arrive only while the task blocks, as an example of a run.\<close>

lemma arrive_steps:
  "(arrive E cfg es s :: unit flow) = Next t \<Longrightarrow> device_run E cfg (p, s) (p, t)"
proof (induction es arbitrary: s)
  case (Cons e es)
  then obtain u where "(handle_app E cfg e s :: unit flow) = Next u" "(arrive E cfg es u :: unit flow) = Next t"
    by (auto split: flow.splits)
  then show ?case
    using Cons.IH device_step.event by (metis converse_rtranclp_into_rtranclp)
qed (simp add: skip_def)

lemma request_no_return: "request_modbus_info E s \<noteq> Return r t"
  by (auto simp: request_modbus_info_def read_cid_def descriptor_at_def write_array_modbus_def
      log_registers_def c_assert_def flow_iffs simp del: block_more split: if_splits)

lemma fill_no_return: "fill_payload E s \<noteq> Return r t"
  by (auto simp: fill_payload_def fits_in_def Let_def flow_iffs simp del: block_more
      split: sum.splits if_splits)

lemma report_steps:
  assumes "(call_fn get_mqtt_service_state
    (\<lambda>st. only_if (st = MQTT_SERV_CONNECTED) (publish E)) u :: unit flow) = Next v"
  shows "device_run E cfg (At_Check, u) (At_Sleep, v)"
proof (cases "mqtt_service_state u = MQTT_SERV_CONNECTED")
  case True
  then have "(publish E u :: unit flow) = Next v"
    using assms by (simp add: call_fn_def get_mqtt_service_state_def using_state_def ret_def only_if_def)
  then obtain w where "fill_payload E u = Next w" "v = logged (publish_call (mqttc w) (payload_char w)) w"
    by (auto simp: publish_def publish_call_def fill_no_return flow_iffs simp del: block_more)
  with True show ?thesis
    by (metis (no_types, lifting) device_step.connected device_step.fill device_step.send
        rtranclp.simps)
next
  case False
  then have "v = u"
    using assms by (simp add: call_fn_def get_mqtt_service_state_def using_state_def ret_def only_if_def skip_def)
  with False show ?thesis by (auto intro: device_step.not_connected)
qed

lemma ctrl_cycle_steps:
  assumes "(ctrl_cycle E cfg sched s :: unit flow) = Next t"
  shows "device_run E cfg (At_Request, s) (At_Request, t)"
proof -
  let ?delay = "Rtos (VTaskDelay 1000)"
  obtain r u v where r: "request_modbus_info E s = Next r"
    and u: "(arrive E cfg (sched r) r :: unit flow) = Next u"
    and v: "(call_fn get_mqtt_service_state
      (\<lambda>st. only_if (st = MQTT_SERV_CONNECTED) (publish E)) u :: unit flow) = Next v"
    and t: "(arrive E cfg (sched (logged ?delay v)) (logged ?delay v) :: unit flow) = Next t"
    using assms unfolding ctrl_cycle_def sleep_def block_Cons_Next
    by (auto simp: flow_iffs request_no_return simp del: block_more)
  have "device_step E cfg (At_Request, s) (At_Check, r)" using r by (rule device_step.request)
  then have "device_run E cfg (At_Request, s) (At_Check, u)"
    using arrive_steps [OF u] by (rule converse_rtranclp_into_rtranclp)
  also have "device_run E cfg (At_Check, u) (At_Sleep, v)" by (rule report_steps [OF v])
  also have "device_run E cfg (At_Sleep, v) (At_Request, logged ?delay v)"
    by (rule r_into_rtranclp) (rule device_step.sleep)
  also have "device_run E cfg (At_Request, logged ?delay v) (At_Request, t)" by (rule arrive_steps [OF t])
  finally show ?thesis .
qed

lemma idle_cycle:
  "\<exists>t m. (ctrl_cycle device build_sdk (\<lambda>_. []) at_work :: unit flow) = Next t \<and>
    publications t = [publish_call 0 m]"
proof -
  have w: "mqtt_service_state at_work = MQTT_SERV_CONNECTED" "length (array_modbus at_work) = 128"
    "mqttc at_work = 0" "publications at_work = []"
    by (simp_all add: at_work_def connected_def init_machine_def publications_def)
  obtain r u t cs where *: "request_modbus_info device at_work = Next r"
    "arrive device build_sdk [] r = (Next u :: unit flow)"
    "(ctrl_cycle device build_sdk (\<lambda>_. []) at_work :: unit flow) = Next t"
    "publications t = publications at_work @ cs" "published_by device r u cs"
    using ctrl_cycle_run [OF device_app_env device_mb_stack no_events_harmless at_work_running,
        where cfg = build_sdk and ?'r = unit] by blast
  have "mqtt_service_state r = MQTT_SERV_CONNECTED" "mqttc r = 0"
    using *(1) w by (auto simp: request_modbus_info_def read_cid_run [OF device_mb_stack] Let_def)
  moreover have "u = r" using *(2) by (simp add: skip_def)
  ultimately show ?thesis using *(3-5) w by (auto simp: published_by_def)
qed

section \<open>What is published, whatever the interleaving\<close>

definition same_message :: "machine \<Rightarrow> machine \<Rightarrow> bool" where
  "same_message s t \<longleftrightarrow> payload_char t = payload_char s"

interpretation message_kept: handler_relation same_message "\<lambda>_. True"
  by unfold_locales (auto simp: same_message_def)

definition message_of :: "string \<Rightarrow> string \<Rightarrow> bool" where
  "message_of name p \<longleftrightarrow> (\<exists>ts regs. reports p name ts regs)"

text \<open>
  The invariant: the task's state is in order, a message that is about to be sent is complete, and
  so was every message sent before.
\<close>

definition in_order :: "string \<Rightarrow> position \<times> machine \<Rightarrow> bool" where
  "in_order name c \<longleftrightarrow> (case c of (p, s) \<Rightarrow> running s \<and> tmp_macstr s = name \<and>
     (p = At_Send \<longrightarrow> message_of name (payload_char s)) \<and>
     (\<forall>c \<in> set (publications s). \<exists>h m. c = publish_call h m \<and> message_of name m))"

lemma event_in_order:
  assumes env: "app_env E nm ty" and c: "in_order name (p, s)"
    and t: "handle_app E cfg e s = (Next t :: unit flow)"
  shows "in_order name (p, t)"
proof -
  have r: "ready s" using c by (simp add: in_order_def running_def)
  obtain w where "view_event cfg nm ty e (view_of s) = Some w" "ready t" "same_data s t"
    using handle_app_follows [OF env r, of cfg e, where ?'r = unit] t
    by (auto simp: follows_def split: option.splits)
  moreover have "obeys same_message (handle_app E cfg e :: unit stmt)"
    by (rule message_kept.obeys_handle_app) simp
  then have "payload_char t = payload_char s"
    using t by (auto simp: obeys_def same_message_def dest: spec [of _ s])
  ultimately show ?thesis
    using c running_same_data [of s t] by (auto simp: in_order_def same_data_def)
qed

lemma fill_in_order:
  assumes c: "in_order name (At_Fill, s)" and t: "fill_payload E s = Next t"
  shows "in_order name (At_Send, t)"
proof -
  have s: "length (array_modbus s) = 128" "length (tmp_macstr s) \<le> 19" "no_quote (tmp_macstr s)"
    and f: "fits_long (clock_at E s)"
    using c by (auto simp: in_order_def running_def clock_at_def)
  have "reports (payload_text (tmp_macstr s) (clock_at E s) (payload_entries (array_modbus s)))
      (tmp_macstr s) (clock_at E s) (array_modbus s)"
    using payload_text_length [OF s(2) f] payload_text_reads [OF s(3) f] by (simp add: reports_def)
  then have "message_of (tmp_macstr s)
      (payload_text (tmp_macstr s) (clock_at E s) (payload_entries (array_modbus s)))"
    unfolding message_of_def by blast
  with c t show ?thesis
    by (auto simp: fill_payload_run [OF s(1,2)] in_order_def running_def ready_def)
qed

lemma step_in_order:
  assumes env: "app_env E nm ty" "mb_stack E"
  shows "device_step E cfg c d \<Longrightarrow> in_order name c \<Longrightarrow> in_order name d"
proof (induction rule: device_step.induct)
  case (event e s t p)
  then show ?case by (blast intro: event_in_order [OF env(1)])
next
  case (request s t)
  then show ?case using request_run [OF env(2), of s] by (fastforce simp: in_order_def)
next
  case (fill s t)
  then show ?case by (blast intro: fill_in_order)
next
  case (send s)
  then show ?case by (auto simp: in_order_def running_def ready_def publish_call_def)
qed (auto simp: in_order_def running_def ready_def)

text \<open>
  C6: However handlers and the control task interleave, also when a handler runs between the check
  of the service state, the message and its publication: every message that is ever published is
  complete and can be read back, and names this device. The task is never stuck: in every state
  that is reached it has a next step.
\<close>

theorem every_publication_complete:
  assumes env: "app_env E nm ty" "mb_stack E" and s: "running s" "publications s = []"
    and run: "device_run E cfg (At_Request, s) (p, t)"
  shows "(\<forall>c \<in> set (publications t). \<exists>h m ts regs.
      c = publish_call h m \<and> reports m (tmp_macstr s) ts regs) \<and>
    (\<exists>q u. p \<noteq> q \<and> device_step E cfg (p, t) (q, u))"
proof -
  have "in_order (tmp_macstr s) (At_Request, s)" using s by (simp add: in_order_def)
  with run have t: "in_order (tmp_macstr s) (p, t)"
    by (induction rule: rtranclp_induct) (auto intro: step_in_order [OF env])
  then have r: "running t" by (simp add: in_order_def)
  have "\<exists>q u. p \<noteq> q \<and> device_step E cfg (p, t) (q, u)"
  proof (cases p)
    case At_Request
    with request_run [OF env(2) r] show ?thesis by (blast intro: device_step.request)
  next
    case At_Check
    then show ?thesis
      by (cases "mqtt_service_state t = MQTT_SERV_CONNECTED")
        (blast intro: device_step.connected device_step.not_connected)+
  next
    case At_Fill
    have "length (array_modbus t) = 128" "length (tmp_macstr t) \<le> 19" using r by (simp_all add: running_def)
    with At_Fill fill_payload_run [of t E] show ?thesis by (blast intro: device_step.fill)
  next
    case At_Send
    then show ?thesis by (blast intro: device_step.send)
  next
    case At_Sleep
    then show ?thesis by (blast intro: device_step.sleep)
  qed
  with t show ?thesis by (fastforce simp: in_order_def message_of_def)
qed

theorem every_publication_complete_witness:
  "\<exists>t h m ts regs. device_run device build_sdk (At_Request, at_work) (At_Request, t) \<and>
    publications t = [publish_call h m] \<and> reports m ''24dcc3b0ce00'' ts regs"
proof -
  obtain t m where t: "(ctrl_cycle device build_sdk (\<lambda>_. []) at_work :: unit flow) = Next t"
    "publications t = [publish_call 0 m]" using idle_cycle by blast
  have run: "device_run device build_sdk (At_Request, at_work) (At_Request, t)"
    by (rule ctrl_cycle_steps [OF t(1)])
  have "publications at_work = []" "tmp_macstr at_work = ''24dcc3b0ce00''"
    by (simp_all add: at_work_def connected_def init_machine_def publications_def)
  with every_publication_complete [OF device_app_env device_mb_stack at_work_running _ run] t(2)
  obtain h q ts regs where "publish_call 0 m = publish_call h q" "reports q ''24dcc3b0ce00'' ts regs"
    by auto
  with run t(2) show ?thesis by metis
qed

end
