(* ===== verification/Races.thy ===== *)
theory Races
  imports AppEvents
begin

text \<open>
  What handlers do to calls that are still under way in another task, and what is left behind by
  repeated starts: the client's task may run its handler while \<open>mqtt_app_start\<close> has yet to free the
  token, an address may arrive while \<open>example_disconnect\<close> runs, and each loss of the broker makes
  another client.
\<close>

section \<open>A start within a start\<close>

lemma freed_jwt [simp]: "jwt (freed p s) = jwt s"
  by (simp add: freed_def logged_def)

lemma free_again: "p \<noteq> 0 \<Longrightarrow> p \<notin> set (live s) \<Longrightarrow> free p s = Fault Bad_Free s"
  by (simp add: free_def using_state_def fail_def)

text \<open>Starts on a device where nothing fails; one that is not disturbed frees the token.\<close>

definition good_env :: "env \<Rightarrow> bool" where
  "good_env E \<longleftrightarrow> all_well E \<and> rsa_signatures E \<and> fresh_blocks E \<and>
     (\<forall>s. int_reply E s (Libc (Malloc 5000)) \<noteq> 0)"

abbreviation release_jwt :: "int stmt" where
  "release_jwt \<equiv> using_state (\<lambda>u. only_if (jwt u \<noteq> 0) free_jwt)"

lemma start_reaches:
  assumes "good_env E" "uri (mqttcfg s) = Some GCPIOT_BROKER_URI"
  obtains tok err u where
    "\<And>during. mqtt_app_start_during E during (mqttcfg s) s = block [during, release_jwt, ret err] u"
    "jwt u = jwt_block E s" "live u = jwt_block E s # live s" "mqttc u \<noteq> 0"
    "client_calls u = client_calls s @
       [init_call (giotc_config (mqttcfg s) (Some tok)), Mqtt (Esp_mqtt_client_start (mqttc u))]"
    "mqttcfg u = mqttcfg s" "wifi_connect u = wifi_connect s"
    "jwt_block E s \<noteq> 0" "jwt_block E s \<notin> set (live s)"
proof -
  have *: "rsa_signatures E" "fresh_blocks E" "jwt_block E s \<noteq> 0" "all_well E"
    using assms(1) by (simp_all add: good_env_def jwt_block_def)
  show thesis
    using mqtt_app_start_reaches [OF *(1,2) assms(2) *(3,4)] jwt_block_fresh [OF *(2), of s] *(3) that
    by blast
qed

lemma start_succeeds:
  assumes "good_env E" "uri (mqttcfg s) = Some GCPIOT_BROKER_URI"
  obtains tok r t where "mqtt_app_start E (mqttcfg s) s = Return r t"
    "jwt t = jwt_block E s" "jwt_block E s \<notin> set (live s)" "jwt_block E s \<noteq> 0" "live t = live s"
    "Libc (Free (jwt_block E s)) \<in> set (calls t)" "mqttc t \<noteq> 0"
    "client_calls t = client_calls s @
       [init_call (giotc_config (mqttcfg s) (Some tok)), Mqtt (Esp_mqtt_client_start (mqttc t))]"
proof -
  obtain tok err u where run: "\<And>during. mqtt_app_start_during E during (mqttcfg s) s =
      block [during, release_jwt, ret err] u"
    and u: "jwt u = jwt_block E s" "live u = jwt_block E s # live s" "mqttc u \<noteq> 0"
      "client_calls u = client_calls s @
         [init_call (giotc_config (mqttcfg s) (Some tok)), Mqtt (Esp_mqtt_client_start (mqttc u))]"
    and p: "jwt_block E s \<noteq> 0" "jwt_block E s \<notin> set (live s)"
    by (rule start_reaches [OF assms]) (rule that; assumption)
  have "mqtt_app_start E (mqttcfg s) s = Return err (freed (jwt_block E s) u)"
    using u p
    by (simp add: mqtt_app_start_def run skip_def using_state_def only_if_def free_jwt_def free_run ret_def)
  with u p that [of err "freed (jwt_block E s) u" tok] show thesis
    by (simp add: client_calls_def)
qed

text \<open>
  C14: The token's block is kept in a global variable, and the client's task runs as soon as the
  client is started. If the broker is lost before the starting task has freed the token, the
  handler starts another client with another token, frees that one and leaves its address in the
  variable: the starting task then frees the second block once more, and the first is never freed.
\<close>

theorem restart_while_starting:
  assumes env: "good_env E" and s: "uri (mqttcfg s) = Some GCPIOT_BROKER_URI" "wifi_connect s"
  shows "\<exists>t p. mqtt_app_start_during E (handle_app E cfg (Mqtt_Event h MQTT_EVENT_DISCONNECTED))
      (mqttcfg s) s = Fault Bad_Free t \<and> Libc (Free (jwt t)) \<in> set (calls t) \<and>
    p \<notin> set (live s) \<and> live t = p # live s \<and> jwt t \<noteq> p"
proof -
  obtain err u where run: "\<And>during. mqtt_app_start_during E during (mqttcfg s) s =
      block [during, release_jwt, ret err] u"
    and u: "live u = jwt_block E s # live s" "mqttcfg u = mqttcfg s"
      "wifi_connect u = wifi_connect s"
    and p: "jwt_block E s \<notin> set (live s)"
    by (rule start_reaches [OF env s(1)]) (rule that; assumption)
  let ?d = "u\<lparr>mqtt_service_state := MQTT_SERV_DISCONNECTED\<rparr>"
  have "uri (mqttcfg ?d) = Some GCPIOT_BROKER_URI" using u(2) s(1) by simp
  then obtain r t where t: "mqtt_app_start E (mqttcfg ?d) ?d = Return r t"
    "jwt t = jwt_block E ?d" "jwt_block E ?d \<notin> set (live ?d)" "jwt_block E ?d \<noteq> 0"
    "live t = live ?d" "Libc (Free (jwt_block E ?d)) \<in> set (calls t)"
    by (rule start_succeeds [OF env]) (rule that; assumption)
  have "(handle_app E cfg (Mqtt_Event h MQTT_EVENT_DISCONNECTED) :: int stmt) u = Next t"
    using t(1) u(3) s(2)
    by (simp add: mqtt_event_handler_def set_mqtt_service_state_def call_void_def upd_def
        using_state_def if_else_def ret_def)
  moreover have "(release_jwt :: int stmt) t = Fault Bad_Free t"
    using t(2-5) by (simp add: using_state_def only_if_def free_jwt_def free_again)
  ultimately have "mqtt_app_start_during E (handle_app E cfg (Mqtt_Event h MQTT_EVENT_DISCONNECTED))
      (mqttcfg s) s = Fault Bad_Free t"
    by (simp add: run)
  with t u(1) p show ?thesis
    by (intro exI [of _ t] exI [of _ "jwt_block E s"]) auto
qed

text \<open>A device where nothing fails.\<close>

definition well_device :: env where
  "well_device = device\<lparr>int_reply := (\<lambda>s c. case c of Mqtt (Esp_mqtt_client_init m) \<Rightarrow> 77
     | _ \<Rightarrow> int_reply device s c)\<rparr>"

lemma well_device_good: "good_env well_device"
  using device_app_env next_block_pos
  by (simp add: good_env_def all_well_def app_env_def well_device_def device_def init_call_def
      rsa_signatures_def fresh_blocks_def less_imp_neq [THEN not_sym])

theorem restart_while_starting_witness:
  "\<exists>t. mqtt_app_start_during well_device
     (handle_app well_device build_sdk (Mqtt_Event 77 MQTT_EVENT_DISCONNECTED)) broker_config
     connected = Fault Bad_Free t"
  using restart_while_starting [OF well_device_good, of connected build_sdk 77]
  by (auto simp: connected_def broker_config_def)

section \<open>Clients pile up\<close>

text \<open>The handles of the clients that were started, in order.\<close>

definition started :: "machine \<Rightarrow> int list" where
  "started s = concat (map (\<lambda>c. case c of Mqtt (Esp_mqtt_client_start h) \<Rightarrow> [h] | _ \<Rightarrow> []) (client_calls s))"

definition broker_lost :: "app_event \<Rightarrow> bool" where
  "broker_lost e \<longleftrightarrow> (case e of Mqtt_Event h MQTT_EVENT_DISCONNECTED \<Rightarrow> True | _ \<Rightarrow> False)"

definition same_client :: "machine \<Rightarrow> machine \<Rightarrow> bool" where
  "same_client s t \<longleftrightarrow> client_calls t = client_calls s \<and> mqttc t = mqttc s"

lemma client_calls_logged [simp]:
  "client_calls (logged c s) = client_calls s @ (case c of Mqtt m \<Rightarrow> [c] | _ \<Rightarrow> [])"
  by (cases c) (simp_all add: client_calls_def)

lemma client_calls_update [simp]:
  "client_calls (s\<lparr>wifi_connect := b\<rparr>) = client_calls s" "client_calls (s\<lparr>s_ip_addr := a\<rparr>) = client_calls s"
  "client_calls (s\<lparr>s_ipv6_addr := l\<rparr>) = client_calls s"
  "client_calls (s\<lparr>mqtt_service_state := st\<rparr>) = client_calls s"
  by (simp_all add: client_calls_def)

lemma client_calls_event: "event_call c \<Longrightarrow> client_calls (logged c s) = client_calls s"
  by (cases c) (auto simp: event_call_def)

interpretation client_kept: event_relation same_client
  by unfold_locales (simp_all add: same_client_def client_calls_event del: client_calls_logged)

text \<open>Handling an event starts a client if the broker was lost, and none otherwise.\<close>

definition pile :: "nat \<Rightarrow> machine \<Rightarrow> machine \<Rightarrow> bool" where
  "pile n s t \<longleftrightarrow> (\<exists>hs. started t = started s @ hs \<and> length hs = n \<and>
     mqttc t = (if hs = [] then mqttc s else last hs))"

lemma pile_trans:
  assumes "pile m s t" "pile n t u"
  shows "pile (m + n) s u"
proof -
  obtain gs hs where "started t = started s @ gs" "length gs = m" "started u = started t @ hs"
    "length hs = n" "mqttc t = (if gs = [] then mqttc s else last gs)"
    "mqttc u = (if hs = [] then mqttc t else last hs)"
    using assms unfolding pile_def by blast
  then have "started u = started s @ (gs @ hs) \<and> length (gs @ hs) = m + n \<and>
    mqttc u = (if gs @ hs = [] then mqttc s else last (gs @ hs))" by simp
  then show ?thesis unfolding pile_def by blast
qed

lemma pile_same: "same_client s t \<Longrightarrow> pile 0 s t"
  by (simp add: pile_def same_client_def started_def)

lemma handle_app_pile:
  assumes env: "good_env E" and s: "ready s" and t: "(handle_app E cfg e s :: 'r flow) = Next t"
  shows "pile (if broker_lost e then 1 else 0) s t"
proof (cases e)
  case (Wifi_Event w)
  have "obeys same_client (call_void (handle_event E cfg w) :: 'r stmt)"
    by (intro client_kept.obeys_call_void client_kept.obeys_handle_event)
  with t Wifi_Event show ?thesis
    by (auto simp: obeys_def broker_lost_def intro!: pile_same dest: spec [of _ s])
next
  case (Mqtt_Event h m)
  show ?thesis
  proof (cases "m = MQTT_EVENT_DISCONNECTED")
    case True
    let ?d = "s\<lparr>mqtt_service_state := MQTT_SERV_DISCONNECTED\<rparr>"
    have "uri (mqttcfg ?d) = Some GCPIOT_BROKER_URI" using s by (simp add: ready_def)
    then obtain tok r u where u: "mqtt_app_start E (mqttcfg ?d) ?d = Return r u"
      "client_calls u = client_calls ?d @
         [init_call (giotc_config (mqttcfg ?d) (Some tok)), Mqtt (Esp_mqtt_client_start (mqttc u))]"
      by (rule start_succeeds [OF env]) (rule that; assumption)
    have "wifi_connect s \<and> u = t"
      using t u(1) Mqtt_Event True
      by (cases "wifi_connect s") (simp_all add: mqtt_event_handler_def set_mqtt_service_state_def
          call_void_def upd_def using_state_def if_else_def ret_def do_ext_def ext_def fail_def skip_def)
    then show ?thesis
      using u(2) Mqtt_Event True
      by (auto simp: pile_def broker_lost_def started_def init_call_def)
  next
    case False
    have "pile 0 s t"
      using t Mqtt_Event False
      by (cases m) (auto simp: mqtt_event_handler_def set_mqtt_service_state_def stmt_simps
          pile_def started_def)
    with Mqtt_Event False show ?thesis
      by (cases m) (simp_all add: broker_lost_def)
  qed
qed

text \<open>
  C15: Each loss of the broker makes another client. On a device where every token and every client
  can be made (\<open>all_well\<close>) and the libraries behave as documented (\<open>app_env\<close>), whatever events
  arrive, as long as none of them restarts the device: the number of clients that were started grows
  by the number of losses among the events, and only the handle of the last of them is kept.
\<close>

theorem clients_pile_up:
  assumes "app_env E name ty" "all_well E" "ready s"
    and "view_events cfg name ty es (view_of s) \<noteq> None"
  shows "\<exists>t hs. (arrive E cfg es s :: unit flow) = Next t \<and> started t = started s @ hs \<and>
    length hs = length (filter broker_lost es) \<and> mqttc t = (if hs = [] then mqttc s else last hs)"
proof -
  have g: "good_env E" using assms(1,2) by (simp add: good_env_def app_env_def)
  have "\<exists>t. (arrive E cfg es s :: unit flow) = Next t \<and> pile (length (filter broker_lost es)) s t"
    using assms(3,4)
  proof (induction es arbitrary: s)
    case Nil
    then show ?case by (simp add: skip_def pile_def)
  next
    case (Cons e es)
    then obtain w where w: "view_event cfg name ty e (view_of s) = Some w"
      "view_events cfg name ty es w \<noteq> None" by (auto split: bind_splits)
    with handle_app_follows [OF assms(1) Cons.prems(1), of cfg e, where ?'r = unit]
    obtain t where t: "(handle_app E cfg e s :: unit flow) = Next t" "view_of t = w" "ready t"
      by (auto simp: follows_def)
    with Cons.IH [of t] w(2) obtain u where "(arrive E cfg es t :: unit flow) = Next u"
      "pile (length (filter broker_lost es)) t u" by auto
    with t(1) pile_trans [OF handle_app_pile [OF g Cons.prems(1) t(1)]] show ?case
      by fastforce
  qed
  then show ?thesis by (auto simp: pile_def)
qed

lemma well_device_app_env: "app_env well_device (\<lambda>_. ''example_connect: sta'') (\<lambda>_. 2)"
  using device_app_env well_device_good
  by (simp add: app_env_def good_env_def net_env_def well_device_def)

theorem clients_pile_up_witness:
  "\<exists>t. (arrive well_device build_sdk (replicate 3 (Mqtt_Event 77 MQTT_EVENT_DISCONNECTED)) connected
     :: unit flow) = Next t \<and> length (started t) = 3"
proof -
  have "started connected = []"
    by (simp add: started_def client_calls_def connected_def init_machine_def)
  moreover have "link_up (net_of connected)" by (simp add: net_of_def connected_def)
  ultimately show ?thesis
    using clients_pile_up [OF well_device_app_env _ connected_ready, of build_sdk
        "replicate 3 (Mqtt_Event 77 MQTT_EVENT_DISCONNECTED)"] well_device_good
    by (auto simp: good_env_def view_of_def numeral_3_eq_3 broker_lost_def simp del: arrive.simps)
qed

section \<open>An address while disconnecting\<close>

text \<open>
  C25: Disconnecting gives up the semaphore and clears its handle before it unregisters the
  handlers: an address of one of the module's interfaces that is handled in between hits an
  assertion of the kernel.
\<close>

theorem address_while_disconnecting:
  assumes "net_env E name ty" "s_semph_get_ip_addrs s \<noteq> 0" "our_name (name netif)"
  shows "\<exists>t. example_disconnect_during n E cfg (deliver E cfg [GOT_IP netif a]) s = Fault Assert_Failed t"
proof -
  have "int_reply E u (Netif (Esp_netif_get_desc netif)) \<noteq> 0"
    "str_reply E u (Netif (Esp_netif_get_desc netif)) = name netif" for u
    using assms(1) by (simp_all add: net_env_def)
  with assms(2,3) show ?thesis
    by (simp add: example_disconnect_during_def deliver_def call_void_def on_got_ip_def
        is_our_netif_def give_semaphore_def strncmp_our_name stmt_simps)
qed

theorem address_while_disconnecting_witness:
  "\<exists>t. example_disconnect_during 9 device build_sdk (deliver device build_sdk [GOT_IP 5 0x0100a8c0])
     connected = Fault Assert_Failed t"
  by (rule address_while_disconnecting [where name = "\<lambda>_. ''example_connect: sta''" and ty = "\<lambda>_. 2"])
    (use device_app_env in \<open>simp_all add: app_env_def connected_def our_name_def\<close>)

end
