(* ===== verification/Binary32.thy ===== *)
theory Binary32
  imports Utility "HOL-Library.Log_Nat"
begin

text \<open>
  Single-precision arithmetic as \<^verbatim>\<open>rand_int_decimal\<close> of \<^verbatim>\<open>main/utility.c\<close> uses it: the values that
  are not negative, with rounding to the nearest value and ties to the even one. A finite value is
  the rational number it stands for; its last binary digit has the weight \<open>ulp\<close>.
\<close>

section \<open>Rounding\<close>

definition floor_log2 :: "rat \<Rightarrow> int" where
  "floor_log2 q = (case quotient_of q of (n, d) \<Rightarrow>
     let k = bitlen n - bitlen d in if 2 powi k \<le> q then k else k - 1)"

definition nearest_even :: "rat \<Rightarrow> int" where
  "nearest_even x = (let f = \<lfloor>x\<rfloor>; r = x - of_int f in
     if r < 1 / 2 \<or> r = 1 / 2 \<and> even f then f else f + 1)"

text \<open>24 significant digits, the last of weight at least \<open>2 powi -149\<close>.\<close>

definition ulp :: "rat \<Rightarrow> rat" where
  "ulp q = 2 powi (max (- 149) (floor_log2 q - 23))"

datatype binary32 = Finite rat | Infinite | Not_A_Number

definition round32 :: "rat \<Rightarrow> binary32" where
  "round32 q =
     (if q = 0 then Finite 0
      else let v = of_int (nearest_even (q / ulp q)) * ulp q in
        if 2 ^ 128 \<le> v then Infinite else Finite v)"

section \<open>Operations\<close>

fun mult32 :: "binary32 \<Rightarrow> binary32 \<Rightarrow> binary32" where
  "mult32 (Finite a) (Finite b) = round32 (a * b)"
| "mult32 (Finite a) Infinite = (if a = 0 then Not_A_Number else Infinite)"
| "mult32 Infinite (Finite b) = (if b = 0 then Not_A_Number else Infinite)"
| "mult32 Infinite Infinite = Infinite"
| "mult32 _ _ = Not_A_Number"

fun div32 :: "binary32 \<Rightarrow> binary32 \<Rightarrow> binary32" where
  "div32 (Finite a) (Finite b) =
     (if b = 0 then (if a = 0 then Not_A_Number else Infinite) else round32 (a / b))"
| "div32 (Finite a) Infinite = Finite 0"
| "div32 Infinite (Finite b) = Infinite"
| "div32 _ _ = Not_A_Number"

definition of_u32 :: "u32 \<Rightarrow> binary32" where
  "of_u32 w = round32 (of_int (uint w))"

text \<open>Converting back drops the fraction; a value out of range has no result in C.\<close>

fun to_u32 :: "binary32 \<Rightarrow> u32 option" where
  "to_u32 (Finite v) = (if v < 2 ^ 32 then Some (word_of_int \<lfloor>v\<rfloor>) else None)"
| "to_u32 _ = None"

section \<open>The code\<close>

text \<open>The loop that multiplies \<open>div\<close> by ten, \<open>decimal\<close> times.\<close>

fun scale_div :: "nat \<Rightarrow> binary32 \<Rightarrow> binary32" where
  "scale_div 0 dv = dv"
| "scale_div (Suc decimal) dv = scale_div decimal (mult32 dv (Finite 10))"

definition rand_int_decimal :: "env \<Rightarrow> u32 \<Rightarrow> u32 \<Rightarrow> binary32 stmt" where
  "rand_int_decimal E interval decimal =
     (let dv = scale_div (unat decimal) (Finite 1) in
      case to_u32 (mult32 (of_u32 interval) dv) of
        None \<Rightarrow> fail Overflow
      | Some interval \<Rightarrow> ext E (Libc Rand) (\<lambda>r.
          if_else (interval = 0) (fail Division_By_Zero)
            (ret (div32 (of_u32 (word_of_int r mod interval)) dv))))"

section \<open>Facts on rounding\<close>

lemma floor_log2_bounds:
  assumes "0 < q"
  shows "2 powi floor_log2 q \<le> q" "q < 2 powi (floor_log2 q + 1)"
proof -
  obtain n d where nd: "quotient_of q = (n, d)" by force
  then have d: "0 < d" by (rule quotient_of_denom_pos)
  have q: "q = of_int n / of_int d" using nd by (rule quotient_of_div)
  with assms d have n: "0 < n" by (simp add: zero_less_divide_iff)
  let ?k = "bitlen n - bitlen d"
  have bd: "2 powi (bitlen m - 1) \<le> rat_of_int m" "rat_of_int m < 2 powi bitlen m" if "0 < m" for m
  proof -
    have pos: "0 < bitlen m" using that bitlen_eq_zero_iff [of m] bitlen_nonneg [of m] by linarith
    have "2 ^ nat (bitlen m - 1) \<le> m \<and> m < 2 ^ nat (bitlen m)" using bitlen_bounds [OF that] .
    then have "rat_of_int (2 ^ nat (bitlen m - 1)) \<le> of_int m" "rat_of_int m < of_int (2 ^ nat (bitlen m))"
      by (simp_all only: of_int_le_iff of_int_less_iff)
    with pos show "2 powi (bitlen m - 1) \<le> rat_of_int m" "rat_of_int m < 2 powi bitlen m"
      by (simp_all add: power_int_def)
  qed
  have "2 powi (?k - 1) * rat_of_int d < 2 powi (?k - 1) * 2 powi bitlen d"
    using bd(2) [OF d] by simp
  also have "\<dots> = 2 powi (bitlen n - 1)" by (simp flip: power_int_add)
  also have "\<dots> \<le> of_int n" by (rule bd(1) [OF n])
  finally have lo: "2 powi (?k - 1) < q" using d by (simp add: q pos_less_divide_eq)
  have "rat_of_int n < 2 powi bitlen n" by (rule bd(2) [OF n])
  also have "\<dots> = 2 powi (?k + 1) * 2 powi (bitlen d - 1)" by (simp flip: power_int_add)
  also have "\<dots> \<le> 2 powi (?k + 1) * of_int d" using bd(1) [OF d] by simp
  finally have hi: "q < 2 powi (?k + 1)" using d by (simp add: q pos_divide_less_eq)
  show "2 powi floor_log2 q \<le> q" "q < 2 powi (floor_log2 q + 1)"
    using lo hi by (auto simp: floor_log2_def nd Let_def)
qed

lemma nearest_even_of_int [simp]: "nearest_even (of_int i) = i"
  by (simp add: nearest_even_def)

lemma nearest_even_close: "\<bar>of_int (nearest_even x) - x\<bar> \<le> 1 / 2"
proof -
  have "of_int \<lfloor>x\<rfloor> \<le> x" "x < of_int \<lfloor>x\<rfloor> + 1" by linarith+
  then show ?thesis unfolding nearest_even_def Let_def by (auto split: if_splits)
qed

lemma nearest_even_mono:
  assumes "of_int i \<le> x"
  shows "i \<le> nearest_even x"
proof -
  have "i \<le> \<lfloor>x\<rfloor>" using assms by (simp only: le_floor_iff)
  then show ?thesis by (simp add: nearest_even_def Let_def)
qed

lemma ulp_pos [simp]: "0 < ulp q" "ulp q \<noteq> 0"
  by (simp_all add: ulp_def)

lemma floor_log2_less:
  assumes "0 < q" "q < 2 powi e"
  shows "floor_log2 q < e"
proof (rule ccontr)
  assume "\<not> floor_log2 q < e"
  then have "2 powi e \<le> (2 powi floor_log2 q :: rat)" by (intro power_int_increasing) auto
  with floor_log2_bounds(1) [OF assms(1)] assms(2) show False by simp
qed

text \<open>A value with 24 significant digits is kept.\<close>

lemma round32_exact:
  assumes "q = of_int m * 2 ^ e" "0 \<le> m" "m < 2 ^ 24" "q < 2 ^ 128"
  shows "round32 q = Finite q"
proof (cases "q = 0")
  case False
  then have q: "0 < q" using assms(1,2) by simp
  have "rat_of_int m < 2 ^ 24" using assms(3) by (metis of_int_less_iff of_int_numeral of_int_power)
  then have "q < 2 powi (24 + int e)" using assms(1) by (simp add: power_int_add)
  then have "max (- 149) (floor_log2 q - 23) \<le> int e" using floor_log2_less [OF q] by fastforce
  then obtain n where n: "int e = max (- 149) (floor_log2 q - 23) + int n"
    using zle_iff_zadd by blast
  then have e: "(2 :: rat) ^ e = ulp q * 2 ^ n"
    unfolding ulp_def by (metis power_int_add power_int_of_nat zero_neq_numeral)
  have "q = of_int m * (ulp q * 2 ^ n)" using assms(1) by (simp only: e)
  then have qn: "q = of_int (m * 2 ^ n) * ulp q" by (simp only: of_int_mult of_int_power of_int_numeral mult_ac)
  then have "q / ulp q = of_int (m * 2 ^ n)" by (metis nonzero_eq_divide_eq ulp_pos(2))
  then have "of_int (nearest_even (q / ulp q)) * ulp q = q"
    using qn by (metis nearest_even_of_int)
  with False assms(4) show ?thesis
    by (simp add: round32_def Let_def)
qed (simp add: round32_def)

text \<open>Other values change by half a unit of the last digit at most.\<close>

lemma ulp_normal:
  assumes "2 powi - 126 \<le> q"
  shows "ulp q * 2 ^ 23 \<le> q"
proof -
  have q: "0 < q" using assms by (rule order_less_le_trans [rotated]) simp
  have "- 126 < floor_log2 q + 1"
  proof (rule ccontr)
    assume "\<not> - 126 < floor_log2 q + 1"
    then have "2 powi (floor_log2 q + 1) \<le> (2 powi - 126 :: rat)" by (intro power_int_increasing) auto
    with assms floor_log2_bounds(2) [OF q] show False by simp
  qed
  then have "ulp q * 2 ^ 23 = 2 powi floor_log2 q"
    using power_int_add [of "2 :: rat" "floor_log2 q - 23" 23] by (simp add: ulp_def)
  then show ?thesis using floor_log2_bounds(1) [OF q] by simp
qed

lemma round32_close:
  assumes "2 powi - 126 \<le> q" "q \<le> 2 ^ 127"
  shows "\<exists>v. round32 q = Finite v \<and> 0 \<le> v \<and> \<bar>v - q\<bar> \<le> q / 2 ^ 24"
proof -
  let ?u = "ulp q"
  let ?v = "of_int (nearest_even (q / ?u)) * ?u"
  have q: "0 < q" using assms(1) by (rule order_less_le_trans [rotated]) simp
  have "?v - q = (of_int (nearest_even (q / ?u)) - q / ?u) * ?u" by (simp add: left_diff_distrib)
  then have "\<bar>?v - q\<bar> = \<bar>of_int (nearest_even (q / ?u)) - q / ?u\<bar> * ?u"
    by (simp only: abs_mult abs_of_pos [OF ulp_pos(1)])
  also have "\<dots> \<le> 1 / 2 * ?u"
    using nearest_even_close [of "q / ?u"] by (intro mult_right_mono) (simp_all add: less_imp_le)
  also have "\<dots> \<le> q / 2 ^ 24" using ulp_normal [OF assms(1)] by simp
  finally have err: "\<bar>?v - q\<bar> \<le> q / 2 ^ 24" .
  have "0 \<le> nearest_even (q / ?u)" using q by (intro nearest_even_mono) (simp add: less_imp_le)
  then have "0 \<le> ?v" by (simp add: less_imp_le)
  moreover have "?v \<le> q + q / 2 ^ 24" using err by linarith
  then have "?v < 2 ^ 128" using assms(2) by simp
  ultimately show ?thesis using err q by (simp add: round32_def Let_def)
qed

section \<open>Random decimals\<close>

lemma power_10: "(10 :: rat) ^ d = of_int (5 ^ d) * 2 ^ d"
  by (simp flip: power_mult_distrib)

lemma power_10_round: "d \<le> 10 \<Longrightarrow> round32 (10 ^ d) = Finite (10 ^ d)"
proof (rule round32_exact [OF power_10])
  assume d: "d \<le> 10"
  have "(5 :: int) ^ d \<le> 5 ^ 10" using d by (rule power_increasing) simp
  then show "(5 :: int) ^ d < 2 ^ 24" by simp
  have "(10 :: rat) ^ d \<le> 10 ^ 10" using d by (rule power_increasing) simp
  then show "(10 :: rat) ^ d < 2 ^ 128" by simp
qed simp

lemma scale_div_power: "m + d \<le> 10 \<Longrightarrow> scale_div d (Finite (10 ^ m)) = Finite (10 ^ (m + d))"
proof (induction d arbitrary: m)
  case (Suc d)
  then have "mult32 (Finite (10 ^ m)) (Finite 10) = Finite (10 ^ Suc m)"
    using power_10_round [of "Suc m"] by (simp add: mult.commute)
  with Suc.IH [of "Suc m"] Suc.prems show ?case by simp
qed simp

lemma round32_int:
  assumes "0 \<le> m" "m < 2 ^ 24"
  shows "round32 (of_int m) = Finite (of_int m)"
proof (rule round32_exact [of _ m 0])
  have "rat_of_int m < of_int (2 ^ 24)" using assms(2) by (simp only: of_int_less_iff)
  then show "rat_of_int m < 2 ^ 128" by simp
qed (use assms in simp_all)

lemma to_u32_int: "0 \<le> m \<Longrightarrow> m < 2 ^ 32 \<Longrightarrow> to_u32 (Finite (of_int m)) = Some (word_of_int m)"
proof -
  assume "m < 2 ^ 32"
  then have "rat_of_int m < of_int (2 ^ 32)" by (simp only: of_int_less_iff)
  then show ?thesis by simp
qed

lemma uint_u32_of_int: "0 \<le> m \<Longrightarrow> m < 2 ^ 32 \<Longrightarrow> uint (word_of_int m :: u32) = m"
  by (simp add: uint_word_of_int take_bit_int_eq_self)

lemma rand_int_decimal_run:
  assumes d: "unat decimal \<le> 10" and i: "uint interval * 10 ^ unat decimal < 2 ^ 24" "interval \<noteq> 0"
  shows "rand_int_decimal E interval decimal s =
    Return (round32 (of_int (uint (word_of_int (int_reply E s (Libc Rand)) :: u32) mod
      (uint interval * 10 ^ unat decimal)) / 10 ^ unat decimal)) (logged (Libc Rand) s)"
proof -
  let ?d = "unat decimal"
  let ?n = "uint interval * 10 ^ ?d"
  let ?r = "uint (word_of_int (int_reply E s (Libc Rand)) :: u32)"
  have dv: "scale_div ?d (Finite 1) = Finite (10 ^ ?d)" using scale_div_power [of 0 ?d] d by simp
  have "uint interval * 1 \<le> ?n" by (intro mult_left_mono) simp_all
  then have "uint interval < 2 ^ 24" using i(1) by simp
  then have "of_u32 interval = Finite (of_int (uint interval))"
    unfolding of_u32_def by (intro round32_int) simp_all
  moreover have "round32 (of_int (uint interval) * 10 ^ ?d) = Finite (of_int ?n)"
    using round32_int [of ?n] i(1) by simp
  moreover have "to_u32 (Finite (of_int ?n)) = Some (word_of_int ?n)"
    using i(1) by (intro to_u32_int) simp_all
  ultimately have scaled: "to_u32 (mult32 (of_u32 interval) (Finite (10 ^ ?d))) = Some (word_of_int ?n)"
    by simp
  have n: "uint (word_of_int ?n :: u32) = ?n"
    using i(1) by (intro uint_u32_of_int) simp_all
  have pos: "0 < ?n" using i(2) by (simp add: word_neq_0_conv word_less_def)
  then have "(word_of_int ?n :: u32) \<noteq> 0" using n by auto
  moreover have "of_u32 (word_of_int (int_reply E s (Libc Rand)) mod word_of_int ?n) = Finite (of_int (?r mod ?n))"
    unfolding of_u32_def uint_mod n
    by (rule round32_int [OF pos_mod_sign [OF pos] order_less_trans [OF pos_mod_bound [OF pos] i(1)]])
  ultimately show ?thesis
    unfolding rand_int_decimal_def dv Let_def scaled
    by (simp add: ext_def if_else_def ret_def)
qed

text \<open>
  C24: A random decimal: as long as the interval has no more than \<open>2 ^ 23\<close> steps of the given
  number of decimals, \<open>rand_int_decimal\<close> returns a finite value, not negative and strictly below
  the interval, and the step it is nearest to is the remainder of the random number: rounding
  neither leaves the interval nor merges two steps.
\<close>

theorem rand_int_decimal_in_interval:
  assumes d: "unat decimal \<le> 10" and i: "uint interval * 10 ^ unat decimal \<le> 2 ^ 23" "interval \<noteq> 0"
  shows "\<exists>v. rand_int_decimal E interval decimal s = Return (Finite v) (logged (Libc Rand) s) \<and>
    0 \<le> v \<and> v < of_int (uint interval) \<and>
    \<bar>v * 10 ^ unat decimal - of_int (uint (word_of_int (int_reply E s (Libc Rand)) :: u32) mod
      (uint interval * 10 ^ unat decimal))\<bar> < 1 / 2"
proof -
  let ?n = "uint interval * 10 ^ unat decimal" and ?t = "10 ^ unat decimal :: rat"
  let ?k = "uint (word_of_int (int_reply E s (Libc Rand)) :: u32) mod ?n"
  let ?q = "of_int ?k / ?t"
  have run: "rand_int_decimal E interval decimal s = Return (round32 ?q) (logged (Libc Rand) s)"
    using i by (intro rand_int_decimal_run [OF d]) simp_all
  have "0 < ?n" using i(2) by (simp add: word_neq_0_conv word_less_def)
  then have k: "0 \<le> ?k" "?k \<le> ?n - 1" using pos_mod_bound [of ?n] by force+
  then have "rat_of_int ?k \<le> of_int (?n - 1)" by (simp only: of_int_le_iff)
  then have kn: "of_int ?k \<le> of_int (uint interval) * ?t - 1" by simp
  have "rat_of_int ?n \<le> of_int (2 ^ 23)" using i(1) by (simp only: of_int_le_iff)
  then have n23: "of_int (uint interval) * ?t \<le> 2 ^ 23" by simp
  have "?t \<le> 10 ^ 10" using d by (intro power_increasing) simp_all
  show ?thesis
  proof (cases "?k = 0")
    case True
    have "0 < uint interval" using i(2) by (simp add: word_neq_0_conv word_less_def)
    then have "rat_of_int 0 < of_int (uint interval)" by (simp only: of_int_less_iff)
    with run True show ?thesis by (simp add: round32_def)
  next
    case False
    then have "1 \<le> ?k" using k(1) by simp
    then have "rat_of_int 1 \<le> of_int ?k" by (simp only: of_int_le_iff)
    moreover have "2 powi - 126 * ?t \<le> 2 powi - 126 * 10 ^ 10" using \<open>?t \<le> _\<close> by simp
    ultimately have "2 powi - 126 \<le> ?q" by (simp add: field_simps power_int_def)
    moreover have "?q \<le> of_int ?k" using k(1) by (simp add: divide_le_eq mult_le_cancel_left1)
    then have "?q \<le> 2 ^ 127" using kn n23 by simp
    ultimately obtain v where v: "round32 ?q = Finite v" "0 \<le> v" "\<bar>v - ?q\<bar> \<le> ?q / 2 ^ 24"
      using round32_close by blast
    have "\<bar>v * ?t - of_int ?k\<bar> = \<bar>v - ?q\<bar> * ?t"
      by (simp add: left_diff_distrib flip: abs_mult [of _ ?t, simplified])
    also have "\<dots> \<le> ?q / 2 ^ 24 * ?t" using v(3) by (intro mult_right_mono) simp_all
    also have "\<dots> = of_int ?k / 2 ^ 24" by simp
    also have "\<dots> < 1 / 2" using kn n23 by simp
    finally have near: "\<bar>v * ?t - of_int ?k\<bar> < 1 / 2" .
    then have "v * ?t < of_int (uint interval) * ?t" using kn by linarith
    then have "v < of_int (uint interval)" by simp
    with run v near show ?thesis by simp
  qed
qed

theorem rand_int_decimal_in_interval_witness:
  "\<exists>v. rand_int_decimal (quiet\<lparr>int_reply := \<lambda>_ _. 12345\<rparr>) 100 2 init_machine =
     Return (Finite v) (logged (Libc Rand) init_machine) \<and> \<bar>v * 100 - 2345\<bar> < 1 / 2"
  using rand_int_decimal_in_interval [of 2 100 "quiet\<lparr>int_reply := \<lambda>_ _. 12345\<rparr>" init_machine] by auto

end
