(* ===== verification/CompilerId.thy ===== *)
theory CompilerId
  imports Preprocessor
begin

text \<open>
  \<^verbatim>\<open>build/CMakeFiles/3.23.1/CompilerIdC/CMakeCCompilerId.c\<close>: the file with which the build finds out
  what its C compiler is. It is never run: CMake looks for the strings it is made of in the
  compiled file. The three chains of \<open>#if\<close> blocks are data here; what they define depends on
  the macros \<open>P\<close> of the compiler. The copy below \<^verbatim>\<open>build/bootloader\<close> has the same text.
\<close>

section \<open>The compilers\<close>

definition c_compilers_1 :: "(cond \<times> directive list) list" where
  "c_compilers_1 =
    [(Disj (Defined ''__INTEL_COMPILER'') (Defined ''__ICC''),
      [Define ''COMPILER_ID'' (Str ''Intel''),
       When (Defined ''_MSC_VER'')
         [Define ''SIMULATE_ID'' (Str ''MSVC'')],
       When (Defined ''__GNUC__'')
         [Define ''SIMULATE_ID'' (Str ''GNU'')],
       If_Else (Disj (Disj (Less (Mac ''__INTEL_COMPILER'') (Lit 2021)) (Equals (Mac
           ''__INTEL_COMPILER'') (Lit 202110))) (Equals (Mac ''__INTEL_COMPILER'') (Lit 202111)))
         [Define ''COMPILER_VERSION_MAJOR'' (Dec (Quot (Mac ''__INTEL_COMPILER'') (Lit 100))),
          Define ''COMPILER_VERSION_MINOR'' (Dec (Rem (Quot (Mac ''__INTEL_COMPILER'') (Lit 10))
              (Lit 10))),
          If_Else (Defined ''__INTEL_COMPILER_UPDATE'')
            [Define ''COMPILER_VERSION_PATCH'' (Dec (Mac ''__INTEL_COMPILER_UPDATE''))]
            [Define ''COMPILER_VERSION_PATCH'' (Dec (Rem (Mac ''__INTEL_COMPILER'') (Lit 10)))]]
         [Define ''COMPILER_VERSION_MAJOR'' (Dec (Mac ''__INTEL_COMPILER'')),
          Define ''COMPILER_VERSION_MINOR'' (Dec (Mac ''__INTEL_COMPILER_UPDATE'')),
          Define ''COMPILER_VERSION_PATCH'' (Dec (Lit 0))],
       When (Defined ''__INTEL_COMPILER_BUILD_DATE'')
         [Define ''COMPILER_VERSION_TWEAK'' (Dec (Mac ''__INTEL_COMPILER_BUILD_DATE''))],
       When (Defined ''_MSC_VER'')
         [Define ''SIMULATE_VERSION_MAJOR'' (Dec (Quot (Mac ''_MSC_VER'') (Lit 100))),
          Define ''SIMULATE_VERSION_MINOR'' (Dec (Rem (Mac ''_MSC_VER'') (Lit 100)))],
       If_Else (Defined ''__GNUC__'')
         [Define ''SIMULATE_VERSION_MAJOR'' (Dec (Mac ''__GNUC__''))]
         [When (Defined ''__GNUG__'')
           [Define ''SIMULATE_VERSION_MAJOR'' (Dec (Mac ''__GNUG__''))]],
       When (Defined ''__GNUC_MINOR__'')
         [Define ''SIMULATE_VERSION_MINOR'' (Dec (Mac ''__GNUC_MINOR__''))],
       When (Defined ''__GNUC_PATCHLEVEL__'')
         [Define ''SIMULATE_VERSION_PATCH'' (Dec (Mac ''__GNUC_PATCHLEVEL__''))]]),
     (Disj (Conj (Defined ''__clang__'') (Defined ''__INTEL_CLANG_COMPILER'')) (Defined
         ''__INTEL_LLVM_COMPILER''),
      [Define ''COMPILER_ID'' (Str ''IntelLLVM''),
       When (Defined ''_MSC_VER'')
         [Define ''SIMULATE_ID'' (Str ''MSVC'')],
       When (Defined ''__GNUC__'')
         [Define ''SIMULATE_ID'' (Str ''GNU'')],
       If_Else (Less (Mac ''__INTEL_LLVM_COMPILER'') (Lit 1000000))
         [Define ''COMPILER_VERSION_MAJOR'' (Dec (Quot (Mac ''__INTEL_LLVM_COMPILER'') (Lit
             100))),
          Define ''COMPILER_VERSION_MINOR'' (Dec (Rem (Quot (Mac ''__INTEL_LLVM_COMPILER'') (Lit
              10)) (Lit 10))),
          Define ''COMPILER_VERSION_PATCH'' (Dec (Rem (Mac ''__INTEL_LLVM_COMPILER'') (Lit 10)))]
         [Define ''COMPILER_VERSION_MAJOR'' (Dec (Quot (Mac ''__INTEL_LLVM_COMPILER'') (Lit
             10000))),
          Define ''COMPILER_VERSION_MINOR'' (Dec (Rem (Quot (Mac ''__INTEL_LLVM_COMPILER'') (Lit
              100)) (Lit 100))),
          Define ''COMPILER_VERSION_PATCH'' (Dec (Rem (Mac ''__INTEL_LLVM_COMPILER'') (Lit
              100)))],
       When (Defined ''_MSC_VER'')
         [Define ''SIMULATE_VERSION_MAJOR'' (Dec (Quot (Mac ''_MSC_VER'') (Lit 100))),
          Define ''SIMULATE_VERSION_MINOR'' (Dec (Rem (Mac ''_MSC_VER'') (Lit 100)))],
       If_Else (Defined ''__GNUC__'')
         [Define ''SIMULATE_VERSION_MAJOR'' (Dec (Mac ''__GNUC__''))]
         [When (Defined ''__GNUG__'')
           [Define ''SIMULATE_VERSION_MAJOR'' (Dec (Mac ''__GNUG__''))]],
       When (Defined ''__GNUC_MINOR__'')
         [Define ''SIMULATE_VERSION_MINOR'' (Dec (Mac ''__GNUC_MINOR__''))],
       When (Defined ''__GNUC_PATCHLEVEL__'')
         [Define ''SIMULATE_VERSION_PATCH'' (Dec (Mac ''__GNUC_PATCHLEVEL__''))]]),
     (Defined ''__PATHCC__'',
      [Define ''COMPILER_ID'' (Str ''PathScale''),
       Define ''COMPILER_VERSION_MAJOR'' (Dec (Mac ''__PATHCC__'')),
       Define ''COMPILER_VERSION_MINOR'' (Dec (Mac ''__PATHCC_MINOR__'')),
       When (Defined ''__PATHCC_PATCHLEVEL__'')
         [Define ''COMPILER_VERSION_PATCH'' (Dec (Mac ''__PATHCC_PATCHLEVEL__''))]]),
     (Conj (Defined ''__BORLANDC__'') (Defined ''__CODEGEARC_VERSION__''),
      [Define ''COMPILER_ID'' (Str ''Embarcadero''),
       Define ''COMPILER_VERSION_MAJOR'' (Hex (Bits (Shift (Mac ''__CODEGEARC_VERSION__'') (Lit
           24)) (Lit 0x00FF))),
       Define ''COMPILER_VERSION_MINOR'' (Hex (Bits (Shift (Mac ''__CODEGEARC_VERSION__'') (Lit
           16)) (Lit 0x00FF))),
       Define ''COMPILER_VERSION_PATCH'' (Dec (Bits (Mac ''__CODEGEARC_VERSION__'') (Lit
           0xFFFF)))]),
     (Defined ''__BORLANDC__'',
      [Define ''COMPILER_ID'' (Str ''Borland''),
       Define ''COMPILER_VERSION_MAJOR'' (Hex (Shift (Mac ''__BORLANDC__'') (Lit 8))),
       Define ''COMPILER_VERSION_MINOR'' (Hex (Bits (Mac ''__BORLANDC__'') (Lit 0xFF)))]),
     (Conj (Defined ''__WATCOMC__'') (Less (Mac ''__WATCOMC__'') (Lit 1200)),
      [Define ''COMPILER_ID'' (Str ''Watcom''),
       Define ''COMPILER_VERSION_MAJOR'' (Dec (Quot (Mac ''__WATCOMC__'') (Lit 100))),
       Define ''COMPILER_VERSION_MINOR'' (Dec (Rem (Quot (Mac ''__WATCOMC__'') (Lit 10)) (Lit
           10))),
       When (Less (Lit 0) (Rem (Mac ''__WATCOMC__'') (Lit 10)))
         [Define ''COMPILER_VERSION_PATCH'' (Dec (Rem (Mac ''__WATCOMC__'') (Lit 10)))]]),
     (Defined ''__WATCOMC__'',
      [Define ''COMPILER_ID'' (Str ''OpenWatcom''),
       Define ''COMPILER_VERSION_MAJOR'' (Dec (Quot (Minus (Mac ''__WATCOMC__'') (Lit 1100)) (Lit
           100))),
       Define ''COMPILER_VERSION_MINOR'' (Dec (Rem (Quot (Mac ''__WATCOMC__'') (Lit 10)) (Lit
           10))),
       When (Less (Lit 0) (Rem (Mac ''__WATCOMC__'') (Lit 10)))
         [Define ''COMPILER_VERSION_PATCH'' (Dec (Rem (Mac ''__WATCOMC__'') (Lit 10)))]]),
     (Defined ''__SUNPRO_C'',
      [Define ''COMPILER_ID'' (Str ''SunPro''),
       If_Else (Less_Eq (Lit 0x5100) (Mac ''__SUNPRO_C''))
         [Define ''COMPILER_VERSION_MAJOR'' (Hex (Shift (Mac ''__SUNPRO_C'') (Lit 12))),
          Define ''COMPILER_VERSION_MINOR'' (Hex (Bits (Shift (Mac ''__SUNPRO_C'') (Lit 4)) (Lit
              0xFF))),
          Define ''COMPILER_VERSION_PATCH'' (Hex (Bits (Mac ''__SUNPRO_C'') (Lit 0xF)))]
         [Define ''COMPILER_VERSION_MAJOR'' (Hex (Shift (Mac ''__SUNPRO_C'') (Lit 8))),
          Define ''COMPILER_VERSION_MINOR'' (Hex (Bits (Shift (Mac ''__SUNPRO_C'') (Lit 4)) (Lit
              0xF))),
          Define ''COMPILER_VERSION_PATCH'' (Hex (Bits (Mac ''__SUNPRO_C'') (Lit 0xF)))]]),
     (Defined ''__HP_cc'',
      [Define ''COMPILER_ID'' (Str ''HP''),
       Define ''COMPILER_VERSION_MAJOR'' (Dec (Quot (Mac ''__HP_cc'') (Lit 10000))),
       Define ''COMPILER_VERSION_MINOR'' (Dec (Rem (Quot (Mac ''__HP_cc'') (Lit 100)) (Lit 100))),
       Define ''COMPILER_VERSION_PATCH'' (Dec (Rem (Mac ''__HP_cc'') (Lit 100)))])]"

definition c_compilers_2 :: "(cond \<times> directive list) list" where
  "c_compilers_2 =
    [(Defined ''__DECC'',
      [Define ''COMPILER_ID'' (Str ''Compaq''),
       Define ''COMPILER_VERSION_MAJOR'' (Dec (Quot (Mac ''__DECC_VER'') (Lit 10000000))),
       Define ''COMPILER_VERSION_MINOR'' (Dec (Rem (Quot (Mac ''__DECC_VER'') (Lit 100000)) (Lit
           100))),
       Define ''COMPILER_VERSION_PATCH'' (Dec (Rem (Mac ''__DECC_VER'') (Lit 10000)))]),
     (Conj (Defined ''__IBMC__'') (Defined ''__COMPILER_VER__''),
      [Define ''COMPILER_ID'' (Str ''zOS''),
       Define ''COMPILER_VERSION_MAJOR'' (Dec (Quot (Mac ''__IBMC__'') (Lit 100))),
       Define ''COMPILER_VERSION_MINOR'' (Dec (Rem (Quot (Mac ''__IBMC__'') (Lit 10)) (Lit 10))),
       Define ''COMPILER_VERSION_PATCH'' (Dec (Rem (Mac ''__IBMC__'') (Lit 10)))]),
     (Conj (Defined ''__open_xl__'') (Defined ''__clang__''),
      [Define ''COMPILER_ID'' (Str ''IBMClang''),
       Define ''COMPILER_VERSION_MAJOR'' (Dec (Mac ''__open_xl_version__'')),
       Define ''COMPILER_VERSION_MINOR'' (Dec (Mac ''__open_xl_release__'')),
       Define ''COMPILER_VERSION_PATCH'' (Dec (Mac ''__open_xl_modification__'')),
       Define ''COMPILER_VERSION_TWEAK'' (Dec (Mac ''__open_xl_ptf_fix_level__''))]),
     (Conj (Defined ''__ibmxl__'') (Defined ''__clang__''),
      [Define ''COMPILER_ID'' (Str ''XLClang''),
       Define ''COMPILER_VERSION_MAJOR'' (Dec (Mac ''__ibmxl_version__'')),
       Define ''COMPILER_VERSION_MINOR'' (Dec (Mac ''__ibmxl_release__'')),
       Define ''COMPILER_VERSION_PATCH'' (Dec (Mac ''__ibmxl_modification__'')),
       Define ''COMPILER_VERSION_TWEAK'' (Dec (Mac ''__ibmxl_ptf_fix_level__''))]),
     (Conj (Conj (Defined ''__IBMC__'') (Neg (Defined ''__COMPILER_VER__''))) (Less_Eq (Lit 800)
         (Mac ''__IBMC__'')),
      [Define ''COMPILER_ID'' (Str ''XL''),
       Define ''COMPILER_VERSION_MAJOR'' (Dec (Quot (Mac ''__IBMC__'') (Lit 100))),
       Define ''COMPILER_VERSION_MINOR'' (Dec (Rem (Quot (Mac ''__IBMC__'') (Lit 10)) (Lit 10))),
       Define ''COMPILER_VERSION_PATCH'' (Dec (Rem (Mac ''__IBMC__'') (Lit 10)))]),
     (Conj (Conj (Defined ''__IBMC__'') (Neg (Defined ''__COMPILER_VER__''))) (Less (Mac
         ''__IBMC__'') (Lit 800)),
      [Define ''COMPILER_ID'' (Str ''VisualAge''),
       Define ''COMPILER_VERSION_MAJOR'' (Dec (Quot (Mac ''__IBMC__'') (Lit 100))),
       Define ''COMPILER_VERSION_MINOR'' (Dec (Rem (Quot (Mac ''__IBMC__'') (Lit 10)) (Lit 10))),
       Define ''COMPILER_VERSION_PATCH'' (Dec (Rem (Mac ''__IBMC__'') (Lit 10)))]),
     (Defined ''__NVCOMPILER'',
      [Define ''COMPILER_ID'' (Str ''NVHPC''),
       Define ''COMPILER_VERSION_MAJOR'' (Dec (Mac ''__NVCOMPILER_MAJOR__'')),
       Define ''COMPILER_VERSION_MINOR'' (Dec (Mac ''__NVCOMPILER_MINOR__'')),
       When (Defined ''__NVCOMPILER_PATCHLEVEL__'')
         [Define ''COMPILER_VERSION_PATCH'' (Dec (Mac ''__NVCOMPILER_PATCHLEVEL__''))]]),
     (Defined ''__PGI'',
      [Define ''COMPILER_ID'' (Str ''PGI''),
       Define ''COMPILER_VERSION_MAJOR'' (Dec (Mac ''__PGIC__'')),
       Define ''COMPILER_VERSION_MINOR'' (Dec (Mac ''__PGIC_MINOR__'')),
       When (Defined ''__PGIC_PATCHLEVEL__'')
         [Define ''COMPILER_VERSION_PATCH'' (Dec (Mac ''__PGIC_PATCHLEVEL__''))]]),
     (Defined ''_CRAYC'',
      [Define ''COMPILER_ID'' (Str ''Cray''),
       Define ''COMPILER_VERSION_MAJOR'' (Dec (Mac ''_RELEASE_MAJOR'')),
       Define ''COMPILER_VERSION_MINOR'' (Dec (Mac ''_RELEASE_MINOR''))]),
     (Defined ''__TI_COMPILER_VERSION__'',
      [Define ''COMPILER_ID'' (Str ''TI''),
       Define ''COMPILER_VERSION_MAJOR'' (Dec (Quot (Mac ''__TI_COMPILER_VERSION__'') (Lit
           1000000))),
       Define ''COMPILER_VERSION_MINOR'' (Dec (Rem (Quot (Mac ''__TI_COMPILER_VERSION__'') (Lit
           1000)) (Lit 1000))),
       Define ''COMPILER_VERSION_PATCH'' (Dec (Rem (Mac ''__TI_COMPILER_VERSION__'') (Lit
           1000)))]),
     (Defined ''__CLANG_FUJITSU'',
      [Define ''COMPILER_ID'' (Str ''FujitsuClang''),
       Define ''COMPILER_VERSION_MAJOR'' (Dec (Mac ''__FCC_major__'')),
       Define ''COMPILER_VERSION_MINOR'' (Dec (Mac ''__FCC_minor__'')),
       Define ''COMPILER_VERSION_PATCH'' (Dec (Mac ''__FCC_patchlevel__'')),
       Define ''COMPILER_VERSION_INTERNAL_STR'' (Name ''__clang_version__'')]),
     (Defined ''__FUJITSU'',
      [Define ''COMPILER_ID'' (Str ''Fujitsu''),
       If_Else (Defined ''__FCC_version__'')
         [Define ''COMPILER_VERSION'' (Name ''__FCC_version__'')]
         [When (Defined ''__FCC_major__'')
           [Define ''COMPILER_VERSION_MAJOR'' (Dec (Mac ''__FCC_major__'')),
            Define ''COMPILER_VERSION_MINOR'' (Dec (Mac ''__FCC_minor__'')),
            Define ''COMPILER_VERSION_PATCH'' (Dec (Mac ''__FCC_patchlevel__''))]],
       If_Else (Defined ''__fcc_version'')
         [Define ''COMPILER_VERSION_INTERNAL'' (Dec (Mac ''__fcc_version''))]
         [When (Defined ''__FCC_VERSION'')
           [Define ''COMPILER_VERSION_INTERNAL'' (Dec (Mac ''__FCC_VERSION''))]]]),
     (Defined ''__ghs__'',
      [Define ''COMPILER_ID'' (Str ''GHS''),
       When (Defined ''__GHS_VERSION_NUMBER'')
         [Define ''COMPILER_VERSION_MAJOR'' (Dec (Quot (Mac ''__GHS_VERSION_NUMBER'') (Lit 100))),
          Define ''COMPILER_VERSION_MINOR'' (Dec (Rem (Quot (Mac ''__GHS_VERSION_NUMBER'') (Lit
              10)) (Lit 10))),
          Define ''COMPILER_VERSION_PATCH'' (Dec (Rem (Mac ''__GHS_VERSION_NUMBER'') (Lit
              10)))]]),
     (Defined ''__TINYC__'',
      [Define ''COMPILER_ID'' (Str ''TinyCC'')]),
     (Defined ''__BCC__'',
      [Define ''COMPILER_ID'' (Str ''Bruce'')]),
     (Defined ''__SCO_VERSION__'',
      [Define ''COMPILER_ID'' (Str ''SCO'')])]"

definition c_compilers_3 :: "(cond \<times> directive list) list" where
  "c_compilers_3 =
    [(Conj (Defined ''__ARMCC_VERSION'') (Neg (Defined ''__clang__'')),
      [Define ''COMPILER_ID'' (Str ''ARMCC''),
       If_Else (Less_Eq (Lit 1000000) (Mac ''__ARMCC_VERSION''))
         [Define ''COMPILER_VERSION_MAJOR'' (Dec (Quot (Mac ''__ARMCC_VERSION'') (Lit 1000000))),
          Define ''COMPILER_VERSION_MINOR'' (Dec (Rem (Quot (Mac ''__ARMCC_VERSION'') (Lit
              10000)) (Lit 100))),
          Define ''COMPILER_VERSION_PATCH'' (Dec (Rem (Mac ''__ARMCC_VERSION'') (Lit 10000)))]
         [Define ''COMPILER_VERSION_MAJOR'' (Dec (Quot (Mac ''__ARMCC_VERSION'') (Lit 100000))),
          Define ''COMPILER_VERSION_MINOR'' (Dec (Rem (Quot (Mac ''__ARMCC_VERSION'') (Lit
              10000)) (Lit 10))),
          Define ''COMPILER_VERSION_PATCH'' (Dec (Rem (Mac ''__ARMCC_VERSION'') (Lit 10000)))]]),
     (Conj (Defined ''__clang__'') (Defined ''__apple_build_version__''),
      [Define ''COMPILER_ID'' (Str ''AppleClang''),
       When (Defined ''_MSC_VER'')
         [Define ''SIMULATE_ID'' (Str ''MSVC'')],
       Define ''COMPILER_VERSION_MAJOR'' (Dec (Mac ''__clang_major__'')),
       Define ''COMPILER_VERSION_MINOR'' (Dec (Mac ''__clang_minor__'')),
       Define ''COMPILER_VERSION_PATCH'' (Dec (Mac ''__clang_patchlevel__'')),
       When (Defined ''_MSC_VER'')
         [Define ''SIMULATE_VERSION_MAJOR'' (Dec (Quot (Mac ''_MSC_VER'') (Lit 100))),
          Define ''SIMULATE_VERSION_MINOR'' (Dec (Rem (Mac ''_MSC_VER'') (Lit 100)))],
       Define ''COMPILER_VERSION_TWEAK'' (Dec (Mac ''__apple_build_version__''))]),
     (Conj (Defined ''__clang__'') (Defined ''__ARMCOMPILER_VERSION''),
      [Define ''COMPILER_ID'' (Str ''ARMClang''),
       Define ''COMPILER_VERSION_MAJOR'' (Dec (Quot (Mac ''__ARMCOMPILER_VERSION'') (Lit
           1000000))),
       Define ''COMPILER_VERSION_MINOR'' (Dec (Rem (Quot (Mac ''__ARMCOMPILER_VERSION'') (Lit
           10000)) (Lit 100))),
       Define ''COMPILER_VERSION_PATCH'' (Dec (Rem (Mac ''__ARMCOMPILER_VERSION'') (Lit 10000))),
       Define ''COMPILER_VERSION_INTERNAL'' (Dec (Mac ''__ARMCOMPILER_VERSION''))]),
     (Defined ''__clang__'',
      [Define ''COMPILER_ID'' (Str ''Clang''),
       When (Defined ''_MSC_VER'')
         [Define ''SIMULATE_ID'' (Str ''MSVC'')],
       Define ''COMPILER_VERSION_MAJOR'' (Dec (Mac ''__clang_major__'')),
       Define ''COMPILER_VERSION_MINOR'' (Dec (Mac ''__clang_minor__'')),
       Define ''COMPILER_VERSION_PATCH'' (Dec (Mac ''__clang_patchlevel__'')),
       When (Defined ''_MSC_VER'')
         [Define ''SIMULATE_VERSION_MAJOR'' (Dec (Quot (Mac ''_MSC_VER'') (Lit 100))),
          Define ''SIMULATE_VERSION_MINOR'' (Dec (Rem (Mac ''_MSC_VER'') (Lit 100)))]]),
     (Conj (Defined ''__LCC__'') (any_defined [''__GNUC__'', ''__GNUG__'', ''__MCST__'']),
      [Define ''COMPILER_ID'' (Str ''LCC''),
       Define ''COMPILER_VERSION_MAJOR'' (Dec (Lit 1)),
       When (Defined ''__LCC__'')
         [Define ''COMPILER_VERSION_MINOR'' (Dec (Minus (Mac ''__LCC__'') (Lit 100)))],
       When (Defined ''__LCC_MINOR__'')
         [Define ''COMPILER_VERSION_PATCH'' (Dec (Mac ''__LCC_MINOR__''))],
       When (Conj (Defined ''__GNUC__'') (Defined ''__GNUC_MINOR__''))
         [Define ''SIMULATE_ID'' (Str ''GNU''),
          Define ''SIMULATE_VERSION_MAJOR'' (Dec (Mac ''__GNUC__'')),
          Define ''SIMULATE_VERSION_MINOR'' (Dec (Mac ''__GNUC_MINOR__'')),
          When (Defined ''__GNUC_PATCHLEVEL__'')
            [Define ''SIMULATE_VERSION_PATCH'' (Dec (Mac ''__GNUC_PATCHLEVEL__''))]]])]"

definition c_compilers_4 :: "(cond \<times> directive list) list" where
  "c_compilers_4 =
    [(Defined ''__GNUC__'',
      [Define ''COMPILER_ID'' (Str ''GNU''),
       Define ''COMPILER_VERSION_MAJOR'' (Dec (Mac ''__GNUC__'')),
       When (Defined ''__GNUC_MINOR__'')
         [Define ''COMPILER_VERSION_MINOR'' (Dec (Mac ''__GNUC_MINOR__''))],
       When (Defined ''__GNUC_PATCHLEVEL__'')
         [Define ''COMPILER_VERSION_PATCH'' (Dec (Mac ''__GNUC_PATCHLEVEL__''))]]),
     (Defined ''_MSC_VER'',
      [Define ''COMPILER_ID'' (Str ''MSVC''),
       Define ''COMPILER_VERSION_MAJOR'' (Dec (Quot (Mac ''_MSC_VER'') (Lit 100))),
       Define ''COMPILER_VERSION_MINOR'' (Dec (Rem (Mac ''_MSC_VER'') (Lit 100))),
       When (Defined ''_MSC_FULL_VER'')
         [If_Else (Less_Eq (Lit 1400) (Mac ''_MSC_VER''))
            [Define ''COMPILER_VERSION_PATCH'' (Dec (Rem (Mac ''_MSC_FULL_VER'') (Lit 100000)))]
            [Define ''COMPILER_VERSION_PATCH'' (Dec (Rem (Mac ''_MSC_FULL_VER'') (Lit 10000)))]],
       When (Defined ''_MSC_BUILD'')
         [Define ''COMPILER_VERSION_TWEAK'' (Dec (Mac ''_MSC_BUILD''))]]),
     (any_defined [''__VISUALDSPVERSION__'', ''__ADSPBLACKFIN__'', ''__ADSPTS__'',
         ''__ADSP21000__''],
      [Define ''COMPILER_ID'' (Str ''ADSP''),
       When (Defined ''__VISUALDSPVERSION__'')
         [Define ''COMPILER_VERSION_MAJOR'' (Hex (Shift (Mac ''__VISUALDSPVERSION__'') (Lit 24))),
          Define ''COMPILER_VERSION_MINOR'' (Hex (Bits (Shift (Mac ''__VISUALDSPVERSION__'') (Lit
              16)) (Lit 0xFF))),
          Define ''COMPILER_VERSION_PATCH'' (Hex (Bits (Shift (Mac ''__VISUALDSPVERSION__'') (Lit
              8)) (Lit 0xFF)))]]),
     (Disj (Defined ''__IAR_SYSTEMS_ICC__'') (Defined ''__IAR_SYSTEMS_ICC''),
      [Define ''COMPILER_ID'' (Str ''IAR''),
       If_Else (Conj (Defined ''__VER__'') (Defined ''__ICCARM__''))
         [Define ''COMPILER_VERSION_MAJOR'' (Dec (Quot (Mac ''__VER__'') (Lit 1000000))),
          Define ''COMPILER_VERSION_MINOR'' (Dec (Rem (Quot (Mac ''__VER__'') (Lit 1000)) (Lit
              1000))),
          Define ''COMPILER_VERSION_PATCH'' (Dec (Rem (Mac ''__VER__'') (Lit 1000))),
          Define ''COMPILER_VERSION_INTERNAL'' (Dec (Mac ''__IAR_SYSTEMS_ICC__''))]
         [When (Conj (Defined ''__VER__'') (any_defined [''__ICCAVR__'', ''__ICCRX__'',
             ''__ICCRH850__'', ''__ICCRL78__'', ''__ICC430__'', ''__ICCRISCV__'',
             ''__ICCV850__'', ''__ICC8051__'', ''__ICCSTM8__'']))
           [Define ''COMPILER_VERSION_MAJOR'' (Dec (Quot (Mac ''__VER__'') (Lit 100))),
            Define ''COMPILER_VERSION_MINOR'' (Dec (Minus (Mac ''__VER__'') (Times (Quot (Mac
                ''__VER__'') (Lit 100)) (Lit 100)))),
            Define ''COMPILER_VERSION_PATCH'' (Dec (Mac ''__SUBVERSION__'')),
            Define ''COMPILER_VERSION_INTERNAL'' (Dec (Mac ''__IAR_SYSTEMS_ICC__''))]]]),
     (Disj (Defined ''__SDCC_VERSION_MAJOR'') (Defined ''SDCC''),
      [Define ''COMPILER_ID'' (Str ''SDCC''),
       If_Else (Defined ''__SDCC_VERSION_MAJOR'')
         [Define ''COMPILER_VERSION_MAJOR'' (Dec (Mac ''__SDCC_VERSION_MAJOR'')),
          Define ''COMPILER_VERSION_MINOR'' (Dec (Mac ''__SDCC_VERSION_MINOR'')),
          Define ''COMPILER_VERSION_PATCH'' (Dec (Mac ''__SDCC_VERSION_PATCH''))]
         [Define ''COMPILER_VERSION_MAJOR'' (Dec (Quot (Mac ''SDCC'') (Lit 100))),
          Define ''COMPILER_VERSION_MINOR'' (Dec (Rem (Quot (Mac ''SDCC'') (Lit 10)) (Lit 10))),
          Define ''COMPILER_VERSION_PATCH'' (Dec (Rem (Mac ''SDCC'') (Lit 10)))]]),
     (Disj (Defined ''__hpux'') (Defined ''__hpua''),
      [Define ''COMPILER_ID'' (Str ''HP'')])]"

definition c_compilers :: "directive list" where
  "c_compilers = chain (c_compilers_1 @ c_compilers_2 @ c_compilers_3 @ c_compilers_4) [Define
      ''COMPILER_ID'' (Str [])]"


section \<open>Platform, architecture and language\<close>

definition platforms :: "(cond \<times> directive list) list" where
  "platforms =
    [(any_defined [''__linux'', ''__linux__'', ''linux''],
      [Define ''PLATFORM_ID'' (Str ''Linux'')]),
     (Defined ''__MSYS__'',
      [Define ''PLATFORM_ID'' (Str ''MSYS'')]),
     (Defined ''__CYGWIN__'',
      [Define ''PLATFORM_ID'' (Str ''Cygwin'')]),
     (Defined ''__MINGW32__'',
      [Define ''PLATFORM_ID'' (Str ''MinGW'')]),
     (Defined ''__APPLE__'',
      [Define ''PLATFORM_ID'' (Str ''Darwin'')]),
     (any_defined [''_WIN32'', ''__WIN32__'', ''WIN32''],
      [Define ''PLATFORM_ID'' (Str ''Windows'')]),
     (Disj (Defined ''__FreeBSD__'') (Defined ''__FreeBSD''),
      [Define ''PLATFORM_ID'' (Str ''FreeBSD'')]),
     (Disj (Defined ''__NetBSD__'') (Defined ''__NetBSD''),
      [Define ''PLATFORM_ID'' (Str ''NetBSD'')]),
     (Disj (Defined ''__OpenBSD__'') (Defined ''__OPENBSD''),
      [Define ''PLATFORM_ID'' (Str ''OpenBSD'')]),
     (Disj (Defined ''__sun'') (Defined ''sun''),
      [Define ''PLATFORM_ID'' (Str ''SunOS'')]),
     (any_defined [''_AIX'', ''__AIX'', ''__AIX__'', ''__aix'', ''__aix__''],
      [Define ''PLATFORM_ID'' (Str ''AIX'')]),
     (Disj (Defined ''__hpux'') (Defined ''__hpux__''),
      [Define ''PLATFORM_ID'' (Str ''HP-UX'')]),
     (Defined ''__HAIKU__'',
      [Define ''PLATFORM_ID'' (Str ''Haiku'')]),
     (any_defined [''__BeOS'', ''__BEOS__'', ''_BEOS''],
      [Define ''PLATFORM_ID'' (Str ''BeOS'')]),
     (Disj (Defined ''__QNX__'') (Defined ''__QNXNTO__''),
      [Define ''PLATFORM_ID'' (Str ''QNX'')]),
     (any_defined [''__tru64'', ''_tru64'', ''__TRU64__''],
      [Define ''PLATFORM_ID'' (Str ''Tru64'')]),
     (Disj (Defined ''__riscos'') (Defined ''__riscos__''),
      [Define ''PLATFORM_ID'' (Str ''RISCos'')]),
     (any_defined [''__sinix'', ''__sinix__'', ''__SINIX__''],
      [Define ''PLATFORM_ID'' (Str ''SINIX'')]),
     (Defined ''__UNIX_SV__'',
      [Define ''PLATFORM_ID'' (Str ''UNIX_SV'')]),
     (Defined ''__bsdos__'',
      [Define ''PLATFORM_ID'' (Str ''BSDOS'')]),
     (Disj (Defined ''_MPRAS'') (Defined ''MPRAS''),
      [Define ''PLATFORM_ID'' (Str ''MP-RAS'')]),
     (Disj (Defined ''__osf'') (Defined ''__osf__''),
      [Define ''PLATFORM_ID'' (Str ''OSF1'')]),
     (any_defined [''_SCO_SV'', ''SCO_SV'', ''sco_sv''],
      [Define ''PLATFORM_ID'' (Str ''SCO_SV'')]),
     (any_defined [''__ultrix'', ''__ultrix__'', ''_ULTRIX''],
      [Define ''PLATFORM_ID'' (Str ''ULTRIX'')]),
     (any_defined [''__XENIX__'', ''_XENIX'', ''XENIX''],
      [Define ''PLATFORM_ID'' (Str ''Xenix'')]),
     (Defined ''__WATCOMC__'',
      chain
         [(Defined ''__LINUX__'',
           [Define ''PLATFORM_ID'' (Str ''Linux'')]),
          (Defined ''__DOS__'',
           [Define ''PLATFORM_ID'' (Str ''DOS'')]),
          (Defined ''__OS2__'',
           [Define ''PLATFORM_ID'' (Str ''OS2'')]),
          (Defined ''__WINDOWS__'',
           [Define ''PLATFORM_ID'' (Str ''Windows3x'')]),
          (Defined ''__VXWORKS__'',
           [Define ''PLATFORM_ID'' (Str ''VxWorks'')])]
         [Define ''PLATFORM_ID'' (Str [])]),
     (Defined ''__INTEGRITY'',
      [If_Else (Defined ''INT_178B'')
         [Define ''PLATFORM_ID'' (Str ''Integrity178'')]
         [Define ''PLATFORM_ID'' (Str ''Integrity'')]])]"

definition platform :: "directive list" where
  "platform = chain platforms [Define ''PLATFORM_ID'' (Str [])]"

definition architectures :: "(cond \<times> directive list) list" where
  "architectures =
    [(Conj (Defined ''_WIN32'') (Defined ''_MSC_VER''),
      chain
         [(Defined ''_M_IA64'',
           [Define ''ARCHITECTURE_ID'' (Str ''IA64'')]),
          (Defined ''_M_ARM64EC'',
           [Define ''ARCHITECTURE_ID'' (Str ''ARM64EC'')]),
          (Disj (Defined ''_M_X64'') (Defined ''_M_AMD64''),
           [Define ''ARCHITECTURE_ID'' (Str ''x64'')]),
          (Defined ''_M_IX86'',
           [Define ''ARCHITECTURE_ID'' (Str ''X86'')]),
          (Defined ''_M_ARM64'',
           [Define ''ARCHITECTURE_ID'' (Str ''ARM64'')]),
          (Defined ''_M_ARM'',
           [If_Else (Equals (Mac ''_M_ARM'') (Lit 4))
              [Define ''ARCHITECTURE_ID'' (Str ''ARMV4I'')]
              [If_Else (Equals (Mac ''_M_ARM'') (Lit 5))
                [Define ''ARCHITECTURE_ID'' (Str ''ARMV5I'')]
                [Define ''ARCHITECTURE_ID'' (Stringify ''ARMV'' ''_M_ARM'')]]]),
          (Defined ''_M_MIPS'',
           [Define ''ARCHITECTURE_ID'' (Str ''MIPS'')]),
          (Defined ''_M_SH'',
           [Define ''ARCHITECTURE_ID'' (Str ''SHx'')])]
         [Define ''ARCHITECTURE_ID'' (Str [])]),
     (Defined ''__WATCOMC__'',
      [If_Else (Defined ''_M_I86'')
         [Define ''ARCHITECTURE_ID'' (Str ''I86'')]
         [If_Else (Defined ''_M_IX86'')
           [Define ''ARCHITECTURE_ID'' (Str ''X86'')]
           [Define ''ARCHITECTURE_ID'' (Str [])]]]),
     (Disj (Defined ''__IAR_SYSTEMS_ICC__'') (Defined ''__IAR_SYSTEMS_ICC''),
      chain
         [(Defined ''__ICCARM__'',
           [Define ''ARCHITECTURE_ID'' (Str ''ARM'')]),
          (Defined ''__ICCRX__'',
           [Define ''ARCHITECTURE_ID'' (Str ''RX'')]),
          (Defined ''__ICCRH850__'',
           [Define ''ARCHITECTURE_ID'' (Str ''RH850'')]),
          (Defined ''__ICCRL78__'',
           [Define ''ARCHITECTURE_ID'' (Str ''RL78'')]),
          (Defined ''__ICCRISCV__'',
           [Define ''ARCHITECTURE_ID'' (Str ''RISCV'')]),
          (Defined ''__ICCAVR__'',
           [Define ''ARCHITECTURE_ID'' (Str ''AVR'')]),
          (Defined ''__ICC430__'',
           [Define ''ARCHITECTURE_ID'' (Str ''MSP430'')]),
          (Defined ''__ICCV850__'',
           [Define ''ARCHITECTURE_ID'' (Str ''V850'')]),
          (Defined ''__ICC8051__'',
           [Define ''ARCHITECTURE_ID'' (Str ''8051'')]),
          (Defined ''__ICCSTM8__'',
           [Define ''ARCHITECTURE_ID'' (Str ''STM8'')])]
         [Define ''ARCHITECTURE_ID'' (Str [])]),
     (Defined ''__ghs__'',
      chain
         [(Defined ''__PPC64__'',
           [Define ''ARCHITECTURE_ID'' (Str ''PPC64'')]),
          (Defined ''__ppc__'',
           [Define ''ARCHITECTURE_ID'' (Str ''PPC'')]),
          (Defined ''__ARM__'',
           [Define ''ARCHITECTURE_ID'' (Str ''ARM'')]),
          (Defined ''__x86_64__'',
           [Define ''ARCHITECTURE_ID'' (Str ''x64'')]),
          (Defined ''__i386__'',
           [Define ''ARCHITECTURE_ID'' (Str ''X86'')])]
         [Define ''ARCHITECTURE_ID'' (Str [])]),
     (Defined ''__TI_COMPILER_VERSION__'',
      chain
         [(Defined ''__TI_ARM__'',
           [Define ''ARCHITECTURE_ID'' (Str ''ARM'')]),
          (Defined ''__MSP430__'',
           [Define ''ARCHITECTURE_ID'' (Str ''MSP430'')]),
          (Defined ''__TMS320C28XX__'',
           [Define ''ARCHITECTURE_ID'' (Str ''TMS320C28x'')]),
          (Disj (Defined ''__TMS320C6X__'') (Defined ''_TMS320C6X''),
           [Define ''ARCHITECTURE_ID'' (Str ''TMS320C6x'')])]
         [Define ''ARCHITECTURE_ID'' (Str [])])]"

definition architecture :: "directive list" where
  "architecture = chain architectures [Define ''ARCHITECTURE_ID'' (Str [])]"

definition c_standards :: "(cond \<times> directive list) list" where
  "c_standards =
    [(Conj (Neg (Defined ''__STDC__'')) (Neg (Defined ''__clang__'')),
      [If_Else (any_defined [''_MSC_VER'', ''__ibmxl__'', ''__IBMC__''])
         [Define ''C_VERSION'' (Str ''90'')]
         [Define ''C_VERSION'' (Str [])]]),
     (Less (Lit 201710) (Mac ''__STDC_VERSION__''),
      [Define ''C_VERSION'' (Str ''23'')]),
     (Less_Eq (Lit 201710) (Mac ''__STDC_VERSION__''),
      [Define ''C_VERSION'' (Str ''17'')]),
     (Less_Eq (Lit 201000) (Mac ''__STDC_VERSION__''),
      [Define ''C_VERSION'' (Str ''11'')]),
     (Less_Eq (Lit 199901) (Mac ''__STDC_VERSION__''),
      [Define ''C_VERSION'' (Str ''99'')])]"

definition c_standard :: "directive list" where
  "c_standard = chain c_standards [Define ''C_VERSION'' (Str ''90'')]"

definition extensions_on :: cond where
  "extensions_on = Conj (any_defined [''__clang__'', ''__GNUC__'', ''__xlC__'',
      ''__TI_COMPILER_VERSION__'']) (Neg (Defined ''__STRICT_ANSI__''))"

text \<open>The lines before the chains, and all definitions of the file.\<close>

definition c_head :: "directive list" where
  "c_head =
    [When (Defined ''__cplusplus'') [Error],
     When (Defined ''__18CXX'') [Define ''ID_VOID_MAIN'' (Str [])],
     When (Defined ''__CLASSIC_C__'') [Define ''const'' (Str []), Define ''volatile'' (Str [])],
     When (Neg (Defined ''__has_include'')) [Define ''__has_include'' (Value (Lit 0))]]"

definition c_directives :: "directive list" where
  "c_directives = c_head @ c_compilers @ platform @ architecture @ c_standard"

section \<open>The strings\<close>

definition brackets :: "string \<Rightarrow> string \<Rightarrow> string" where
  "brackets tag t = ''INFO:'' @ tag @ ''['' @ t @ '']''"

text \<open>The components of a version, as far as they are defined without a gap.\<close>

fun dotted :: "macros \<Rightarrow> defs \<Rightarrow> string list \<Rightarrow> string option" where
  "dotted P d [] = Some []"
| "dotted P d (x # xs) =
     (if has P d x then Option.bind (piece P d x) (\<lambda>t.
        map_option (\<lambda>r. CHR ''.'' # t @ r) (dotted P d xs))
      else Some [])"

definition version_of :: "macros \<Rightarrow> defs \<Rightarrow> string list \<Rightarrow> string option" where
  "version_of P d parts = Option.bind (piece P d (hd parts)) (\<lambda>t.
     map_option (\<lambda>r. t @ r) (dotted P d (tl parts)))"

text \<open>A variable of the file, defined under a condition, with the string it holds.\<close>

definition var :: "bool \<Rightarrow> string \<Rightarrow> string \<Rightarrow> string option \<Rightarrow> (string \<times> string) list option" where
  "var b x tag t = (if b then map_option (\<lambda>t. [(x, brackets tag t)]) t else Some [])"

fun all_vars :: "(string \<times> string) list option list \<Rightarrow> (string \<times> string) list option" where
  "all_vars [] = Some []"
| "all_vars (v # vs) = Option.bind v (\<lambda>x. map_option (\<lambda>y. x @ y) (all_vars vs))"

definition COMPILER_VERSION_PARTS :: "string list" where
  "COMPILER_VERSION_PARTS = [''COMPILER_VERSION_MAJOR'', ''COMPILER_VERSION_MINOR'',
     ''COMPILER_VERSION_PATCH'', ''COMPILER_VERSION_TWEAK'']"

definition SIMULATE_VERSION_PARTS :: "string list" where
  "SIMULATE_VERSION_PARTS = [''SIMULATE_VERSION_MAJOR'', ''SIMULATE_VERSION_MINOR'',
     ''SIMULATE_VERSION_PATCH'', ''SIMULATE_VERSION_TWEAK'']"

definition compiler_vars :: "macros \<Rightarrow> defs \<Rightarrow> (string \<times> string) list option list" where
  "compiler_vars P d =
    [var True ''info_compiler'' ''compiler'' (piece P d ''COMPILER_ID''),
     var (has P d ''SIMULATE_ID'') ''info_simulate'' ''simulate'' (piece P d ''SIMULATE_ID''),
     var (has P d ''__QNXNTO__'') ''qnxnto'' ''qnxnto'' (Some []),
     var (has P d ''__CRAYXT_COMPUTE_LINUX_TARGET'') ''info_cray'' ''compiler_wrapper''
       (Some ''CrayPrgEnv'')]"

definition version_vars :: "macros \<Rightarrow> defs \<Rightarrow> (string \<times> string) list option list" where
  "version_vars P d =
    [(if has P d ''COMPILER_VERSION''
      then var True ''info_version'' ''compiler_version'' (piece P d ''COMPILER_VERSION'')
      else var (has P d ''COMPILER_VERSION_MAJOR'') ''info_version'' ''compiler_version''
        (version_of P d COMPILER_VERSION_PARTS)),
     (if has P d ''COMPILER_VERSION_INTERNAL''
      then var True ''info_version_internal'' ''compiler_version_internal''
        (piece P d ''COMPILER_VERSION_INTERNAL'')
      else var (has P d ''COMPILER_VERSION_INTERNAL_STR'') ''info_version_internal''
        ''compiler_version_internal'' (piece P d ''COMPILER_VERSION_INTERNAL_STR'')),
     var (has P d ''SIMULATE_VERSION_MAJOR'') ''info_simulate_version'' ''simulate_version''
       (version_of P d SIMULATE_VERSION_PARTS),
     var True ''info_platform'' ''platform'' (piece P d ''PLATFORM_ID''),
     var True ''info_arch'' ''arch'' (piece P d ''ARCHITECTURE_ID'')]"

definition extensions :: "macros \<Rightarrow> defs \<Rightarrow> string option" where
  "extensions P d = map_option (\<lambda>b. if b then ''ON'' else ''OFF'') (holds P d extensions_on)"

definition c_language_vars :: "macros \<Rightarrow> defs \<Rightarrow> (string \<times> string) list option list" where
  "c_language_vars P d =
    [var True ''info_language_standard_default'' ''standard_default'' (piece P d ''C_VERSION''),
     var True ''info_language_extensions_default'' ''extensions_default'' (extensions P d)]"

text \<open>The strings of the compiled file; \<open>None\<close>: it does not compile.\<close>

definition c_strings :: "macros \<Rightarrow> (string \<times> string) list option" where
  "c_strings P = Option.bind (run P c_directives []) (\<lambda>d.
     all_vars (compiler_vars P d @ version_vars P d @ c_language_vars P d))"

text \<open>
  \<^verbatim>\<open>main\<close> adds up one character of each string, so that none is dropped; its index is the number
  of arguments. \<open>None\<close>: it reads behind the NUL of one of them.
\<close>

definition c_reads :: "macros \<Rightarrow> defs \<Rightarrow> string list" where
  "c_reads P d = (if has P d ''ID_VOID_MAIN'' then [] else
     [''info_compiler'', ''info_platform'', ''info_arch''] @
     (if has P d ''COMPILER_VERSION_MAJOR'' then [''info_version''] else []) @
     (if has P d ''COMPILER_VERSION_INTERNAL'' then [''info_version_internal''] else []) @
     (if has P d ''SIMULATE_ID'' then [''info_simulate''] else []) @
     (if has P d ''SIMULATE_VERSION_MAJOR'' then [''info_simulate_version''] else []) @
     (if has P d ''__CRAYXT_COMPUTE_LINUX_TARGET'' then [''info_cray''] else []) @
     [''info_language_standard_default'', ''info_language_extensions_default''])"

fun add_chars :: "(string \<times> string) list \<Rightarrow> string list \<Rightarrow> nat \<Rightarrow> int option" where
  "add_chars vs [] argc = Some 0"
| "add_chars vs (x # xs) argc = Option.bind (map_of vs x) (\<lambda>t.
     if argc \<le> length t
     then map_option (\<lambda>n. of_char ((t @ [CHR 0x00]) ! argc) + n) (add_chars vs xs argc)
     else None)"

definition c_main :: "macros \<Rightarrow> nat \<Rightarrow> int option" where
  "c_main P argc = Option.bind (run P c_directives []) (\<lambda>d. Option.bind (c_strings P) (\<lambda>vs.
     add_chars vs (c_reads P d) argc))"

section \<open>Digits\<close>

lemma sdiv_smod_nonneg:
  "0 \<le> m \<Longrightarrow> 0 < n \<Longrightarrow> m sdiv n = m div n" "0 \<le> m \<Longrightarrow> 0 < n \<Longrightarrow> m smod n = m mod n" for m n :: int
  by (simp_all add: signed_divide_int_def signed_modulo_int_def sgn_if)

lemma length_DEC [simp]: "length (DEC n) = 8"
  by (simp add: DEC_def)

lemma dec_value_Cons: "dec_value (c # cs) = digit_val c * 10 ^ length cs + dec_value cs"
proof (induction cs rule: rev_induct)
  case (snoc x cs)
  then show ?case using dec_value_snoc [of "c # cs" x] dec_value_snoc [of cs x] by simp
qed (simp add: dec_value_def)

lemma dec_value_digits:
  "dec_value (map (\<lambda>k. digit (m div 10 ^ k mod 10)) (rev [0..<j])) = m mod 10 ^ j"
proof (induction j)
  case (Suc j)
  have "m mod 10 ^ Suc j = m div 10 ^ j mod 10 * 10 ^ j + m mod 10 ^ j"
    using mod_mult2_eq [of m "10 ^ j" 10] by (simp only: power_Suc mult.commute)
  with Suc show ?case by (simp add: dec_value_Cons)
qed (simp add: dec_value_def)

lemma dec_value_DEC:
  assumes "0 \<le> n" "n < 10 ^ 8"
  shows "dec_value (DEC n) = nat n"
proof -
  obtain m where m: "n = int m" using assms(1) by (metis nonneg_int_cases)
  have "48 + (n sdiv 10 ^ k) smod 10 = int (48 + m div 10 ^ k mod 10)" for k
  proof -
    have "0 \<le> int m div 10 ^ k" by (simp add: pos_imp_zdiv_nonneg_iff)
    then show ?thesis by (simp add: m sdiv_smod_nonneg zmod_int zdiv_int)
  qed
  then have "DEC n = map (\<lambda>k. digit (m div 10 ^ k mod 10)) (rev [0..<8])"
    unfolding DEC_def digit_def by (simp only: char_of_nat)
  then show ?thesis using assms(2) m by (simp only: dec_value_digits) simp
qed

end
