(* ===== verification/CompilerIdCXX.thy ===== *)
theory CompilerIdCXX
  imports CompilerId
begin

text \<open>
  \<^verbatim>\<open>build/CMakeFiles/3.23.1/CompilerIdCXX/CMakeCXXCompilerId.cpp\<close>: the same for the C++ compiler.
  The chains of platforms and architectures and the strings of versions have the text of the C
  file; the chain of compilers, the language version and \<^verbatim>\<open>main\<close> are the file's own.
\<close>

section \<open>The compilers\<close>

definition cxx_compilers_1 :: "(cond \<times> directive list) list" where
  "cxx_compilers_1 =
    [(Defined ''__COMO__'',
      [Define ''COMPILER_ID'' (Str ''Comeau''),
       Define ''COMPILER_VERSION_MAJOR'' (Dec (Quot (Mac ''__COMO_VERSION__'') (Lit 100))),
       Define ''COMPILER_VERSION_MINOR'' (Dec (Rem (Mac ''__COMO_VERSION__'') (Lit 100)))]),
     (Disj (Defined ''__INTEL_COMPILER'') (Defined ''__ICC''),
      [Define ''COMPILER_ID'' (Str ''Intel''),
       When (Defined ''_MSC_VER'')
         [Define ''SIMULATE_ID'' (Str ''MSVC'')],
       When (Defined ''__GNUC__'')
         [Define ''SIMULATE_ID'' (Str ''GNU'')],
       If_Else (Disj (Disj (Less (Mac ''__INTEL_COMPILER'') (Lit 2021)) (Equals (Mac
           ''__INTEL_COMPILER'') (Lit 202110))) (Equals (Mac ''__INTEL_COMPILER'') (Lit 202111)))
         [Define ''COMPILER_VERSION_MAJOR'' (Dec (Quot (Mac ''__INTEL_COMPILER'') (Lit 100))),
          Define ''COMPILER_VERSION_MINOR'' (Dec (Rem (Quot (Mac ''__INTEL_COMPILER'') (Lit 10))
              (Lit 10))),
          If_Else (Defined ''__INTEL_COMPILER_UPDATE'')
            [Define ''COMPILER_VERSION_PATCH'' (Dec (Mac ''__INTEL_COMPILER_UPDATE''))]
            [Define ''COMPILER_VERSION_PATCH'' (Dec (Rem (Mac ''__INTEL_COMPILER'') (Lit 10)))]]
         [Define ''COMPILER_VERSION_MAJOR'' (Dec (Mac ''__INTEL_COMPILER'')),
          Define ''COMPILER_VERSION_MINOR'' (Dec (Mac ''__INTEL_COMPILER_UPDATE'')),
          Define ''COMPILER_VERSION_PATCH'' (Dec (Lit 0))],
       When (Defined ''__INTEL_COMPILER_BUILD_DATE'')
         [Define ''COMPILER_VERSION_TWEAK'' (Dec (Mac ''__INTEL_COMPILER_BUILD_DATE''))],
       When (Defined ''_MSC_VER'')
         [Define ''SIMULATE_VERSION_MAJOR'' (Dec (Quot (Mac ''_MSC_VER'') (Lit 100))),
          Define ''SIMULATE_VERSION_MINOR'' (Dec (Rem (Mac ''_MSC_VER'') (Lit 100)))],
       If_Else (Defined ''__GNUC__'')
         [Define ''SIMULATE_VERSION_MAJOR'' (Dec (Mac ''__GNUC__''))]
         [When (Defined ''__GNUG__'')
           [Define ''SIMULATE_VERSION_MAJOR'' (Dec (Mac ''__GNUG__''))]],
       When (Defined ''__GNUC_MINOR__'')
         [Define ''SIMULATE_VERSION_MINOR'' (Dec (Mac ''__GNUC_MINOR__''))],
       When (Defined ''__GNUC_PATCHLEVEL__'')
         [Define ''SIMULATE_VERSION_PATCH'' (Dec (Mac ''__GNUC_PATCHLEVEL__''))]]),
     (Disj (Conj (Defined ''__clang__'') (Defined ''__INTEL_CLANG_COMPILER'')) (Defined
         ''__INTEL_LLVM_COMPILER''),
      [Define ''COMPILER_ID'' (Str ''IntelLLVM''),
       When (Defined ''_MSC_VER'')
         [Define ''SIMULATE_ID'' (Str ''MSVC'')],
       When (Defined ''__GNUC__'')
         [Define ''SIMULATE_ID'' (Str ''GNU'')],
       If_Else (Less (Mac ''__INTEL_LLVM_COMPILER'') (Lit 1000000))
         [Define ''COMPILER_VERSION_MAJOR'' (Dec (Quot (Mac ''__INTEL_LLVM_COMPILER'') (Lit
             100))),
          Define ''COMPILER_VERSION_MINOR'' (Dec (Rem (Quot (Mac ''__INTEL_LLVM_COMPILER'') (Lit
              10)) (Lit 10))),
          Define ''COMPILER_VERSION_PATCH'' (Dec (Rem (Mac ''__INTEL_LLVM_COMPILER'') (Lit 10)))]
         [Define ''COMPILER_VERSION_MAJOR'' (Dec (Quot (Mac ''__INTEL_LLVM_COMPILER'') (Lit
             10000))),
          Define ''COMPILER_VERSION_MINOR'' (Dec (Rem (Quot (Mac ''__INTEL_LLVM_COMPILER'') (Lit
              100)) (Lit 100))),
          Define ''COMPILER_VERSION_PATCH'' (Dec (Rem (Mac ''__INTEL_LLVM_COMPILER'') (Lit
              100)))],
       When (Defined ''_MSC_VER'')
         [Define ''SIMULATE_VERSION_MAJOR'' (Dec (Quot (Mac ''_MSC_VER'') (Lit 100))),
          Define ''SIMULATE_VERSION_MINOR'' (Dec (Rem (Mac ''_MSC_VER'') (Lit 100)))],
       If_Else (Defined ''__GNUC__'')
         [Define ''SIMULATE_VERSION_MAJOR'' (Dec (Mac ''__GNUC__''))]
         [When (Defined ''__GNUG__'')
           [Define ''SIMULATE_VERSION_MAJOR'' (Dec (Mac ''__GNUG__''))]],
       When (Defined ''__GNUC_MINOR__'')
         [Define ''SIMULATE_VERSION_MINOR'' (Dec (Mac ''__GNUC_MINOR__''))],
       When (Defined ''__GNUC_PATCHLEVEL__'')
         [Define ''SIMULATE_VERSION_PATCH'' (Dec (Mac ''__GNUC_PATCHLEVEL__''))]]),
     (Defined ''__PATHCC__'',
      [Define ''COMPILER_ID'' (Str ''PathScale''),
       Define ''COMPILER_VERSION_MAJOR'' (Dec (Mac ''__PATHCC__'')),
       Define ''COMPILER_VERSION_MINOR'' (Dec (Mac ''__PATHCC_MINOR__'')),
       When (Defined ''__PATHCC_PATCHLEVEL__'')
         [Define ''COMPILER_VERSION_PATCH'' (Dec (Mac ''__PATHCC_PATCHLEVEL__''))]]),
     (Conj (Defined ''__BORLANDC__'') (Defined ''__CODEGEARC_VERSION__''),
      [Define ''COMPILER_ID'' (Str ''Embarcadero''),
       Define ''COMPILER_VERSION_MAJOR'' (Hex (Bits (Shift (Mac ''__CODEGEARC_VERSION__'') (Lit
           24)) (Lit 0x00FF))),
       Define ''COMPILER_VERSION_MINOR'' (Hex (Bits (Shift (Mac ''__CODEGEARC_VERSION__'') (Lit
           16)) (Lit 0x00FF))),
       Define ''COMPILER_VERSION_PATCH'' (Dec (Bits (Mac ''__CODEGEARC_VERSION__'') (Lit
           0xFFFF)))]),
     (Defined ''__BORLANDC__'',
      [Define ''COMPILER_ID'' (Str ''Borland''),
       Define ''COMPILER_VERSION_MAJOR'' (Hex (Shift (Mac ''__BORLANDC__'') (Lit 8))),
       Define ''COMPILER_VERSION_MINOR'' (Hex (Bits (Mac ''__BORLANDC__'') (Lit 0xFF)))]),
     (Conj (Defined ''__WATCOMC__'') (Less (Mac ''__WATCOMC__'') (Lit 1200)),
      [Define ''COMPILER_ID'' (Str ''Watcom''),
       Define ''COMPILER_VERSION_MAJOR'' (Dec (Quot (Mac ''__WATCOMC__'') (Lit 100))),
       Define ''COMPILER_VERSION_MINOR'' (Dec (Rem (Quot (Mac ''__WATCOMC__'') (Lit 10)) (Lit
           10))),
       When (Less (Lit 0) (Rem (Mac ''__WATCOMC__'') (Lit 10)))
         [Define ''COMPILER_VERSION_PATCH'' (Dec (Rem (Mac ''__WATCOMC__'') (Lit 10)))]]),
     (Defined ''__WATCOMC__'',
      [Define ''COMPILER_ID'' (Str ''OpenWatcom''),
       Define ''COMPILER_VERSION_MAJOR'' (Dec (Quot (Minus (Mac ''__WATCOMC__'') (Lit 1100)) (Lit
           100))),
       Define ''COMPILER_VERSION_MINOR'' (Dec (Rem (Quot (Mac ''__WATCOMC__'') (Lit 10)) (Lit
           10))),
       When (Less (Lit 0) (Rem (Mac ''__WATCOMC__'') (Lit 10)))
         [Define ''COMPILER_VERSION_PATCH'' (Dec (Rem (Mac ''__WATCOMC__'') (Lit 10)))]]),
     (Defined ''__SUNPRO_CC'',
      [Define ''COMPILER_ID'' (Str ''SunPro''),
       If_Else (Less_Eq (Lit 0x5100) (Mac ''__SUNPRO_CC''))
         [Define ''COMPILER_VERSION_MAJOR'' (Hex (Shift (Mac ''__SUNPRO_CC'') (Lit 12))),
          Define ''COMPILER_VERSION_MINOR'' (Hex (Bits (Shift (Mac ''__SUNPRO_CC'') (Lit 4)) (Lit
              0xFF))),
          Define ''COMPILER_VERSION_PATCH'' (Hex (Bits (Mac ''__SUNPRO_CC'') (Lit 0xF)))]
         [Define ''COMPILER_VERSION_MAJOR'' (Hex (Shift (Mac ''__SUNPRO_CC'') (Lit 8))),
          Define ''COMPILER_VERSION_MINOR'' (Hex (Bits (Shift (Mac ''__SUNPRO_CC'') (Lit 4)) (Lit
              0xF))),
          Define ''COMPILER_VERSION_PATCH'' (Hex (Bits (Mac ''__SUNPRO_CC'') (Lit 0xF)))]]),
     (Defined ''__HP_aCC'',
      [Define ''COMPILER_ID'' (Str ''HP''),
       Define ''COMPILER_VERSION_MAJOR'' (Dec (Quot (Mac ''__HP_aCC'') (Lit 10000))),
       Define ''COMPILER_VERSION_MINOR'' (Dec (Rem (Quot (Mac ''__HP_aCC'') (Lit 100)) (Lit
           100))),
       Define ''COMPILER_VERSION_PATCH'' (Dec (Rem (Mac ''__HP_aCC'') (Lit 100)))])]"

definition cxx_compilers_2 :: "(cond \<times> directive list) list" where
  "cxx_compilers_2 =
    [(Defined ''__DECCXX'',
      [Define ''COMPILER_ID'' (Str ''Compaq''),
       Define ''COMPILER_VERSION_MAJOR'' (Dec (Quot (Mac ''__DECCXX_VER'') (Lit 10000000))),
       Define ''COMPILER_VERSION_MINOR'' (Dec (Rem (Quot (Mac ''__DECCXX_VER'') (Lit 100000))
           (Lit 100))),
       Define ''COMPILER_VERSION_PATCH'' (Dec (Rem (Mac ''__DECCXX_VER'') (Lit 10000)))]),
     (Conj (Defined ''__IBMCPP__'') (Defined ''__COMPILER_VER__''),
      [Define ''COMPILER_ID'' (Str ''zOS''),
       Define ''COMPILER_VERSION_MAJOR'' (Dec (Quot (Mac ''__IBMCPP__'') (Lit 100))),
       Define ''COMPILER_VERSION_MINOR'' (Dec (Rem (Quot (Mac ''__IBMCPP__'') (Lit 10)) (Lit
           10))),
       Define ''COMPILER_VERSION_PATCH'' (Dec (Rem (Mac ''__IBMCPP__'') (Lit 10)))]),
     (Conj (Defined ''__open_xl__'') (Defined ''__clang__''),
      [Define ''COMPILER_ID'' (Str ''IBMClang''),
       Define ''COMPILER_VERSION_MAJOR'' (Dec (Mac ''__open_xl_version__'')),
       Define ''COMPILER_VERSION_MINOR'' (Dec (Mac ''__open_xl_release__'')),
       Define ''COMPILER_VERSION_PATCH'' (Dec (Mac ''__open_xl_modification__'')),
       Define ''COMPILER_VERSION_TWEAK'' (Dec (Mac ''__open_xl_ptf_fix_level__''))]),
     (Conj (Defined ''__ibmxl__'') (Defined ''__clang__''),
      [Define ''COMPILER_ID'' (Str ''XLClang''),
       Define ''COMPILER_VERSION_MAJOR'' (Dec (Mac ''__ibmxl_version__'')),
       Define ''COMPILER_VERSION_MINOR'' (Dec (Mac ''__ibmxl_release__'')),
       Define ''COMPILER_VERSION_PATCH'' (Dec (Mac ''__ibmxl_modification__'')),
       Define ''COMPILER_VERSION_TWEAK'' (Dec (Mac ''__ibmxl_ptf_fix_level__''))]),
     (Conj (Conj (Defined ''__IBMCPP__'') (Neg (Defined ''__COMPILER_VER__''))) (Less_Eq (Lit
         800) (Mac ''__IBMCPP__'')),
      [Define ''COMPILER_ID'' (Str ''XL''),
       Define ''COMPILER_VERSION_MAJOR'' (Dec (Quot (Mac ''__IBMCPP__'') (Lit 100))),
       Define ''COMPILER_VERSION_MINOR'' (Dec (Rem (Quot (Mac ''__IBMCPP__'') (Lit 10)) (Lit
           10))),
       Define ''COMPILER_VERSION_PATCH'' (Dec (Rem (Mac ''__IBMCPP__'') (Lit 10)))]),
     (Conj (Conj (Defined ''__IBMCPP__'') (Neg (Defined ''__COMPILER_VER__''))) (Less (Mac
         ''__IBMCPP__'') (Lit 800)),
      [Define ''COMPILER_ID'' (Str ''VisualAge''),
       Define ''COMPILER_VERSION_MAJOR'' (Dec (Quot (Mac ''__IBMCPP__'') (Lit 100))),
       Define ''COMPILER_VERSION_MINOR'' (Dec (Rem (Quot (Mac ''__IBMCPP__'') (Lit 10)) (Lit
           10))),
       Define ''COMPILER_VERSION_PATCH'' (Dec (Rem (Mac ''__IBMCPP__'') (Lit 10)))]),
     (Defined ''__NVCOMPILER'',
      [Define ''COMPILER_ID'' (Str ''NVHPC''),
       Define ''COMPILER_VERSION_MAJOR'' (Dec (Mac ''__NVCOMPILER_MAJOR__'')),
       Define ''COMPILER_VERSION_MINOR'' (Dec (Mac ''__NVCOMPILER_MINOR__'')),
       When (Defined ''__NVCOMPILER_PATCHLEVEL__'')
         [Define ''COMPILER_VERSION_PATCH'' (Dec (Mac ''__NVCOMPILER_PATCHLEVEL__''))]]),
     (Defined ''__PGI'',
      [Define ''COMPILER_ID'' (Str ''PGI''),
       Define ''COMPILER_VERSION_MAJOR'' (Dec (Mac ''__PGIC__'')),
       Define ''COMPILER_VERSION_MINOR'' (Dec (Mac ''__PGIC_MINOR__'')),
       When (Defined ''__PGIC_PATCHLEVEL__'')
         [Define ''COMPILER_VERSION_PATCH'' (Dec (Mac ''__PGIC_PATCHLEVEL__''))]]),
     (Defined ''_CRAYC'',
      [Define ''COMPILER_ID'' (Str ''Cray''),
       Define ''COMPILER_VERSION_MAJOR'' (Dec (Mac ''_RELEASE_MAJOR'')),
       Define ''COMPILER_VERSION_MINOR'' (Dec (Mac ''_RELEASE_MINOR''))]),
     (Defined ''__TI_COMPILER_VERSION__'',
      [Define ''COMPILER_ID'' (Str ''TI''),
       Define ''COMPILER_VERSION_MAJOR'' (Dec (Quot (Mac ''__TI_COMPILER_VERSION__'') (Lit
           1000000))),
       Define ''COMPILER_VERSION_MINOR'' (Dec (Rem (Quot (Mac ''__TI_COMPILER_VERSION__'') (Lit
           1000)) (Lit 1000))),
       Define ''COMPILER_VERSION_PATCH'' (Dec (Rem (Mac ''__TI_COMPILER_VERSION__'') (Lit
           1000)))]),
     (Defined ''__CLANG_FUJITSU'',
      [Define ''COMPILER_ID'' (Str ''FujitsuClang''),
       Define ''COMPILER_VERSION_MAJOR'' (Dec (Mac ''__FCC_major__'')),
       Define ''COMPILER_VERSION_MINOR'' (Dec (Mac ''__FCC_minor__'')),
       Define ''COMPILER_VERSION_PATCH'' (Dec (Mac ''__FCC_patchlevel__'')),
       Define ''COMPILER_VERSION_INTERNAL_STR'' (Name ''__clang_version__'')]),
     (Defined ''__FUJITSU'',
      [Define ''COMPILER_ID'' (Str ''Fujitsu''),
       If_Else (Defined ''__FCC_version__'')
         [Define ''COMPILER_VERSION'' (Name ''__FCC_version__'')]
         [When (Defined ''__FCC_major__'')
           [Define ''COMPILER_VERSION_MAJOR'' (Dec (Mac ''__FCC_major__'')),
            Define ''COMPILER_VERSION_MINOR'' (Dec (Mac ''__FCC_minor__'')),
            Define ''COMPILER_VERSION_PATCH'' (Dec (Mac ''__FCC_patchlevel__''))]],
       If_Else (Defined ''__fcc_version'')
         [Define ''COMPILER_VERSION_INTERNAL'' (Dec (Mac ''__fcc_version''))]
         [When (Defined ''__FCC_VERSION'')
           [Define ''COMPILER_VERSION_INTERNAL'' (Dec (Mac ''__FCC_VERSION''))]]]),
     (Defined ''__ghs__'',
      [Define ''COMPILER_ID'' (Str ''GHS''),
       When (Defined ''__GHS_VERSION_NUMBER'')
         [Define ''COMPILER_VERSION_MAJOR'' (Dec (Quot (Mac ''__GHS_VERSION_NUMBER'') (Lit 100))),
          Define ''COMPILER_VERSION_MINOR'' (Dec (Rem (Quot (Mac ''__GHS_VERSION_NUMBER'') (Lit
              10)) (Lit 10))),
          Define ''COMPILER_VERSION_PATCH'' (Dec (Rem (Mac ''__GHS_VERSION_NUMBER'') (Lit
              10)))]]),
     (Defined ''__SCO_VERSION__'',
      [Define ''COMPILER_ID'' (Str ''SCO'')])]"

definition cxx_compilers_3 :: "(cond \<times> directive list) list" where
  "cxx_compilers_3 =
    [(Conj (Defined ''__ARMCC_VERSION'') (Neg (Defined ''__clang__'')),
      [Define ''COMPILER_ID'' (Str ''ARMCC''),
       If_Else (Less_Eq (Lit 1000000) (Mac ''__ARMCC_VERSION''))
         [Define ''COMPILER_VERSION_MAJOR'' (Dec (Quot (Mac ''__ARMCC_VERSION'') (Lit 1000000))),
          Define ''COMPILER_VERSION_MINOR'' (Dec (Rem (Quot (Mac ''__ARMCC_VERSION'') (Lit
              10000)) (Lit 100))),
          Define ''COMPILER_VERSION_PATCH'' (Dec (Rem (Mac ''__ARMCC_VERSION'') (Lit 10000)))]
         [Define ''COMPILER_VERSION_MAJOR'' (Dec (Quot (Mac ''__ARMCC_VERSION'') (Lit 100000))),
          Define ''COMPILER_VERSION_MINOR'' (Dec (Rem (Quot (Mac ''__ARMCC_VERSION'') (Lit
              10000)) (Lit 10))),
          Define ''COMPILER_VERSION_PATCH'' (Dec (Rem (Mac ''__ARMCC_VERSION'') (Lit 10000)))]]),
     (Conj (Defined ''__clang__'') (Defined ''__apple_build_version__''),
      [Define ''COMPILER_ID'' (Str ''AppleClang''),
       When (Defined ''_MSC_VER'')
         [Define ''SIMULATE_ID'' (Str ''MSVC'')],
       Define ''COMPILER_VERSION_MAJOR'' (Dec (Mac ''__clang_major__'')),
       Define ''COMPILER_VERSION_MINOR'' (Dec (Mac ''__clang_minor__'')),
       Define ''COMPILER_VERSION_PATCH'' (Dec (Mac ''__clang_patchlevel__'')),
       When (Defined ''_MSC_VER'')
         [Define ''SIMULATE_VERSION_MAJOR'' (Dec (Quot (Mac ''_MSC_VER'') (Lit 100))),
          Define ''SIMULATE_VERSION_MINOR'' (Dec (Rem (Mac ''_MSC_VER'') (Lit 100)))],
       Define ''COMPILER_VERSION_TWEAK'' (Dec (Mac ''__apple_build_version__''))]),
     (Conj (Defined ''__clang__'') (Defined ''__ARMCOMPILER_VERSION''),
      [Define ''COMPILER_ID'' (Str ''ARMClang''),
       Define ''COMPILER_VERSION_MAJOR'' (Dec (Quot (Mac ''__ARMCOMPILER_VERSION'') (Lit
           1000000))),
       Define ''COMPILER_VERSION_MINOR'' (Dec (Rem (Quot (Mac ''__ARMCOMPILER_VERSION'') (Lit
           10000)) (Lit 100))),
       Define ''COMPILER_VERSION_PATCH'' (Dec (Rem (Mac ''__ARMCOMPILER_VERSION'') (Lit 10000))),
       Define ''COMPILER_VERSION_INTERNAL'' (Dec (Mac ''__ARMCOMPILER_VERSION''))]),
     (Defined ''__clang__'',
      [Define ''COMPILER_ID'' (Str ''Clang''),
       When (Defined ''_MSC_VER'')
         [Define ''SIMULATE_ID'' (Str ''MSVC'')],
       Define ''COMPILER_VERSION_MAJOR'' (Dec (Mac ''__clang_major__'')),
       Define ''COMPILER_VERSION_MINOR'' (Dec (Mac ''__clang_minor__'')),
       Define ''COMPILER_VERSION_PATCH'' (Dec (Mac ''__clang_patchlevel__'')),
       When (Defined ''_MSC_VER'')
         [Define ''SIMULATE_VERSION_MAJOR'' (Dec (Quot (Mac ''_MSC_VER'') (Lit 100))),
          Define ''SIMULATE_VERSION_MINOR'' (Dec (Rem (Mac ''_MSC_VER'') (Lit 100)))]]),
     (Conj (Defined ''__LCC__'') (any_defined [''__GNUC__'', ''__GNUG__'', ''__MCST__'']),
      [Define ''COMPILER_ID'' (Str ''LCC''),
       Define ''COMPILER_VERSION_MAJOR'' (Dec (Lit 1)),
       When (Defined ''__LCC__'')
         [Define ''COMPILER_VERSION_MINOR'' (Dec (Minus (Mac ''__LCC__'') (Lit 100)))],
       When (Defined ''__LCC_MINOR__'')
         [Define ''COMPILER_VERSION_PATCH'' (Dec (Mac ''__LCC_MINOR__''))],
       When (Conj (Defined ''__GNUC__'') (Defined ''__GNUC_MINOR__''))
         [Define ''SIMULATE_ID'' (Str ''GNU''),
          Define ''SIMULATE_VERSION_MAJOR'' (Dec (Mac ''__GNUC__'')),
          Define ''SIMULATE_VERSION_MINOR'' (Dec (Mac ''__GNUC_MINOR__'')),
          When (Defined ''__GNUC_PATCHLEVEL__'')
            [Define ''SIMULATE_VERSION_PATCH'' (Dec (Mac ''__GNUC_PATCHLEVEL__''))]]])]"

definition cxx_compilers_4 :: "(cond \<times> directive list) list" where
  "cxx_compilers_4 =
    [(Disj (Defined ''__GNUC__'') (Defined ''__GNUG__''),
      [Define ''COMPILER_ID'' (Str ''GNU''),
       If_Else (Defined ''__GNUC__'')
         [Define ''COMPILER_VERSION_MAJOR'' (Dec (Mac ''__GNUC__''))]
         [Define ''COMPILER_VERSION_MAJOR'' (Dec (Mac ''__GNUG__''))],
       When (Defined ''__GNUC_MINOR__'')
         [Define ''COMPILER_VERSION_MINOR'' (Dec (Mac ''__GNUC_MINOR__''))],
       When (Defined ''__GNUC_PATCHLEVEL__'')
         [Define ''COMPILER_VERSION_PATCH'' (Dec (Mac ''__GNUC_PATCHLEVEL__''))]]),
     (Defined ''_MSC_VER'',
      [Define ''COMPILER_ID'' (Str ''MSVC''),
       Define ''COMPILER_VERSION_MAJOR'' (Dec (Quot (Mac ''_MSC_VER'') (Lit 100))),
       Define ''COMPILER_VERSION_MINOR'' (Dec (Rem (Mac ''_MSC_VER'') (Lit 100))),
       When (Defined ''_MSC_FULL_VER'')
         [If_Else (Less_Eq (Lit 1400) (Mac ''_MSC_VER''))
            [Define ''COMPILER_VERSION_PATCH'' (Dec (Rem (Mac ''_MSC_FULL_VER'') (Lit 100000)))]
            [Define ''COMPILER_VERSION_PATCH'' (Dec (Rem (Mac ''_MSC_FULL_VER'') (Lit 10000)))]],
       When (Defined ''_MSC_BUILD'')
         [Define ''COMPILER_VERSION_TWEAK'' (Dec (Mac ''_MSC_BUILD''))]]),
     (any_defined [''__VISUALDSPVERSION__'', ''__ADSPBLACKFIN__'', ''__ADSPTS__'',
         ''__ADSP21000__''],
      [Define ''COMPILER_ID'' (Str ''ADSP''),
       When (Defined ''__VISUALDSPVERSION__'')
         [Define ''COMPILER_VERSION_MAJOR'' (Hex (Shift (Mac ''__VISUALDSPVERSION__'') (Lit 24))),
          Define ''COMPILER_VERSION_MINOR'' (Hex (Bits (Shift (Mac ''__VISUALDSPVERSION__'') (Lit
              16)) (Lit 0xFF))),
          Define ''COMPILER_VERSION_PATCH'' (Hex (Bits (Shift (Mac ''__VISUALDSPVERSION__'') (Lit
              8)) (Lit 0xFF)))]]),
     (Disj (Defined ''__IAR_SYSTEMS_ICC__'') (Defined ''__IAR_SYSTEMS_ICC''),
      [Define ''COMPILER_ID'' (Str ''IAR''),
       If_Else (Conj (Defined ''__VER__'') (Defined ''__ICCARM__''))
         [Define ''COMPILER_VERSION_MAJOR'' (Dec (Quot (Mac ''__VER__'') (Lit 1000000))),
          Define ''COMPILER_VERSION_MINOR'' (Dec (Rem (Quot (Mac ''__VER__'') (Lit 1000)) (Lit
              1000))),
          Define ''COMPILER_VERSION_PATCH'' (Dec (Rem (Mac ''__VER__'') (Lit 1000))),
          Define ''COMPILER_VERSION_INTERNAL'' (Dec (Mac ''__IAR_SYSTEMS_ICC__''))]
         [When (Conj (Defined ''__VER__'') (any_defined [''__ICCAVR__'', ''__ICCRX__'',
             ''__ICCRH850__'', ''__ICCRL78__'', ''__ICC430__'', ''__ICCRISCV__'',
             ''__ICCV850__'', ''__ICC8051__'', ''__ICCSTM8__'']))
           [Define ''COMPILER_VERSION_MAJOR'' (Dec (Quot (Mac ''__VER__'') (Lit 100))),
            Define ''COMPILER_VERSION_MINOR'' (Dec (Minus (Mac ''__VER__'') (Times (Quot (Mac
                ''__VER__'') (Lit 100)) (Lit 100)))),
            Define ''COMPILER_VERSION_PATCH'' (Dec (Mac ''__SUBVERSION__'')),
            Define ''COMPILER_VERSION_INTERNAL'' (Dec (Mac ''__IAR_SYSTEMS_ICC__''))]]]),
     (Disj (Defined ''__hpux'') (Defined ''__hpua''),
      [Define ''COMPILER_ID'' (Str ''HP'')])]"

definition cxx_compilers :: "directive list" where
  "cxx_compilers = chain (cxx_compilers_1 @ cxx_compilers_2 @ cxx_compilers_3 @ cxx_compilers_4)
      [Define ''COMPILER_ID'' (Str [])]"

section \<open>Platform, architecture and versions\<close>

text \<open>
  Between the compilers and the language this file has the same text as the one for C, so the same
  chains and strings: the platform, the architecture, and the variables that hold what was found.
\<close>

definition cxx_platforms :: "(cond \<times> directive list) list" where
  "cxx_platforms = platforms"

definition cxx_platform :: "directive list" where
  "cxx_platform = chain cxx_platforms [Define ''PLATFORM_ID'' (Str [])]"

definition cxx_architectures :: "(cond \<times> directive list) list" where
  "cxx_architectures = architectures"

definition cxx_architecture :: "directive list" where
  "cxx_architecture = chain cxx_architectures [Define ''ARCHITECTURE_ID'' (Str [])]"

definition cxx_compiler_vars :: "macros \<Rightarrow> defs \<Rightarrow> (string \<times> string) list option list" where
  "cxx_compiler_vars P d = compiler_vars P d"

definition cxx_version_vars :: "macros \<Rightarrow> defs \<Rightarrow> (string \<times> string) list option list" where
  "cxx_version_vars P d = version_vars P d"

lemma cxx_as_c:
  "cxx_platform = platform" "cxx_architecture = architecture"
  "cxx_compiler_vars P d = compiler_vars P d" "cxx_version_vars P d = version_vars P d"
  by (simp_all add: cxx_platform_def cxx_platforms_def platform_def cxx_architecture_def
      cxx_architectures_def architecture_def cxx_compiler_vars_def cxx_version_vars_def)

section \<open>The language and the strings\<close>

definition cxx_std :: "directive list" where
  "cxx_std = [If_Else (Conj (Conj (Defined ''__INTEL_COMPILER'') (Defined ''_MSVC_LANG'')) (Less
      (Mac ''_MSVC_LANG'') (Lit 201403)))
    [If_Else (Defined ''__INTEL_CXX11_MODE__'')
       [If_Else (Defined ''__cpp_aggregate_nsdmi'')
          [Define ''CXX_STD'' (Value (Lit 201402))]
          [Define ''CXX_STD'' (Value (Lit 201103))]]
       [Define ''CXX_STD'' (Value (Lit 199711))]]
    [If_Else (Conj (Defined ''_MSC_VER'') (Defined ''_MSVC_LANG''))
      [Define ''CXX_STD'' (Value (Mac ''_MSVC_LANG''))]
      [Define ''CXX_STD'' (Value (Mac ''__cplusplus''))]]]"

definition cxx_standards :: "(cond \<times> string) list" where
  "cxx_standards =
    [(Less (Lit 202002) (Mac ''CXX_STD''), ''23''),
     (Less (Lit 201703) (Mac ''CXX_STD''), ''20''),
     (Less_Eq (Lit 201703) (Mac ''CXX_STD''), ''17''),
     (Less_Eq (Lit 201402) (Mac ''CXX_STD''), ''14''),
     (Less_Eq (Lit 201103) (Mac ''CXX_STD''), ''11'')]"


definition cxx_head :: "directive list" where
  "cxx_head =
    [When (Neg (Defined ''__cplusplus'')) [Error],
     When (Neg (Defined ''__has_include'')) [Define ''__has_include'' (Value (Lit 0))]]"

definition cxx_directives :: "directive list" where
  "cxx_directives = cxx_head @ cxx_compilers @ cxx_platform @ cxx_architecture @ cxx_std"

text \<open>The literal of the first condition that holds, and \<open>98\<close> if none does.\<close>

fun first_text :: "macros \<Rightarrow> defs \<Rightarrow> (cond \<times> string) list \<Rightarrow> string option" where
  "first_text P d [] = Some ''98''"
| "first_text P d ((c, t) # r) =
     Option.bind (holds P d c) (\<lambda>v. if v then Some t else first_text P d r)"

definition cxx_language_vars :: "macros \<Rightarrow> defs \<Rightarrow> (string \<times> string) list option list" where
  "cxx_language_vars P d =
    [var True ''info_language_standard_default'' ''standard_default'' (first_text P d cxx_standards),
     var True ''info_language_extensions_default'' ''extensions_default'' (extensions P d)]"

definition cxx_strings :: "macros \<Rightarrow> (string \<times> string) list option" where
  "cxx_strings P = Option.bind (run P cxx_directives []) (\<lambda>d.
     all_vars (cxx_compiler_vars P d @ cxx_version_vars P d @ cxx_language_vars P d))"

text \<open>This \<^verbatim>\<open>main\<close> does not read the string of the architecture.\<close>

definition cxx_reads :: "macros \<Rightarrow> defs \<Rightarrow> string list" where
  "cxx_reads P d =
     [''info_compiler'', ''info_platform''] @
     (if has P d ''COMPILER_VERSION_MAJOR'' then [''info_version''] else []) @
     (if has P d ''COMPILER_VERSION_INTERNAL'' then [''info_version_internal''] else []) @
     (if has P d ''SIMULATE_ID'' then [''info_simulate''] else []) @
     (if has P d ''SIMULATE_VERSION_MAJOR'' then [''info_simulate_version''] else []) @
     (if has P d ''__CRAYXT_COMPUTE_LINUX_TARGET'' then [''info_cray''] else []) @
     [''info_language_standard_default'', ''info_language_extensions_default'']"

definition cxx_main :: "macros \<Rightarrow> nat \<Rightarrow> int option" where
  "cxx_main P argc = Option.bind (run P cxx_directives []) (\<lambda>d. Option.bind (cxx_strings P) (\<lambda>vs.
     add_chars vs (cxx_reads P d) argc))"

end
