(* ===== verification/Toolchain.thy ===== *)
theory Toolchain
  imports CompilerIdCXX
begin

text \<open>
  What the compiler-identification files say of the toolchain of the repository, a GCC that
  defines none of the names of other compilers and no platform, and that their \<^verbatim>\<open>main\<close> stays inside
  the strings for every compiler.
\<close>

section \<open>Running the chains\<close>

lemma run_append: "run P (as @ bs) d = Option.bind (run P as d) (run P bs)"
  by (induction P as d rule: run.induct) (auto split: bind_splits simp: bind_assoc)

lemma run_then: "run P as d = Some e \<Longrightarrow> run P (as @ bs) d = run P bs e"
  by (simp add: run_append)

lemma chain_simps [simp]:
  "chain [] r = r" "chain ((c, b) # bs) r = [If_Else c b (chain bs r)]"
  by (simp_all add: chain_def)

text \<open>Branches whose conditions do not hold are passed over.\<close>

definition passed :: "macros \<Rightarrow> defs \<Rightarrow> (cond \<times> directive list) list \<Rightarrow> bool" where
  "passed P d bs \<longleftrightarrow> list_all (\<lambda>(c, b). holds P d c = Some False) bs"

lemma run_Nil [simp]: "run P [] = Some"
  by (simp add: fun_eq_iff)

lemma run_chain_passed: "passed P d as \<Longrightarrow> run P (chain (as @ bs) r) d = run P (chain bs r) d"
  by (induction as) (auto simp: passed_def)

lemma passed_Nil: "passed P d []"
  by (simp add: passed_def)

lemma passed_Cons: "holds P d c = Some False \<Longrightarrow> passed P d bs \<Longrightarrow> passed P d ((c, b) # bs)"
  by (simp add: passed_def)

lemma has_cong: "has P d x = has P d x" by (rule refl)

lemma run_chain_otherwise: "passed P d as \<Longrightarrow> run P (chain as r) d = run P r d"
  using run_chain_passed [of P d as "[]" r] by simp

lemma passed_append: "passed P d (as @ bs) \<longleftrightarrow> passed P d as \<and> passed P d bs"
  by (simp add: passed_def)

lemma list_all_subset: "list_all p ys \<Longrightarrow> set xs \<subseteq> set ys \<Longrightarrow> list_all p xs"
  unfolding list_all_iff by blast

section \<open>GCC without a platform\<close>

text \<open>
  The names by which the chains tell other compilers, platforms and architectures, and the names
  of the file's own definitions.
\<close>

definition other_compilers :: "string list" where
  "other_compilers =
    [''__COMO__'', ''__INTEL_COMPILER'', ''__ICC'', ''__clang__'', ''__INTEL_LLVM_COMPILER'',
     ''__PATHCC__'', ''__BORLANDC__'', ''__WATCOMC__'', ''__SUNPRO_C'', ''__SUNPRO_CC'', ''__HP_cc'',
     ''__HP_aCC'', ''__DECC'', ''__DECCXX'', ''__IBMC__'', ''__IBMCPP__'', ''__open_xl__'', ''__ibmxl__'',
     ''__NVCOMPILER'', ''__PGI'', ''_CRAYC'', ''__TI_COMPILER_VERSION__'', ''__CLANG_FUJITSU'',
     ''__FUJITSU'', ''__ghs__'', ''__TINYC__'', ''__BCC__'', ''__SCO_VERSION__'', ''__ARMCC_VERSION'',
     ''__LCC__'', ''_MSC_VER'', ''__IAR_SYSTEMS_ICC__'', ''__IAR_SYSTEMS_ICC'',
     ''__CRAYXT_COMPUTE_LINUX_TARGET'']"

fun names_of :: "cond \<Rightarrow> string list" where
  "names_of (Defined x) = [x]"
| "names_of (Neg c) = names_of c"
| "names_of (Conj a b) = names_of a @ names_of b"
| "names_of (Disj a b) = names_of a @ names_of b"
| "names_of _ = []"

definition platform_names :: "string list" where
  "platform_names = concat (map (names_of \<circ> fst) platforms)"

definition own_names :: "string list" where
  "own_names = [''ID_VOID_MAIN'', ''COMPILER_VERSION'', ''COMPILER_VERSION_TWEAK'', ''COMPILER_VERSION_INTERNAL'',
     ''COMPILER_VERSION_INTERNAL_STR'', ''SIMULATE_ID'', ''SIMULATE_VERSION_MAJOR'']"

definition plain_gcc :: "macros \<Rightarrow> bool" where
  "plain_gcc P \<longleftrightarrow> list_all (\<lambda>x. \<not> defined P x) (other_compilers @ platform_names @ own_names @
     [''__18CXX'', ''__CLASSIC_C__'', ''__STRICT_ANSI__''])"

text \<open>A condition made of \<open>defined\<close>, \<open>&&\<close> and \<open>||\<close> fails if none of its names is defined.\<close>

fun positive :: "cond \<Rightarrow> bool" where
  "positive (Defined x) = True"
| "positive (Conj a b) = (positive a \<and> positive b)"
| "positive (Disj a b) = (positive a \<and> positive b)"
| "positive _ = False"

lemma holds_positive:
  "positive c \<Longrightarrow> list_all (\<lambda>x. \<not> has P d x) (names_of c) \<Longrightarrow> holds P d c = Some False"
  by (induction c) auto

lemma has_Cons [simp]: "has P ((y, b) # d) x \<longleftrightarrow> x = y \<or> has P d x"
  by (auto simp: has_def)

lemma has_Nil [simp]: "has P [] x = defined P x"
  by (simp add: has_def)

lemma platforms_positive: "list_all (positive \<circ> fst) platforms"
  by (simp add: platforms_def)

lemma architectures_positive: "list_all (positive \<circ> fst) architectures"
  by (simp add: architectures_def)

lemma passed_positive:
  assumes "list_all (positive \<circ> fst) bs" "list_all (\<lambda>x. \<not> has P d x) (concat (map (names_of \<circ> fst) bs))"
  shows "passed P d bs"
  using assms by (induction bs) (auto simp: passed_def intro: holds_positive)

lemma list_all_has:
  assumes "list_all (\<lambda>x. \<not> defined P x) xs" "list_all (\<lambda>x. x \<notin> set xs) (map fst d)"
  shows "list_all (\<lambda>x. \<not> has P d x) xs"
  using assms by (auto simp: list_all_iff has_def map_of_eq_None_iff)

text \<open>The definitions in force after each chain.\<close>

definition head_defs :: "macros \<Rightarrow> defs" where
  "head_defs P = (if defined P ''__has_include'' then [] else [(''__has_include'', Value (Lit 0))])"

definition gcc_defs :: "macros \<Rightarrow> defs" where
  "gcc_defs P =
    [(''COMPILER_VERSION_PATCH'', Dec (Mac ''__GNUC_PATCHLEVEL__'')),
     (''COMPILER_VERSION_MINOR'', Dec (Mac ''__GNUC_MINOR__'')),
     (''COMPILER_VERSION_MAJOR'', Dec (Mac ''__GNUC__'')), (''COMPILER_ID'', Str ''GNU'')] @ head_defs P"

definition gcc_version :: "macros \<Rightarrow> int \<Rightarrow> int \<Rightarrow> int \<Rightarrow> bool" where
  "gcc_version P a b c \<longleftrightarrow> expand P ''__GNUC__'' = Num a \<and> expand P ''__GNUC_MINOR__'' = Num b \<and>
     expand P ''__GNUC_PATCHLEVEL__'' = Num c"

lemma expand_undefined: "\<not> defined P x \<Longrightarrow> expand P x = Same x"
  by (simp add: defined_def expand.simps)

lemma defined_Num: "expand P x = Num n \<Longrightarrow> defined P x"
  using expand_undefined by fastforce

lemma c_compilers_gcc:
  assumes "plain_gcc P" "gcc_version P a b c"
  shows "run P c_compilers (head_defs P) = Some (gcc_defs P)"
proof -
  have "''__has_include'' \<notin> set other_compilers" by (simp add: other_compilers_def)
  with assms(1) have "list_all (\<lambda>x. \<not> has P (head_defs P) x) other_compilers"
    by (intro list_all_has) (simp_all add: plain_gcc_def head_defs_def)
  note undef = this [unfolded other_compilers_def list.pred_inject]
  have "passed P (head_defs P) (c_compilers_1 @ c_compilers_2 @ c_compilers_3)"
    unfolding passed_append c_compilers_1_def c_compilers_2_def c_compilers_3_def
    by (intro conjI passed_Cons passed_Nil) (simp_all add: undef cong: has_cong)
  note skipped = run_chain_passed [OF this]
  have gnu: "has P d ''__GNUC__''" "has P d ''__GNUC_MINOR__''" "has P d ''__GNUC_PATCHLEVEL__''" for d
    using assms(2) by (auto simp: gcc_version_def has_def dest: defined_Num)
  show ?thesis
    unfolding c_compilers_def append_assoc [symmetric] skipped [unfolded append_assoc [symmetric]]
    unfolding c_compilers_4_def by (simp add: gnu gcc_defs_def cong: has_cong)
qed

lemma cxx_compilers_gcc:
  assumes "plain_gcc P" "gcc_version P a b c"
  shows "run P cxx_compilers (head_defs P) = Some (gcc_defs P)"
proof -
  have "''__has_include'' \<notin> set other_compilers" by (simp add: other_compilers_def)
  with assms(1) have "list_all (\<lambda>x. \<not> has P (head_defs P) x) other_compilers"
    by (intro list_all_has) (simp_all add: plain_gcc_def head_defs_def)
  note undef = this [unfolded other_compilers_def list.pred_inject]
  have "passed P (head_defs P) (cxx_compilers_1 @ cxx_compilers_2 @ cxx_compilers_3)"
    unfolding passed_append cxx_compilers_1_def cxx_compilers_2_def cxx_compilers_3_def
    by (intro conjI passed_Cons passed_Nil) (simp_all add: undef cong: has_cong)
  note skipped = run_chain_passed [OF this]
  have gnu: "has P d ''__GNUC__''" "has P d ''__GNUC_MINOR__''" "has P d ''__GNUC_PATCHLEVEL__''" for d
    using assms(2) by (auto simp: gcc_version_def has_def dest: defined_Num)
  show ?thesis
    unfolding cxx_compilers_def append_assoc [symmetric] skipped [unfolded append_assoc [symmetric]]
    unfolding cxx_compilers_4_def by (simp add: gnu gcc_defs_def cong: has_cong)
qed

lemma map_fst_gcc_defs:
  "map fst (gcc_defs P) = [''COMPILER_VERSION_PATCH'', ''COMPILER_VERSION_MINOR'',
     ''COMPILER_VERSION_MAJOR'', ''COMPILER_ID''] @ map fst (head_defs P)"
  by (simp add: gcc_defs_def)

lemma head_names: "list_all (\<lambda>x. x \<in> {''__has_include''}) (map fst (head_defs P))"
  by (simp add: head_defs_def)

definition target_defs :: "macros \<Rightarrow> defs" where
  "target_defs P = [(''ARCHITECTURE_ID'', Str []), (''PLATFORM_ID'', Str [])] @ gcc_defs P"

lemma target_gcc:
  assumes "plain_gcc P"
  shows "run P (platform @ architecture) (gcc_defs P) = Some (target_defs P)"
proof -
  let ?d = "(''PLATFORM_ID'', Str []) # gcc_defs P"
  let ?keys = "[''PLATFORM_ID'', ''COMPILER_VERSION_PATCH'', ''COMPILER_VERSION_MINOR'',
    ''COMPILER_VERSION_MAJOR'', ''COMPILER_ID'', ''__has_include'']"
  have k: "list_all (\<lambda>x. x \<notin> set (platform_names @ other_compilers)) ?keys"
    by (simp add: platform_names_def platforms_def other_compilers_def)
  have "set (map fst ?d) \<subseteq> set ?keys" by (auto simp: map_fst_gcc_defs head_defs_def)
  then have d: "list_all (\<lambda>x. x \<notin> set (platform_names @ other_compilers)) (map fst ?d)"
    by (rule list_all_subset [OF k])
  have P: "list_all (\<lambda>x. \<not> defined P x) (platform_names @ other_compilers)"
    using assms by (simp add: plain_gcc_def)
  have h: "list_all (\<lambda>x. \<not> has P ?d x) (platform_names @ other_compilers)"
    by (rule list_all_has [OF P d])
  then have "list_all (\<lambda>x. \<not> has P (gcc_defs P) x) platform_names"
    by (auto simp: list_all_iff)
  then have p: "passed P (gcc_defs P) platforms"
    unfolding platform_names_def by (rule passed_positive [OF platforms_positive])
  have "set (concat (map (names_of \<circ> fst) architectures)) \<subseteq> set (platform_names @ other_compilers)"
    by (simp add: architectures_def platform_names_def platforms_def other_compilers_def)
  then have "list_all (\<lambda>x. \<not> has P ?d x) (concat (map (names_of \<circ> fst) architectures))"
    by (rule list_all_subset [OF h])
  then have a: "passed P ?d architectures" by (rule passed_positive [OF architectures_positive])
  show ?thesis
    unfolding platform_def architecture_def run_append run_chain_otherwise [OF p]
    by (simp add: run_chain_otherwise [OF a] target_defs_def)
qed

lemma target_defs_has:
  "has P (target_defs P) x \<longleftrightarrow> defined P x \<or> x \<in> {''ARCHITECTURE_ID'', ''PLATFORM_ID'',
     ''COMPILER_VERSION_PATCH'', ''COMPILER_VERSION_MINOR'', ''COMPILER_VERSION_MAJOR'', ''COMPILER_ID'',
     ''__has_include''}" if "x \<noteq> ''__has_include'' \<or> defined P x"
  using that by (auto simp: target_defs_def gcc_defs_def head_defs_def)

lemma piece_Cons:
  "piece P ((y, b) # d) x = (if x = y then text_of P b else piece P d x)"
  by (auto simp: piece_def)

lemma piece_target:
  assumes "gcc_version P a b c"
  shows "piece P (target_defs P) ''COMPILER_ID'' = Some ''GNU''"
    "piece P (target_defs P) ''PLATFORM_ID'' = Some []"
    "piece P (target_defs P) ''ARCHITECTURE_ID'' = Some []"
    "piece P (target_defs P) ''COMPILER_VERSION_MAJOR'' = Some (DEC a)"
    "piece P (target_defs P) ''COMPILER_VERSION_MINOR'' = Some (DEC b)"
    "piece P (target_defs P) ''COMPILER_VERSION_PATCH'' = Some (DEC c)"
  using assms by (simp_all add: target_defs_def gcc_defs_def piece_Cons gcc_version_def int_of_def)

section \<open>The strings of the toolchain\<close>

text \<open>The names that decide which strings there are.\<close>

lemma gcc_has:
  assumes "plain_gcc P" and d: "d = e @ target_defs P" "map fst e = [] \<or> map fst e = [y]"
    "y \<in> {''C_VERSION'', ''CXX_STD''}"
  shows "list_all (\<lambda>x. \<not> has P d x) (own_names @ [''__QNXNTO__'', ''__CRAYXT_COMPUTE_LINUX_TARGET''])"
proof (rule list_all_has)
  have "''__QNXNTO__'' \<in> set platform_names" "''__CRAYXT_COMPUTE_LINUX_TARGET'' \<in> set other_compilers"
    by (simp_all add: platform_names_def platforms_def other_compilers_def)
  then have "set (own_names @ [''__QNXNTO__'', ''__CRAYXT_COMPUTE_LINUX_TARGET'']) \<subseteq>
      set (own_names @ platform_names @ other_compilers)" by auto
  moreover have "list_all (\<lambda>x. \<not> defined P x) (own_names @ platform_names @ other_compilers)"
    using assms(1) by (simp add: plain_gcc_def)
  ultimately show "list_all (\<lambda>x. \<not> defined P x) (own_names @ [''__QNXNTO__'', ''__CRAYXT_COMPUTE_LINUX_TARGET''])"
    by (rule list_all_subset [rotated])
  let ?keys = "[''C_VERSION'', ''CXX_STD'', ''ARCHITECTURE_ID'', ''PLATFORM_ID'', ''COMPILER_VERSION_PATCH'',
    ''COMPILER_VERSION_MINOR'', ''COMPILER_VERSION_MAJOR'', ''COMPILER_ID'', ''__has_include'']"
  have "list_all (\<lambda>x. x \<notin> set (own_names @ [''__QNXNTO__'', ''__CRAYXT_COMPUTE_LINUX_TARGET''])) ?keys"
    by (simp add: own_names_def)
  moreover have "set (map fst d) \<subseteq> set ?keys"
    using d by (auto simp: target_defs_def map_fst_gcc_defs head_defs_def)
  ultimately show "list_all (\<lambda>x. x \<notin> set (own_names @ [''__QNXNTO__'', ''__CRAYXT_COMPUTE_LINUX_TARGET'']))
      (map fst d)"
    by (rule list_all_subset)
qed

text \<open>What the strings are, given the definitions and the language.\<close>

definition gcc_strings :: "int \<Rightarrow> int \<Rightarrow> int \<Rightarrow> string \<Rightarrow> (string \<times> string) list" where
  "gcc_strings a b c std =
    [(''info_compiler'', ''INFO:compiler[GNU]''),
     (''info_version'', ''INFO:compiler_version['' @ DEC a @ ''.'' @ DEC b @ ''.'' @ DEC c @ '']''),
     (''info_platform'', ''INFO:platform[]''), (''info_arch'', ''INFO:arch[]''),
     (''info_language_standard_default'', ''INFO:standard_default['' @ std @ '']''),
     (''info_language_extensions_default'', ''INFO:extensions_default[ON]'')]"

lemma gcc_vars:
  assumes P: "plain_gcc P" "gcc_version P a b c"
    and d: "d = (y, s) # target_defs P" "y \<in> {''C_VERSION'', ''CXX_STD''}"
  shows "all_vars (compiler_vars P d @ version_vars P d @
      [var True ''info_language_standard_default'' ''standard_default'' (Some std),
       var True ''info_language_extensions_default'' ''extensions_default'' (extensions P d)]) =
    Some (gcc_strings a b c std)"
proof -
  have "list_all (\<lambda>x. \<not> has P d x) (own_names @ [''__QNXNTO__'', ''__CRAYXT_COMPUTE_LINUX_TARGET''])"
    by (rule gcc_has [OF P(1), of d "[(y, s)]" y]) (use d in auto)
  note undef = this [unfolded own_names_def append.simps list.pred_inject]
  have y: "y \<noteq> ''COMPILER_ID''" "y \<noteq> ''PLATFORM_ID''" "y \<noteq> ''ARCHITECTURE_ID''"
    "y \<noteq> ''COMPILER_VERSION_MAJOR''" "y \<noteq> ''COMPILER_VERSION_MINOR''" "y \<noteq> ''COMPILER_VERSION_PATCH''"
    "y \<noteq> ''__STRICT_ANSI__''"
    using d(2) by auto
  have major: "has P d ''COMPILER_VERSION_MAJOR''" "has P d ''COMPILER_VERSION_MINOR''"
    "has P d ''COMPILER_VERSION_PATCH''" "has P d ''__GNUC__''"
    using d(1) P(2) by (auto simp: target_defs_def gcc_defs_def gcc_version_def has_def [of _ _ "''__GNUC__''"]
        dest: defined_Num)
  have "\<not> has P d ''__STRICT_ANSI__''"
    using P(1) d(1) y by (simp add: plain_gcc_def target_defs_def gcc_defs_def head_defs_def)
  then have "holds P d extensions_on = Some True"
    using major(4) by (simp add: extensions_on_def)
  then have ext: "extensions P d = Some ''ON''" by (simp add: extensions_def)
  have pieces: "piece P d ''COMPILER_ID'' = Some ''GNU''" "piece P d ''PLATFORM_ID'' = Some []"
    "piece P d ''ARCHITECTURE_ID'' = Some []" "piece P d ''COMPILER_VERSION_MAJOR'' = Some (DEC a)"
    "piece P d ''COMPILER_VERSION_MINOR'' = Some (DEC b)" "piece P d ''COMPILER_VERSION_PATCH'' = Some (DEC c)"
    unfolding d(1) piece_Cons using y piece_target [OF P(2)] by (simp_all add: not_sym [OF y(1)] not_sym [OF y(2)]
        not_sym [OF y(3)] not_sym [OF y(4)] not_sym [OF y(5)] not_sym [OF y(6)])
  show ?thesis
    by (simp add: compiler_vars_def version_vars_def var_def undef pieces major ext version_of_def
        COMPILER_VERSION_PARTS_def brackets_def gcc_strings_def cong: has_cong)
qed

lemma c_strings_gcc:
  assumes P: "plain_gcc P" "gcc_version P a b c" "\<not> defined P ''__cplusplus''" "defined P ''__STDC__''"
      "expand P ''__STDC_VERSION__'' = Num 201710"
  shows "c_strings P = Some (gcc_strings a b c ''17'')"
proof -
  have "run P c_head [] = Some (head_defs P)"
    using P(1,3) by (simp add: plain_gcc_def c_head_def head_defs_def)
  then have "run P c_directives [] = run P ((platform @ architecture) @ c_standard) (gcc_defs P)"
    unfolding c_directives_def append_assoc by (simp add: run_then c_compilers_gcc [OF P(1,2)])
  also have "\<dots> = run P c_standard (target_defs P)" by (rule run_then [OF target_gcc [OF P(1)]])
  also have "\<dots> = Some ((''C_VERSION'', Str ''17'') # target_defs P)"
  proof -
    have "has P (target_defs P) ''__STDC__''" using P(4) by (simp add: has_def)
    moreover have "if_look P (target_defs P) ''__STDC_VERSION__'' = Some 201710"
      using P(5) by (simp add: if_look_def target_defs_def gcc_defs_def head_defs_def if_value_def)
    ultimately show ?thesis by (simp add: c_standard_def c_standards_def)
  qed
  finally have "run P c_directives [] = Some ((''C_VERSION'', Str ''17'') # target_defs P)" .
  moreover have "c_language_vars P ((''C_VERSION'', Str ''17'') # target_defs P) =
    [var True ''info_language_standard_default'' ''standard_default'' (Some ''17''),
     var True ''info_language_extensions_default'' ''extensions_default''
       (extensions P ((''C_VERSION'', Str ''17'') # target_defs P))]"
    by (simp add: c_language_vars_def piece_Cons)
  ultimately show ?thesis
    using gcc_vars [OF P(1,2) refl, of "''C_VERSION''" "Str ''17''" "''17''"]
    by (simp add: c_strings_def)
qed

text \<open>
  C26: The compiler-identification file recognises the toolchain of the repository: with the macros
  of a GCC that defines no name of another compiler and no platform, the compiled C file holds
  exactly the strings for the compiler \<open>GNU\<close>, no platform and no architecture, the standard of
  2017 with extensions, and the version, from whose components the numbers of the macros are read
  back. For GCC 8.4.0 these are the values CMake has recorded for this build.
\<close>

theorem toolchain_identified:
  assumes "plain_gcc P" "gcc_version P a b c" "\<not> defined P ''__cplusplus''" "defined P ''__STDC__''"
      "expand P ''__STDC_VERSION__'' = Num 201710"
    and "0 \<le> a" "a < 10 ^ 8" "0 \<le> b" "b < 10 ^ 8" "0 \<le> c" "c < 10 ^ 8"
  shows "c_strings P = Some (gcc_strings a b c ''17'') \<and>
    dec_value (DEC a) = nat a \<and> dec_value (DEC b) = nat b \<and> dec_value (DEC c) = nat c"
  using c_strings_gcc [OF assms(1-5)] assms(6-) by (simp add: dec_value_DEC)

text \<open>The macros of the cross compiler that matter here.\<close>

definition xtensa_gcc :: macros where
  "xtensa_gcc =
    [(''__GNUC__'', Num 8), (''__GNUC_MINOR__'', Num 4), (''__GNUC_PATCHLEVEL__'', Num 0),
     (''__STDC__'', Num 1), (''__STDC_VERSION__'', Num 201710), (''__XTENSA__'', Num 1),
     (''__ELF__'', Num 1)]"

lemma undefined_names: "list_all (\<lambda>x. x \<notin> set xs) (map fst P) \<Longrightarrow> list_all (\<lambda>x. \<not> defined P x) xs"
  by (auto simp: list_all_iff defined_def map_of_eq_None_iff dest: map_of_SomeD)

lemma xtensa_gcc_plain: "plain_gcc xtensa_gcc"
  unfolding plain_gcc_def
  by (rule undefined_names)
    (simp add: xtensa_gcc_def other_compilers_def platform_names_def platforms_def own_names_def)

lemma xtensa_gcc_version: "gcc_version xtensa_gcc 8 4 0"
  by (simp add: gcc_version_def expand.simps xtensa_gcc_def)

lemma xtensa_gcc_c:
  "\<not> defined xtensa_gcc ''__cplusplus''" "defined xtensa_gcc ''__STDC__''"
  "expand xtensa_gcc ''__STDC_VERSION__'' = Num 201710"
  by (simp_all add: defined_def xtensa_gcc_def expand.simps)

theorem toolchain_identified_witness:
  "\<exists>vs. c_strings xtensa_gcc = Some vs \<and>
    map_of vs ''info_version'' = Some ''INFO:compiler_version[00000008.00000004.00000000]''"
proof -
  have "c_strings xtensa_gcc = Some (gcc_strings 8 4 0 ''17'')"
    using toolchain_identified [OF xtensa_gcc_plain xtensa_gcc_version xtensa_gcc_c] by simp
  moreover have "DEC 8 = ''00000008''" "DEC 4 = ''00000004''" "DEC 0 = ''00000000''" by code_simp+
  ultimately show ?thesis by (simp add: gcc_strings_def)
qed

text \<open>The same for the C++ compiler, whose default is the standard of 2014.\<close>

theorem cxx_toolchain_identified:
  assumes P: "plain_gcc P" "gcc_version P a b c" "expand P ''__cplusplus'' = Num 201402"
  shows "cxx_strings P = Some (gcc_strings a b c ''14'')"
proof -
  let ?d = "(''CXX_STD'', Value (Mac ''__cplusplus'')) # target_defs P"
  have "run P cxx_head [] = Some (head_defs P)"
    using defined_Num [OF P(3)] by (simp add: cxx_head_def head_defs_def)
  then have "run P cxx_directives [] = run P ((platform @ architecture) @ cxx_std) (gcc_defs P)"
    unfolding cxx_directives_def cxx_as_c append_assoc by (simp add: run_then cxx_compilers_gcc [OF P(1,2)])
  also have "\<dots> = run P cxx_std (target_defs P)" by (rule run_then [OF target_gcc [OF P(1)]])
  also have "\<dots> = Some ?d"
  proof -
    have "list_all (\<lambda>x. \<not> defined P x) other_compilers" using P(1) by (simp add: plain_gcc_def)
    then have "\<not> defined P ''__INTEL_COMPILER''" "\<not> defined P ''_MSC_VER''"
      unfolding other_compilers_def list.pred_inject by blast+
    then show ?thesis by (simp add: cxx_std_def target_defs_def gcc_defs_def head_defs_def)
  qed
  finally have "run P cxx_directives [] = Some ?d" .
  moreover have "if_look P ?d ''CXX_STD'' = Some 201402"
    using P(3) by (simp add: if_look_def if_value_def)
  then have "first_text P ?d cxx_standards = Some ''14''" by (simp add: cxx_standards_def)
  ultimately show ?thesis
    using gcc_vars [OF P(1,2) refl, of "''CXX_STD''" "Value (Mac ''__cplusplus'')" "''14''"]
    by (simp add: cxx_strings_def cxx_as_c cxx_language_vars_def)
qed

section \<open>The main functions\<close>

lemma all_vars_mem: "all_vars ws = Some vs \<Longrightarrow> Some xs \<in> set ws \<Longrightarrow> set xs \<subseteq> set vs"
  by (induction ws arbitrary: vs) (auto split: bind_splits)

lemma all_vars_from: "all_vars ws = Some vs \<Longrightarrow> v \<in> set vs \<Longrightarrow> \<exists>xs. Some xs \<in> set ws \<and> v \<in> set xs"
  by (induction ws arbitrary: vs) (fastforce split: bind_splits)+

lemma all_vars_total: "all_vars ws = Some vs \<Longrightarrow> w \<in> set ws \<Longrightarrow> w \<noteq> None"
  by (induction ws arbitrary: vs) (auto split: bind_splits)

text \<open>Every string has the marker and its tag, so at least eleven characters.\<close>

definition tagged :: "(string \<times> string) list option \<Rightarrow> bool" where
  "tagged w \<longleftrightarrow> (\<forall>xs x t. w = Some xs \<and> (x, t) \<in> set xs \<longrightarrow> 11 \<le> length t)"

lemma tagged_var: "4 \<le> length tag \<Longrightarrow> tagged (var b x tag t)"
  by (auto simp: tagged_def var_def brackets_def split: if_splits)

lemma tagged_strings:
  "list_all tagged (compiler_vars P d @ version_vars P d @ c_language_vars P d)"
  by (simp add: compiler_vars_def version_vars_def c_language_vars_def tagged_var)

lemma add_chars_in_bounds:
  "list_all (\<lambda>x. x \<in> fst ` set vs) xs \<Longrightarrow> \<forall>(x, t) \<in> set vs. argc \<le> length t \<Longrightarrow>
    \<exists>n. add_chars vs xs argc = Some n"
proof (induction xs)
  case (Cons x xs)
  then obtain t where "map_of vs x = Some t"
    by (metis list.pred_inject(2) map_of_eq_None_iff not_Some_eq)
  moreover from this Cons.prems(2) have "argc \<le> length t" by (auto dest: map_of_SomeD)
  ultimately show ?case using Cons by auto
qed simp

text \<open>The variables that a list of declarations is sure to contain.\<close>

definition declares :: "(string \<times> string) list option list \<Rightarrow> string \<Rightarrow> bool" where
  "declares ws x \<longleftrightarrow> (\<exists>tag t. var True x tag t \<in> set ws)"

lemma declares_simps:
  "b \<Longrightarrow> declares (var b x tag t # ws) x" "declares ws x \<Longrightarrow> declares (w # ws) x"
  "(c \<Longrightarrow> declares (w # ws) x) \<Longrightarrow> (\<not> c \<Longrightarrow> declares (v # ws) x) \<Longrightarrow>
    declares ((if c then w else v) # ws) x"
  by (auto simp: declares_def)

lemma declares_mem:
  assumes "all_vars ws = Some vs" "declares ws x"
  shows "x \<in> fst ` set vs"
proof -
  obtain tag t where w: "var True x tag t \<in> set ws" using assms(2) by (auto simp: declares_def)
  obtain u where "t = Some u" using all_vars_total [OF assms(1) w] by (cases t) (auto simp: var_def)
  with w have "Some [(x, brackets tag u)] \<in> set ws" by (simp add: var_def)
  from all_vars_mem [OF assms(1) this] show ?thesis by force
qed

lemma declares_append: "declares (vs @ ws) x \<longleftrightarrow> declares vs x \<or> declares ws x"
  by (auto simp: declares_def)

lemma compiler_declares:
  "declares (compiler_vars P d) ''info_compiler''"
  "has P d ''SIMULATE_ID'' \<Longrightarrow> declares (compiler_vars P d) ''info_simulate''"
  "has P d ''__CRAYXT_COMPUTE_LINUX_TARGET'' \<Longrightarrow> declares (compiler_vars P d) ''info_cray''"
  by (simp_all add: compiler_vars_def declares_simps cong: has_cong)

lemma version_declares:
  "has P d ''COMPILER_VERSION_MAJOR'' \<Longrightarrow> declares (version_vars P d) ''info_version''"
  "has P d ''COMPILER_VERSION_INTERNAL'' \<Longrightarrow> declares (version_vars P d) ''info_version_internal''"
  "has P d ''SIMULATE_VERSION_MAJOR'' \<Longrightarrow> declares (version_vars P d) ''info_simulate_version''"
  "declares (version_vars P d) ''info_platform''" "declares (version_vars P d) ''info_arch''"
  by (simp_all add: version_vars_def declares_simps cong: has_cong)

lemma c_reads_declared:
  "list_all (declares (compiler_vars P d @ version_vars P d @ c_language_vars P d)) (c_reads P d)"
proof -
  have "declares (c_language_vars P d) ''info_language_standard_default''"
    "declares (c_language_vars P d) ''info_language_extensions_default''"
    by (simp_all add: c_language_vars_def declares_simps)
  then show ?thesis
    by (simp add: c_reads_def declares_append compiler_declares version_declares cong: has_cong)
qed

lemma strings_in_bounds:
  assumes vs: "all_vars ws = Some vs" and "list_all tagged ws" "list_all (declares ws) xs" "argc \<le> 11"
  shows "\<exists>n. add_chars vs xs argc = Some n"
proof (rule add_chars_in_bounds)
  show "\<forall>(x, t) \<in> set vs. argc \<le> length t"
  proof clarify
    fix x t
    assume "(x, t) \<in> set vs"
    from all_vars_from [OF vs this] assms(2) have "11 \<le> length t"
      unfolding list_all_iff tagged_def by blast
    with assms(4) show "argc \<le> length t" by simp
  qed
  show "list_all (\<lambda>x. x \<in> fst ` set vs) xs"
    using assms(3) declares_mem [OF vs] by (simp add: list_all_iff)
qed

text \<open>
  \<^verbatim>\<open>main\<close> of the C file stays inside its strings, whatever compiler it is compiled with, as
  long as it gets no more than eleven arguments: every string it reads is there, with its marker
  and tag. The bound is tight: without an architecture the shortest string has eleven characters.
  The same goes for the C++ file.
\<close>

theorem c_main_in_bounds:
  assumes "c_strings P = Some vs" "argc \<le> 11"
  shows "\<exists>n. c_main P argc = Some n"
proof -
  from assms(1) obtain d where d: "run P c_directives [] = Some d"
    and vs: "all_vars (compiler_vars P d @ version_vars P d @ c_language_vars P d) = Some vs"
    by (auto simp: c_strings_def split: bind_splits)
  from strings_in_bounds [OF vs tagged_strings c_reads_declared assms(2)] show ?thesis
    by (simp add: c_main_def d assms(1))
qed

theorem cxx_main_in_bounds:
  assumes "cxx_strings P = Some vs" "argc \<le> 11"
  shows "\<exists>n. cxx_main P argc = Some n"
proof -
  from assms(1) obtain d where d: "run P cxx_directives [] = Some d"
    and vs: "all_vars (compiler_vars P d @ version_vars P d @ cxx_language_vars P d) = Some vs"
    by (auto simp: cxx_strings_def cxx_as_c split: bind_splits)
  have "list_all tagged (compiler_vars P d @ version_vars P d @ cxx_language_vars P d)"
    using tagged_strings [of P d] by (simp add: cxx_language_vars_def tagged_var)
  moreover have "declares (cxx_language_vars P d) ''info_language_standard_default''"
    "declares (cxx_language_vars P d) ''info_language_extensions_default''"
    by (simp_all add: cxx_language_vars_def declares_simps)
  then have "list_all (declares (compiler_vars P d @ version_vars P d @ cxx_language_vars P d)) (cxx_reads P d)"
    by (simp add: cxx_reads_def declares_append compiler_declares version_declares cong: has_cong)
  ultimately show ?thesis
    using strings_in_bounds [OF vs _ _ assms(2)] by (simp add: cxx_main_def d assms(1))
qed

theorem c_main_in_bounds_witness:
  "\<exists>n. c_main xtensa_gcc 11 = Some n"
proof -
  have "c_strings xtensa_gcc = Some (gcc_strings 8 4 0 ''17'')"
    by (rule c_strings_gcc [OF xtensa_gcc_plain xtensa_gcc_version xtensa_gcc_c])
  then show ?thesis by (rule c_main_in_bounds) simp
qed

end
