(* ===== verification/Spec2Isabelle.thy ===== *)
theory Spec2Isabelle
  imports Delivery Disconnect BuildConfig Interleaving Races Binary32 Toolchain
begin

text \<open>
  A verification library for the RidolfiGE firmware: an ESP32 that reads the registers of a
  generator over Modbus and publishes them to a cloud broker over MQTT.

  \<^bold>\<open>The program.\<close> \<^verbatim>\<open>app_main\<close> brings up Wi-Fi (\<^verbatim>\<open>WifiConnect.c\<close>), sets the clock from a time server
  (\<^verbatim>\<open>fsntp.c\<close>) and creates the control task \<^verbatim>\<open>ctrl_tsk\<close> (\<^verbatim>\<open>app_main.c\<close>). The task starts the Modbus
  master (\<^verbatim>\<open>modbus.c\<close>), waits for the link, starts the MQTT client (\<^verbatim>\<open>mqtt.c\<close>) with a signed token as
  its password (\<^verbatim>\<open>gcpjwt.c\<close>, encoded by \<^verbatim>\<open>base64url.c\<close>), and then reads the registers and publishes a
  message for ever. Handlers of Wi-Fi and broker events run in other tasks; they share the globals
  \<open>wifi_connect\<close>, the service state and the semaphore that counts addresses.

  \<^bold>\<open>Theories.\<close> Each definition has the name of the C function or macro it translates.
  \<^item> \<open>Prelude\<close>: C integers, memory errors, checked reads and writes, and the interfaces of printers
    and parsers (\<open>print_parse\<close>) and of operations with an invariant (\<open>operation_invariant\<close>).
  \<^item> \<open>Base64url\<close>: \<^verbatim>\<open>base64url.c\<close>. The encoder equals a reference encoder; the decoder's status,
    and what it makes of encoded texts.
  \<^item> \<open>Ctext\<close>, \<open>Calendar\<close>: what the code uses of the C library, \<^verbatim>\<open>printf\<close> and \<^verbatim>\<open>time.h\<close>.
  \<^item> \<open>Machine\<close>: the globals of \<^verbatim>\<open>main/*.c\<close>, the heap, the log of calls to code outside the
    repository, C statements and their evaluation, and \<open>state_relation\<close>: a reflexive, transitive
    relation that each part of a statement obeys is obeyed by the statement.
  \<^item> \<open>Utility\<close>: \<^verbatim>\<open>utility.c\<close>. Time texts fit their buffers, the satellite time is converted
    correctly, device names are those of the MAC address.
  \<^item> \<open>Fsntp\<close>: \<^verbatim>\<open>fsntp.c\<close>. What each result of setting the clock means, and when it returns.
  \<^item> \<open>Modbus\<close>: \<^verbatim>\<open>modbus.c\<close>, \<^verbatim>\<open>modbus_params.[ch]\<close>. What a request does to the register array, the
    parameter table stays in bounds, the results of starting the master.
  \<^item> \<open>Gcpjwt\<close>, \<open>Mqtt\<close>: \<^verbatim>\<open>gcpjwt.c\<close>, \<^verbatim>\<open>mqtt.c\<close>. The token is the one of its format, with the signature
    of its text; memory is given back; how starting a client ends.
  \<^item> \<open>Payload\<close>: the message of \<^verbatim>\<open>ctrl_tsk\<close>, and a reader that gives back what it says.
  \<^item> \<open>WifiConnect\<close>: \<^verbatim>\<open>WifiConnect.c\<close>, every function, for every configuration.
  \<^item> \<open>WifiEvents\<close>: the handlers refine an abstract network. \<open>WifiNetif\<close>: interfaces by name.
    \<open>Connect\<close>: connecting waits for the addresses and then returns, over Wi-Fi and Ethernet; an
    address while \<open>start\<close> has not created the semaphore. \<open>Disconnect\<close>: disconnecting undoes connecting, connecting again
    succeeds, and where it does not (Ethernet on the SPI bus).
  \<^item> \<open>AppMain\<close>: the rest of \<^verbatim>\<open>app_main.c\<close>. \<open>Footprint\<close>: what every function may touch, from which
    the silence before the broker's answer follows. \<open>AppEvents\<close>: all
    event handlers refine an abstract view of the device; one round of the control task.
    \<open>Startup\<close>: the order of start-up, and that the control task runs for good, with what it does
    in each delay of its wait and in each of its rounds. \<open>Delivery\<close>: from power-on to the cloud, one
    complete message in every round; builds whose task never learns of the link.
  \<^item> \<open>Interleaving\<close>: a step relation in which a handler may run between any two statements of the
    control task's loop; every message published by any of its runs is complete, the task is never
    stuck, and the rounds of \<open>ctrl_cycle\<close> are among its runs. \<open>Races\<close>: a handler inside a call that
    another task has not finished (a token freed twice, an address while disconnecting), and the
    clients that pile up.
  \<^item> \<open>Binary32\<close>: single-precision arithmetic and \<^verbatim>\<open>rand_int_decimal\<close> of \<^verbatim>\<open>utility.c\<close>: the result
    stays in the interval and next to the decimal that was drawn.
  \<^item> \<open>Preprocessor\<close>: macros, conditions, nested \<^verbatim>\<open>#if\<close> blocks and strings built from macros. \<open>CompilerId\<close>,
    \<open>CompilerIdCXX\<close>: the files CMake identifies the compilers with. \<open>Toolchain\<close>: what they say of a
    GCC such as the repository's, and that their \<^verbatim>\<open>main\<close> stays inside its strings.
  \<^item> \<open>Sdkconfig\<close>: \<^verbatim>\<open>build/config/sdkconfig.h\<close> and the bootloader's, as tables. \<open>BuildConfig\<close>: the
    \<^verbatim>\<open>#if\<close> chains of \<^verbatim>\<open>WifiConnect.c\<close> select \<open>build_sdk\<close>; limits of the build.

  \<^bold>\<open>Interfaces.\<close> \<open>state_relation\<close> is extended step by step (\<open>heap_relation\<close>, \<open>token_relation\<close>,
  \<open>client_relation\<close>; \<open>event_relation\<close>, \<open>lookup_relation\<close>, \<open>station_relation\<close>, \<open>setup_relation\<close>,
  \<open>wifi_relation\<close>, \<open>handler_relation\<close>, \<open>app_relation\<close>) by the updates and calls a component makes;
  inside, each of its functions is shown to obey the relation. The interpretations are the frames the properties need: the history
  grows, the arrays keep their sizes, nothing is published, the network or the registers stay as
  they are, the semaphore's count is covered by the gives, the handlers, the bus and the driver stay
  what they were.

  \<^bold>\<open>Code outside the repository.\<close> ESP-IDF, FreeRTOS, lwIP, mbedTLS, esp-mqtt and esp-modbus are the
  parameter \<open>env\<close>: what each call returns, as a function of the whole state and history. Properties
  that need more name it as a hypothesis (\<open>fresh_blocks\<close>, \<open>rsa_signatures\<close>, \<open>mb_stack\<close>, \<open>net_env\<close>,
  \<open>netif_list\<close>, \<open>nets_env\<close>, \<open>down_env\<close>, \<open>board_env\<close>, \<open>bus_exclusive\<close>, ...), and their witnesses give a concrete device. Which
  events arrive is the parameter \<open>sched\<close>, delivered where the waiting task blocks: in the wait for
  addresses, in \<^verbatim>\<open>vTaskDelay\<close> and while a Modbus request waits for its answer.

  Two facts about FreeRTOS are written out in the definitions, because they decide how the tasks are
  interleaved: how a counting semaphore counts (\<open>tokens\<close>, on which \<open>take_semaphore\<close> goes on or stays
  blocked), and that giving a NULL handle hits an assertion (\<open>give_semaphore\<close>). A call that returns a
  string may return NULL, and reading it then is a fault (\<open>ext_text\<close>). Except for \<open>app_main_order\<close>,
  \<open>connect_waits\<close>, \<open>silent_until_connected\<close> and the like, which need no hypothesis on the libraries,
  properties of whole runs assume that the memory for the token suffices (\<open>app_env\<close>).

  \<^bold>\<open>Fuel.\<close> Loops that need not end take a number of rounds. The walk through the interfaces needs
  one more than there are; setting the clock one per two seconds of the time-out; the control
  task never ends, so for every number of rounds it is still running (\<open>Out_Of_Fuel\<close>).

  \<^bold>\<open>Not modelled.\<close> Log output and log levels, apart from the description of an error that the
  signing steps fetch for it; preemption inside the functions the control loop calls, other than at
  the calls that block and at the points of \<open>Races\<close>; wear of flash and the watchdog. The copies of the
  compiler-identification files below \<^verbatim>\<open>build/bootloader\<close> have the text of those modelled.
  Certificates, keys and the test script of the example are no part of the firmware's logic.
\<close>

end
